(* ===== verification/Configd_Prelude.thy ===== *)
theory Configd_Prelude
  imports Main "HOL-Library.State_Monad" "HOL-Library.Word"
begin

text \<open>
  Shared vocabulary of the development: the paths, ids and errors that every
  part of configd passes around, the state-monad operations the session
  definitions are written in, and the reasoning principle that carries most of
  the stateful proofs: a relation between the state before and the state after
  that is reflexive and transitive is respected by every program built from
  steps that respect it (locale \<open>frame_rel\<close>).
\<close>

named_theorems run_simps \<open>evaluation of the monadic primitives\<close>
named_theorems consume_intros \<open>operations that only consume interference\<close>
named_theorems quiet_intros \<open>operations that leave the session alone while another process holds it\<close>

subsection \<open>Names of the model\<close>

type_synonym path = "string list"
type_synonym uid = "32 word"
type_synonym pid = int

text \<open>
  Go errors. The constructors are the mgmterror and yang error constructors that
  the sources call; an \<open>err.Message\<close> or \<open>err.Path\<close> that the code assigns is an
  argument, a path being kept as the element list that \<open>pathutil.Pathstr\<close> is
  applied to. \<open>ExternalError\<close> is an error built by \<open>fmt.Errorf\<close> or handed back by
  a package outside the repository, and \<open>RuntimePanic\<close> a Go run-time panic
  (index out of range, nil dereference).
\<close>

datatype error =
    LockDeniedError string string
  | AccessDeniedApplicationError "string option"
  | OperationFailedApplicationError "string option" "path option"
  | OperationFailedProtocolError string
  | OperationNotSupportedApplicationError string
  | ResourceDeniedProtocolError string
  | UnknownElementApplicationError string "path option"
  | UnknownElementProtocolError string
  | InvalidValueApplicationError string
  | InvalidValueProtocolError string
  | MissingElementApplicationError string
  | UnknownAttrProtocolError string string
  | UnknownNamespaceProtocolError string string
  | UnknownNamespaceApplicationError path string
  | BadElementApplicationError string path string
  | MalformedMessageError string
  | PathAmbiguousError path "(string \<times> string) list"
  | NodeExistsError path
  | NodeNotExistsError path
  | InvalidPathError path
  | MgmtErrorList "error list"
  | PerformError "error list"
  | ExternalError string
  | RuntimePanic string

text \<open>A Go function that returns \<open>(T, error)\<close> and looks only at one of them.\<close>

type_synonym 'a result = "error + 'a"

fun is_ok :: "'a result \<Rightarrow> bool" where
  "is_ok (Inl _) = False"
| "is_ok (Inr _) = True"

lemma is_ok_iff [simp]: "is_ok r \<longleftrightarrow> (\<exists>x. r = Inr x)"
  by (cases r) auto

subsection \<open>State-monad primitives\<close>

abbreviation ret :: "'a \<Rightarrow> ('s, 'a) state" where
  "ret \<equiv> State_Monad.return"

definition gets :: "('s \<Rightarrow> 'a) \<Rightarrow> ('s, 'a) state" where
  "gets f = State (\<lambda>s. (f s, s))"

definition modify :: "('s \<Rightarrow> 's) \<Rightarrow> ('s, unit) state" where
  "modify f = State (\<lambda>s. ((), f s))"

lemma run_gets [simp, run_simps]: "run_state (gets f) s = (f s, s)"
  by (simp add: gets_def)

lemma run_modify [simp, run_simps]: "run_state (modify f) s = ((), f s)"
  by (simp add: modify_def)

lemma run_ret [simp, run_simps]: "run_state (ret a) s = (a, s)"
  by (simp add: State_Monad.return_def)

lemma run_split:
  "run_state m s = (fst (run_state m s), fst (snd (run_state m s)), snd (snd (run_state m s)))"
  by simp

text \<open>A \<open>for _, x := range xs\<close> loop whose body is a stateful operation.\<close>

fun for_each :: "('a \<Rightarrow> ('s, unit) state) \<Rightarrow> 'a list \<Rightarrow> ('s, unit) state" where
  "for_each f [] = ret ()"
| "for_each f (x # xs) = do { f x; for_each f xs }"

text \<open>The same loop with a \<open>return err\<close> on the first error.\<close>

fun for_err :: "('a \<Rightarrow> ('s, error option) state) \<Rightarrow> 'a list \<Rightarrow> ('s, error option) state" where
  "for_err f [] = ret None"
| "for_err f (x # xs) = do {
     e \<leftarrow> f x;
     (case e of None \<Rightarrow> for_err f xs | Some err \<Rightarrow> ret (Some err)) }"

subsection \<open>Frame relations\<close>

definition keeps :: "('s \<Rightarrow> 's \<Rightarrow> bool) \<Rightarrow> ('s, 'a) state \<Rightarrow> bool" where
  "keeps R m \<longleftrightarrow> (\<forall>s. R s (snd (run_state m s)))"

lemma keepsI: "(\<And>s. R s (snd (run_state m s))) \<Longrightarrow> keeps R m"
  by (simp add: keeps_def)

lemma keepsD: "keeps R m \<Longrightarrow> R s (snd (run_state m s))"
  by (simp add: keeps_def)

lemma keepsE: "keeps R m \<Longrightarrow> run_state m s = (a, s') \<Longrightarrow> R s s'"
  using keepsD [of R m s] by simp

locale frame_rel =
  fixes R :: "'s \<Rightarrow> 's \<Rightarrow> bool"
  assumes refl: "R s s"
    and trans: "R s t \<Longrightarrow> R t u \<Longrightarrow> R s u"
begin

lemma ret_ok [simp, intro]: "keeps R (ret a)"
  by (simp add: keeps_def refl)

lemma gets_ok [simp, intro]: "keeps R (gets f)"
  by (simp add: keeps_def refl)

lemma modify_ok: "(\<And>s. R s (f s)) \<Longrightarrow> keeps R (modify f)"
  by (simp add: keeps_def)

lemma bind_ok [intro]:
  assumes "keeps R m" and "\<And>a. keeps R (f a)"
  shows "keeps R (State_Monad.bind m f)"
proof (rule keepsI)
  fix s
  obtain a t where m: "run_state m s = (a, t)" by fastforce
  have "R s t" and "R t (snd (run_state (f a) t))"
    using keepsE [OF assms(1) m] keepsD [OF assms(2)] by blast+
  then show "R s (snd (run_state (State_Monad.bind m f) s))"
    using m trans by simp
qed

lemma if_ok [intro]: "keeps R m \<Longrightarrow> keeps R n \<Longrightarrow> keeps R (if b then m else n)"
  by simp

lemma option_ok [intro]:
  "keeps R m \<Longrightarrow> (\<And>x. keeps R (f x)) \<Longrightarrow> keeps R (case v of None \<Rightarrow> m | Some x \<Rightarrow> f x)"
  by (cases v) auto

lemma sum_ok [intro]:
  "(\<And>x. keeps R (f x)) \<Longrightarrow> (\<And>x. keeps R (g x)) \<Longrightarrow>
    keeps R (case v of Inl x \<Rightarrow> f x | Inr x \<Rightarrow> g x)"
  by (cases v) auto

lemma prod_ok [intro]:
  "(\<And>x y. keeps R (f x y)) \<Longrightarrow> keeps R (case v of (x, y) \<Rightarrow> f x y)"
  by (cases v) auto

lemma let_ok [intro]: "keeps R (f x) \<Longrightarrow> keeps R (let y = x in f y)"
  by (simp add: Let_def)

lemma for_each_ok [intro]: "(\<And>x. keeps R (f x)) \<Longrightarrow> keeps R (for_each f xs)"
  by (induction xs) (auto intro: bind_ok)

lemma for_err_ok [intro]: "(\<And>x. keeps R (f x)) \<Longrightarrow> keeps R (for_err f xs)"
  by (induction xs) (auto intro!: bind_ok split: option.split)

lemmas steps_ok = ret_ok gets_ok bind_ok if_ok option_ok sum_ok prod_ok let_ok for_each_ok for_err_ok

end

subsection \<open>Runs that change nothing\<close>

definition silent :: "'s \<Rightarrow> ('s, 'a) state \<Rightarrow> bool" where
  "silent s m \<longleftrightarrow> snd (run_state m s) = s"

named_theorems silent_intros \<open>programs that leave a given state as it is\<close>

lemma silent_ret [silent_intros]: "silent s (ret a)"
  by (simp add: silent_def)

lemma silent_gets [silent_intros]: "silent s (gets f)"
  by (simp add: silent_def)

lemma silent_bind [silent_intros]:
  assumes "silent s m" "\<And>a. fst (run_state m s) = a \<Longrightarrow> silent s (f a)"
  shows "silent s (State_Monad.bind m f)"
  using assms by (cases "run_state m s") (auto simp: silent_def)

lemma silent_control [silent_intros]:
  "(b \<Longrightarrow> silent s m) \<Longrightarrow> (\<not> b \<Longrightarrow> silent s n) \<Longrightarrow> silent s (if b then m else n)"
  "(v = None \<Longrightarrow> silent s m) \<Longrightarrow> (\<And>x. v = Some x \<Longrightarrow> silent s (f x)) \<Longrightarrow>
    silent s (case v of None \<Rightarrow> m | Some x \<Rightarrow> f x)"
  "(\<And>x. r = Inl x \<Longrightarrow> silent s (g x)) \<Longrightarrow> (\<And>y. r = Inr y \<Longrightarrow> silent s (h y)) \<Longrightarrow>
    silent s (case r of Inl x \<Rightarrow> g x | Inr y \<Rightarrow> h y)"
  "(\<And>x y. p = (x, y) \<Longrightarrow> silent s (k x y)) \<Longrightarrow> silent s (case p of (x, y) \<Rightarrow> k x y)"
  "silent s (l t) \<Longrightarrow> silent s (let y = t in l y)"
  by (auto split: option.split sum.split prod.split)

lemma silent_for_err [silent_intros]: "(\<And>x. silent s (f x)) \<Longrightarrow> silent s (for_err f xs)"
  by (induction xs) (auto intro!: silent_intros)

subsection \<open>Lists and options\<close>

lemma last_butlast_path [simp]: "p \<noteq> [] \<Longrightarrow> butlast p @ [last p] = p"
  by simp

lemma map_option_eq_None [simp]: "map_option f v = None \<longleftrightarrow> v = None"
  by (cases v) auto

end
