(* ===== verification/Go_Lib.thy ===== *)
theory Go_Lib
  imports Configd_Prelude
begin

text \<open>
  The parts of Go's standard library that the modelled sources call:
  \<open>strconv.Itoa\<close>, \<open>strconv.Atoi\<close>, \<open>strconv.ParseUint\<close>, and a few functions of
  package \<open>strings\<close>. The number parser is the loop of \<open>strconv.ParseUint\<close>, so the
  first offending character decides between a syntax and a range error.
\<close>

subsection \<open>Digits\<close>

definition digit_char :: "nat \<Rightarrow> char" where
  "digit_char d = (if d < 10 then char_of (48 + d) else char_of (87 + d))"

definition digit_val :: "char \<Rightarrow> nat option" where
  "digit_val c = (let n = (of_char c :: nat) in
     if 48 \<le> n \<and> n \<le> 57 then Some (n - 48)
     else if 97 \<le> n \<and> n \<le> 122 then Some (n - 87)
     else if 65 \<le> n \<and> n \<le> 90 then Some (n - 55)
     else None)"

lemma digit_val_char [simp]: "d < 36 \<Longrightarrow> digit_val (digit_char d) = Some d"
  by (auto simp: digit_val_def digit_char_def Let_def)

lemma digit_val_bound: "digit_val c = Some d \<Longrightarrow> d < 36"
  by (auto simp: digit_val_def Let_def split: if_splits)

subsection \<open>strconv\<close>

datatype num_error = ErrSyntax | ErrRange

fun parse_loop :: "nat \<Rightarrow> nat \<Rightarrow> string \<Rightarrow> nat \<Rightarrow> num_error + nat" where
  "parse_loop base maxVal [] n = Inr n"
| "parse_loop base maxVal (c # cs) n =
    (case digit_val c of
       None \<Rightarrow> Inl ErrSyntax
     | Some d \<Rightarrow>
         if d \<ge> base then Inl ErrSyntax
         else if n * base + d > maxVal then Inl ErrRange
         else parse_loop base maxVal cs (n * base + d))"

definition ParseUint :: "string \<Rightarrow> nat \<Rightarrow> nat \<Rightarrow> num_error + nat" where
  "ParseUint s base bitSize =
    (if s = [] then Inl ErrSyntax else parse_loop base (2 ^ bitSize - 1) s 0)"

fun format_uint :: "nat \<Rightarrow> nat \<Rightarrow> string" where
  "format_uint base n =
    (if n < base \<or> base < 2 then [digit_char n]
     else format_uint base (n div base) @ [digit_char (n mod base)])"

declare format_uint.simps [simp del]

definition Itoa :: "int \<Rightarrow> string" where
  "Itoa i = (if i < 0 then CHR ''-'' # format_uint 10 (nat (- i)) else format_uint 10 (nat i))"

text \<open>\<open>strconv.Atoi\<close> on a 64-bit platform: an optional sign, then a decimal.\<close>

definition Atoi :: "string \<Rightarrow> num_error + int" where
  "Atoi s =
    (let neg = (s \<noteq> [] \<and> hd s = CHR ''-'');
         body = (if s \<noteq> [] \<and> (hd s = CHR ''-'' \<or> hd s = CHR ''+'') then tl s else s)
     in case ParseUint body 10 64 of
          Inl e \<Rightarrow> Inl e
        | Inr n \<Rightarrow>
            if \<not> neg \<and> n \<ge> 2 ^ 63 then Inl ErrRange
            else if neg \<and> n > 2 ^ 63 then Inl ErrRange
            else Inr (if neg then - int n else int n))"

lemma format_uint_not_Nil [simp]: "format_uint b n \<noteq> []"
  by (subst format_uint.simps) simp

lemma parse_loop_append:
  "parse_loop b m (xs @ ys) n =
    (case parse_loop b m xs n of Inl e \<Rightarrow> Inl e | Inr k \<Rightarrow> parse_loop b m ys k)"
  by (induction xs arbitrary: n) (auto split: option.splits)

lemma parse_loop_bound: "parse_loop b m s n = Inr k \<Longrightarrow> n \<le> m \<Longrightarrow> k \<le> m"
  by (induction s arbitrary: n) (auto split: option.splits if_splits)

lemma parse_format_uint:
  assumes "2 \<le> b" "b \<le> 36" "n \<le> m"
  shows "parse_loop b m (format_uint b n) 0 = Inr n"
  using assms
proof (induction b n rule: format_uint.induct)
  case (1 b n)
  show ?case
  proof (cases "n < b")
    case True
    then show ?thesis using 1 by (subst format_uint.simps) simp
  next
    case False
    have le: "n div b \<le> m" using 1 div_le_dividend [of n b] by linarith
    have IH: "parse_loop b m (format_uint b (n div b)) 0 = Inr (n div b)"
      using 1 False le by simp
    have lt: "n mod b < b" using 1 by simp
    have "digit_val (digit_char (n mod b)) = Some (n mod b)"
      using less_le_trans [OF lt \<open>b \<le> 36\<close>] by simp
    moreover have "\<not> b \<le> n mod b" using lt by simp
    ultimately show ?thesis
      using 1 False IH
      by (subst format_uint.simps) (simp add: parse_loop_append del: digit_val_char)
  qed
qed

lemma ParseUint_format:
  "2 \<le> b \<Longrightarrow> b \<le> 36 \<Longrightarrow> n < 2 ^ w \<Longrightarrow> ParseUint (format_uint b n) b w = Inr n"
  by (simp add: ParseUint_def parse_format_uint less_eq_Suc_le)

lemma ParseUint_bound: "ParseUint s b w = Inr n \<Longrightarrow> n < 2 ^ w"
  using parse_loop_bound [of b "2 ^ w - 1" s 0 n]
  by (auto simp: ParseUint_def split: if_splits) (metis less_eq_Suc_le Suc_pred zero_less_numeral zero_less_power less_Suc_eq_le)

lemma format_uint_digits:
  "2 \<le> b \<Longrightarrow> b \<le> 36 \<Longrightarrow> c \<in> set (format_uint b n) \<Longrightarrow> \<exists>d<b. c = digit_char d"
proof (induction b n rule: format_uint.induct)
  case (1 b n)
  show ?case
  proof (cases "n < b")
    case True
    then show ?thesis using 1(3,4) 1(2) by (subst (asm) format_uint.simps) auto
  next
    case False
    then have "c \<in> set (format_uint b (n div b)) \<or> c = digit_char (n mod b)"
      using 1(2,4) by (subst (asm) format_uint.simps) auto
    then show ?thesis using 1 False by (auto intro: exI [of _ "n mod b"])
  qed
qed

subsection \<open>strings\<close>

definition HasPrefix :: "string \<Rightarrow> string \<Rightarrow> bool" where
  "HasPrefix s p = (take (length p) s = p)"

definition lower_char :: "char \<Rightarrow> char" where
  "lower_char c = (let n = (of_char c :: nat) in
     if 65 \<le> n \<and> n \<le> 90 then char_of (n + 32) else c)"

text \<open>\<open>strings.ToLower\<close> on ASCII text.\<close>

definition ToLower :: "string \<Rightarrow> string" where
  "ToLower s = map lower_char s"

definition is_space :: "char \<Rightarrow> bool" where
  "is_space c = (let n = (of_char c :: nat) in n = 32 \<or> (9 \<le> n \<and> n \<le> 13))"

definition TrimSpace :: "string \<Rightarrow> string" where
  "TrimSpace s = rev (dropWhile is_space (rev (dropWhile is_space s)))"

text \<open>\<open>%-8s\<close>: pad on the right with blanks.\<close>

definition pad_right :: "nat \<Rightarrow> string \<Rightarrow> string" where
  "pad_right w s = s @ replicate (w - length s) CHR '' ''"

fun Join :: "string \<Rightarrow> string list \<Rightarrow> string" where
  "Join sep [] = []"
| "Join sep [s] = s"
| "Join sep (s # t # ts) = s @ sep @ Join sep (t # ts)"

lemma HasPrefix_self [simp]: "HasPrefix s s"
  by (simp add: HasPrefix_def)

lemma HasPrefix_iff: "HasPrefix s p \<longleftrightarrow> (\<exists>t. s = p @ t)"
  by (auto simp: HasPrefix_def) (metis append_take_drop_id)

end
