(* ===== verification/Configd_Context.thy ===== *)
theory Configd_Context
  imports Go_Lib
begin

text \<open>
  \<open>configd.go\<close> and \<open>session/errors.go\<close>: lock owners that are not client
  processes, the caller's context, and the lock errors. The \<open>auth.Auther\<close> in the
  context is a value of a package outside the repository, so it is a record of
  the functions the code calls on it.
\<close>

subsection \<open>Lock owners\<close>

definition COMMIT :: pid where "COMMIT = - 1"
definition SYSTEM :: pid where "SYSTEM = - 2"

definition LockId_String :: "pid \<Rightarrow> string" where
  "LockId_String l =
    (if l = COMMIT then ''commit'' else if l = SYSTEM then ''system'' else ''unknown'')"

definition lockDenied :: "string \<Rightarrow> error" where
  "lockDenied sess = LockDeniedError sess (''session is locked by '' @ sess)"

definition nilSessionMgrError :: error where
  "nilSessionMgrError =
    OperationFailedApplicationError (Some ''cannot get a session on a nil manager'') None"

definition sessTermError :: error where
  "sessTermError = OperationFailedApplicationError (Some ''session terminated'') None"

subsection \<open>The caller\<close>

text \<open>Path attributes: one \<open>Secret\<close> flag per path element.\<close>

type_synonym attrs = "bool list"

datatype AuthPerm = P_CREATE | P_READ | P_UPDATE | P_DELETE

record auth =
  AuthorizeRead :: "uid \<Rightarrow> string list \<Rightarrow> path \<Rightarrow> attrs option \<Rightarrow> bool"
  AuthorizeCreate :: "uid \<Rightarrow> string list \<Rightarrow> path \<Rightarrow> attrs option \<Rightarrow> bool"
  AuthorizeUpdate :: "uid \<Rightarrow> string list \<Rightarrow> path \<Rightarrow> attrs option \<Rightarrow> bool"
  AuthorizeDelete :: "uid \<Rightarrow> string list \<Rightarrow> path \<Rightarrow> attrs option \<Rightarrow> bool"
  AuthorizePath :: "uid \<Rightarrow> string list \<Rightarrow> path \<Rightarrow> attrs option \<Rightarrow> AuthPerm \<Rightarrow> bool"
  AuthorizeCommand :: "uid \<Rightarrow> string list \<Rightarrow> path \<Rightarrow> attrs \<Rightarrow> bool"
  AuthorizeFn :: "uid \<Rightarrow> string list \<Rightarrow> string \<Rightarrow> bool"

record config =
  Runfile :: string
  SecretsGroup :: string
  SuperGroup :: string

record Context =
  Configd :: bool
  Auth :: auth
  Pid :: pid
  Uid :: uid
  User :: string
  UserHome :: string
  Groups :: "string list"
  Superuser :: bool
  Config :: config
  Noexec :: bool

definition RaisePrivileges :: "Context \<Rightarrow> Context" where
  "RaisePrivileges c = c\<lparr>Configd := True\<rparr>"

definition DropPrivileges :: "Context \<Rightarrow> Context" where
  "DropPrivileges c = c\<lparr>Configd := False\<rparr>"

fun in_group :: "string \<Rightarrow> string list \<Rightarrow> bool" where
  "in_group sg [] = False"
| "in_group sg (g # gs) = (if g = sg then True else in_group sg gs)"

definition InSecretsGroup :: "Context \<Rightarrow> bool" where
  "InSecretsGroup c = (if Configd c then True else in_group (SecretsGroup (Config c)) (Groups c))"

lemma in_group_iff: "in_group sg gs \<longleftrightarrow> sg \<in> set gs"
  by (induction gs) auto

lemma InSecretsGroup_iff:
  "InSecretsGroup c \<longleftrightarrow> Configd c \<or> SecretsGroup (Config c) \<in> set (Groups c)"
  by (simp add: InSecretsGroup_def in_group_iff)

lemma lock_ids [simp]: "COMMIT \<noteq> 0" "SYSTEM \<noteq> 0" "COMMIT < 0" "SYSTEM < 0" "COMMIT \<noteq> SYSTEM"
  by (simp_all add: COMMIT_def SYSTEM_def)

end
