(* ===== verification/Config_Log.thy ===== *)
theory Config_Log
  imports Go_Lib
begin

text \<open>
  \<open>common/configd_log.go\<close>: the run-time logging settings. The package-level map
  \<open>cfgDebugSettings\<close> is an explicit argument; since the initial map has an entry
  for every log type and no operation deletes one, it is a total function, and
  the order in which Go happens to iterate over it is an explicit argument of
  \<open>CurrentLogStatus\<close>.
\<close>

subsection \<open>Data\<close>

datatype LogLevel = LevelNone | LevelError | LevelDebug | LevelLast

fun level_ord :: "LogLevel \<Rightarrow> nat" where
  "level_ord LevelNone = 0"
| "level_ord LevelError = 1"
| "level_ord LevelDebug = 2"
| "level_ord LevelLast = 3"

instantiation LogLevel :: linorder
begin

definition less_eq_LogLevel :: "LogLevel \<Rightarrow> LogLevel \<Rightarrow> bool" where
  "less_eq_LogLevel a b = (level_ord a \<le> level_ord b)"

definition less_LogLevel :: "LogLevel \<Rightarrow> LogLevel \<Rightarrow> bool" where
  "less_LogLevel a b = (level_ord a < level_ord b)"

lemma level_ord_inj: "level_ord a = level_ord b \<Longrightarrow> a = b"
  by (cases a; cases b) auto

instance
  by standard (auto simp: less_eq_LogLevel_def less_LogLevel_def intro: level_ord_inj)

end

datatype LogType = TypeNone | TypeCommit | TypeState | TypeMust | TypeLast

datatype ValueType = StringVal | IntVal

record cfgDebugSetting =
  valType :: ValueType
  level :: LogLevel
  log_value :: int

type_synonym dbg_settings = "LogType \<Rightarrow> cfgDebugSetting"

definition cfgDebugSettings :: dbg_settings where
  "cfgDebugSettings t = (case t of
     TypeCommit \<Rightarrow> \<lparr>valType = StringVal, level = LevelError, log_value = 0\<rparr>
   | TypeMust \<Rightarrow> \<lparr>valType = IntVal, level = LevelNone, log_value = 0\<rparr>
   | _ \<Rightarrow> \<lparr>valType = StringVal, level = LevelNone, log_value = 0\<rparr>)"

subsection \<open>Names\<close>

definition MapLevelNameToLevel :: "string \<Rightarrow> LogLevel result" where
  "MapLevelNameToLevel l = (let n = ToLower l in
     if n = ''debug'' then Inr LevelDebug
     else if n = ''error'' then Inr LevelError
     else if n = ''none'' then Inr LevelNone
     else Inl (ExternalError (''LogLevel '' @ [CHR 0x27] @ l @ [CHR 0x27] @ '' not recognised. Use <none|error|debug>.'')))"

definition MapLogLevelToName :: "LogLevel \<Rightarrow> string" where
  "MapLogLevelToName l = (case l of
     LevelDebug \<Rightarrow> ''debug'' | LevelError \<Rightarrow> ''error'' | LevelNone \<Rightarrow> ''none'' | _ \<Rightarrow> ''none'')"

definition MapLogNameToType :: "string \<Rightarrow> LogType result" where
  "MapLogNameToType name = (let n = ToLower name in
     if n = ''commit'' then Inr TypeCommit
     else if n = ''state'' then Inr TypeState
     else if n = ''must'' then Inr TypeMust
     else Inl (ExternalError (''LogType '' @ [CHR 0x27] @ name @ [CHR 0x27] @ '' not recognised. Use <validate|commit|state>.'')))"

definition MapLogTypeToName :: "LogType \<Rightarrow> string" where
  "MapLogTypeToName t = (case t of
     TypeCommit \<Rightarrow> ''commit'' | TypeState \<Rightarrow> ''state'' | TypeMust \<Rightarrow> ''must'' | _ \<Rightarrow> ''none'')"

subsection \<open>Queries\<close>

definition LoggingIsEnabledAtLevel :: "dbg_settings \<Rightarrow> LogLevel \<Rightarrow> LogType \<Rightarrow> bool" where
  "LoggingIsEnabledAtLevel st lvl t =
    (if t = TypeLast \<or> lvl \<ge> LevelLast then False else level (st t) \<ge> lvl)"

definition LoggingValueAndStatus :: "dbg_settings \<Rightarrow> LogType \<Rightarrow> int \<times> bool" where
  "LoggingValueAndStatus st t =
    (if t = TypeLast then (0, False)
     else if valType (st t) \<noteq> IntVal then (0, False)
     else (log_value (st t), level (st t) \<noteq> LevelNone))"

definition status_line :: "dbg_settings \<Rightarrow> LogType \<Rightarrow> string" where
  "status_line st t =
    (if t = TypeNone then ''''
     else case valType (st t) of
       StringVal \<Rightarrow> pad_right 8 (MapLogTypeToName t) @ [CHR 0x09] @ MapLogLevelToName (level (st t)) @ [CHR 0x0A]
     | IntVal \<Rightarrow> pad_right 8 (MapLogTypeToName t) @ [CHR 0x09] @ Itoa (log_value (st t)) @ [CHR 0x0A])"

definition CurrentLogStatus :: "LogType list \<Rightarrow> dbg_settings \<Rightarrow> string" where
  "CurrentLogStatus order st =
    [CHR 0x0A] @ ''Current Debug Status:'' @ [CHR 0x0A, CHR 0x0A]
     @ concat (map (status_line st) order)
     @ [CHR 0x0A] @ ''Valid levels: none, error, debug'' @ [CHR 0x0A]"

subsection \<open>Changing a setting\<close>

definition with_status :: "LogType list \<Rightarrow> dbg_settings \<Rightarrow> string \<Rightarrow> error" where
  "with_status order st msg = ExternalError (msg @ [CHR 0x0A] @ CurrentLogStatus order st)"

fun err_text :: "error \<Rightarrow> string" where
  "err_text (ExternalError s) = s"
| "err_text _ = ''''"

definition SetConfigDebug ::
  "LogType list \<Rightarrow> dbg_settings \<Rightarrow> string \<Rightarrow> string \<Rightarrow> (string \<times> error option) \<times> dbg_settings" where
  "SetConfigDebug order st logName levelOrValue =
    (if logName = '''' \<and> levelOrValue = '''' then ((CurrentLogStatus order st, None), st)
     else case MapLogNameToType logName of
       Inl e \<Rightarrow> ((CurrentLogStatus order st, Some (with_status order st (err_text e))), st)
     | Inr t \<Rightarrow>
        (case valType (st t) of
           StringVal \<Rightarrow>
             (case MapLevelNameToLevel levelOrValue of
                Inl e \<Rightarrow> ((CurrentLogStatus order st, Some (with_status order st (err_text e))), st)
              | Inr l \<Rightarrow>
                  let st' = st(t := \<lparr>valType = StringVal, level = l, log_value = 0\<rparr>)
                  in ((CurrentLogStatus order st', None), st'))
         | IntVal \<Rightarrow>
             (case Atoi levelOrValue of
                Inl _ \<Rightarrow> ((CurrentLogStatus order st,
                   Some (with_status order st (''Use +ve integer value for '' @ logName @ '' (0 = disable)''))), st)
              | Inr v \<Rightarrow>
                 if v < 0 then ((CurrentLogStatus order st,
                   Some (with_status order st (''Use +ve integer value for '' @ logName @ '' (0 = disable)''))), st)
                 else
                   let st' = st(t := \<lparr>valType = IntVal,
                                   level = (if v = 0 then LevelNone else LevelDebug), log_value = v\<rparr>)
                   in ((CurrentLogStatus order st', None), st'))))"

subsection \<open>The settings stay well typed\<close>

text \<open>
  What every reader of the settings relies on: each log type keeps the kind of
  value it was declared with, levels are real levels, and a threshold is
  switched off exactly when it is zero, is never negative and fits an \<open>int\<close>.
\<close>

definition setting_ok :: "LogType \<Rightarrow> cfgDebugSetting \<Rightarrow> bool" where
  "setting_ok t c \<longleftrightarrow>
    valType c = valType (cfgDebugSettings t) \<and> level c < LevelLast \<and>
    (if valType c = StringVal then log_value c = 0
     else 0 \<le> log_value c \<and> log_value c < 2 ^ 63 \<and> (level c = LevelNone \<longleftrightarrow> log_value c = 0))"

definition settings_ok :: "dbg_settings \<Rightarrow> bool" where
  "settings_ok st \<longleftrightarrow> (\<forall>t. setting_ok t (st t))"

lemmas log_map_defs = MapLevelNameToLevel_def MapLogNameToType_def Let_def

lemma settings_ok_init: "settings_ok cfgDebugSettings"
  by (auto simp: settings_ok_def setting_ok_def cfgDebugSettings_def less_LogLevel_def
      split: LogType.split)

lemma Atoi_bound: "Atoi s = Inr v \<Longrightarrow> - (2 ^ 63) \<le> v \<and> v < 2 ^ 63"
  by (auto simp: Atoi_def Let_def split: sum.splits if_splits)

lemma MapLevelNameToLevel_lt: "MapLevelNameToLevel l = Inr lv \<Longrightarrow> lv < LevelLast"
  by (auto simp: log_map_defs less_LogLevel_def split: if_splits)

lemma settings_ok_upd: "settings_ok st \<Longrightarrow> setting_ok t c \<Longrightarrow> settings_ok (st(t := c))"
  by (simp add: settings_ok_def)

lemma SetConfigDebug_preserves:
  assumes ok: "settings_ok st"
  shows "settings_ok (snd (SetConfigDebug order st n v))"
proof -
  have vt: "valType (st t) = valType (cfgDebugSettings t)" for t
    using ok by (simp add: settings_ok_def setting_ok_def)
  show ?thesis
    using ok vt
    by (auto simp: SetConfigDebug_def Let_def less_LogLevel_def setting_ok_def
        split: sum.splits ValueType.splits
        intro!: settings_ok_upd dest!: Atoi_bound MapLevelNameToLevel_lt)
qed

lemma SetConfigDebug_error_keeps:
  "snd (fst (SetConfigDebug order st n v)) \<noteq> None \<Longrightarrow> snd (SetConfigDebug order st n v) = st"
  by (auto simp: SetConfigDebug_def Let_def split: sum.splits ValueType.splits)

lemma level_names_inverse: "l < LevelLast \<Longrightarrow> MapLevelNameToLevel (MapLogLevelToName l) = Inr l"
  by (cases l) (auto simp: log_map_defs MapLogLevelToName_def ToLower_def lower_char_def less_LogLevel_def)

lemma type_names_inverse:
  "t \<in> {TypeCommit, TypeState, TypeMust} \<Longrightarrow> MapLogNameToType (MapLogTypeToName t) = Inr t"
  by (auto simp: log_map_defs MapLogTypeToName_def ToLower_def lower_char_def)

end
