(* ===== verification/Rpc_Types.thy ===== *)
theory Rpc_Types
  imports Go_Lib
begin

text \<open>
  \<open>rpc/rpc.go\<close>: the values that cross the client API. Database selectors, node
  kinds and node states are Go integers, so their printers have a branch for a
  number that is none of the named constants.
\<close>

type_synonym DB = int
type_synonym NodeType = int
type_synonym NodeStatus = int

definition AUTO :: DB where "AUTO = 0"
definition RUNNING :: DB where "RUNNING = 1"
definition CANDIDATE :: DB where "CANDIDATE = 2"
definition EFFECTIVE :: DB where "EFFECTIVE = 3"

definition LEAF :: NodeType where "LEAF = 0"
definition LEAF_LIST :: NodeType where "LEAF_LIST = 1"
definition CONTAINER :: NodeType where "CONTAINER = 2"
definition LIST :: NodeType where "LIST = 3"

definition UNCHANGED :: NodeStatus where "UNCHANGED = 0"
definition CHANGED :: NodeStatus where "CHANGED = 1"
definition ADDED :: NodeStatus where "ADDED = 2"
definition DELETED :: NodeStatus where "DELETED = 3"

lemmas db_defs = AUTO_def RUNNING_def CANDIDATE_def EFFECTIVE_def
lemmas node_type_defs = LEAF_def LEAF_LIST_def CONTAINER_def LIST_def
lemmas node_status_defs = UNCHANGED_def CHANGED_def ADDED_def DELETED_def

definition NodeType_String :: "NodeType \<Rightarrow> string" where
  "NodeType_String t =
    (if t = LEAF then ''leaf'' else if t = LEAF_LIST then ''leaf-list''
     else if t = CONTAINER then ''container'' else if t = LIST then ''list'' else ''unknown'')"

definition NodeStatus_String :: "NodeStatus \<Rightarrow> string" where
  "NodeStatus_String s =
    (if s = UNCHANGED then ''UNCHANGED'' else if s = CHANGED then ''CHANGED''
     else if s = ADDED then ''ADDED'' else if s = DELETED then ''DELETED'' else ''unknown'')"

record ExecOutput =
  out_path :: "path option"
  out_text :: string

record ExecError =
  err_path :: "path option"
  err_err :: string

text \<open>\<open>fmt.Sprint\<close> and \<open>fmt.Sprintln\<close> of a string slice.\<close>

definition Sprint_path :: "path \<Rightarrow> string" where
  "Sprint_path p = ''['' @ Join '' '' p @ '']''"

definition Sprintln_path :: "path \<Rightarrow> string" where
  "Sprintln_path p = Sprint_path p @ [CHR 0x0A]"

definition ExecOutputs_String :: "ExecOutput list \<Rightarrow> string" where
  "ExecOutputs_String outs = concat (map (\<lambda>out.
     (case out_path out of None \<Rightarrow> '''' | Some p \<Rightarrow> Sprintln_path p)
       @ out_text out @ [CHR 0x0A]) outs)"

definition ExecErrors_Error :: "ExecError list \<Rightarrow> string" where
  "ExecErrors_Error errs = concat (map (\<lambda>err.
     (case err_path err of None \<Rightarrow> '''' | Some p \<Rightarrow> Sprintln_path p)
       @ [CHR 0x0A] @ err_err err @ [CHR 0x0A] @ [CHR 0x0A]
       @ ''['' @ Sprint_path (case err_path err of None \<Rightarrow> [] | Some p \<Rightarrow> p) @ '']''
       @ '' failed.'' @ [CHR 0x0A]) errs)"

definition MethErr_Error :: "string \<Rightarrow> string" where
  "MethErr_Error name = ''unknown method '' @ name"

record ArgNErr =
  Method :: string
  Len :: int
  Elen :: int

definition ArgNErr_Error :: "ArgNErr \<Rightarrow> string" where
  "ArgNErr_Error e =
    (if Len e > Elen e
     then ''too many arguments in call to '' @ Method e @ '' expected '' @ Itoa (Elen e) @ '' got '' @ Itoa (Len e)
     else ''too few arguments in call to '' @ Method e @ '' expected '' @ Itoa (Elen e) @ '' got '' @ Itoa (Len e))"

end
