(* ===== verification/Edit_Types.thy ===== *)
theory Edit_Types
  imports Configd_Prelude
begin

text \<open>
  The data of \<open>session/edit_config.go\<close>: the NETCONF options, the parsed
  \<open><config>\<close> document and the option parsers. The \<open>iota\<close> constants of each Go
  type are the constructors. The variables of these types are
  assigned by the parsers below and, for the fields of \<open>edit_config\<close>, by the XML decoder
  (\<open>xml_config\<close>); a document that stores a number which is none of the constants is
  outside the model.
\<close>

datatype config_target = target_notset | target_candidate | target_running

datatype operation = op_notset | op_merge | op_replace | op_create | op_delete | op_remove

datatype default_operation = defop_notset | defop_merge | defop_replace | defop_none

datatype test_option = testopt_notset | testopt_testset | testopt_set | testopt_testonly

datatype error_option = erropt_notset | erropt_stop | erropt_cont | erropt_rollback

definition config_target_Set :: "string \<Rightarrow> config_target result" where
  "config_target_Set target =
    (case map_of [(''candidate'', target_candidate), (''running'', target_running)] target of
       Some v \<Rightarrow> Inr v
     | None \<Rightarrow> Inl (UnknownElementProtocolError target))"

definition default_operation_Set :: "string \<Rightarrow> default_operation result" where
  "default_operation_Set op =
    (case map_of [(''merge'', defop_merge), (''replace'', defop_replace), (''none'', defop_none)] op of
       Some v \<Rightarrow> Inr v
     | None \<Rightarrow> Inl (InvalidValueProtocolError ''Invalid default-operation''))"

definition default_operation_Get :: "default_operation \<Rightarrow> operation" where
  "default_operation_Get d =
    (case d of defop_merge \<Rightarrow> op_merge | defop_replace \<Rightarrow> op_replace
     | defop_none \<Rightarrow> op_notset | defop_notset \<Rightarrow> op_notset)"

definition test_option_Set :: "string \<Rightarrow> test_option result" where
  "test_option_Set opt =
    (case map_of [(''test-then-set'', testopt_testset), (''set'', testopt_set), (''test-only'', testopt_testonly)] opt of
       Some v \<Rightarrow> Inr v
     | None \<Rightarrow> Inl (InvalidValueProtocolError ''Invalid test-option''))"

definition error_option_Set :: "string \<Rightarrow> error_option result" where
  "error_option_Set opt =
    (case map_of [(''stop-on-error'', erropt_stop), (''continue-on-error'', erropt_cont),
                  (''rollback-on-error'', erropt_rollback)] opt of
       Some v \<Rightarrow> Inr v
     | None \<Rightarrow> Inl (InvalidValueProtocolError ''Invalid error-option''))"

definition operation_set :: "string \<Rightarrow> operation result" where
  "operation_set op =
    (case map_of [(''merge'', op_merge), (''replace'', op_replace), (''create'', op_create),
                  (''delete'', op_delete), (''remove'', op_remove)] op of
       Some v \<Rightarrow> Inr v
     | None \<Rightarrow> Inl (UnknownAttrProtocolError op ''operation''))"

definition UnmarshalXMLAttr :: "string \<Rightarrow> string \<Rightarrow> operation result" where
  "UnmarshalXMLAttr space val =
    (if space \<noteq> ''urn:ietf:params:xml:ns:netconf:base:1.0''
     then Inl (UnknownNamespaceProtocolError ''operation'' space)
     else operation_set val)"

text \<open>An element of the document: local name, namespace, operation, text, children.\<close>

datatype edit_node = EditNode (en_local: string) (en_space: string) (en_op: operation)
  (en_value: string) (en_children: "edit_node list")

definition getOperation :: "operation \<Rightarrow> edit_node \<Rightarrow> operation" where
  "getOperation parentop en = (if en_op en = op_notset then parentop else en_op en)"

text \<open>
  What \<open>encoding/xml\<close> finds in a document for the struct \<open>edit_config\<close>: the four option fields are exported and
  have no tag, so a child element of the same name sets them; all other children are the nodes (\<open>",any"\<close>).
\<close>

record xml_config =
  xc_Children :: "edit_node list"
  xc_Target :: "config_target option"
  xc_DefaultOperation :: "default_operation option"
  xc_TestOption :: "test_option option"
  xc_ErrorOption :: "error_option option"

record edit_config =
  ec_children :: "edit_node list"
  Target :: config_target
  DefaultOperation :: default_operation
  TestOption :: test_option
  ErrorOption :: error_option

record edit_op =
  eo_op :: operation
  eo_path :: path

end
