(* ===== verification/Session_World.thy ===== *)
theory Session_World
  imports Configd_Context Config_Log Rpc_Types Edit_Types
begin

text \<open>
  The state that the session code works on, and the packages outside the
  repository that it calls.

  A \<open>world\<close> is what one session goroutine sees: its own \<open>session\<close> struct, the
  commit manager it shares with the other sessions (which holds the running
  tree and the effective session), the logging settings and the trace of
  externally visible actions (scripts, hooks, accounting, files). A data tree
  is an unspecified type \<open>'d\<close>; every operation of \<open>config/data\<close>,
  \<open>config/union\<close>, \<open>config/schema\<close>, \<open>config/diff\<close>, \<open>config/commit\<close>,
  \<open>config/load\<close>, \<open>utils/exec\<close> and the encoders that the sources call is a field
  of the record \<open>libs\<close>; those that run scripts or read files take the world
  they run in as a further argument, since their answer may depend on it.

  While a session waits for a goroutine it has started it keeps serving its
  request channel. The monad state therefore pairs the world with a list of
  interferences: each wait consumes the next one, which is whatever the
  requests served during that wait do to the world.
\<close>

subsection \<open>Schema nodes\<close>

datatype skind = KTree | KContainer | KList | KListEntry | KLeaf | KLeafList | KLeafValue
  | KChoice | KCase | KOther

record sinfo =
  s_kind :: skind
  s_name :: string
  s_ns :: string
  s_presence :: bool
  s_keys :: "string list"
  s_empty :: bool
  s_subst :: "string list"
  s_help :: string

text \<open>A schema node: its own attributes, \<open>Children()\<close> and \<open>Choices()\<close>.\<close>

datatype snode = SNode (sn_info: sinfo) (sn_children: "snode list") (sn_choices: "snode list")

abbreviation sn_kind :: "snode \<Rightarrow> skind" where "sn_kind n \<equiv> s_kind (sn_info n)"
abbreviation sn_name :: "snode \<Rightarrow> string" where "sn_name n \<equiv> s_name (sn_info n)"

text \<open>A loaded configuration tree, as \<open>merge_tree\<close> walks it: name, whether the
  node has a schema and whether that schema has presence, the default flag and
  the sorted children.\<close>

datatype lnode = LNode (ln_name: string) (ln_presence: "bool option") (ln_default: bool)
  (ln_children: "lnode list")

text \<open>An \<open>rfc7951/data\<close> tree: a JSON value.\<close>

datatype rtree = RScalar string | RObject "(string \<times> rtree) list" | RArray "rtree list"

subsection \<open>Union, diff and commit values\<close>

record auther =
  AuthRead :: "path \<Rightarrow> bool"
  AuthCreate :: "path \<Rightarrow> bool"
  AuthUpdate :: "path \<Rightarrow> bool"
  AuthDelete :: "path \<Rightarrow> bool"
  AuthReadSecrets :: "path \<Rightarrow> bool"

text \<open>\<open>union.NewNode(overlay, underlay, schema, nil, 0)\<close>; both trees may be nil.\<close>

record 'd unode =
  u_overlay :: "'d option"
  u_underlay :: "'d option"
  u_schema :: snode

datatype union_option = Authorizer auther | HideSecrets | IncludeDefaults | ForceShowSecrets

datatype enc_type = EncJSON | EncRFC7951 | EncXML

text \<open>What \<open>getstatus\<close> reads of a diff node; a diff tree is its \<open>Descendant\<close> function.\<close>

record diffinfo =
  df_deleted :: bool
  df_added :: bool
  df_changed :: bool
  df_kind :: skind
  df_parent :: "(skind \<times> bool) option"

type_synonym difftree = "path \<Rightarrow> diffinfo option"

record validate_ctx =
  CurPath :: path
  v_Sid :: string
  v_Noexec :: bool
  IncompletePathIsValid :: bool

text \<open>\<open>exec.Output\<close>; a nil path is \<open>None\<close>.\<close>

record exec_output =
  o_path :: "path option"
  o_text :: string

text \<open>\<open>commitresp\<close> and \<open>commitctx\<close> of \<open>session/commitmgr.go\<close> and \<open>session/commit.go\<close>;
  the effective session of a context is reached through the commit manager.\<close>

record commitresp =
  cr_out :: "exec_output list"
  cr_err :: "error list"
  cr_ok :: bool

record 'd commitctx =
  cc_debug :: bool
  cc_must :: int
  cc_candidate :: 'd
  cc_running :: 'd
  cc_schema :: snode
  cc_sid :: string
  cc_sctx :: Context
  cc_ctx :: Context
  cc_message :: string

subsection \<open>The world\<close>

datatype event =
    EvExec string path string
  | EvHook string "string list"
  | EvNotify string string
  | EvSetRunning
  | EvCreateFile string
  | EvWriteFile string string
  | EvDlog string
  | EvElog string
  | EvLogTime string
  | EvAccountStart uid path attrs
  | EvAccountStop uid path "error option"
  | EvSpawn "string list"
  | EvWlog string
  | EvRemoveFile string
  | EvChown string uid
  | EvCallRpc string string string

record 'd session =
  sid :: string
  owner :: "uid option"
  lpid :: pid
  saved :: bool
  candidate :: 'd
  ses_schema :: snode
  ses_schemaFull :: snode
  terminated :: bool

record 'd commit_mgr =
  cm_running :: "'d option"
  cm_effective :: "'d session"
  cm_schema :: snode
  cm_hadcommit :: bool
  cm_inCommit :: bool

record 'd world =
  w_sess :: "'d session"
  w_cmgr :: "'d commit_mgr"
  w_dbg :: dbg_settings
  w_rofs :: bool
  w_log :: "event list"

type_synonym 'd interference = "'d world \<Rightarrow> 'd world"
type_synonym 'd st = "'d world \<times> 'd interference list"
type_synonym ('d, 'a) op = "('d st, 'a) state"

subsection \<open>Packages outside the repository\<close>

record 'd libs =
  data_New :: "string \<Rightarrow> 'd"
  data_NumChildren :: "'d option \<Rightarrow> nat"
  union_Merge :: "'d unode \<Rightarrow> 'd"
  union_MergeWithoutDefaults :: "'d unode \<Rightarrow> 'd"
  union_Set :: "'d unode \<Rightarrow> auther \<Rightarrow> path \<Rightarrow> error option \<times> 'd"
  union_Delete :: "'d unode \<Rightarrow> auther \<Rightarrow> path \<Rightarrow> bool \<Rightarrow> error option \<times> 'd"
  union_Exists :: "'d unode \<Rightarrow> auther \<Rightarrow> path \<Rightarrow> error option"
  union_IsDefault :: "'d unode \<Rightarrow> auther \<Rightarrow> path \<Rightarrow> bool \<times> error option"
  union_Get :: "'d unode \<Rightarrow> auther \<Rightarrow> path \<Rightarrow> string list \<times> error option"
  union_Descendant :: "'d unode \<Rightarrow> auther \<Rightarrow> path \<Rightarrow> 'd unode option \<times> error option"
  union_Show :: "'d unode \<Rightarrow> path \<Rightarrow> union_option list \<Rightarrow> string \<times> error option"
  union_GetHelp :: "'d unode \<Rightarrow> auther \<Rightarrow> bool \<Rightarrow> path \<Rightarrow> (string \<rightharpoonup> string) \<times> error option"
  union_ToRFC7951 :: "'d unode \<Rightarrow> union_option list \<Rightarrow> string"
  union_Unmarshal :: "enc_type \<Rightarrow> bool \<Rightarrow> snode \<Rightarrow> string \<Rightarrow> 'd unode \<times> error option"
  union_SortedChildren :: "'d unode \<Rightarrow> lnode list"
  union_NodeSchema :: "snode \<Rightarrow> path \<Rightarrow> snode"
  union_HasChild :: "'d unode \<Rightarrow> path \<Rightarrow> string \<Rightarrow> bool"
  union_ChildNames :: "'d unode \<Rightarrow> path \<Rightarrow> string list"
  union_AddChild :: "'d unode \<Rightarrow> path \<Rightarrow> 'd \<Rightarrow> 'd"
  union_GetStateJson :: "'d world \<Rightarrow> 'd unode \<Rightarrow> path \<Rightarrow> path \<Rightarrow> string list \<times> error list"
  union_UnmarshalState :: "'d unode \<Rightarrow> path \<Rightarrow> string \<Rightarrow> string option \<times> 'd"
  reflect_TypeOf :: "snode \<Rightarrow> string"
  xml_Unmarshal :: "string \<Rightarrow> xml_config result"
  json_Valid :: "string \<Rightarrow> bool"
  rfc7951_Unmarshal :: "string \<Rightarrow> rtree \<times> error option"
  rfc7951_Marshal :: "rtree \<Rightarrow> string \<times> error option"
  schema_Validate :: "'d world \<Rightarrow> snode \<Rightarrow> validate_ctx \<Rightarrow> path \<Rightarrow> error option"
  schema_Descendant :: "snode \<Rightarrow> path \<Rightarrow> snode option"
  schema_AttrsForPath :: "snode \<Rightarrow> path \<Rightarrow> attrs option"
  schema_PathDescendant :: "snode \<Rightarrow> path \<Rightarrow> snode option"
  schema_NormalizePath :: "snode \<Rightarrow> path \<Rightarrow> path result"
  schema_SchemaChild :: "snode \<Rightarrow> string \<Rightarrow> snode option"
  schema_Child :: "snode \<Rightarrow> string \<Rightarrow> snode option"
  schema_StateChildren :: "snode \<Rightarrow> snode list"
  schema_FindOrWalk :: "snode \<Rightarrow> path \<Rightarrow> (snode \<Rightarrow> path \<Rightarrow> path \<Rightarrow> bool \<times> bool) \<Rightarrow> snode option"
  diff_NewNode :: "'d option \<Rightarrow> 'd option \<Rightarrow> snode option \<Rightarrow> difftree option"
  commit_Changed :: "'d commitctx \<Rightarrow> bool"
  commit_Validate :: "'d world \<Rightarrow> 'd commitctx \<Rightarrow> exec_output list \<times> error list \<times> bool"
  commit_Commit :: "'d commitctx \<Rightarrow> (path \<Rightarrow> ('d, error option) op) \<Rightarrow> (path \<Rightarrow> ('d, error option) op)
      \<Rightarrow> ('d, exec_output list \<times> error list \<times> nat \<times> nat) op"
  comp_SetRunning :: "'d world \<Rightarrow> snode \<Rightarrow> 'd unode \<Rightarrow> 'd \<Rightarrow> 'd \<Rightarrow> exec_output list"
  comp_GetState :: "'d world \<Rightarrow> snode \<Rightarrow> 'd unode \<Rightarrow> rtree \<Rightarrow> rtree \<times> error option"
  load_Load :: "'d world \<Rightarrow> string \<Rightarrow> snode \<Rightarrow> 'd \<times> error option \<times> error list"
  load_LoadFile :: "string \<Rightarrow> string \<Rightarrow> snode \<Rightarrow> 'd \<times> error option \<times> error list"
  exec_Exec :: "'d world \<Rightarrow> string \<Rightarrow> path \<Rightarrow> string \<Rightarrow> error option"
  user_LookupId :: "string \<Rightarrow> string option"
  run_parts :: "'d world \<Rightarrow> string \<Rightarrow> string list \<Rightarrow> string \<times> string option"
  os_Create :: "'d world \<Rightarrow> string \<Rightarrow> error option"
  os_Chmod :: "'d world \<Rightarrow> string \<Rightarrow> nat \<Rightarrow> error option"

subsection \<open>Access to the world\<close>

definition the_world :: "('d, 'd world) op" where
  "the_world = gets fst"

definition sess :: "('d, 'd session) op" where
  "sess = gets (w_sess \<circ> fst)"

definition upd_world :: "('d world \<Rightarrow> 'd world) \<Rightarrow> ('d, unit) op" where
  "upd_world f = modify (\<lambda>(w, es). (f w, es))"

definition upd_sess :: "('d session \<Rightarrow> 'd session) \<Rightarrow> ('d, unit) op" where
  "upd_sess f = upd_world (\<lambda>w. w\<lparr>w_sess := f (w_sess w)\<rparr>)"

definition emit :: "event \<Rightarrow> ('d, unit) op" where
  "emit ev = upd_world (\<lambda>w. w\<lparr>w_log := w_log w @ [ev]\<rparr>)"

text \<open>\<open>for { select { case r := <-respch: ...; case req := <-s.reqch: s.processreq(req) } }\<close>:
  the requests that arrive before the answer are one interference.\<close>

definition wait_async :: "('d, unit) op" where
  "wait_async = modify (\<lambda>(w, es). case es of [] \<Rightarrow> (w, []) | e # es' \<Rightarrow> (e w, es'))"

lemma run_the_world [simp, run_simps]: "run_state the_world (w, es) = (w, w, es)"
  by (simp add: the_world_def)

lemma run_sess [simp, run_simps]: "run_state sess (w, es) = (w_sess w, w, es)"
  by (simp add: sess_def)

lemma run_upd_world [simp, run_simps]: "run_state (upd_world f) (w, es) = ((), f w, es)"
  by (simp add: upd_world_def)

lemma run_upd_sess [simp, run_simps]:
  "run_state (upd_sess f) (w, es) = ((), w\<lparr>w_sess := f (w_sess w)\<rparr>, es)"
  by (simp add: upd_sess_def)

lemma run_emit [simp, run_simps]:
  "run_state (emit ev) (w, es) = ((), w\<lparr>w_log := w_log w @ [ev]\<rparr>, es)"
  by (simp add: emit_def)

lemma silent_reads [silent_intros]: "silent s sess" "silent s the_world"
  by (simp_all add: sess_def the_world_def silent_def)

definition interfere :: "'d st \<Rightarrow> 'd st" where
  "interfere s = (case s of (w, []) \<Rightarrow> (w, []) | (w, e # es) \<Rightarrow> (e w, es))"

lemma interfere_simps [simp]:
  "interfere (w, []) = (w, [])" "interfere (w, e # es) = (e w, es)"
  by (simp_all add: interfere_def)

lemma run_wait [simp, run_simps]: "run_state wait_async s = ((), interfere s)"
  by (cases s; cases "snd s") (auto simp: wait_async_def)

subsection \<open>Frames over the world\<close>

text \<open>
  Relations on worlds are lifted to the monad state under the assumption that
  the interference still to come satisfies them as well.
\<close>

definition effs_ok :: "('d world \<Rightarrow> 'd world \<Rightarrow> bool) \<Rightarrow> 'd interference list \<Rightarrow> bool" where
  "effs_ok G es \<longleftrightarrow> (\<forall>e\<in>set es. \<forall>w. G w (e w))"

definition framed :: "('d world \<Rightarrow> 'd world \<Rightarrow> bool) \<Rightarrow> 'd st \<Rightarrow> 'd st \<Rightarrow> bool" where
  "framed G s s' \<longleftrightarrow> (effs_ok G (snd s) \<longrightarrow> effs_ok G (snd s') \<and> G (fst s) (fst s'))"

locale world_rel =
  fixes G :: "'d world \<Rightarrow> 'd world \<Rightarrow> bool"
  assumes G_refl: "G w w"
    and G_trans: "G w v \<Longrightarrow> G v u \<Longrightarrow> G w u"
begin

sublocale frame_rel "framed G"
  by unfold_locales (auto simp: framed_def G_refl intro: G_trans)

lemma sess_ok [simp, intro]: "keeps (framed G) sess"
  by (simp add: sess_def)

lemma the_world_ok [simp, intro]: "keeps (framed G) the_world"
  by (simp add: the_world_def)

lemma upd_world_ok: "(\<And>w. G w (f w)) \<Longrightarrow> keeps (framed G) (upd_world f)"
  by (auto simp: keeps_def framed_def)

lemma wait_ok [simp, intro]: "keeps (framed G) wait_async"
proof (rule keepsI)
  fix s :: "'d st"
  obtain w es where s: "s = (w, es)" by (cases s)
  show "framed G s (snd (run_state wait_async s))"
    by (cases es) (auto simp: s framed_def effs_ok_def G_refl)
qed

end

text \<open>The interference list is only ever consumed.\<close>

definition consumes :: "'d st \<Rightarrow> 'd st \<Rightarrow> bool" where
  "consumes s s' \<longleftrightarrow> (\<exists>ds. snd s = ds @ snd s')"

interpretation consume: frame_rel consumes
  by unfold_locales (auto simp: consumes_def)

lemmas consume_steps [consume_intros] = consume.steps_ok

lemma consumes_effs_ok: "consumes s s' \<Longrightarrow> effs_ok G (snd s) \<Longrightarrow> effs_ok G (snd s')"
  by (auto simp: consumes_def effs_ok_def)

lemma consume_wait [simp, intro, consume_intros]: "keeps consumes wait_async"
proof (rule keepsI)
  fix s :: "'d st"
  obtain w es where s: "s = (w, es)" by (cases s)
  show "consumes s (snd (run_state wait_async s))"
    by (cases es) (auto simp: s consumes_def)
qed

lemma consume_prims [simp, intro, consume_intros]:
  "keeps consumes sess" "keeps consumes the_world" "keeps consumes (upd_world f)"
  "keeps consumes (upd_sess g)" "keeps consumes (emit ev)"
  by (auto simp: keeps_def consumes_def)

text \<open>Steps that only extend the trace of external actions.\<close>

definition log_only :: "'d st \<Rightarrow> 'd st \<Rightarrow> bool" where
  "log_only s s' \<longleftrightarrow> (\<exists>evs. s' = ((fst s)\<lparr>w_log := w_log (fst s) @ evs\<rparr>, snd s))"

interpretation log: frame_rel log_only
proof
  show "log_only s s" for s :: "'d st"
    unfolding log_only_def by (rule exI [of _ "[]"]) (cases s; simp)
  show "log_only s t \<Longrightarrow> log_only t u \<Longrightarrow> log_only s u" for s t u :: "'d st"
    unfolding log_only_def by fastforce
qed

lemma log_prims:
  "keeps log_only sess" "keeps log_only the_world" "keeps log_only (emit ev)"
proof -
  show "keeps log_only sess" "keeps log_only the_world" by (simp_all add: sess_def the_world_def)
  show "keeps log_only (emit ev)"
    by (rule keepsI) (auto simp: log_only_def emit_def upd_world_def split: prod.split)
qed

lemmas log_intros = log.steps_ok log_prims

lemma log_only_fields:
  assumes "log_only (w, es) (w', es')"
  shows "w_sess w' = w_sess w" "w_cmgr w' = w_cmgr w" "es' = es" "w_dbg w' = w_dbg w" "w_rofs w' = w_rofs w"
    "\<exists>evs. w_log w' = w_log w @ evs"
  using assms by (auto simp: log_only_def)

end
