(* ===== verification/Session_Lock.thy ===== *)
theory Session_Lock
  imports Session_World
begin

text \<open>
  The session lock of \<open>session/session_internal.go\<close>: \<open>lock\<close>, \<open>trylock\<close>,
  \<open>locked\<close> and \<open>unlock\<close> on the \<open>lpid\<close> field (0 means free, a negative number is
  an internal holder). The contract the rest of the session code relies on is
  the locale \<open>lock_contract\<close>, stated over an abstract holder and interpreted on
  these definitions.
\<close>

subsection \<open>Operations\<close>

definition denied_by :: "pid \<Rightarrow> error" where
  "denied_by l = (if l < 0 then lockDenied (LockId_String l) else lockDenied (Itoa l))"

definition lock :: "pid \<Rightarrow> 'd session \<Rightarrow> (pid \<times> error option) \<times> 'd session" where
  "lock p s =
    (if lpid s = 0 then ((p, None), s\<lparr>lpid := p\<rparr>)
     else if lpid s = p then ((p, Some (lockDenied (Itoa (lpid s)))), s)
     else ((lpid s, Some (denied_by (lpid s))), s))"

definition trylock :: "pid \<Rightarrow> 'd session \<Rightarrow> error option" where
  "trylock p s =
    (if lpid s = 0 then None
     else if lpid s = p then None
     else Some (denied_by (lpid s)))"

definition locked :: "'d session \<Rightarrow> pid \<times> error option" where
  "locked s = (lpid s, None)"

definition unlock :: "pid \<Rightarrow> 'd session \<Rightarrow> (pid \<times> error option) \<times> 'd session" where
  "unlock p s =
    (if lpid s = 0 then ((lpid s, Some (OperationFailedProtocolError ''session is not locked'')), s)
     else if lpid s = p then ((p, None), s\<lparr>lpid := 0\<rparr>)
     else ((lpid s, Some (denied_by (lpid s))), s))"

text \<open>The lock operations as steps of the session monad.\<close>

definition do_lock :: "pid \<Rightarrow> ('d, pid \<times> error option) op" where
  "do_lock p = do { s \<leftarrow> sess; upd_sess (\<lambda>s. snd (lock p s)); ret (fst (lock p s)) }"

definition do_unlock :: "pid \<Rightarrow> ('d, pid \<times> error option) op" where
  "do_unlock p = do { s \<leftarrow> sess; upd_sess (\<lambda>s. snd (unlock p s)); ret (fst (unlock p s)) }"

lemma run_do_lock [simp, run_simps]:
  "run_state (do_lock p) (w, es) = (fst (lock p (w_sess w)), w\<lparr>w_sess := snd (lock p (w_sess w))\<rparr>, es)"
  by (simp add: do_lock_def)

lemma run_do_unlock [simp, run_simps]:
  "run_state (do_unlock p) (w, es) =
    (fst (unlock p (w_sess w)), w\<lparr>w_sess := snd (unlock p (w_sess w))\<rparr>, es)"
  by (simp add: do_unlock_def)

subsection \<open>The contract\<close>

datatype lock_op = Lock pid | Unlock pid

fun lock_op_pid :: "lock_op \<Rightarrow> pid" where
  "lock_op_pid (Lock p) = p"
| "lock_op_pid (Unlock p) = p"

locale lock_contract =
  fixes acquire :: "pid \<Rightarrow> 's \<Rightarrow> (pid \<times> error option) \<times> 's"
    and release :: "pid \<Rightarrow> 's \<Rightarrow> (pid \<times> error option) \<times> 's"
    and attempt :: "pid \<Rightarrow> 's \<Rightarrow> error option"
    and holder :: "'s \<Rightarrow> pid option"
  assumes acquire_free: "p \<noteq> 0 \<Longrightarrow> holder s = None \<Longrightarrow>
      snd (fst (acquire p s)) = None \<and> holder (snd (acquire p s)) = Some p"
    and acquire_held: "holder s = Some q \<Longrightarrow> snd (fst (acquire p s)) \<noteq> None \<and> snd (acquire p s) = s"
    and release_own: "holder s = Some p \<Longrightarrow> snd (fst (release p s)) = None \<and> holder (snd (release p s)) = None"
    and release_other: "holder s \<noteq> Some p \<Longrightarrow> snd (fst (release p s)) \<noteq> None \<and> snd (release p s) = s"
    and attempt_iff: "attempt p s = None \<longleftrightarrow> holder s = None \<or> holder s = Some p"
begin

definition step :: "lock_op \<Rightarrow> 's \<Rightarrow> 's" where
  "step op s = (case op of Lock p \<Rightarrow> snd (acquire p s) | Unlock p \<Rightarrow> snd (release p s))"

definition steps :: "lock_op list \<Rightarrow> 's \<Rightarrow> 's" where
  "steps ops s = fold step ops s"

lemma step_other:
  assumes "holder s = Some p" "lock_op_pid op \<noteq> p"
  shows "step op s = s"
  using assms acquire_held release_other by (cases op) (auto simp: step_def)

lemma steps_other:
  assumes "holder s = Some p" "\<forall>op\<in>set ops. lock_op_pid op \<noteq> p"
  shows "steps ops s = s"
  using assms by (induction ops arbitrary: s) (auto simp: steps_def step_other)

text \<open>Once acquired, nobody else's attempts are granted until the holder releases.\<close>

lemma exclusive:
  assumes "p \<noteq> 0" "holder s = None" "\<forall>op\<in>set ops. lock_op_pid op \<noteq> p" "q \<noteq> p"
  shows "holder (steps ops (snd (acquire p s))) = Some p"
    and "attempt q (steps ops (snd (acquire p s))) \<noteq> None"
    and "snd (fst (acquire q (steps ops (snd (acquire p s))))) \<noteq> None"
proof -
  have h: "holder (snd (acquire p s)) = Some p" using assms acquire_free by blast
  then have eq: "steps ops (snd (acquire p s)) = snd (acquire p s)"
    using assms steps_other by blast
  show "holder (steps ops (snd (acquire p s))) = Some p"
    and "attempt q (steps ops (snd (acquire p s))) \<noteq> None"
    and "snd (fst (acquire q (steps ops (snd (acquire p s))))) \<noteq> None"
    using h eq assms attempt_iff acquire_held by auto
qed

text \<open>\<open>if Locked() == pid { Unlock(pid) }\<close>.\<close>

definition release_held :: "pid \<Rightarrow> 's \<Rightarrow> 's" where
  "release_held p s = (if holder s = Some p then snd (release p s) else s)"

lemma release_held_free: "holder (release_held p s) \<noteq> Some p"
  using release_own by (simp add: release_held_def)

lemma release_held_other: "holder s \<noteq> Some p \<Longrightarrow> release_held p s = s"
  by (simp add: release_held_def)

lemma handover:
  assumes "p \<noteq> 0" "q \<noteq> 0" "holder s = None" "\<forall>op\<in>set ops. lock_op_pid op \<noteq> p"
  shows "holder (snd (acquire q (snd (release p (steps ops (snd (acquire p s))))))) = Some q"
proof -
  have "holder (snd (acquire p s)) = Some p" using assms acquire_free by blast
  moreover from this have "steps ops (snd (acquire p s)) = snd (acquire p s)"
    using assms steps_other by blast
  ultimately show ?thesis using assms release_own acquire_free by metis
qed

end

definition lock_holder :: "'d session \<Rightarrow> pid option" where
  "lock_holder s = (if lpid s = 0 then None else Some (lpid s))"

lemmas lock_defs = lock_def unlock_def trylock_def lock_holder_def

interpretation session_lock: lock_contract lock unlock trylock lock_holder
  by unfold_locales (auto simp: lock_defs split: if_splits)

subsection \<open>Consequences\<close>

lemma trylock_iff: "trylock p s = None \<longleftrightarrow> lpid s = 0 \<or> lpid s = p"
  by (simp add: trylock_def)

lemma trylock_denied: "lpid s = K \<Longrightarrow> K \<noteq> 0 \<Longrightarrow> p \<noteq> K \<Longrightarrow> trylock p s = Some (denied_by K)"
  by (simp add: trylock_def)

lemma lock_other [simp]: "lpid s \<noteq> 0 \<Longrightarrow> snd (lock p s) = s"
  by (simp add: lock_def)

lemma unlock_other [simp]: "lpid s \<noteq> p \<Longrightarrow> snd (unlock p s) = s"
  by (simp add: unlock_def)

lemma lock_free [simp]: "lpid s = 0 \<Longrightarrow> snd (lock p s) = s\<lparr>lpid := p\<rparr>"
  by (simp add: lock_def)

lemma unlock_own [simp]: "lpid s = p \<Longrightarrow> snd (unlock p s) = s\<lparr>lpid := 0\<rparr>"
  by (simp add: unlock_def)

end
