(* ===== verification/Oper_State.thy ===== *)
theory Oper_State
  imports Session_World
begin

text \<open>
  \<open>session/session_state.go\<close>: adding operational state to a copy of the
  configuration tree. A union node is a position in a tree; running a state
  script at a node and unmarshalling what it prints changes the tree. The walk
  over the children follows the schema, so it takes fuel that bounds its depth;
  \<open>addStateToTree_total\<close> shows that the size of the schema is enough.
\<close>

subsection \<open>One node\<close>

definition isEmptyJson :: "string \<Rightarrow> bool" where
  "isEmptyJson j = (let t = TrimSpace j in t = '''' \<or> t = ''{}'')"

abbreviation node_schema :: "'d libs \<Rightarrow> 'd unode \<Rightarrow> path \<Rightarrow> snode" where
  "node_schema L ut pos \<equiv> union_NodeSchema L (u_schema ut) pos"

fun setOperState_loop ::
  "'d libs \<Rightarrow> snode \<Rightarrow> path \<Rightarrow> path \<Rightarrow> string list \<Rightarrow> error list \<times> 'd unode \<Rightarrow> error list \<times> 'd unode" where
  "setOperState_loop L sch ctxpos p [] (ws, ut) = (ws, ut)"
| "setOperState_loop L sch ctxpos p (v # vs) (ws, ut) =
    (if isEmptyJson v then setOperState_loop L sch ctxpos p vs (ws, ut)
     else if \<not> json_Valid L v then
       setOperState_loop L sch ctxpos p vs
         (ws @ [OperationFailedApplicationError
            (Some (''Invalidly formatted data returned for ('' @ reflect_TypeOf L sch @ '')''
                   @ sn_name sch @ '': '' @ v)) (Some p)], ut)
     else
       (let (warn, d) = union_UnmarshalState L ut ctxpos v;
            ut' = ut\<lparr>u_underlay := Some d\<rparr>
        in case warn of
             None \<Rightarrow> setOperState_loop L sch ctxpos p vs (ws, ut')
           | Some msg \<Rightarrow> setOperState_loop L sch ctxpos p vs
               (ws @ [OperationFailedApplicationError
                  (Some (''Failed to process returned data for ('' @ reflect_TypeOf L sch @ '')''
                         @ sn_name sch @ '': '' @ msg @ [CHR 0x0A] @ v)) (Some p)], ut')))"

definition setOperState ::
  "'d libs \<Rightarrow> 'd world \<Rightarrow> path \<Rightarrow> path \<Rightarrow> 'd unode \<Rightarrow> error list \<times> 'd unode" where
  "setOperState L w pos p ut =
    (let sch = node_schema L ut pos; k = sn_kind sch in
     if k = KLeafValue \<or> k = KListEntry then ([], ut)
     else
       let ctxpos = (if k = KLeaf \<or> k = KLeafList then butlast pos else pos);
           (js, warns) = union_GetStateJson L w ut pos p
       in setOperState_loop L sch ctxpos p js (warns, ut))"

definition getOperChild :: "'d libs \<Rightarrow> path \<Rightarrow> string \<Rightarrow> 'd unode \<Rightarrow> bool \<times> 'd unode" where
  "getOperChild L pos name ut =
    (if union_HasChild L ut pos name then (True, ut)
     else if name \<in> set (map sn_name (schema_StateChildren L (node_schema L ut pos))) then
       (let ut' = ut\<lparr>u_underlay := Some (union_AddChild L ut pos (data_New L name))\<rparr>
        in (union_HasChild L ut' pos name, ut'))
     else (False, ut))"

subsection \<open>A subtree\<close>

text \<open>
  \<open>None\<close> is running out of fuel; \<open>Some (Inl e)\<close> the nil dereference the Go code
  would hit if a state child it has just added could not be found.
\<close>

type_synonym 'd walk = "(error list \<times> 'd unode) result option"

fun walk_bind :: "'d walk \<Rightarrow> (error list \<times> 'd unode \<Rightarrow> 'd walk) \<Rightarrow> 'd walk" where
  "walk_bind None f = None"
| "walk_bind (Some (Inl e)) f = Some (Inl e)"
| "walk_bind (Some (Inr x)) f = f x"

fun walk_list :: "('a \<Rightarrow> 'd unode \<Rightarrow> 'd walk) \<Rightarrow> 'a list \<Rightarrow> error list \<times> 'd unode \<Rightarrow> 'd walk" where
  "walk_list f [] (ws, ut) = Some (Inr (ws, ut))"
| "walk_list f (x # xs) (ws, ut) =
    walk_bind (f x ut) (\<lambda>(ws', ut'). walk_list f xs (ws @ ws', ut'))"

definition skip_state_child :: "snode \<Rightarrow> string list \<Rightarrow> snode \<Rightarrow> bool" where
  "skip_state_child sch has_run v \<longleftrightarrow>
    sn_name v \<in> set has_run \<or>
    (sn_kind sch = KListEntry \<and> s_keys (sn_info sch) \<noteq> [] \<and> sn_name v = hd (s_keys (sn_info sch)))"

fun setAllOperState :: "nat \<Rightarrow> 'd libs \<Rightarrow> 'd world \<Rightarrow> path \<Rightarrow> path \<Rightarrow> 'd unode \<Rightarrow> 'd walk"
  and setChildrenOperState :: "nat \<Rightarrow> 'd libs \<Rightarrow> 'd world \<Rightarrow> path \<Rightarrow> path \<Rightarrow> 'd unode \<Rightarrow> 'd walk" where
  "setAllOperState n L w pos p ut =
    (let (ws, ut1) = setOperState L w pos p ut
     in walk_bind (setChildrenOperState n L w pos p ut1) (\<lambda>(ws', ut2). Some (Inr (ws @ ws', ut2))))"
| "setChildrenOperState 0 L w pos p ut = None"
| "setChildrenOperState (Suc n) L w pos p ut =
    (let names = union_ChildNames L ut pos; sch = node_schema L ut pos
     in walk_bind (walk_list (\<lambda>name. setAllOperState n L w (pos @ [name]) (p @ [name])) names ([], ut))
        (\<lambda>(ws, ut1).
          if sn_kind sch = KList then Some (Inr (ws, ut1))
          else walk_list
            (\<lambda>v ut. if skip_state_child sch names v then Some (Inr ([], ut))
               else let ut' = ut\<lparr>u_underlay := Some (union_AddChild L ut pos (data_New L (sn_name v)))\<rparr>
                    in if union_HasChild L ut' pos (sn_name v)
                       then setAllOperState n L w (pos @ [sn_name v]) (p @ [sn_name v]) ut'
                       else Some (Inl (RuntimePanic ''nil pointer dereference'')))
            (schema_StateChildren L sch) (ws, ut1)))"

declare setAllOperState.simps [simp del] setChildrenOperState.simps(2) [simp del]

subsection \<open>The path to the target\<close>

record errorAndWarnings =
  ew_err :: "error option"
  ew_warns :: "error list"

fun addState_path ::
  "'d libs \<Rightarrow> 'd world \<Rightarrow> path \<Rightarrow> path \<Rightarrow> error list \<times> 'd unode \<Rightarrow> error option \<times> error list \<times> 'd unode" where
  "addState_path L w current [] (ws, ut) = (None, ws, ut)"
| "addState_path L w current (p # ps) (ws, ut) =
    (let (found, ut1) = getOperChild L current p ut in
     if \<not> found then (Some (UnknownElementApplicationError p (Some current)), ws, ut1)
     else
       let (ws', ut2) = setOperState L w (current @ [p]) (current @ [p]) ut1
       in addState_path L w (current @ [p]) ps (ws @ ws', ut2))"

definition addStateToTree ::
  "nat \<Rightarrow> 'd libs \<Rightarrow> 'd world \<Rightarrow> 'd unode \<Rightarrow> path \<Rightarrow> (errorAndWarnings \<times> 'd unode) result option" where
  "addStateToTree n L w ut p =
    (case addState_path L w [] p ([], ut) of
       (Some e, ws, ut') \<Rightarrow> Some (Inr (\<lparr>ew_err = Some e, ew_warns = ws\<rparr>, ut'))
     | (None, ws, ut') \<Rightarrow>
         (case setChildrenOperState n L w p p ut' of
            None \<Rightarrow> None
          | Some (Inl e) \<Rightarrow> Some (Inl e)
          | Some (Inr (ws', ut2)) \<Rightarrow> Some (Inr (\<lparr>ew_err = None, ew_warns = ws @ ws'\<rparr>, ut2))))"

subsection \<open>The schema is never changed and bounds the walk\<close>

lemma setOperState_loop_schema [simp]:
  "u_schema (snd (setOperState_loop L sch c p vs x)) = u_schema (snd x)"
  by (induction L sch c p vs x rule: setOperState_loop.induct)
    (auto simp: Let_def split: prod.splits option.splits)

lemma setOperState_schema [simp]: "u_schema (snd (setOperState L w pos p ut)) = u_schema ut"
  by (auto simp: setOperState_def Let_def split: prod.splits)

lemma getOperChild_schema [simp]: "u_schema (snd (getOperChild L pos name ut)) = u_schema ut"
  by (simp add: getOperChild_def Let_def)

lemma addState_path_schema [simp]:
  "u_schema (snd (snd (addState_path L w c ps x))) = u_schema (snd x)"
proof (induction L w c ps x rule: addState_path.induct)
  case (2 L w current p ps ws ut)
  obtain f ut1 where g: "getOperChild L current p ut = (f, ut1)" by fastforce
  obtain ws' ut2 where s: "setOperState L w (current @ [p]) (current @ [p]) ut1 = (ws', ut2)" by fastforce
  have "u_schema ut1 = u_schema ut" "u_schema ut2 = u_schema ut1"
    using getOperChild_schema [of L current p ut] g
      setOperState_schema [of L w "current @ [p]" "current @ [p]" ut1] s by simp_all
  then show ?case using 2 [OF g [symmetric] refl _ s [symmetric]] g s by auto
qed simp

text \<open>
  What the walk relies on: the child of a tree node and the state children of a
  schema node lead to smaller schema nodes.
\<close>

definition schema_descends :: "'d libs \<Rightarrow> snode \<Rightarrow> bool" where
  "schema_descends L root \<longleftrightarrow> (\<forall>ut pos name. u_schema ut = root \<longrightarrow>
     name \<in> set (union_ChildNames L ut pos) \<or> union_HasChild L ut pos name \<longrightarrow>
     size (union_NodeSchema L root (pos @ [name])) < size (union_NodeSchema L root pos))"

definition walk_ok :: "snode \<Rightarrow> 'd walk \<Rightarrow> bool" where
  "walk_ok root r \<longleftrightarrow> (case r of None \<Rightarrow> False | Some (Inl e) \<Rightarrow> True | Some (Inr (ws, ut)) \<Rightarrow> u_schema ut = root)"

lemma walk_ok_simps [simp]:
  "\<not> walk_ok root None" "walk_ok root (Some (Inl e))"
  "walk_ok root (Some (Inr (ws, ut))) \<longleftrightarrow> u_schema ut = root"
  by (simp_all add: walk_ok_def)

lemma walk_ok_bind:
  assumes "walk_ok root r" "\<And>ws ut. u_schema ut = root \<Longrightarrow> walk_ok root (f (ws, ut))"
  shows "walk_ok root (walk_bind r f)"
  using assms by (cases "(r, f)" rule: walk_bind.cases) auto

lemma walk_ok_list:
  assumes "\<And>x ut. x \<in> set xs \<Longrightarrow> u_schema ut = root \<Longrightarrow> walk_ok root (f x ut)" "u_schema ut = root"
  shows "walk_ok root (walk_list f xs (ws, ut))"
  using assms by (induction xs arbitrary: ws ut) (auto intro!: walk_ok_bind)

lemma walk_ok_all:
  assumes "\<And>ut'. u_schema ut' = root \<Longrightarrow> walk_ok root (setChildrenOperState n L w pos p ut')"
    and "u_schema ut = root"
  shows "walk_ok root (setAllOperState n L w pos p ut)"
proof -
  obtain ws ut1 where s: "setOperState L w pos p ut = (ws, ut1)" by fastforce
  then have "u_schema ut1 = root" using setOperState_schema [of L w pos p ut] assms by simp
  then show ?thesis
    using assms s by (auto simp: setAllOperState.simps intro!: walk_ok_bind)
qed

lemma setChildrenOperState_ok:
  assumes "schema_descends L root" "u_schema ut = root" "size (union_NodeSchema L root pos) < n"
  shows "walk_ok root (setChildrenOperState n L w pos p ut)"
  using assms
proof (induction n arbitrary: pos p ut)
  case (Suc n)
  have sub: "walk_ok root (setAllOperState n L w (pos @ [name]) (p @ [name]) ut')"
    if "u_schema ut' = root" "u_schema v = root"
      "name \<in> set (union_ChildNames L v pos) \<or> union_HasChild L v pos name" for name ut' v
  proof -
    have "size (union_NodeSchema L root (pos @ [name])) < n"
      using Suc.prems(1,3) that(2,3) unfolding schema_descends_def by fastforce
    then show ?thesis using Suc.IH Suc.prems(1) that(1) by (intro walk_ok_all) auto
  qed
  show ?case
    unfolding setChildrenOperState.simps Let_def
  proof (intro walk_ok_bind walk_ok_list, goal_cases)
    case (1 name ut')
    then show ?case using sub [of ut' ut name] Suc.prems(2) by simp
  next
    case (3 ws ut1)
    have st: "walk_ok root (if skip_state_child sch names v then Some (Inr ([], ut'))
             else let ut'' = ut'\<lparr>u_underlay := Some (union_AddChild L ut' pos (data_New L (sn_name v)))\<rparr>
                  in if union_HasChild L ut'' pos (sn_name v)
                     then setAllOperState n L w (pos @ [sn_name v]) (p @ [sn_name v]) ut''
                     else Some (Inl (RuntimePanic ''nil pointer dereference'')))"
      if "u_schema ut' = root" for sch names v ut'
      using sub [of "ut'\<lparr>u_underlay := Some (union_AddChild L ut' pos (data_New L (sn_name v)))\<rparr>"
          "ut'\<lparr>u_underlay := Some (union_AddChild L ut' pos (data_New L (sn_name v)))\<rparr>" "sn_name v"] that
      by (simp add: Let_def)
    have lst: "walk_ok root (walk_list
            (\<lambda>v ut'. if skip_state_child sch names v then Some (Inr ([], ut'))
             else let ut'' = ut'\<lparr>u_underlay := Some (union_AddChild L ut' pos (data_New L (sn_name v)))\<rparr>
                  in if union_HasChild L ut'' pos (sn_name v)
                     then setAllOperState n L w (pos @ [sn_name v]) (p @ [sn_name v]) ut''
                     else Some (Inl (RuntimePanic ''nil pointer dereference''))) vs (ws, ut1))"
      for sch names vs
      using 3 st by (intro walk_ok_list)
    show ?case using 3 lst [unfolded Let_def] by simp
  qed (simp add: Suc.prems)
qed simp

lemma addStateToTree_total:
  assumes "schema_descends L (u_schema ut)" "size (node_schema L ut p) < n"
  shows "addStateToTree n L w ut p \<noteq> None"
proof -
  obtain e ws ut' where a: "addState_path L w [] p ([], ut) = (e, ws, ut')" by (metis surj_pair)
  then have "u_schema ut' = u_schema ut"
    using addState_path_schema [of L w "[]" p "([], ut)"] by simp
  then have "walk_ok (u_schema ut) (setChildrenOperState n L w p p ut')"
    using assms setChildrenOperState_ok by metis
  then show ?thesis
    using a by (auto simp: addStateToTree_def walk_ok_def split: option.splits sum.splits)
qed

end
