(* ===== verification/Session_Ops.thy ===== *)
theory Session_Ops
  imports Session_Lock Oper_State
begin

text \<open>
  The operations of \<open>session/session_internal.go\<close> that a session goroutine runs
  on its own state: the union views, \<open>set\<close>, \<open>del\<close>, the queries, \<open>validate\<close>,
  \<open>discard\<close>, \<open>marksaved\<close> and the tree reads. Every place where the Go code goes
  back to serving its request channel is a \<open>wait_async\<close>.
\<close>

subsection \<open>Authorization adapter\<close>

definition mk_auther :: "'d libs \<Rightarrow> bool \<Rightarrow> Context \<Rightarrow> 'd session \<Rightarrow> auther" where
  "mk_auther L showSecrets c s =
    (let attrs = schema_AttrsForPath L (ses_schemaFull s) in
     \<lparr>AuthRead = (\<lambda>p. Configd c \<or> AuthorizeRead (Auth c) (Uid c) (Groups c) p (attrs p)),
      AuthCreate = (\<lambda>p. Configd c \<or> AuthorizeCreate (Auth c) (Uid c) (Groups c) p (attrs p)),
      AuthUpdate = (\<lambda>p. Configd c \<or> AuthorizeUpdate (Auth c) (Uid c) (Groups c) p (attrs p)),
      AuthDelete = (\<lambda>p. Configd c \<or> AuthorizeDelete (Auth c) (Uid c) (Groups c) p (attrs p)),
      AuthReadSecrets = (\<lambda>p. showSecrets \<or> Configd c \<or> InSecretsGroup c)\<rparr>)"

definition newAuther :: "'d libs \<Rightarrow> Context \<Rightarrow> 'd session \<Rightarrow> auther" where
  "newAuther L c s = mk_auther L False c s"

definition newShowSecAuther :: "'d libs \<Rightarrow> Context \<Rightarrow> 'd session \<Rightarrow> auther" where
  "newShowSecAuther L c s = mk_auther L True c s"

subsection \<open>Views of the configuration\<close>

definition getUnion :: "'d world \<Rightarrow> 'd unode" where
  "getUnion w = \<lparr>u_overlay = Some (candidate (w_sess w)), u_underlay = cm_running (w_cmgr w),
                 u_schema = ses_schema (w_sess w)\<rparr>"

definition getUnionFull :: "'d libs \<Rightarrow> 'd world \<Rightarrow> 'd unode" where
  "getUnionFull L w = \<lparr>u_overlay = Some (union_Merge L (getUnion w)), u_underlay = Some (data_New L ''state''),
                       u_schema = ses_schemaFull (w_sess w)\<rparr>"

definition getRunning :: "'d libs \<Rightarrow> 'd world \<Rightarrow> 'd" where
  "getRunning L w = union_Merge L \<lparr>u_overlay = None, u_underlay = cm_running (w_cmgr w),
                                   u_schema = ses_schema (w_sess w)\<rparr>"

definition mergetree :: "'d libs \<Rightarrow> bool \<Rightarrow> 'd world \<Rightarrow> 'd" where
  "mergetree L defaults w =
    (if \<not> defaults then union_MergeWithoutDefaults L (getUnion w) else union_Merge L (getUnion w))"

definition existsInTree :: "'d libs \<Rightarrow> 'd unode \<Rightarrow> auther \<Rightarrow> path \<Rightarrow> bool \<Rightarrow> bool" where
  "existsInTree L ut au p def =
    (let ex = union_Exists L ut au p in
     if def then ex = None
     else if \<not> fst (union_IsDefault L ut au p) then ex = None
     else False)"

subsection \<open>Changing the candidate\<close>

text \<open>\<open>UnknownElement\<close> with the parent path; Go panics on an empty path.\<close>

definition unknown_element :: "path \<Rightarrow> error" where
  "unknown_element p =
    (if p = [] then RuntimePanic ''index out of range''
     else UnknownElementApplicationError (last p) (Some (butlast p)))"

definition validateSetPath ::
  "'d libs \<Rightarrow> Context \<Rightarrow> path \<Rightarrow> bool \<Rightarrow> bool \<Rightarrow> ('d, error option) op" where
  "validateSetPath L c p allowIncompletePaths useFullSchema = do {
     s \<leftarrow> sess;
     wait_async;
     w \<leftarrow> the_world;
     ret (schema_Validate L w (if useFullSchema then ses_schemaFull s else ses_schema s)
            \<lparr>CurPath = p, v_Sid = sid s, v_Noexec = Noexec c,
             IncompletePathIsValid = allowIncompletePaths\<rparr> p) }"

definition run_subst :: "'d libs \<Rightarrow> path \<Rightarrow> string \<Rightarrow> ('d, error option) op" where
  "run_subst L p sub = do {
     wait_async;
     w \<leftarrow> the_world;
     emit (EvExec (sid (w_sess w)) p sub);
     ret (exec_Exec L w (sid (w_sess w)) p sub) }"

definition union_set :: "'d libs \<Rightarrow> Context \<Rightarrow> path \<Rightarrow> ('d, error option) op" where
  "union_set L c p = do {
     w \<leftarrow> the_world;
     let (e, d) = union_Set L (getUnion w) (newAuther L c (w_sess w)) p;
     upd_sess (\<lambda>s. s\<lparr>candidate := d\<rparr>);
     ret e }"

definition union_delete :: "'d libs \<Rightarrow> Context \<Rightarrow> path \<Rightarrow> bool \<Rightarrow> ('d, error option) op" where
  "union_delete L c p checkAuth = do {
     w \<leftarrow> the_world;
     let (e, d) = union_Delete L (getUnion w) (newAuther L c (w_sess w)) p checkAuth;
     upd_sess (\<lambda>s. s\<lparr>candidate := d\<rparr>);
     ret e }"

definition set_internal :: "'d libs \<Rightarrow> Context \<Rightarrow> path \<Rightarrow> ('d, error option) op" where
  "set_internal L c p = do {
     e \<leftarrow> validateSetPath L c p False False;
     (case e of
        Some err \<Rightarrow> ret (Some err)
      | None \<Rightarrow> do {
          s \<leftarrow> sess;
          (case schema_Descendant L (ses_schema s) p of
             None \<Rightarrow> ret (Some (unknown_element p))
           | Some sch \<Rightarrow>
               if s_subst (sn_info sch) \<noteq> [] then do {
                 r \<leftarrow> for_err (run_subst L p) (s_subst (sn_info sch));
                 wait_async;
                 ret r }
               else union_set L c p) }) }"

definition set_cfg :: "'d libs \<Rightarrow> Context \<Rightarrow> path \<Rightarrow> ('d, error option) op" where
  "set_cfg L c p = do {
     w \<leftarrow> the_world;
     (case trylock (Pid c) (w_sess w) of
        Some err \<Rightarrow> ret (Some err)
      | None \<Rightarrow>
          let sauth = newAuther L c (w_sess w) in
          if existsInTree L (getUnion w) sauth p False then
            (if \<not> AuthUpdate sauth p then ret (Some (AccessDeniedApplicationError None))
             else set_internal L c p)
          else
            (if \<not> AuthCreate sauth p then ret (Some (AccessDeniedApplicationError None))
             else set_internal L c p)) }"

definition del :: "'d libs \<Rightarrow> Context \<Rightarrow> path \<Rightarrow> ('d, error option) op" where
  "del L c p = do {
     w \<leftarrow> the_world;
     (case trylock (Pid c) (w_sess w) of
        Some err \<Rightarrow> ret (Some err)
      | None \<Rightarrow> union_delete L c p False) }"

definition comment :: "Context \<Rightarrow> path \<Rightarrow> ('d, error option) op" where
  "comment c p = do {
     s \<leftarrow> sess;
     (case trylock (Pid c) s of Some err \<Rightarrow> ret (Some err) | None \<Rightarrow> ret None) }"

definition marksaved :: "Context \<Rightarrow> bool \<Rightarrow> ('d, error option) op" where
  "marksaved c b = do {
     s \<leftarrow> sess;
     (case trylock (Pid c) s of
        Some err \<Rightarrow> ret (Some err)
      | None \<Rightarrow> do { upd_sess (\<lambda>s. s\<lparr>saved := b\<rparr>); ret None }) }"

definition discard :: "'d libs \<Rightarrow> Context \<Rightarrow> ('d, error option) op" where
  "discard L c = do {
     s \<leftarrow> sess;
     (case trylock (Pid c) s of
        Some err \<Rightarrow> ret (Some err)
      | None \<Rightarrow> do { upd_sess (\<lambda>s. s\<lparr>candidate := data_New L ''root''\<rparr>); ret None }) }"

subsection \<open>Queries\<close>

definition get :: "'d libs \<Rightarrow> Context \<Rightarrow> path \<Rightarrow> 'd world \<Rightarrow> string list \<times> error option" where
  "get L c p w = union_Get L (getUnion w) (newAuther L c (w_sess w)) p"

definition gettype :: "'d libs \<Rightarrow> path \<Rightarrow> 'd world \<Rightarrow> NodeType \<times> error option" where
  "gettype L p w =
    (case schema_Descendant L (ses_schema (w_sess w)) p of
       None \<Rightarrow> (CONTAINER, None)
     | Some sch \<Rightarrow> (case sn_kind sch of
         KTree \<Rightarrow> (CONTAINER, None)
       | KContainer \<Rightarrow> (CONTAINER, None)
       | KList \<Rightarrow> (LIST, None)
       | KListEntry \<Rightarrow> (CONTAINER, None)
       | KLeaf \<Rightarrow> (LEAF, None)
       | KLeafList \<Rightarrow> (LEAF_LIST, None)
       | KLeafValue \<Rightarrow> (LEAF, None)
       | _ \<Rightarrow> (CONTAINER, None)))"

definition status_of_diff :: "diffinfo \<Rightarrow> NodeStatus" where
  "status_of_diff d =
    (let isLeafVal = (df_kind d = KLeafValue);
         parentIsLeaf = (case df_parent d of None \<Rightarrow> False | Some (k, _) \<Rightarrow> k = KLeaf);
         parentIsLeafList = (case df_parent d of None \<Rightarrow> False | Some (k, _) \<Rightarrow> k = KLeafList);
         parentChanged = (case df_parent d of None \<Rightarrow> False | Some (_, ch) \<Rightarrow> ch)
     in if df_deleted d then DELETED
        else if isLeafVal \<and> parentIsLeaf then CHANGED
        else if df_added d then ADDED
        else if df_changed d then CHANGED
        else if isLeafVal \<and> parentIsLeafList \<and> parentChanged then CHANGED
        else UNCHANGED)"

definition diff_lookup :: "difftree \<Rightarrow> path \<Rightarrow> NodeStatus \<times> error option" where
  "diff_lookup t p = (case t p of
     None \<Rightarrow> (UNCHANGED, Some (NodeNotExistsError p))
   | Some d \<Rightarrow> (status_of_diff d, None))"

definition getstatus ::
  "'d libs \<Rightarrow> Context \<Rightarrow> path \<Rightarrow> difftree option \<Rightarrow> 'd world \<Rightarrow> NodeStatus \<times> error option" where
  "getstatus L c p diffCache w =
    (if p = [] then (UNCHANGED, None)
     else case diffCache of
       Some t \<Rightarrow> diff_lookup t p
     | None \<Rightarrow>
        (let sauth = newAuther L c (w_sess w);
             ppath = butlast p;
             can = map_option (union_Merge L) (fst (union_Descendant L (getUnion w) sauth ppath));
             rt = \<lparr>u_overlay = None, u_underlay = cm_running (w_cmgr w), u_schema = ses_schema (w_sess w)\<rparr>;
             run = map_option (union_Merge L) (fst (union_Descendant L rt sauth ppath))
         in case diff_NewNode L can run (schema_Descendant L (ses_schema (w_sess w)) ppath) of
              None \<Rightarrow> (UNCHANGED, Some (NodeNotExistsError ppath))
            | Some t \<Rightarrow> diff_lookup t [last p]))"

definition isdefault :: "'d libs \<Rightarrow> Context \<Rightarrow> path \<Rightarrow> 'd world \<Rightarrow> bool \<times> error option" where
  "isdefault L c p w =
    (if p = [] then (False, None)
     else union_IsDefault L (getUnion w) (newAuther L c (w_sess w)) p)"

definition show_config ::
  "'d libs \<Rightarrow> Context \<Rightarrow> path \<Rightarrow> bool \<Rightarrow> bool \<Rightarrow> bool \<Rightarrow> 'd world \<Rightarrow> string \<times> error option" where
  "show_config L c p hideSecrets showDefaults forceShowSecrets w =
    (let options = [Authorizer (newAuther L c (w_sess w))]
           @ (if hideSecrets then [HideSecrets] else [])
           @ (if showDefaults then [IncludeDefaults] else [])
           @ (if forceShowSecrets then [ForceShowSecrets] else []);
         (out, e) = union_Show L (getUnion w) p options
     in case e of Some err \<Rightarrow> ('''', Some err) | None \<Rightarrow> (out, None))"

definition gethelp :: "'d libs \<Rightarrow> Context \<Rightarrow> bool \<Rightarrow> path \<Rightarrow> 'd world \<Rightarrow> string \<rightharpoonup> string" where
  "gethelp L c fromSchema p w =
    fst (union_GetHelp L (getUnion w) (newAuther L c (w_sess w)) fromSchema p)"

subsection \<open>Paths that could exist\<close>

fun pathsEqual_loop :: "path \<Rightarrow> path \<Rightarrow> bool" where
  "pathsEqual_loop (x # xs) (y # ys) = (if x \<noteq> y then False else pathsEqual_loop xs ys)"
| "pathsEqual_loop _ _ = True"

definition pathsEqual :: "path \<Rightarrow> path \<Rightarrow> bool" where
  "pathsEqual first second =
    (if length first \<noteq> length second then False else pathsEqual_loop first second)"

definition nodeFinder :: "snode \<Rightarrow> path \<Rightarrow> path \<Rightarrow> bool \<times> bool" where
  "nodeFinder targetNode nodeToFind p =
    (if \<not> pathsEqual (p @ [sn_name targetNode]) nodeToFind then (False, True) else (True, True))"

definition pathCouldExist :: "'d libs \<Rightarrow> snode \<Rightarrow> path \<Rightarrow> bool" where
  "pathCouldExist L ms p \<longleftrightarrow> schema_FindOrWalk L ms p nodeFinder \<noteq> None"

lemma pathsEqual_iff [simp]: "pathsEqual xs ys \<longleftrightarrow> xs = ys"
proof -
  have "length xs = length ys \<Longrightarrow> pathsEqual_loop xs ys \<longleftrightarrow> xs = ys"
    by (induction xs ys rule: pathsEqual_loop.induct) auto
  then show ?thesis by (auto simp: pathsEqual_def)
qed

subsection \<open>Reading trees\<close>

record TreeOpts =
  Defaults :: bool
  Secrets :: bool
  CouldExistIsAllowed :: bool

definition gettree ::
  "'d libs \<Rightarrow> Context \<Rightarrow> path \<Rightarrow> TreeOpts \<Rightarrow> ('d, 'd unode option \<times> error option) op" where
  "gettree L c p opts = do {
     w \<leftarrow> the_world;
     let ut = getUnion w;
     if \<not> existsInTree L ut (newAuther L c (w_sess w)) p (Defaults opts) then do {
       ok \<leftarrow> (if CouldExistIsAllowed opts
              then do { e \<leftarrow> validateSetPath L c p True False; ret (e = None) }
              else ret False);
       if ok then ret (None, None) else ret (None, Some (unknown_element p)) }
     else ret (union_Descendant L ut (newAuther L c (w_sess w)) p) }"

definition msgPad :: "string \<Rightarrow> string" where
  "msgPad msg = (let padLen = (if length msg < 40 then 40 - length msg else 0)
                 in msg @ '': '' @ take padLen (replicate 50 CHR '' ''))"

definition stateErrLogEnabled :: "'d world \<Rightarrow> bool" where
  "stateErrLogEnabled w = LoggingIsEnabledAtLevel (w_dbg w) LevelError TypeState"

definition stateDbgLogEnabled :: "'d world \<Rightarrow> bool" where
  "stateDbgLogEnabled w = LoggingIsEnabledAtLevel (w_dbg w) LevelDebug TypeState"

definition logStateTime :: "bool \<Rightarrow> string \<Rightarrow> ('d, unit) op" where
  "logStateTime logger msg = (if \<not> logger then ret () else emit (EvLogTime (''STATE: '' @ msgPad msg)))"

definition logStateEvent :: "bool \<Rightarrow> string \<Rightarrow> ('d, unit) op" where
  "logStateEvent logger msg = (if \<not> logger then ret () else emit (EvElog (''STATE: '' @ msg)))"

text \<open>
  \<open>getfulltree\<close>. The result is the node, the fatal error and the warnings. The
  fuel of the state walk is the size of the full schema's node at the path, which
  is enough by \<open>addStateToTree_total\<close> when the children of a schema node are smaller than the node
  (\<open>schema_descends\<close>); the debug logger only receives the times of the scripts and is left out; running out of it cannot be confused with
  an answer of the code.
\<close>

definition full_filter ::
  "'d libs \<Rightarrow> Context \<Rightarrow> path \<Rightarrow> TreeOpts \<Rightarrow> bool \<Rightarrow> error list \<Rightarrow> 'd unode
    \<Rightarrow> ('d, 'd unode option \<times> error option \<times> error list) op" where
  "full_filter L c p opts elog warns ut = do {
     s \<leftarrow> sess;
     if \<not> existsInTree L ut (newAuther L c s) p (Defaults opts) then
       if CouldExistIsAllowed opts \<and> pathCouldExist L (ses_schemaFull s) p then ret (None, None, warns)
       else if p = [] then ret (None, Some (RuntimePanic ''index out of range''), warns)
       else ret (None, None, warns)
     else do {
       logStateTime elog ''Filtering'';
       logStateTime elog (''Overall for path '' @ [CHR 0x27] @ Sprint_path p @ [CHR 0x27]);
       (let (out, e) = union_Descendant L ut (newAuther L c s) p in ret (out, e, warns)) } }"

definition full_convert ::
  "'d libs \<Rightarrow> Context \<Rightarrow> path \<Rightarrow> TreeOpts \<Rightarrow> bool \<Rightarrow> error list \<Rightarrow> 'd unode
    \<Rightarrow> ('d, 'd unode option \<times> error option \<times> error list) op" where
  "full_convert L c p opts elog warns ut = do {
     s \<leftarrow> sess;
     let (ft, e1) = rfc7951_Unmarshal L
           (union_ToRFC7951 L ut [Authorizer (newAuther L c s), ForceShowSecrets]);
     if e1 \<noteq> None then ret (None, e1, []) else do {
       logStateTime elog ''Convert to RFC7951 data tree'';
       logStateEvent elog ''Start VCI scripts'';
       w \<leftarrow> the_world;
       let (ft', e2) = comp_GetState L w (ses_schemaFull s) ut ft;
       if e2 \<noteq> None then ret (None, e2, []) else do {
         logStateTime elog ''End VCI scripts'';
         let (d, e3) = rfc7951_Marshal L ft';
         if e3 \<noteq> None then ret (None, e3, []) else do {
           logStateTime elog ''Marshal RFC7951 data'';
           let (ut', e4) = union_Unmarshal L EncRFC7951 True (ses_schemaFull s) d;
           if e4 \<noteq> None then ret (None, e4, []) else do {
             logStateTime elog ''Validate back into union tree'';
             full_filter L c p opts elog warns ut' } } } } }"

definition getfulltree ::
  "'d libs \<Rightarrow> Context \<Rightarrow> path \<Rightarrow> TreeOpts \<Rightarrow> ('d, 'd unode option \<times> error option \<times> error list) op" where
  "getfulltree L c p opts = do {
     w \<leftarrow> the_world;
     let elog = stateErrLogEnabled w;
     let ut = getUnionFull L w;
     logStateEvent elog (''Start getfulltree '' @ [CHR 0x27] @ Sprint_path p @ [CHR 0x27] @ '' operation.'');
     wait_async;
     w \<leftarrow> the_world;
     (case addStateToTree (Suc (size (node_schema L ut p))) L w ut p of
        None \<Rightarrow> ret (None, Some (RuntimePanic ''stack overflow''), [])
      | Some (Inl e) \<Rightarrow> ret (None, Some e, [])
      | Some (Inr (ew, ut')) \<Rightarrow> do {
          bad \<leftarrow> (if ew_err ew \<noteq> None \<and> CouldExistIsAllowed opts
                 then do { e \<leftarrow> validateSetPath L c p True True; ret (e \<noteq> None) }
                 else ret False);
          if bad then ret (None, ew_err ew, ew_warns ew)
          else do {
            logStateTime elog ''Legacy scripts'';
            full_convert L c p opts elog (ew_warns ew) ut' } }) }"

end
