(* ===== verification/Commit_Mgr.thy ===== *)
theory Commit_Mgr
  imports Session_Ops
begin

text \<open>
  \<open>session/commit.go\<close> and \<open>session/commitmgr.go\<close>: the commit context handed to the
  commit package, and the commit manager that serialises commits, drives the
  effective session and replaces the running tree. Times are not modelled: a
  timing log line is an event with its (padded) message.
\<close>

subsection \<open>Calling a session through its API\<close>

text \<open>
  The wrappers of \<open>session/session.go\<close> hand a request to the session goroutine,
  or answer with a default when the session has terminated. The ones below are
  called on the effective session by the commit code.
\<close>

definition api_call :: "'a \<Rightarrow> ('d, 'a) op \<Rightarrow> ('d, 'a) op" where
  "api_call dflt m = do { s \<leftarrow> sess; if terminated s then ret dflt else m }"

definition on_effective :: "('d, 'a) op \<Rightarrow> ('d, 'a) op" where
  "on_effective m = do {
     w \<leftarrow> the_world;
     upd_world (\<lambda>v. v\<lparr>w_sess := cm_effective (w_cmgr v)\<rparr>);
     a \<leftarrow> m;
     upd_world (\<lambda>v. v\<lparr>w_sess := w_sess w, w_cmgr := (w_cmgr v)\<lparr>cm_effective := w_sess v\<rparr>\<rparr>);
     ret a }"

definition Session_Set :: "'d libs \<Rightarrow> Context \<Rightarrow> path \<Rightarrow> ('d, error option) op" where
  "Session_Set L c p = api_call (Some sessTermError) (set_cfg L c p)"

definition Session_Delete :: "'d libs \<Rightarrow> Context \<Rightarrow> path \<Rightarrow> ('d, error option) op" where
  "Session_Delete L c p = api_call (Some sessTermError) (del L c p)"

definition Session_Discard :: "'d libs \<Rightarrow> Context \<Rightarrow> ('d, error option) op" where
  "Session_Discard L c = api_call (Some sessTermError) (discard L c)"

definition Session_MergeTreeWithoutDefaults :: "'d libs \<Rightarrow> ('d, 'd option) op" where
  "Session_MergeTreeWithoutDefaults L =
    api_call None (do { w \<leftarrow> the_world; ret (Some (mergetree L False w)) })"

definition Session_Show ::
  "'d libs \<Rightarrow> Context \<Rightarrow> path \<Rightarrow> bool \<Rightarrow> bool \<Rightarrow> ('d, string \<times> error option) op" where
  "Session_Show L c p hideSecrets showDefaults =
    api_call ('''', Some sessTermError)
      (do { w \<leftarrow> the_world; ret (show_config L c p hideSecrets showDefaults False w) })"

subsection \<open>The commit context\<close>

definition newctx ::
  "string \<Rightarrow> Context \<Rightarrow> 'd \<Rightarrow> 'd \<Rightarrow> snode \<Rightarrow> string \<Rightarrow> bool \<Rightarrow> int \<Rightarrow> 'd commitctx" where
  "newctx sd sctx can run sch message debug must =
    \<lparr>cc_debug = debug, cc_must = must, cc_candidate = can, cc_running = run, cc_schema = sch,
     cc_sid = sd, cc_sctx = sctx,
     cc_ctx = \<lparr>Configd = True, Auth = Auth sctx, Pid = SYSTEM, Uid = 0, User = '''', UserHome = '''',
               Groups = [], Superuser = False, Config = Config sctx, Noexec = True\<rparr>,
     cc_message = message\<rparr>"

definition pad :: "string \<Rightarrow> string" where
  "pad msg = (let padLen = (if length msg < 50 then 50 - length msg else 0)
              in msg @ '': '' @ take padLen (replicate 53 CHR '' ''))"

definition loggingEnabled :: "'d commitctx \<Rightarrow> 'd world \<Rightarrow> bool" where
  "loggingEnabled cc w =
    (if cc_debug cc then True
     else if LoggingIsEnabledAtLevel (w_dbg w) LevelError TypeCommit then True
     else False)"

definition LogCommitMsg :: "'d commitctx \<Rightarrow> string \<Rightarrow> ('d, unit) op" where
  "LogCommitMsg cc msg = do {
     w \<leftarrow> the_world;
     if loggingEnabled cc w then emit (EvElog (''COMMIT: '' @ msg)) else ret () }"

definition LogCommitTime :: "'d commitctx \<Rightarrow> string \<Rightarrow> ('d, unit) op" where
  "LogCommitTime cc msg = do {
     w \<leftarrow> the_world;
     if loggingEnabled cc w then emit (EvLogTime (''COMMIT: '' @ pad msg)) else ret () }"

definition commitctx_Set :: "'d libs \<Rightarrow> 'd commitctx \<Rightarrow> path \<Rightarrow> ('d, error option) op" where
  "commitctx_Set L cc p = on_effective (Session_Set L (cc_ctx cc) p)"

definition commitctx_Delete :: "'d libs \<Rightarrow> 'd commitctx \<Rightarrow> path \<Rightarrow> ('d, error option) op" where
  "commitctx_Delete L cc p = on_effective (Session_Delete L (cc_ctx cc) p)"

text \<open>
  \<open>commit.Validate\<close> of the package \<open>commit\<close>, a function of the world and the context. The scripts which that package
  runs to validate are its own and are not events here.
\<close>

definition commitctx_validate :: "'d libs \<Rightarrow> 'd commitctx \<Rightarrow> ('d, exec_output list \<times> error list \<times> bool) op" where
  "commitctx_validate L cc = do { w \<leftarrow> the_world; ret (commit_Validate L w cc) }"

definition execute_hooks ::
  "'d libs \<Rightarrow> string \<Rightarrow> string list \<Rightarrow> ('d, exec_output \<times> error option) op" where
  "execute_hooks L hookdir env = do {
     emit (EvDlog (''Executing '' @ hookdir @ '' hooks''));
     w \<leftarrow> the_world;
     emit (EvHook hookdir env);
     (let (out, failed) = run_parts L w hookdir env in
      case failed of
        Some stderr \<Rightarrow> ret (\<lparr>o_path = None, o_text = out\<rparr>,
                             Some (OperationFailedApplicationError (Some stderr) None))
      | None \<Rightarrow> ret (\<lparr>o_path = None, o_text = out\<rparr>, None)) }"

definition send_notify :: "'d commitctx \<Rightarrow> ('d, unit) op" where
  "send_notify cc = emit (EvNotify (Itoa (uint (Uid (cc_sctx cc)))) (Itoa (Pid (cc_sctx cc))))"

definition commit_status :: "nat \<Rightarrow> nat \<Rightarrow> string" where
  "commit_status successes failures = ''COMMIT_STATUS='' @
    (if failures > 0 then (if successes > 0 then ''PARTIAL'' else ''FAILURE'') else ''SUCCESS'')"

definition commitctx_commit ::
  "'d libs \<Rightarrow> 'd commitctx \<Rightarrow> string list \<Rightarrow> ('d, exec_output list \<times> error list \<times> bool \<times> string list) op" where
  "commitctx_commit L cc env = do {
     (outs, errs, successes, failures) \<leftarrow>
       commit_Commit L cc (commitctx_Set L cc) (commitctx_Delete L cc);
     (if successes > 0 then send_notify cc else ret ());
     ret (outs, errs, failures = 0, env @ [commit_status successes failures]) }"

subsection \<open>The commit manager\<close>

definition MakeCommitError :: "error \<Rightarrow> commitresp" where
  "MakeCommitError e = \<lparr>cr_out = [], cr_err = [e], cr_ok = False\<rparr>"

definition upd_cmgr :: "('d commit_mgr \<Rightarrow> 'd commit_mgr) \<Rightarrow> ('d, unit) op" where
  "upd_cmgr f = upd_world (\<lambda>w. w\<lparr>w_cmgr := f (w_cmgr w)\<rparr>)"

definition SetEffective :: "'d session \<Rightarrow> ('d, unit) op" where
  "SetEffective e = upd_cmgr (\<lambda>m. m\<lparr>cm_effective := e\<rparr>)"

definition writeRunning :: "'d libs \<Rightarrow> Context \<Rightarrow> ('d, error option) op" where
  "writeRunning L c = do {
     let file = Runfile (Config c);
     w \<leftarrow> the_world;
     (case os_Create L w file of
        Some e \<Rightarrow> ret (Some e)
      | None \<Rightarrow> do {
          emit (EvCreateFile file);
          (case os_Chmod L w file 384 of
             Some e \<Rightarrow> ret (Some e)
           | None \<Rightarrow> do {
               (out, e) \<leftarrow> on_effective (Session_Show L c [] False False);
               (case e of
                  Some err \<Rightarrow> ret (Some err)
                | None \<Rightarrow> do { emit (EvWriteFile file out); ret None }) }) }) }"

definition run_hooks ::
  "'d libs \<Rightarrow> string \<Rightarrow> string list \<Rightarrow> exec_output list \<times> error list
    \<Rightarrow> ('d, exec_output list \<times> error list) op" where
  "run_hooks L hookdir env acc = do {
     (hout, herr) \<leftarrow> execute_hooks L hookdir env;
     ret (fst acc @ [hout], snd acc @ (case herr of None \<Rightarrow> [] | Some e \<Rightarrow> [e])) }"

text \<open>\<open>rtree\<close>, \<open>run\<close>, \<open>mcan\<close> of \<open>CommitMgr.commit\<close> and the \<open>hadcommit\<close> latch.\<close>

definition commit_trees :: "'d libs \<Rightarrow> 'd \<Rightarrow> ('d, 'd unode \<times> 'd) op" where
  "commit_trees L cand = do {
     w \<leftarrow> the_world;
     let m = w_cmgr w;
     let under = \<lparr>u_overlay = None, u_underlay = cm_running m, u_schema = cm_schema m\<rparr>;
     let ucan = \<lparr>u_overlay = Some cand, u_underlay = cm_running m, u_schema = cm_schema m\<rparr>;
     if \<not> cm_hadcommit m then do {
       upd_cmgr (\<lambda>m. m\<lparr>cm_hadcommit := True\<rparr>);
       ret (ucan, union_MergeWithoutDefaults L under) }
     else ret (ucan, union_Merge L under) }"

text \<open>From the successful commit to the stored running tree.\<close>

definition store_running :: "'d libs \<Rightarrow> 'd commitctx \<Rightarrow> ('d, unit) op" where
  "store_running L cc = do {
     eff \<leftarrow> on_effective (Session_MergeTreeWithoutDefaults L);
     _ \<leftarrow> on_effective (Session_Discard L (cc_ctx cc));
     upd_cmgr (\<lambda>m. m\<lparr>cm_running := eff\<rparr>);
     _ \<leftarrow> writeRunning L (cc_ctx cc);
     LogCommitTime cc ''Write config'' }"

definition commit_pre ::
  "'d libs \<Rightarrow> 'd commitctx \<Rightarrow> 'd unode \<Rightarrow> string list \<Rightarrow> exec_output list \<times> error list
    \<Rightarrow> ('d, exec_output list \<times> error list) op" where
  "commit_pre L cc ucan env acc = do {
     (outs, errs) \<leftarrow> run_hooks L ''/etc/commit/pre-hooks.d'' env acc;
     LogCommitTime cc ''Pre-commit hooks'';
     w \<leftarrow> the_world;
     emit EvSetRunning;
     ret (outs @ comp_SetRunning L w (cc_schema cc) ucan (cc_candidate cc) (cc_running cc), errs) }"

definition commit_post ::
  "'d libs \<Rightarrow> 'd commitctx \<Rightarrow> string list \<Rightarrow> exec_output list \<times> error list \<Rightarrow> ('d, commitresp) op" where
  "commit_post L cc env acc = do {
     (outs, errs) \<leftarrow> run_hooks L ''/etc/commit/post-hooks.d'' (env @ [''COMMIT_COMMENT='' @ cc_message cc]) acc;
     LogCommitTime cc ''Post-commit hooks'';
     LogCommitTime cc ''Commit OVERALL'';
     LogCommitTime cc ''End of validation and commit'';
     ret \<lparr>cr_out = outs, cr_err = errs, cr_ok = True\<rparr> }"

definition commit_apply ::
  "'d libs \<Rightarrow> 'd commitctx \<Rightarrow> 'd unode \<Rightarrow> exec_output list \<Rightarrow> error list \<Rightarrow> string \<Rightarrow> ('d, commitresp) op" where
  "commit_apply L cc ucan outs errs username = do {
     (outs, errs) \<leftarrow> commit_pre L cc ucan [''COMMIT_USER='' @ username,
       ''PATH=/bin:/usr/bin:/sbin:/usr/sbin:/opt/vyatta/bin:/opt/vyatta/sbin''] (outs, errs);
     (couts, cerrs, _, env) \<leftarrow> commitctx_commit L cc [''COMMIT_USER='' @ username,
       ''PATH=/bin:/usr/bin:/sbin:/usr/sbin:/opt/vyatta/bin:/opt/vyatta/sbin''];
     store_running L cc;
     commit_post L cc env (outs @ couts, errs @ cerrs) }"

definition CommitMgr_commit ::
  "'d libs \<Rightarrow> string \<Rightarrow> Context \<Rightarrow> 'd \<Rightarrow> string \<Rightarrow> bool \<Rightarrow> ('d, commitresp) op" where
  "CommitMgr_commit L sd sctx cand message debug = do {
     (ucan, run) \<leftarrow> commit_trees L cand;
     w \<leftarrow> the_world;
     let mcan = union_Merge L ucan;
     let debug' = (debug \<or> LoggingIsEnabledAtLevel (w_dbg w) LevelDebug TypeCommit);
     let must = fst (LoggingValueAndStatus (w_dbg w) TypeMust);
     let cc = newctx sd sctx mcan run (cm_schema (w_cmgr w)) message debug' must;
     LogCommitMsg cc ''Starting validation and commit'';
     (outs, errs, ok) \<leftarrow> commitctx_validate L cc;
     if \<not> ok then ret \<lparr>cr_out = outs, cr_err = errs, cr_ok = ok\<rparr>
     else (case user_LookupId L (Itoa (uint (Uid sctx))) of
        None \<Rightarrow> ret \<lparr>cr_out = outs,
                    cr_err = errs @ [OperationFailedApplicationError (Some ''Could not lookup UID'') None],
                    cr_ok = False\<rparr>
      | Some username \<Rightarrow> commit_apply L cc ucan outs errs username) }"

text \<open>\<open>CommitMgr.Commit\<close> as one client of the \<open>run\<close> loop sees it.\<close>

definition CommitMgr_Commit ::
  "'d libs \<Rightarrow> string \<Rightarrow> Context \<Rightarrow> 'd \<Rightarrow> string \<Rightarrow> bool \<Rightarrow> ('d, commitresp) op" where
  "CommitMgr_Commit L sd sctx cand message debug = do {
     w \<leftarrow> the_world;
     if cm_inCommit (w_cmgr w) then ret (MakeCommitError (ResourceDeniedProtocolError ''Commit already in progress''))
     else do {
       upd_cmgr (\<lambda>m. m\<lparr>cm_inCommit := True\<rparr>);
       r \<leftarrow> CommitMgr_commit L sd sctx cand message debug;
       upd_cmgr (\<lambda>m. m\<lparr>cm_inCommit := False\<rparr>);
       ret r } }"

lemma run_upd_cmgr [simp, run_simps]:
  "run_state (upd_cmgr f) (w, es) = ((), w\<lparr>w_cmgr := f (w_cmgr w)\<rparr>, es)"
  by (simp add: upd_cmgr_def)

lemma run_api_call [simp, run_simps]:
  "run_state (api_call d m) (w, es) = (if terminated (w_sess w) then (d, w, es) else run_state m (w, es))"
  by (simp add: api_call_def)

end
