(* ===== verification/Session_Commit.thy ===== *)
theory Session_Commit
  imports Commit_Mgr
begin

text \<open>
  \<open>changed\<close>, \<open>validate\<close>, \<open>preCommitChecks\<close> and \<open>commit\<close> of
  \<open>session/session_internal.go\<close>. Both long operations hand the session lock to
  the internal holder COMMIT while they serve other requests and give it back
  afterwards; the two \<open>defer\<close>s run in reverse order.
\<close>

definition changed :: "'d libs \<Rightarrow> Context \<Rightarrow> 'd world \<Rightarrow> bool" where
  "changed L c w =
    commit_Changed L (newctx (sid (w_sess w)) c (union_Merge L (getUnion w)) (getRunning L w)
      (ses_schema (w_sess w)) '''' False 0)"

definition preCommitChecks :: "'d libs \<Rightarrow> ('d, error option) op" where
  "preCommitChecks L = do {
     w \<leftarrow> the_world;
     if w_rofs w then
       if data_NumChildren L (cm_running (w_cmgr w)) \<noteq> 0 then do {
         emit (EvElog ''Commit blocked, disk is read-only'');
         ret (Some (OperationFailedProtocolError ''Commit blocked, disk is read-only'')) }
       else do { emit (EvElog ''Commit allowed, but disk is read-only.''); ret None }
     else ret None }"

text \<open>The lock hand-over around \<open>validate\<close> and \<open>commit\<close>.\<close>

definition with_commit_lock :: "Context \<Rightarrow> ('d, 'a) op \<Rightarrow> ('d, 'a) op" where
  "with_commit_lock c m = do {
     s \<leftarrow> sess;
     let pd = fst (locked s);
     (if pd \<noteq> 0 then do { _ \<leftarrow> do_unlock (Pid c); ret () } else ret ());
     _ \<leftarrow> do_lock COMMIT;
     r \<leftarrow> m;
     _ \<leftarrow> do_unlock COMMIT;
     (if pd \<noteq> 0 then do { _ \<leftarrow> do_lock (Pid c); ret () } else ret ());
     ret r }"

definition validate_body :: "'d libs \<Rightarrow> Context \<Rightarrow> ('d, commitresp) op" where
  "validate_body L c = do {
     w \<leftarrow> the_world;
     let cc = newctx (sid (w_sess w)) c (union_Merge L (getUnion w)) (getRunning L w)
                (ses_schema (w_sess w)) ''''
                (LoggingIsEnabledAtLevel (w_dbg w) LevelDebug TypeCommit)
                (fst (LoggingValueAndStatus (w_dbg w) TypeMust));
     wait_async;
     w \<leftarrow> the_world;
     (let (outs, errs, ok) = commit_Validate L w cc
      in ret \<lparr>cr_out = outs, cr_err = errs, cr_ok = ok\<rparr>) }"

definition validate :: "'d libs \<Rightarrow> Context \<Rightarrow> ('d, commitresp) op" where
  "validate L c = do {
     s \<leftarrow> sess;
     (case trylock (Pid c) s of
        Some e \<Rightarrow> ret (MakeCommitError e)
      | None \<Rightarrow> with_commit_lock c (validate_body L c)) }"

text \<open>
  The diff tree that \<open>commit\<close> caches goes to \<open>processreq\<close> and from there to \<open>getstatus\<close> only: it speeds up the
  answers to status requests that arrive while the commit runs, and these requests change nothing. As the
  interference of a wait is what the requests do to the world, the cache does not appear here.
\<close>

definition commit_body :: "'d libs \<Rightarrow> Context \<Rightarrow> string \<Rightarrow> bool \<Rightarrow> ('d, commitresp) op" where
  "commit_body L c message debug = do {
     wait_async;
     s \<leftarrow> sess;
     resp \<leftarrow> CommitMgr_Commit L (sid s) c (candidate s) message debug;
     wait_async;
     if \<not> cr_ok resp then ret resp
     else do { upd_sess (\<lambda>s. s\<lparr>candidate := data_New L ''root''\<rparr>); ret resp } }"

definition commit :: "'d libs \<Rightarrow> Context \<Rightarrow> string \<Rightarrow> bool \<Rightarrow> ('d, commitresp) op" where
  "commit L c message debug = do {
     w \<leftarrow> the_world;
     (case trylock (Pid c) (w_sess w) of
        Some e \<Rightarrow> ret (MakeCommitError e)
      | None \<Rightarrow>
          if \<not> changed L c w then
            ret (MakeCommitError (OperationFailedProtocolError ''No configuration changes to commit''))
          else do {
            e \<leftarrow> preCommitChecks L;
            (case e of
               Some err \<Rightarrow> ret (MakeCommitError err)
             | None \<Rightarrow> with_commit_lock c (commit_body L c message debug)) }) }"

end
