(* ===== verification/Session_Load.thy ===== *)
theory Session_Load
  imports Session_Ops
begin

text \<open>
  \<open>session/load.go\<close>: replacing or extending the candidate with a configuration
  read from a file, a reader or an encoded string.
\<close>

definition readFile ::
  "'d libs \<Rightarrow> string \<Rightarrow> string option \<Rightarrow> 'd world \<Rightarrow> 'd unode result \<times> error list" where
  "readFile L file r w =
    (let sch = ses_schema (w_sess w);
         (can, e, invalidPaths) =
           (case r of None \<Rightarrow> load_Load L w file sch | Some txt \<Rightarrow> load_LoadFile L file txt sch)
     in case e of
          Some err \<Rightarrow> (Inl err, invalidPaths)
        | None \<Rightarrow> (Inr \<lparr>u_overlay = None, u_underlay = Some can, u_schema = sch\<rparr>, invalidPaths))"

definition encType :: "string \<Rightarrow> enc_type result" where
  "encType encode =
    (if encode = ''json'' then Inr EncJSON
     else if encode = ''rfc7951'' then Inr EncRFC7951
     else if encode = ''xml'' then Inr EncXML
     else Inl (OperationFailedApplicationError
       (Some (''Unknown encoding '' @ [CHR 0x27] @ encode @ [CHR 0x27])) None))"

definition loadFromStringUsingEncoding ::
  "'d libs \<Rightarrow> string \<Rightarrow> enc_type \<Rightarrow> 'd world \<Rightarrow> 'd unode result" where
  "loadFromStringUsingEncoding L input enc w =
    (let (u, e) = union_Unmarshal L enc False (ses_schema (w_sess w)) input
     in case e of Some err \<Rightarrow> Inl err | None \<Rightarrow> Inr u)"

subsection \<open>Merging a loaded tree\<close>

text \<open>
  The nodes of the loaded tree in the order \<open>preord\<close> reaches them: a node with no
  schema or with the default flag is skipped together with everything below it.
\<close>

fun preord :: "path \<Rightarrow> lnode \<Rightarrow> (path \<times> bool) list" where
  "preord curPath (LNode name presence def children) =
    (case presence of
       None \<Rightarrow> []
     | Some hasPresence \<Rightarrow>
        if def then []
        else (curPath @ [name], hasPresence) # concat (map (preord (curPath @ [name])) children))"

text \<open>
  \<open>setFn\<close>: \<open>ut\<close> is the union tree created before the walk. Its overlay is the
  session's candidate tree, which the walk itself changes, so existence is
  decided against the candidate and running trees of the moment.
\<close>

definition setFn :: "'d libs \<Rightarrow> Context \<Rightarrow> path \<times> bool \<Rightarrow> ('d, error list) op" where
  "setFn L c node = do {
     let (p, hasPresence) = node;
     if \<not> hasPresence then ret []
     else do {
       w \<leftarrow> the_world;
       if existsInTree L (getUnion w) (newAuther L c (w_sess w)) p False then ret []
       else do {
         e \<leftarrow> set_cfg L c p;
         ret (case e of None \<Rightarrow> [] | Some err \<Rightarrow> [err]) } } }"

fun setFn_all :: "'d libs \<Rightarrow> Context \<Rightarrow> (path \<times> bool) list \<Rightarrow> ('d, error list) op" where
  "setFn_all L c [] = ret []"
| "setFn_all L c (n # ns) = do {
     es \<leftarrow> setFn L c n;
     es' \<leftarrow> setFn_all L c ns;
     ret (es @ es') }"

definition merge_tree :: "'d libs \<Rightarrow> Context \<Rightarrow> 'd unode \<Rightarrow> ('d, error option) op" where
  "merge_tree L c ltree = do {
     errors \<leftarrow> setFn_all L c (concat (map (preord []) (union_SortedChildren L ltree)));
     ret (if errors = [] then None else Some (MgmtErrorList errors)) }"

definition delete_then_merge_tree :: "'d libs \<Rightarrow> Context \<Rightarrow> 'd unode \<Rightarrow> ('d, error option) op" where
  "delete_then_merge_tree L c ltree = do {
     _ \<leftarrow> union_delete L c [] True;
     merge_tree L c ltree }"

subsection \<open>Requests\<close>

definition merge ::
  "'d libs \<Rightarrow> Context \<Rightarrow> string \<Rightarrow> string option \<Rightarrow> ('d, error option \<times> error list) op" where
  "merge L c file r = do {
     w \<leftarrow> the_world;
     (case readFile L file r w of
        (Inl e, invalidPaths) \<Rightarrow> ret (Some e, invalidPaths)
      | (Inr ltree, invalidPaths) \<Rightarrow> do { e \<leftarrow> merge_tree L c ltree; ret (e, invalidPaths) }) }"

definition load ::
  "'d libs \<Rightarrow> Context \<Rightarrow> string \<Rightarrow> string option \<Rightarrow> ('d, error option \<times> error list) op" where
  "load L c file r = do {
     w \<leftarrow> the_world;
     (case readFile L file r w of
        (Inl e, invalidPaths) \<Rightarrow> ret (Some e, invalidPaths)
      | (Inr ltree, invalidPaths) \<Rightarrow> do { e \<leftarrow> delete_then_merge_tree L c ltree; ret (e, invalidPaths) }) }"

definition copyConfig ::
  "'d libs \<Rightarrow> Context \<Rightarrow> string \<Rightarrow> string \<Rightarrow> string \<Rightarrow> string \<Rightarrow> string \<Rightarrow> string \<Rightarrow> ('d, error option) op" where
  "copyConfig L c sourceDatastore sourceEncoding sourceConfig sourceURL targetDatastore targetURL =
    (if sourceURL \<noteq> '''' \<or> targetURL \<noteq> '''' then
       ret (Some (OperationNotSupportedApplicationError ''URL capability is not supported''))
     else if sourceDatastore \<noteq> '''' then
       ret (Some (InvalidValueApplicationError ''Source must be specified in <config> tags.''))
     else if sourceConfig = '''' then ret (Some (MissingElementApplicationError ''<source>''))
     else if targetDatastore \<noteq> ''candidate'' then
       ret (Some (InvalidValueApplicationError
         (''Target datastore only supports candidate, not '' @ targetDatastore)))
     else (case encType sourceEncoding of
       Inl e \<Rightarrow> ret (Some e)
     | Inr enc \<Rightarrow> do {
         w \<leftarrow> the_world;
         (case loadFromStringUsingEncoding L sourceConfig enc w of
            Inl e \<Rightarrow> ret (Some e)
          | Inr ltree \<Rightarrow> delete_then_merge_tree L c ltree) }))"

end
