(* ===== verification/Session_Edit.thy ===== *)
theory Session_Edit
  imports Session_Ops
begin

text \<open>
  \<open>session/edit_config.go\<close>: the NETCONF edit-config request. The document is
  flattened into a list of path operations (with the panics of the traversal as
  errors), the operations are authorised, tested and performed one by one.

  A Go run-time panic is not recovered by \<open>EditConfig\<close>, so \<open>RuntimePanic\<close> errors
  abort whatever the error option says.
\<close>

subsection \<open>Cases of a choice\<close>

fun choiceNodesToRemove :: "'d libs \<Rightarrow> snode list \<Rightarrow> string \<Rightarrow> string list \<Rightarrow> string list"
  and caseNodesToRemove :: "'d libs \<Rightarrow> snode list \<Rightarrow> string \<Rightarrow> string list \<Rightarrow> string list" where
  "choiceNodesToRemove L [] name rslt = rslt"
| "choiceNodesToRemove L (SNode i chs ccs # chcs) name rslt =
    choiceNodesToRemove L chcs name
      (if s_kind i = KChoice \<and> schema_Child L (SNode i chs ccs) name \<noteq> None
       then caseNodesToRemove L ccs name rslt else rslt)"
| "caseNodesToRemove L [] name rslt = rslt"
| "caseNodesToRemove L (SNode i chs ccs # chcs) name rslt =
    caseNodesToRemove L chcs name
      (if s_kind i = KCase then
         (if schema_Child L (SNode i chs ccs) name \<noteq> None
          then choiceNodesToRemove L ccs name rslt
          else rslt @ map sn_name chs)
       else if s_name i \<noteq> name then rslt @ [s_name i] else rslt)"

definition is_delete :: "operation \<Rightarrow> bool" where
  "is_delete op \<longleftrightarrow> op = op_delete \<or> op = op_remove"

definition checkNode ::
  "'d libs \<Rightarrow> path \<Rightarrow> operation \<Rightarrow> snode \<Rightarrow> string list \<Rightarrow> edit_node \<Rightarrow> string list result" where
  "checkNode L curpath parentop sch exclude en =
    (if is_delete (getOperation parentop en) then Inr exclude
     else if en_local en \<in> set exclude then
       Inl (BadElementApplicationError (en_local en) curpath ''Only one case is allowed per choice'')
     else Inr (choiceNodesToRemove L (sn_choices sch) (en_local en) exclude))"

fun checkNodes ::
  "'d libs \<Rightarrow> path \<Rightarrow> operation \<Rightarrow> snode \<Rightarrow> string list \<Rightarrow> edit_node list \<Rightarrow> unit result" where
  "checkNodes L curpath parentop sch exclude [] = Inr ()"
| "checkNodes L curpath parentop sch exclude (c # cs) =
    (case checkNode L curpath parentop sch exclude c of
       Inl e \<Rightarrow> Inl e
     | Inr exclude' \<Rightarrow> checkNodes L curpath parentop sch exclude' cs)"

definition validateChoices ::
  "'d libs \<Rightarrow> path \<Rightarrow> operation \<Rightarrow> snode \<Rightarrow> edit_node list \<Rightarrow> unit result" where
  "validateChoices L curpath parentop sch children =
    (if sn_choices sch = [] then Inr () else checkNodes L curpath parentop sch [] children)"

subsection \<open>Flattening the document\<close>

definition add_op :: "operation \<Rightarrow> path \<Rightarrow> edit_op" where
  "add_op op p = \<lparr>eo_op = op, eo_path = p\<rparr>"

definition seq_ops :: "edit_op list result \<Rightarrow> edit_op list result \<Rightarrow> edit_op list result" where
  "seq_ops a b = (case a of Inl e \<Rightarrow> Inl e | Inr xs \<Rightarrow> (case b of Inl e \<Rightarrow> Inl e | Inr ys \<Rightarrow> Inr (xs @ ys)))"

text \<open>The schema lookup and namespace check that open every \<open>traverseX\<close>.\<close>

definition node_schema_check :: "'d libs \<Rightarrow> snode \<Rightarrow> path \<Rightarrow> path \<Rightarrow> string \<Rightarrow> snode result" where
  "node_schema_check L root p errpath space =
    (case schema_Descendant L root p of
       None \<Rightarrow> Inl (unknown_element errpath)
     | Some sch \<Rightarrow> if s_ns (sn_info sch) \<noteq> space then Inl (UnknownNamespaceApplicationError errpath space)
                   else Inr sch)"

definition traverseLeaf ::
  "'d libs \<Rightarrow> snode \<Rightarrow> operation \<Rightarrow> path \<Rightarrow> edit_node \<Rightarrow> edit_op list result" where
  "traverseLeaf L root parentop curpath en =
    (case node_schema_check L root curpath curpath (en_space en) of
       Inl e \<Rightarrow> Inl e
     | Inr sch \<Rightarrow>
        let op = getOperation parentop en in
        if \<not> s_empty (sn_info sch) \<and> en_value en \<noteq> '''' then Inr [add_op op (curpath @ [en_value en])]
        else Inr [add_op op curpath])"

text \<open>
  The search for the key among the children of a list element: \<open>KeyBail\<close> is the
  early return when the key is not the first child, \<open>KeyPath\<close> the list entry.
\<close>

datatype key_search = KeyNone | KeyBail | KeyPath path | KeyPanic error

definition find_key ::
  "'d libs \<Rightarrow> snode \<Rightarrow> snode \<Rightarrow> path \<Rightarrow> string \<Rightarrow> edit_node list \<Rightarrow> key_search" where
  "find_key L root sch curpath space children =
    (case children of
       [] \<Rightarrow> KeyNone
     | c # cs \<Rightarrow>
        (case s_keys (sn_info sch) of
           [] \<Rightarrow> KeyPanic (RuntimePanic ''index out of range'')
         | k # _ \<Rightarrow>
            if en_local c = k then
              (case node_schema_check L root (curpath @ [en_value c]) curpath space of
                 Inl e \<Rightarrow> KeyPanic e
               | Inr _ \<Rightarrow> KeyPath (curpath @ [en_value c]))
            else if k \<in> set (map en_local cs) then KeyBail
            else KeyNone))"

text \<open>
  \<open>traverseSubtree\<close>, \<open>traverseContainer\<close> and \<open>traverseList\<close> recurse into the
  children of their node only: \<open>rec\<close> stands for \<open>c.traverse(ec, op, path)\<close> on each
  child \<open>c\<close>, its flag for the children without the list key at the front.
\<close>

type_synonym child_walk = "bool \<Rightarrow> operation \<Rightarrow> path \<Rightarrow> edit_op list result"

definition traverseSubtree :: "child_walk \<Rightarrow> bool \<Rightarrow> operation \<Rightarrow> path \<Rightarrow> edit_node \<Rightarrow> edit_op list result" where
  "traverseSubtree rec dropKey parentop curpath en =
    (let op = getOperation parentop en in
     if is_delete parentop
     then seq_ops (rec dropKey op curpath) (Inr [add_op op curpath])
     else seq_ops (Inr [add_op op curpath]) (rec dropKey op curpath))"

definition traverseContainer ::
  "'d libs \<Rightarrow> snode \<Rightarrow> child_walk \<Rightarrow> operation \<Rightarrow> path \<Rightarrow> edit_node \<Rightarrow> edit_op list result" where
  "traverseContainer L root rec parentop curpath en =
    (let op = getOperation parentop en in
     case node_schema_check L root curpath curpath (en_space en) of
       Inl e \<Rightarrow> Inl e
     | Inr sch \<Rightarrow>
        (case validateChoices L curpath parentop sch (en_children en) of
           Inl e \<Rightarrow> Inl e
         | Inr _ \<Rightarrow>
            if \<not> s_presence (sn_info sch) \<and> en_children en \<noteq> [] \<and> op \<noteq> op_delete \<and> op \<noteq> op_remove
            then rec False parentop curpath
            else traverseSubtree rec False parentop curpath en))"

definition traverseList ::
  "'d libs \<Rightarrow> snode \<Rightarrow> child_walk \<Rightarrow> operation \<Rightarrow> path \<Rightarrow> edit_node \<Rightarrow> edit_op list result" where
  "traverseList L root rec parentop curpath en =
    (case node_schema_check L root curpath curpath (en_space en) of
       Inl e \<Rightarrow> Inl e
     | Inr sch \<Rightarrow>
        if sn_kind sch \<noteq> KList then Inr []
        else (case validateChoices L curpath parentop sch (en_children en) of
           Inl e \<Rightarrow> Inl e
         | Inr _ \<Rightarrow>
            (case find_key L root sch curpath (en_space en) (en_children en) of
               KeyPanic e \<Rightarrow> Inl e
             | KeyBail \<Rightarrow> Inr []
             | KeyNone \<Rightarrow>
                 if is_delete (getOperation parentop en)
                 then traverseSubtree rec False parentop curpath en
                 else Inr []
             | KeyPath p \<Rightarrow> traverseSubtree rec True parentop p en)))"

function traverse :: "'d libs \<Rightarrow> snode \<Rightarrow> operation \<Rightarrow> path \<Rightarrow> edit_node \<Rightarrow> edit_op list result"
  and traverse_all :: "'d libs \<Rightarrow> snode \<Rightarrow> operation \<Rightarrow> path \<Rightarrow> edit_node list \<Rightarrow> edit_op list result"
  where
  "traverse L root parentop curpath en =
    (let p = curpath @ [en_local en];
         op = getOperation parentop en;
         rec = (\<lambda>dropKey op p. traverse_all L root op p
                  (if dropKey then tl (en_children en) else en_children en))
     in case schema_Descendant L root p of
          None \<Rightarrow> Inr []
        | Some sch \<Rightarrow>
            (case sn_kind sch of
               KList \<Rightarrow> traverseList L root rec op p en
             | KLeaf \<Rightarrow> traverseLeaf L root op p en
             | KLeafList \<Rightarrow> traverseLeaf L root op p en
             | KLeafValue \<Rightarrow> traverseLeaf L root op p en
             | _ \<Rightarrow> traverseContainer L root rec op p en))"
| "traverse_all L root parentop curpath [] = Inr []"
| "traverse_all L root parentop curpath (c # cs) =
    seq_ops (traverse L root parentop curpath c) (traverse_all L root parentop curpath cs)"
  by pat_completeness auto

lemma size_list_tl: "size_list f (tl xs) \<le> size_list f xs"
  by (cases xs) auto

lemma size_children: "size_list size (en_children en) < size en"
  by (cases en) simp

termination traverse
  by (relation "measure (\<lambda>x. case x of Inl (_, _, _, _, en) \<Rightarrow> size en
        | Inr (_, _, _, _, cs) \<Rightarrow> size_list size cs)")
    (auto intro: le_less_trans [OF size_list_tl size_children] size_children)

declare traverse.simps [simp del]

subsection \<open>Authorization and accounting\<close>

text \<open>
  \<open>getPathAttrsForPerm\<close> has a value receiver, so the attributes it computes are
  not remembered in the operation: \<open>e.pathAttrs\<close> is nil whenever it is read. A
  path without attributes is dereferenced, which is a run-time panic.
\<close>

definition getPathAttrsForPerm ::
  "'d libs \<Rightarrow> AuthPerm \<Rightarrow> edit_op \<Rightarrow> 'd session \<Rightarrow> (path \<times> attrs option) result" where
  "getPathAttrsForPerm L perm e s =
    (case (case perm of P_CREATE \<Rightarrow> Some ''set'' | P_UPDATE \<Rightarrow> Some ''set''
           | P_DELETE \<Rightarrow> Some ''delete'' | P_READ \<Rightarrow> None) of
       None \<Rightarrow> Inr ([], None)
     | Some perm_cmd \<Rightarrow>
        (case schema_AttrsForPath L (ses_schemaFull s) (eo_path e) of
           None \<Rightarrow> Inl (RuntimePanic ''nil pointer dereference'')
         | Some attrs \<Rightarrow> Inr (perm_cmd # eo_path e, Some (False # attrs))))"

definition authorize ::
  "'d libs \<Rightarrow> Context \<Rightarrow> edit_config \<Rightarrow> AuthPerm \<Rightarrow> edit_op \<Rightarrow> ('d, bool result) op" where
  "authorize L c ec perm e = do {
     s \<leftarrow> sess;
     (case getPathAttrsForPerm L perm e s of
        Inl pn \<Rightarrow> ret (Inl pn)
      | Inr (cmd, None) \<Rightarrow> ret (Inr False)
      | Inr (cmd, Some attrs) \<Rightarrow>
         if \<not> AuthorizeCommand (Auth c) (Uid c) (Groups c) cmd attrs then ret (Inr False)
         else do {
           let pathAuthed = AuthorizePath (Auth c) (Uid c) (Groups c) (eo_path e) None perm;
           (if \<not> pathAuthed \<and> TestOption ec \<noteq> testopt_testonly then do {
              emit (EvAccountStart (Uid c) cmd attrs);
              emit (EvAccountStop (Uid c) cmd (Some (AccessDeniedApplicationError None))) }
            else ret ());
           ret (Inr pathAuthed) }) }"

definition exists_now :: "'d libs \<Rightarrow> Context \<Rightarrow> path \<Rightarrow> 'd world \<Rightarrow> bool" where
  "exists_now L c p w = existsInTree L (getUnion w) (newAuther L c (w_sess w)) p False"

definition edit_Auth :: "'d libs \<Rightarrow> Context \<Rightarrow> edit_config \<Rightarrow> edit_op \<Rightarrow> ('d, bool result) op" where
  "edit_Auth L c ec e = do {
     w \<leftarrow> the_world;
     let exist = exists_now L c (eo_path e) w;
     (case eo_op e of
        op_merge \<Rightarrow> if exist then authorize L c ec P_UPDATE e else authorize L c ec P_CREATE e
      | op_replace \<Rightarrow>
          if exist then do {
            r \<leftarrow> authorize L c ec P_DELETE e;
            (case r of
               Inl pn \<Rightarrow> ret (Inl pn)
             | Inr b \<Rightarrow> if \<not> b then ret (Inr False) else authorize L c ec P_CREATE e) }
          else authorize L c ec P_CREATE e
      | op_create \<Rightarrow> authorize L c ec P_CREATE e
      | op_delete \<Rightarrow> authorize L c ec P_DELETE e
      | op_remove \<Rightarrow> authorize L c ec P_DELETE e
      | op_notset \<Rightarrow> ret (Inr True)) }"

subsection \<open>Testing an operation\<close>

fun schema_walk :: "'d libs \<Rightarrow> snode \<Rightarrow> path \<Rightarrow> path \<Rightarrow> error option" where
  "schema_walk L sn done [] = None"
| "schema_walk L sn done (p # ps) =
    (case schema_SchemaChild L sn p of
       None \<Rightarrow> Some (UnknownElementApplicationError p (Some done))
     | Some sn' \<Rightarrow> schema_walk L sn' (done @ [p]) ps)"

definition op_precondition :: "'d libs \<Rightarrow> Context \<Rightarrow> edit_op \<Rightarrow> 'd world \<Rightarrow> error option" where
  "op_precondition L c e w =
    (let exist = exists_now L c (eo_path e) w;
         valid = (schema_PathDescendant L (ses_schema (w_sess w)) (eo_path e) \<noteq> None)
     in case eo_op e of
          op_create \<Rightarrow> if exist then Some (NodeExistsError (eo_path e)) else None
        | op_delete \<Rightarrow>
            if \<not> exist then Some (NodeNotExistsError (eo_path e))
            else if \<not> valid then Some (InvalidPathError (eo_path e)) else None
        | op_remove \<Rightarrow> if \<not> valid then Some (InvalidPathError (eo_path e)) else None
        | _ \<Rightarrow> None)"

definition edit_Test :: "'d libs \<Rightarrow> Context \<Rightarrow> edit_config \<Rightarrow> edit_op \<Rightarrow> ('d, error option) op" where
  "edit_Test L c ec e = do {
     r \<leftarrow> edit_Auth L c ec e;
     (case r of
        Inl pn \<Rightarrow> ret (Some pn)
      | Inr False \<Rightarrow> ret (Some (AccessDeniedApplicationError None))
      | Inr True \<Rightarrow> do {
          w \<leftarrow> the_world;
          (case op_precondition L c e w of
             Some err \<Rightarrow> ret (Some err)
           | None \<Rightarrow>
              (case schema_NormalizePath L (ses_schema (w_sess w)) (eo_path e) of
                 Inl err \<Rightarrow> ret (Some err)
               | Inr np \<Rightarrow> ret (schema_walk L (ses_schema (w_sess w)) [] np))) }) }"

subsection \<open>Performing an operation\<close>

text \<open>\<open>t.AccountStart(); err := f(); t.AccountStop(&err)\<close>.\<close>

definition with_account ::
  "'d libs \<Rightarrow> Context \<Rightarrow> AuthPerm \<Rightarrow> edit_op \<Rightarrow> ('d, error option) op \<Rightarrow> ('d, error option) op" where
  "with_account L c perm e m = do {
     s \<leftarrow> sess;
     (case getPathAttrsForPerm L perm e s of
        Inl pn \<Rightarrow> ret (Some pn)
      | Inr (cmd, attrs) \<Rightarrow> do {
          emit (EvAccountStart (Uid c) cmd (case attrs of None \<Rightarrow> [] | Some a \<Rightarrow> a));
          err \<leftarrow> m;
          emit (EvAccountStop (Uid c) cmd err);
          ret err }) }"

definition edit_merge :: "'d libs \<Rightarrow> Context \<Rightarrow> edit_op \<Rightarrow> ('d, error option) op" where
  "edit_merge L c e = do {
     w \<leftarrow> the_world;
     if exists_now L c (eo_path e) w then ret None else set_internal L c (eo_path e) }"

definition edit_Merge :: "'d libs \<Rightarrow> Context \<Rightarrow> edit_op \<Rightarrow> ('d, error option) op" where
  "edit_Merge L c e = with_account L c P_UPDATE e (edit_merge L c e)"

definition remove_quiet :: "'d libs \<Rightarrow> Context \<Rightarrow> edit_op \<Rightarrow> ('d, error option) op" where
  "remove_quiet L c e = do { _ \<leftarrow> union_delete L c (eo_path e) False; ret None }"

definition removeInternal :: "'d libs \<Rightarrow> Context \<Rightarrow> edit_op \<Rightarrow> bool \<Rightarrow> ('d, error option) op" where
  "removeInternal L c e doAcct =
    (if doAcct then with_account L c P_DELETE e (remove_quiet L c e) else remove_quiet L c e)"

definition edit_Replace :: "'d libs \<Rightarrow> Context \<Rightarrow> edit_op \<Rightarrow> ('d, error option) op" where
  "edit_Replace L c e = do {
     w \<leftarrow> the_world;
     r \<leftarrow> removeInternal L c e (exists_now L c (eo_path e) w);
     (case r of Some err \<Rightarrow> ret (Some err) | None \<Rightarrow> edit_Merge L c e) }"

definition edit_create :: "'d libs \<Rightarrow> Context \<Rightarrow> edit_op \<Rightarrow> ('d, error option) op" where
  "edit_create L c e = do {
     w \<leftarrow> the_world;
     if exists_now L c (eo_path e) w then ret (Some (NodeExistsError (eo_path e)))
     else set_internal L c (eo_path e) }"

definition edit_Create :: "'d libs \<Rightarrow> Context \<Rightarrow> edit_op \<Rightarrow> ('d, error option) op" where
  "edit_Create L c e = with_account L c P_CREATE e (edit_create L c e)"

definition edit_delete :: "'d libs \<Rightarrow> Context \<Rightarrow> edit_op \<Rightarrow> ('d, error option) op" where
  "edit_delete L c e = do {
     w \<leftarrow> the_world;
     if \<not> exists_now L c (eo_path e) w then ret (Some (NodeNotExistsError (eo_path e)))
     else removeInternal L c e False }"

definition edit_Delete :: "'d libs \<Rightarrow> Context \<Rightarrow> edit_op \<Rightarrow> ('d, error option) op" where
  "edit_Delete L c e = with_account L c P_DELETE e (edit_delete L c e)"

definition edit_Remove :: "'d libs \<Rightarrow> Context \<Rightarrow> edit_op \<Rightarrow> ('d, error option) op" where
  "edit_Remove L c e = removeInternal L c e True"

definition edit_Set :: "'d libs \<Rightarrow> Context \<Rightarrow> edit_config \<Rightarrow> edit_op \<Rightarrow> ('d, error option) op" where
  "edit_Set L c ec e =
    (case eo_op e of
       op_merge \<Rightarrow> edit_Merge L c e
     | op_replace \<Rightarrow> edit_Replace L c e
     | op_create \<Rightarrow> edit_Create L c e
     | op_delete \<Rightarrow> edit_Delete L c e
     | op_remove \<Rightarrow> edit_Remove L c e
     | op_notset \<Rightarrow>
         if DefaultOperation ec = defop_none then ret None
         else ret (Some (OperationFailedApplicationError None None)))"

definition edit_Perform :: "'d libs \<Rightarrow> Context \<Rightarrow> edit_config \<Rightarrow> edit_op \<Rightarrow> ('d, error option) op" where
  "edit_Perform L c ec e =
    (let testset = do {
           r \<leftarrow> edit_Test L c ec e;
           (case r of Some err \<Rightarrow> ret (Some err) | None \<Rightarrow> edit_Set L c ec e) }
     in case TestOption ec of
          testopt_notset \<Rightarrow> testset
        | testopt_testset \<Rightarrow> testset
        | testopt_set \<Rightarrow> do {
            r \<leftarrow> edit_Auth L c ec e;
            (case r of
               Inl pn \<Rightarrow> ret (Some pn)
             | Inr False \<Rightarrow> ret (Some (AccessDeniedApplicationError None))
             | Inr True \<Rightarrow> edit_Set L c ec e) }
        | testopt_testonly \<Rightarrow> edit_Test L c ec e)"

subsection \<open>The request\<close>

text \<open>\<open>xml.Unmarshal\<close> into the struct: an option keeps its value unless the document has an element of its name.\<close>

definition decoded :: "xml_config \<Rightarrow> config_target \<Rightarrow> default_operation \<Rightarrow> test_option \<Rightarrow> error_option \<Rightarrow> edit_config" where
  "decoded doc t d o1 o2 =
    \<lparr>ec_children = xc_Children doc,
     Target = (case xc_Target doc of Some x \<Rightarrow> x | None \<Rightarrow> t),
     DefaultOperation = (case xc_DefaultOperation doc of Some x \<Rightarrow> x | None \<Rightarrow> d),
     TestOption = (case xc_TestOption doc of Some x \<Rightarrow> x | None \<Rightarrow> o1),
     ErrorOption = (case xc_ErrorOption doc of Some x \<Rightarrow> x | None \<Rightarrow> o2)\<rparr>"

definition newEditConfigXML ::
  "'d libs \<Rightarrow> string \<Rightarrow> string \<Rightarrow> string \<Rightarrow> string \<Rightarrow> string \<Rightarrow> edit_config result" where
  "newEditConfigXML L target defop testopt erropt cfg =
    (case config_target_Set target of Inl e \<Rightarrow> Inl e | Inr t \<Rightarrow>
     (case default_operation_Set defop of Inl e \<Rightarrow> Inl e | Inr d \<Rightarrow>
      (case test_option_Set testopt of Inl e \<Rightarrow> Inl e | Inr o1 \<Rightarrow>
       (case error_option_Set erropt of Inl e \<Rightarrow> Inl e | Inr o2 \<Rightarrow>
         (case xml_Unmarshal L cfg of Inl e \<Rightarrow> Inl e | Inr doc \<Rightarrow> Inr (decoded doc t d o1 o2))))))"

definition ec_validateChoices :: "'d libs \<Rightarrow> edit_config \<Rightarrow> snode \<Rightarrow> unit result" where
  "ec_validateChoices L ec root =
    (case schema_Descendant L root [] of
       None \<Rightarrow> Inr ()
     | Some sch \<Rightarrow> validateChoices L [] (default_operation_Get (DefaultOperation ec)) sch (ec_children ec))"

definition edit_ops :: "'d libs \<Rightarrow> edit_config \<Rightarrow> snode \<Rightarrow> edit_op list result" where
  "edit_ops L ec root =
    (case ec_validateChoices L ec root of
       Inl e \<Rightarrow> Inl e
     | Inr _ \<Rightarrow> traverse_all L root (default_operation_Get (DefaultOperation ec)) [] (ec_children ec))"

definition ec_test :: "'d libs \<Rightarrow> Context \<Rightarrow> edit_config \<Rightarrow> edit_op list \<Rightarrow> ('d, error option) op" where
  "ec_test L c ec ops = for_err (edit_Test L c ec) ops"

fun is_panic :: "error \<Rightarrow> bool" where
  "is_panic (RuntimePanic _) = True"
| "is_panic _ = False"

fun ec_perform ::
  "'d libs \<Rightarrow> Context \<Rightarrow> edit_config \<Rightarrow> edit_op list \<Rightarrow> error list \<Rightarrow> ('d, error option) op" where
  "ec_perform L c ec [] perr = ret (if perr = [] then None else Some (PerformError perr))"
| "ec_perform L c ec (e # es) perr = do {
     r \<leftarrow> edit_Perform L c ec e;
     (case r of
        None \<Rightarrow> ec_perform L c ec es perr
      | Some err \<Rightarrow>
         if is_panic err then ret (Some err)
         else (case ErrorOption ec of
            erropt_stop \<Rightarrow> ret (Some err)
          | erropt_notset \<Rightarrow> ret (Some err)
          | erropt_cont \<Rightarrow> ec_perform L c ec es (perr @ [err])
          | erropt_rollback \<Rightarrow> ec_perform L c ec es perr)) }"

definition EditConfig :: "'d libs \<Rightarrow> Context \<Rightarrow> edit_config \<Rightarrow> ('d, error option) op" where
  "EditConfig L c ec = do {
     s \<leftarrow> sess;
     (case edit_ops L ec (ses_schema s) of
        Inl e \<Rightarrow> ret (Some e)
      | Inr ops \<Rightarrow> do {
          pre \<leftarrow> (if ErrorOption ec = erropt_rollback then ec_test L c ec ops else ret None);
          (case pre of
             Some err \<Rightarrow> ret (Some err)
           | None \<Rightarrow> ec_perform L c ec ops []) }) }"

definition editConfigXML ::
  "'d libs \<Rightarrow> Context \<Rightarrow> string \<Rightarrow> string \<Rightarrow> string \<Rightarrow> string \<Rightarrow> string \<Rightarrow> ('d, error option) op" where
  "editConfigXML L c target defop testopt erropt cfg = do {
     s \<leftarrow> sess;
     (case trylock (Pid c) s of
        Some e \<Rightarrow> ret (Some e)
      | None \<Rightarrow>
         (case newEditConfigXML L target defop testopt erropt cfg of
            Inl e \<Rightarrow> ret (Some e)
          | Inr ec \<Rightarrow> EditConfig L c ec)) }"

text \<open>Case analysis on the options, for frame proofs.\<close>

lemma keeps_case_operation [consume_intros, quiet_intros]:
  "keeps R m0 \<Longrightarrow> keeps R m1 \<Longrightarrow> keeps R m2 \<Longrightarrow> keeps R m3 \<Longrightarrow> keeps R m4 \<Longrightarrow> keeps R m5 \<Longrightarrow>
    keeps R (case x of op_notset \<Rightarrow> m0 | op_merge \<Rightarrow> m1 | op_replace \<Rightarrow> m2
      | op_create \<Rightarrow> m3 | op_delete \<Rightarrow> m4 | op_remove \<Rightarrow> m5)"
  by (cases x) auto

lemma keeps_case_testopt [consume_intros, quiet_intros]:
  "keeps R m0 \<Longrightarrow> keeps R m1 \<Longrightarrow> keeps R m2 \<Longrightarrow> keeps R m3 \<Longrightarrow>
    keeps R (case x of testopt_notset \<Rightarrow> m0 | testopt_testset \<Rightarrow> m1 | testopt_set \<Rightarrow> m2
      | testopt_testonly \<Rightarrow> m3)"
  by (cases x) auto

lemma keeps_case_erropt [consume_intros, quiet_intros]:
  "keeps R m0 \<Longrightarrow> keeps R m1 \<Longrightarrow> keeps R m2 \<Longrightarrow> keeps R m3 \<Longrightarrow>
    keeps R (case x of erropt_notset \<Rightarrow> m0 | erropt_stop \<Rightarrow> m1 | erropt_cont \<Rightarrow> m2
      | erropt_rollback \<Rightarrow> m3)"
  by (cases x) auto

lemma keeps_case_bool [consume_intros, quiet_intros]:
  "keeps R m \<Longrightarrow> keeps R n \<Longrightarrow> keeps R (case b of True \<Rightarrow> m | False \<Rightarrow> n)"
  by (cases b) auto

end
