(* ===== verification/Session_Serve.thy ===== *)
theory Session_Serve
  imports Session_Commit Session_Load Session_Edit
begin

text \<open>
  The request loop of a session: the request alphabet of
  \<open>session/sessionreq.go\<close>, \<open>processreq\<close> of \<open>session/session_internal.go\<close>, and the
  client side of the channel in \<open>session/session.go\<close>. A response channel is a
  constructor of \<open>response\<close>; a request is answered by the value sent on it.
\<close>

subsection \<open>Requests and responses\<close>

datatype request =
    mergetreereq Context bool
  | setreq Context path
  | validatesetreq Context path
  | delreq Context path
  | existsreq Context path
  | typereq Context path
  | statusreq Context path
  | defaultreq Context path
  | getreq Context path
  | gettreereq Context path TreeOpts
  | getfulltreereq Context path TreeOpts
  | validatereq Context
  | lockreq Context
  | unlockreq Context
  | lockedreq Context
  | commentreq Context path
  | savedreq Context
  | changedreq Context
  | marksavedreq Context bool
  | showreq Context path bool bool bool
  | discardreq Context
  | loadreq Context string "string option"
  | mergereq Context string
  | commitreq Context string bool
  | gethelpreq Context bool path
  | editconfigreq Context string string string string string
  | copyconfigreq Context string string string string string string

datatype 'd response =
    treeresp "'d option"
  | errresp "error option"
  | boolresp bool
  | typeresp NodeType "error option"
  | statusresp NodeStatus "error option"
  | defaultresp bool "error option"
  | getresp "string list" "error option"
  | gettreeresp "'d unode option" "error option"
  | getfulltreeresp "'d unode option" "error option" "error list"
  | lockresp pid "error option"
  | showresp string "error option"
  | loadresp "error option" "error list"
  | commitresp_of commitresp
  | helpresp "(string \<rightharpoonup> string) option" "error option"

fun req_ctx :: "request \<Rightarrow> Context" where
  "req_ctx (mergetreereq c _) = c" | "req_ctx (setreq c _) = c" | "req_ctx (validatesetreq c _) = c"
| "req_ctx (delreq c _) = c" | "req_ctx (existsreq c _) = c" | "req_ctx (typereq c _) = c"
| "req_ctx (statusreq c _) = c" | "req_ctx (defaultreq c _) = c" | "req_ctx (getreq c _) = c"
| "req_ctx (gettreereq c _ _) = c" | "req_ctx (getfulltreereq c _ _) = c" | "req_ctx (validatereq c) = c"
| "req_ctx (lockreq c) = c" | "req_ctx (unlockreq c) = c" | "req_ctx (lockedreq c) = c"
| "req_ctx (commentreq c _) = c" | "req_ctx (savedreq c) = c" | "req_ctx (changedreq c) = c"
| "req_ctx (marksavedreq c _) = c" | "req_ctx (showreq c _ _ _ _) = c" | "req_ctx (discardreq c) = c"
| "req_ctx (loadreq c _ _) = c" | "req_ctx (mergereq c _) = c" | "req_ctx (commitreq c _ _) = c"
| "req_ctx (gethelpreq c _ _) = c" | "req_ctx (editconfigreq c _ _ _ _ _) = c"
| "req_ctx (copyconfigreq c _ _ _ _ _ _) = c"

text \<open>A query answered from the state of the moment.\<close>

definition query :: "('d world \<Rightarrow> 'a) \<Rightarrow> ('d, 'a) op" where
  "query f = do { w \<leftarrow> the_world; ret (f w) }"

definition respond :: "('a \<Rightarrow> 'd response) \<Rightarrow> ('d, 'a) op \<Rightarrow> ('d, 'd response) op" where
  "respond f m = do { a \<leftarrow> m; ret (f a) }"

lemma run_query [simp, run_simps]: "run_state (query f) (w, es) = (f w, w, es)"
  by (simp add: query_def)

subsection \<open>Serving a request\<close>

fun processreq :: "'d libs \<Rightarrow> difftree option \<Rightarrow> request \<Rightarrow> ('d, 'd response) op" where
  "processreq L dc (mergetreereq c defaults) = respond (treeresp \<circ> Some) (query (mergetree L defaults))"
| "processreq L dc (setreq c p) = respond errresp (set_cfg L c p)"
| "processreq L dc (validatesetreq c p) = respond errresp (validateSetPath L c p False False)"
| "processreq L dc (delreq c p) = respond errresp (del L c p)"
| "processreq L dc (existsreq c p) = respond boolresp
     (query (\<lambda>w. existsInTree L (getUnion w) (newAuther L c (w_sess w)) p True))"
| "processreq L dc (typereq c p) = respond (\<lambda>(v, e). typeresp v e) (query (gettype L p))"
| "processreq L dc (statusreq c p) = respond (\<lambda>(v, e). statusresp v e) (query (getstatus L c p dc))"
| "processreq L dc (defaultreq c p) = respond (\<lambda>(v, e). defaultresp v e) (query (isdefault L c p))"
| "processreq L dc (getreq c p) = respond (\<lambda>(v, e). getresp v e) (query (get L c p))"
| "processreq L dc (gettreereq c p opts) = respond (\<lambda>(v, e). gettreeresp v e) (gettree L c p opts)"
| "processreq L dc (getfulltreereq c p opts) =
     respond (\<lambda>(v, e, ws). getfulltreeresp v e ws) (getfulltree L c p opts)"
| "processreq L dc (validatereq c) = respond commitresp_of (validate L c)"
| "processreq L dc (lockreq c) = respond (\<lambda>(p, e). lockresp p e) (do_lock (Pid c))"
| "processreq L dc (unlockreq c) = respond (\<lambda>(p, e). lockresp p e) (do_unlock (Pid c))"
| "processreq L dc (lockedreq c) = respond (\<lambda>(p, e). lockresp p e) (query (locked \<circ> w_sess))"
| "processreq L dc (commentreq c p) = respond errresp (set_cfg L c p)"
| "processreq L dc (savedreq c) = respond boolresp (query (saved \<circ> w_sess))"
| "processreq L dc (changedreq c) = respond boolresp (query (changed L c))"
| "processreq L dc (marksavedreq c b) = respond errresp (marksaved c b)"
| "processreq L dc (showreq c p hideSecrets showDefaults forceShowSecrets) =
     respond (\<lambda>(v, e). showresp v e) (query (show_config L c p hideSecrets showDefaults forceShowSecrets))"
| "processreq L dc (discardreq c) = respond errresp (discard L c)"
| "processreq L dc (loadreq c file r) = respond (\<lambda>(e, ps). loadresp e ps) (load L c file r)"
| "processreq L dc (mergereq c file) = respond (\<lambda>(e, ps). loadresp e ps) (merge L c file None)"
| "processreq L dc (commitreq c message debug) = respond commitresp_of (commit L c message debug)"
| "processreq L dc (gethelpreq c sch p) = respond (\<lambda>m. helpresp (Some m) None) (query (gethelp L c sch p))"
| "processreq L dc (editconfigreq c target defop testopt erropt cfg) =
     respond errresp (editConfigXML L c target defop testopt erropt cfg)"
| "processreq L dc (copyconfigreq c sds senc scfg surl tds turl) =
     respond errresp (copyConfig L c sds senc scfg surl tds turl)"

subsection \<open>The client side\<close>

definition send :: "'d libs \<Rightarrow> request \<Rightarrow> 'd response \<Rightarrow> ('d, 'd response) op" where
  "send L r dead = api_call dead (processreq L None r)"

definition Session_MergeTree :: "'d libs \<Rightarrow> Context \<Rightarrow> ('d, 'd response) op" where
  "Session_MergeTree L c = send L (mergetreereq c False) (treeresp None)"

definition Session_Exists :: "'d libs \<Rightarrow> Context \<Rightarrow> path \<Rightarrow> ('d, 'd response) op" where
  "Session_Exists L c p = send L (existsreq c p) (boolresp False)"

definition Session_Get :: "'d libs \<Rightarrow> Context \<Rightarrow> path \<Rightarrow> ('d, 'd response) op" where
  "Session_Get L c p = send L (getreq c p) (getresp [] (Some sessTermError))"

definition Session_GetType :: "'d libs \<Rightarrow> Context \<Rightarrow> path \<Rightarrow> ('d, 'd response) op" where
  "Session_GetType L c p = send L (typereq c p) (typeresp CONTAINER (Some sessTermError))"

definition Session_GetStatus :: "'d libs \<Rightarrow> Context \<Rightarrow> path \<Rightarrow> ('d, 'd response) op" where
  "Session_GetStatus L c p = send L (statusreq c p) (statusresp UNCHANGED (Some sessTermError))"

definition Session_IsDefault :: "'d libs \<Rightarrow> Context \<Rightarrow> path \<Rightarrow> ('d, 'd response) op" where
  "Session_IsDefault L c p = send L (defaultreq c p) (defaultresp False (Some sessTermError))"

definition Session_GetTree :: "'d libs \<Rightarrow> Context \<Rightarrow> path \<Rightarrow> TreeOpts \<Rightarrow> ('d, 'd response) op" where
  "Session_GetTree L c p opts = send L (gettreereq c p opts) (gettreeresp None (Some sessTermError))"

definition Session_GetFullTree :: "'d libs \<Rightarrow> Context \<Rightarrow> path \<Rightarrow> TreeOpts \<Rightarrow> ('d, 'd response) op" where
  "Session_GetFullTree L c p opts =
    send L (getfulltreereq c p opts) (getfulltreeresp None (Some sessTermError) [])"

definition Session_ValidateSet :: "'d libs \<Rightarrow> Context \<Rightarrow> path \<Rightarrow> ('d, 'd response) op" where
  "Session_ValidateSet L c p = send L (validatesetreq c p) (errresp (Some sessTermError))"

definition Session_Validate :: "'d libs \<Rightarrow> Context \<Rightarrow> ('d, 'd response) op" where
  "Session_Validate L c = send L (validatereq c) (commitresp_of (MakeCommitError sessTermError))"

definition Session_Lock :: "'d libs \<Rightarrow> Context \<Rightarrow> ('d, 'd response) op" where
  "Session_Lock L c = send L (lockreq c) (lockresp (- 1) (Some sessTermError))"

definition Session_Unlock :: "'d libs \<Rightarrow> Context \<Rightarrow> ('d, 'd response) op" where
  "Session_Unlock L c = send L (unlockreq c) (lockresp (- 1) (Some sessTermError))"

definition Session_Locked :: "'d libs \<Rightarrow> Context \<Rightarrow> ('d, 'd response) op" where
  "Session_Locked L c = send L (lockedreq c) (lockresp (- 1) (Some sessTermError))"

definition Session_Comment :: "'d libs \<Rightarrow> Context \<Rightarrow> path \<Rightarrow> ('d, 'd response) op" where
  "Session_Comment L c p = send L (commentreq c p) (errresp (Some sessTermError))"

definition Session_Changed :: "'d libs \<Rightarrow> Context \<Rightarrow> ('d, 'd response) op" where
  "Session_Changed L c = send L (changedreq c) (boolresp False)"

definition Session_Saved :: "'d libs \<Rightarrow> Context \<Rightarrow> ('d, 'd response) op" where
  "Session_Saved L c = send L (savedreq c) (boolresp False)"

definition Session_MarkSaved :: "'d libs \<Rightarrow> Context \<Rightarrow> bool \<Rightarrow> ('d, unit) op" where
  "Session_MarkSaved L c b = do { _ \<leftarrow> send L (marksavedreq c b) (errresp None); ret () }"

definition Session_showInternal ::
  "'d libs \<Rightarrow> Context \<Rightarrow> path \<Rightarrow> bool \<Rightarrow> bool \<Rightarrow> bool \<Rightarrow> ('d, 'd response) op" where
  "Session_showInternal L c p hideSecrets showDefaults forceShowSecrets =
    send L (showreq c p hideSecrets showDefaults forceShowSecrets) (showresp '''' (Some sessTermError))"

definition Session_ShowForceSecrets :: "'d libs \<Rightarrow> Context \<Rightarrow> path \<Rightarrow> bool \<Rightarrow> bool \<Rightarrow> ('d, 'd response) op" where
  "Session_ShowForceSecrets L c p hideSecrets showDefaults =
    Session_showInternal L c p hideSecrets showDefaults True"

definition Session_Load :: "'d libs \<Rightarrow> Context \<Rightarrow> string \<Rightarrow> string option \<Rightarrow> ('d, 'd response) op" where
  "Session_Load L c file r = send L (loadreq c file r) (loadresp (Some sessTermError) [])"

definition Session_Merge :: "'d libs \<Rightarrow> Context \<Rightarrow> string \<Rightarrow> ('d, 'd response) op" where
  "Session_Merge L c file = send L (mergereq c file) (loadresp (Some sessTermError) [])"

definition Session_Commit_api :: "'d libs \<Rightarrow> Context \<Rightarrow> string \<Rightarrow> bool \<Rightarrow> ('d, 'd response) op" where
  "Session_Commit_api L c message debug =
    send L (commitreq c message debug) (commitresp_of (MakeCommitError sessTermError))"

definition Session_GetHelp :: "'d libs \<Rightarrow> Context \<Rightarrow> bool \<Rightarrow> path \<Rightarrow> ('d, 'd response) op" where
  "Session_GetHelp L c sch p = send L (gethelpreq c sch p) (helpresp None (Some sessTermError))"

definition Session_EditConfigXML ::
  "'d libs \<Rightarrow> Context \<Rightarrow> string \<Rightarrow> string \<Rightarrow> string \<Rightarrow> string \<Rightarrow> string \<Rightarrow> ('d, 'd response) op" where
  "Session_EditConfigXML L c target defop testopt erropt cfg =
    send L (editconfigreq c target defop testopt erropt cfg) (errresp (Some sessTermError))"

definition Session_CopyConfig ::
  "'d libs \<Rightarrow> Context \<Rightarrow> string \<Rightarrow> string \<Rightarrow> string \<Rightarrow> string \<Rightarrow> string \<Rightarrow> string \<Rightarrow> ('d, 'd response) op" where
  "Session_CopyConfig L c sds senc scfg surl tds turl =
    send L (copyconfigreq c sds senc scfg surl tds turl) (errresp (Some sessTermError))"

text \<open>\<open>Kill\<close>: the run loop closes \<open>term\<close> and returns.\<close>

definition Session_Kill :: "('d, unit) op" where
  "Session_Kill = upd_sess (\<lambda>s. s\<lparr>terminated := True\<rparr>)"

text \<open>The wrappers the commit code uses on the effective session are the same calls.\<close>

lemma commit_api_calls:
  "send L (setreq c p) (errresp (Some sessTermError)) = respond errresp (Session_Set L c p)"
  "send L (delreq c p) (errresp (Some sessTermError)) = respond errresp (Session_Delete L c p)"
  "send L (discardreq c) (errresp (Some sessTermError)) = respond errresp (Session_Discard L c)"
  "send L (mergetreereq c False) (treeresp None) = respond treeresp (Session_MergeTreeWithoutDefaults L)"
  "Session_showInternal L c p hs sd False = respond (\<lambda>(v, e). showresp v e) (Session_Show L c p hs sd)"
  by (rule state.expand, rule ext,
      auto simp: send_def respond_def api_call_def query_def Session_Set_def Session_Delete_def
        Session_Discard_def Session_MergeTreeWithoutDefaults_def Session_showInternal_def Session_Show_def
        split: prod.splits)+

end
