(* ===== verification/Session_Guard.thy ===== *)
theory Session_Guard
  imports Session_Serve
begin

text \<open>
  What the session lock protects. While process \<open>K\<close> holds the lock of a session,
  the requests of the other clients, including those served in the middle of
  other requests, leave the lock, the candidate and the saved mark as they are.
  The proof is compositional: every operation only consumes interference
  (\<open>consume_intros\<close>), an operation that asks for the lock first is rejected, and
  the read operations respect the relation step by step (\<open>quiet_intros\<close>).
\<close>

subsection \<open>Every operation only consumes interference\<close>

text \<open>
  What the commit package promises: it reaches the session world only through
  the \<open>Set\<close> and \<open>Delete\<close> methods of the effective database it is given, so
  whatever both of them preserve it preserves.
\<close>

definition commit_via_callbacks :: "'d libs \<Rightarrow> bool" where
  "commit_via_callbacks L \<longleftrightarrow>
    (\<forall>R cc S D. frame_rel R \<longrightarrow> (\<forall>p. keeps R (S p)) \<longrightarrow> (\<forall>p. keeps R (D p)) \<longrightarrow>
       keeps R (commit_Commit L cc S D))"

lemma consume_on_effective [consume_intros]: "keeps consumes m \<Longrightarrow> keeps consumes (on_effective m)"
  unfolding on_effective_def by (intro consume_intros)

lemma consume_api_call [consume_intros]: "keeps consumes m \<Longrightarrow> keeps consumes (api_call d m)"
  unfolding api_call_def by (intro consume_intros)

lemma consume_lock [consume_intros]: "keeps consumes (do_lock p)" "keeps consumes (do_unlock p)"
  unfolding do_lock_def do_unlock_def by (intro consume_intros)+

lemma consume_upd_cmgr [consume_intros]: "keeps consumes (upd_cmgr f)"
  unfolding upd_cmgr_def by (intro consume_intros)

lemma consume_validateSetPath [consume_intros]: "keeps consumes (validateSetPath L c p a b)"
  unfolding validateSetPath_def by (intro consume_intros)

lemma consume_run_subst [consume_intros]: "keeps consumes (run_subst L p sub)"
  unfolding run_subst_def by (intro consume_intros)

lemma consume_union [consume_intros]:
  "keeps consumes (union_set L c p)" "keeps consumes (union_delete L c p chk)"
  unfolding union_set_def union_delete_def by (intro consume_intros)+

lemma consume_set_internal [consume_intros]: "keeps consumes (set_internal L c p)"
  unfolding set_internal_def by (intro consume_intros)

lemma consume_candidate_ops [consume_intros]:
  "keeps consumes (set_cfg L c p)" "keeps consumes (del L c p)" "keeps consumes (marksaved c b)"
  "keeps consumes (discard L c)"
  unfolding set_cfg_def del_def marksaved_def discard_def by (intro consume_intros)+

lemma consume_commit_api [consume_intros]:
  "keeps consumes (Session_Set L c p)" "keeps consumes (Session_Delete L c p)"
  "keeps consumes (Session_Discard L c)" "keeps consumes (Session_MergeTreeWithoutDefaults L)"
  "keeps consumes (Session_Show L c p hs sd)"
  unfolding Session_Set_def Session_Delete_def Session_Discard_def
    Session_MergeTreeWithoutDefaults_def Session_Show_def by (intro consume_intros)+

lemma consume_commit_log [consume_intros]:
  "keeps consumes (LogCommitMsg cc msg)" "keeps consumes (LogCommitTime cc msg)"
  "keeps consumes (send_notify cc)" "keeps consumes (commitctx_validate L cc)"
  unfolding LogCommitMsg_def LogCommitTime_def send_notify_def commitctx_validate_def
  by (intro consume_intros)+

lemma consume_execute_hooks [consume_intros]: "keeps consumes (execute_hooks L dir env)"
  unfolding execute_hooks_def by (intro consume_intros)

lemma consume_run_hooks [consume_intros]: "keeps consumes (run_hooks L dir env acc)"
  unfolding run_hooks_def by (intro consume_intros)

lemma consume_commitctx [consume_intros]:
  "keeps consumes (commitctx_Set L cc p)" "keeps consumes (commitctx_Delete L cc p)"
  unfolding commitctx_Set_def commitctx_Delete_def by (intro consume_intros)+

lemma commit_via_callbacksD:
  assumes "commit_via_callbacks L" "frame_rel R"
    and "\<And>p. keeps R (commitctx_Set L cc p)" "\<And>p. keeps R (commitctx_Delete L cc p)"
  shows "keeps R (commit_Commit L cc (commitctx_Set L cc) (commitctx_Delete L cc))"
  using assms unfolding commit_via_callbacks_def by blast

lemma consume_commitctx_commit [consume_intros]:
  assumes "commit_via_callbacks L"
  shows "keeps consumes (commitctx_commit L cc env)"
  unfolding commitctx_commit_def
  by (intro consume_intros commit_via_callbacksD assms consume.frame_rel_axioms)

lemma consume_writeRunning [consume_intros]: "keeps consumes (writeRunning L c)"
  unfolding writeRunning_def by (intro consume_intros)

lemma consume_store_running [consume_intros]: "keeps consumes (store_running L cc)"
  unfolding store_running_def by (intro consume_intros)

lemma consume_CommitMgr [consume_intros]:
  assumes "commit_via_callbacks L"
  shows "keeps consumes (CommitMgr_Commit L sd c cand msg dbg)"
  unfolding CommitMgr_Commit_def CommitMgr_commit_def commit_trees_def commit_apply_def commit_pre_def commit_post_def
  by (intro consume_intros assms)

lemma consume_preCommit [consume_intros]: "keeps consumes (preCommitChecks L)"
  unfolding preCommitChecks_def by (intro consume_intros)

lemma consume_with_lock [consume_intros]: "keeps consumes m \<Longrightarrow> keeps consumes (with_commit_lock c m)"
  unfolding with_commit_lock_def by (intro consume_intros)

lemma consume_validate [consume_intros]: "keeps consumes (validate L c)"
  unfolding validate_def validate_body_def by (intro consume_intros)

lemma consume_commit [consume_intros]:
  assumes "commit_via_callbacks L"
  shows "keeps consumes (commit L c msg dbg)"
  unfolding commit_def commit_body_def by (intro consume_intros assms)

lemma consume_edit_auth [consume_intros]:
  "keeps consumes (authorize L c ec perm e)"
  unfolding authorize_def by (intro consume_intros)

lemma consume_edit_Auth [consume_intros]: "keeps consumes (edit_Auth L c ec e)"
  unfolding edit_Auth_def by (intro consume_intros)

lemma consume_edit_Test [consume_intros]: "keeps consumes (edit_Test L c ec e)"
  unfolding edit_Test_def by (intro consume_intros)

lemma consume_with_account [consume_intros]:
  "keeps consumes m \<Longrightarrow> keeps consumes (with_account L c perm e m)"
  unfolding with_account_def by (intro consume_intros)

lemma consume_removeInternal [consume_intros]: "keeps consumes (removeInternal L c e acct)"
  unfolding removeInternal_def remove_quiet_def by (intro consume_intros)

lemma consume_edit_Set [consume_intros]: "keeps consumes (edit_Set L c ec e)"
  unfolding edit_Set_def edit_Merge_def edit_merge_def edit_Replace_def edit_Create_def
    edit_create_def edit_Delete_def edit_delete_def edit_Remove_def
  by (intro consume_intros)

lemma consume_edit_Perform [consume_intros]: "keeps consumes (edit_Perform L c ec e)"
  unfolding edit_Perform_def by (intro consume_intros)

lemma consume_ec_perform [consume_intros]: "keeps consumes (ec_perform L c ec es perr)"
  by (induction es arbitrary: perr) (auto intro!: consume_intros)

lemma consume_editConfigXML [consume_intros]: "keeps consumes (editConfigXML L c t d to eo cfg)"
  unfolding editConfigXML_def EditConfig_def ec_test_def by (intro consume_intros)

subsection \<open>The guard\<close>

definition lock_guard :: "pid \<Rightarrow> 'd world \<Rightarrow> 'd world \<Rightarrow> bool" where
  "lock_guard K w w' \<longleftrightarrow>
    (lpid (w_sess w) = K \<longrightarrow> w_sess w' = w_sess w)"

interpretation guard: world_rel "lock_guard K" for K
  by unfold_locales (auto simp: lock_guard_def)

lemmas guard_steps [quiet_intros] = guard.steps_ok guard.sess_ok guard.the_world_ok guard.wait_ok

lemma guarded_emit [quiet_intros]: "keeps (framed (lock_guard K)) (emit ev)"
  unfolding emit_def by (rule guard.upd_world_ok) (simp add: lock_guard_def)

text \<open>An operation that is rejected while somebody else holds the lock.\<close>

lemma guarded_by_trylock:
  fixes m :: "('d, 'a) op"
  assumes "keeps consumes m"
    and "\<And>w es. lpid (w_sess w) = K \<Longrightarrow> snd (run_state m (w, es)) = (w, es)"
  shows "keeps (framed (lock_guard K)) m"
proof (rule keepsI)
  fix s :: "'d st"
  obtain w es where s: "s = (w, es)" by (cases s)
  show "framed (lock_guard K) s (snd (run_state m s))"
  proof (cases "lpid (w_sess w) = K")
    case True
    then show ?thesis using assms(2) s by (simp add: framed_def lock_guard_def)
  next
    case False
    then show ?thesis
      using consumes_effs_ok [OF keepsD [OF assms(1)], of "lock_guard K" s] s
      by (auto simp: framed_def lock_guard_def)
  qed
qed

lemma guarded_lock_ops [quiet_intros]:
  assumes "p \<noteq> K" "K \<noteq> 0"
  shows "keeps (framed (lock_guard K)) (do_lock p)" "keeps (framed (lock_guard K)) (do_unlock p)"
  using assms by (auto intro!: guarded_by_trylock consume_intros)

lemma guarded_candidate_ops [quiet_intros]:
  assumes "Pid c \<noteq> K" "K \<noteq> 0"
  shows "keeps (framed (lock_guard K)) (set_cfg L c p)" "keeps (framed (lock_guard K)) (del L c p)"
    "keeps (framed (lock_guard K)) (marksaved c b)" "keeps (framed (lock_guard K)) (discard L c)"
  by (rule guarded_by_trylock, intro consume_intros,
      simp add: set_cfg_def del_def marksaved_def discard_def trylock_denied assms)+

lemma guarded_long_ops [quiet_intros]:
  assumes "Pid c \<noteq> K" "K \<noteq> 0"
  shows "keeps (framed (lock_guard K)) (validate L c)"
    "commit_via_callbacks L \<Longrightarrow> keeps (framed (lock_guard K)) (commit L c msg dbg)"
    "keeps (framed (lock_guard K)) (editConfigXML L c t d to eo cfg)"
  by (rule guarded_by_trylock, (intro consume_intros; assumption),
      simp add: validate_def commit_def editConfigXML_def trylock_denied assms)+

lemma guarded_validateSetPath [quiet_intros]: "keeps (framed (lock_guard K)) (validateSetPath L c p a b)"
  unfolding validateSetPath_def by (intro quiet_intros)

lemma guarded_gettree [quiet_intros]: "keeps (framed (lock_guard K)) (gettree L c p opts)"
  unfolding gettree_def by (intro quiet_intros)

lemma guarded_getfulltree [quiet_intros]: "keeps (framed (lock_guard K)) (getfulltree L c p opts)"
  unfolding getfulltree_def full_convert_def full_filter_def logStateTime_def logStateEvent_def
  by (intro quiet_intros)

lemma guarded_setFn_all [quiet_intros]:
  assumes "Pid c \<noteq> K" "K \<noteq> 0"
  shows "keeps (framed (lock_guard K)) (setFn_all L c ns)"
proof -
  have "keeps (framed (lock_guard K)) (setFn L c n)" for n
    unfolding setFn_def by (intro quiet_intros assms)
  then show ?thesis
    by (induction ns) (auto intro!: quiet_intros)
qed

lemma guarded_merge [quiet_intros]:
  assumes "Pid c \<noteq> K" "K \<noteq> 0"
  shows "keeps (framed (lock_guard K)) (merge L c file r)"
  unfolding merge_def merge_tree_def by (intro quiet_intros assms)

lemma guarded_query [quiet_intros]: "keeps (framed (lock_guard K)) (query f)"
  unfolding query_def by (intro quiet_intros)

lemma guarded_respond [quiet_intros]:
  "keeps (framed (lock_guard K)) m \<Longrightarrow> keeps (framed (lock_guard K)) (respond f m)"
  unfolding respond_def by (intro quiet_intros)

text \<open>The two requests that delete the candidate without asking for the lock.\<close>

fun skips_lock :: "request \<Rightarrow> bool" where
  "skips_lock (loadreq _ _ _) = True"
| "skips_lock (copyconfigreq _ _ _ _ _ _ _) = True"
| "skips_lock _ = False"

lemma guarded_processreq:
  assumes "Pid (req_ctx r) \<noteq> K" "K \<noteq> 0" "\<not> skips_lock r" "commit_via_callbacks L"
  shows "keeps (framed (lock_guard K)) (processreq L dc r)"
  using assms by (cases r) (auto intro!: quiet_intros)

subsection \<open>Interference\<close>

text \<open>
  What can happen to a session's world while it waits: nothing, another request
  of a client other than \<open>K\<close> (itself interrupted in the same way), or a change
  made outside the session (another session commits, a script logs, the disk
  becomes read-only).
\<close>

inductive serves :: "'d libs \<Rightarrow> pid \<Rightarrow> 'd interference \<Rightarrow> bool" for L K where
  idle: "serves L K (\<lambda>w. w)"
| request: "serves L K f \<Longrightarrow> (\<And>e. e \<in> set es \<Longrightarrow> serves L K e) \<Longrightarrow>
    Pid (req_ctx r) \<noteq> K \<Longrightarrow> \<not> skips_lock r \<Longrightarrow>
    serves L K (\<lambda>w. fst (snd (run_state (processreq L dc r) (f w, es))))"
| outside: "serves L K f \<Longrightarrow> (\<And>w. w_sess (g w) = w_sess w) \<Longrightarrow> serves L K (\<lambda>w. g (f w))"

lemma serves_guard:
  assumes "serves L K f" "K \<noteq> 0" "commit_via_callbacks L"
  shows "lock_guard K w (f w)"
  using assms(1)
proof (induction arbitrary: w)
  case idle
  show ?case by (rule guard.G_refl)
next
  case (request f es r dc)
  have "framed (lock_guard K) (f w, es) (snd (run_state (processreq L dc r) (f w, es)))"
    by (rule keepsD, rule guarded_processreq) (use request.hyps assms(2,3) in auto)
  moreover have "effs_ok (lock_guard K) es"
    using request.IH(2) by (simp add: effs_ok_def)
  ultimately have "lock_guard K (f w) (fst (snd (run_state (processreq L dc r) (f w, es))))"
    by (simp add: framed_def)
  then show ?case by (rule guard.G_trans [OF request.IH(1)])
next
  case (outside f g)
  have "lock_guard K (f w) (g (f w))" using outside.hyps(2) by (simp add: lock_guard_def)
  then show ?case by (rule guard.G_trans [OF outside.IH])
qed

lemma serves_effs_ok:
  assumes "\<forall>e\<in>set es. serves L K e" "K \<noteq> 0" "commit_via_callbacks L"
  shows "effs_ok (lock_guard K) es"
  unfolding effs_ok_def using assms(1) by (intro ballI allI serves_guard [OF _ assms(2,3)]) simp

end
