(* ===== verification/Sample_Libs.thy ===== *)
theory Sample_Libs
  imports Session_Guard
begin

text \<open>
  A small concrete instance of the packages that configd calls, on which the
  general theorems are exercised: a data tree is the list of its paths, the
  schema accepts every non-empty path, the leaf \<open>macro\<close> has a substitution
  script, the leaf \<open>deny\<close> has invalid values, and the commit package replays the
  paths of the candidate into the effective database.
\<close>

type_synonym dtree = "path list"

definition leaf_node :: "string \<Rightarrow> string list \<Rightarrow> snode" where
  "leaf_node n subst = SNode \<lparr>s_kind = KLeaf, s_name = n, s_ns = ''urn:s'', s_presence = True, s_keys = [],
     s_empty = False, s_subst = subst, s_help = ''''\<rparr> [] []"

definition root_node :: snode where
  "root_node = SNode \<lparr>s_kind = KTree, s_name = ''root'', s_ns = ''urn:s'', s_presence = False, s_keys = [],
     s_empty = False, s_subst = [], s_help = ''''\<rparr> [leaf_node ''a'' [], leaf_node ''macro'' [''script1'', ''script2'']] []"

definition sample_descendant :: "snode \<Rightarrow> path \<Rightarrow> snode option" where
  "sample_descendant root p =
    (if p = [] then Some root
     else if hd p = ''macro'' then Some (leaf_node (last p) [''script1'', ''script2''])
     else Some (leaf_node (last p) []))"

definition overlay_of :: "dtree unode \<Rightarrow> dtree" where
  "overlay_of u = (case u_overlay u of None \<Rightarrow> [] | Some d \<Rightarrow> d)"

definition underlay_of :: "dtree unode \<Rightarrow> dtree" where
  "underlay_of u = (case u_underlay u of None \<Rightarrow> [] | Some d \<Rightarrow> d)"

definition sample_merge :: "dtree unode \<Rightarrow> dtree" where
  "sample_merge u = underlay_of u @ filter (\<lambda>p. p \<notin> set (underlay_of u)) (overlay_of u)"

definition sample_commit :: "dtree commitctx \<Rightarrow> (path \<Rightarrow> (dtree, error option) op) \<Rightarrow>
    (path \<Rightarrow> (dtree, error option) op) \<Rightarrow> (dtree, exec_output list \<times> error list \<times> nat \<times> nat) op" where
  "sample_commit cc S D = do {
     for_each (\<lambda>p. do { _ \<leftarrow> S p; ret () }) (filter (\<lambda>p. p \<notin> set (cc_running cc)) (cc_candidate cc));
     ret ([], [], length (cc_candidate cc), 0) }"

definition sample :: "dtree libs" where
  "sample = \<lparr>
    data_New = (\<lambda>_. []),
    data_NumChildren = (\<lambda>d. case d of None \<Rightarrow> 0 | Some t \<Rightarrow> length t),
    union_Merge = sample_merge,
    union_MergeWithoutDefaults = sample_merge,
    union_Set = (\<lambda>u au p. (None, overlay_of u @ [p])),
    union_Delete = (\<lambda>u au p chk. (None, filter (\<lambda>q. take (length p) q \<noteq> p) (overlay_of u))),
    union_Exists = (\<lambda>u au p. if p \<in> set (sample_merge u) then None else Some (NodeNotExistsError p)),
    union_IsDefault = (\<lambda>u au p. (False, None)),
    union_Get = (\<lambda>u au p. ([], None)),
    union_Descendant = (\<lambda>u au p. (Some u, None)),
    union_Show = (\<lambda>u p opts. (''cfg'', None)),
    union_GetHelp = (\<lambda>u au sch p. (\<lambda>_. None, None)),
    union_ToRFC7951 = (\<lambda>u opts. ''{}''),
    union_Unmarshal = (\<lambda>enc v sch txt. (\<lparr>u_overlay = None, u_underlay = Some [[txt]], u_schema = sch\<rparr>, None)),
    union_SortedChildren = (\<lambda>u. map (\<lambda>p. LNode (hd p) (Some True) False []) (sample_merge u)),
    union_NodeSchema = (\<lambda>root p. if p = [] then root else leaf_node (last p) []),
    union_HasChild = (\<lambda>u pos n. pos = [] \<and> [n] \<in> set (sample_merge u)),
    union_ChildNames = (\<lambda>u pos. if pos = [] then map hd (filter (\<lambda>p. length p = 1) (sample_merge u)) else []),
    union_AddChild = (\<lambda>u pos d. underlay_of u),
    union_GetStateJson = (\<lambda>w u pos p. ([''{}''], [])),
    union_UnmarshalState = (\<lambda>u pos txt. (None, underlay_of u)),
    reflect_TypeOf = (\<lambda>_. ''node''),
    xml_Unmarshal = (\<lambda>txt. Inr \<lparr>xc_Children = [EditNode (if HasPrefix txt ''<set>'' then drop 5 txt else txt) ''urn:s'' op_notset ''1'' []],
      xc_Target = None, xc_DefaultOperation = None,
      xc_TestOption = (if HasPrefix txt ''<set>'' then Some testopt_set else None), xc_ErrorOption = None\<rparr>),
    json_Valid = (\<lambda>_. True),
    rfc7951_Unmarshal = (\<lambda>txt. (RScalar txt, None)),
    rfc7951_Marshal = (\<lambda>t. (''{}'', None)),
    schema_Validate = (\<lambda>w sch v p. if p = [] \<or> p = [''deny''] then Some (InvalidPathError p) else None),
    schema_Descendant = sample_descendant,
    schema_AttrsForPath = (\<lambda>sch p. Some (map (\<lambda>_. False) p)),
    schema_PathDescendant = sample_descendant,
    schema_NormalizePath = (\<lambda>sch p. Inr p),
    schema_SchemaChild = (\<lambda>sch n. Some (leaf_node n [])),
    schema_Child = (\<lambda>sch n. None),
    schema_StateChildren = (\<lambda>sch. []),
    schema_FindOrWalk = (\<lambda>sch p f. None),
    diff_NewNode = (\<lambda>a b sch. Some (\<lambda>p. None)),
    commit_Changed = (\<lambda>cc. cc_candidate cc \<noteq> cc_running cc),
    commit_Validate = (\<lambda>w cc. ([], [], [''bad''] \<notin> set (cc_candidate cc))),
    commit_Commit = sample_commit,
    comp_SetRunning = (\<lambda>w sch u a b. []),
    comp_GetState = (\<lambda>w sch u t. (t, None)),
    load_Load = (\<lambda>w file sch. if file = '''' then ([], Some (ExternalError ''no such file''), []) else ([[file]], None, [])),
    load_LoadFile = (\<lambda>file txt sch. ([[txt]], None, [])),
    exec_Exec = (\<lambda>w sd p sub. if sub = ''script2'' then Some (ExternalError ''failed'') else None),
    user_LookupId = (\<lambda>u. if u = ''1000'' then Some ''alice'' else None),
    run_parts = (\<lambda>w dir env. ('''', None)),
    os_Create = (\<lambda>w f. None),
    os_Chmod = (\<lambda>w f m. None)\<rparr>"

text \<open>Callers: \<open>allow_auth\<close> grants everything, \<open>deny_auth\<close> nothing.\<close>

definition auth_of :: "bool \<Rightarrow> auth" where
  "auth_of b = \<lparr>AuthorizeRead = (\<lambda>u g p a. b), AuthorizeCreate = (\<lambda>u g p a. b), AuthorizeUpdate = (\<lambda>u g p a. b),
     AuthorizeDelete = (\<lambda>u g p a. b), AuthorizePath = (\<lambda>u g p a pm. b), AuthorizeCommand = (\<lambda>u g p a. b),
     AuthorizeFn = (\<lambda>u g f. b)\<rparr>"

definition caller :: "pid \<Rightarrow> bool \<Rightarrow> Context" where
  "caller p b = \<lparr>Configd = False, Auth = auth_of b, Pid = p, Uid = 1000, User = ''alice'', UserHome = ''/home/alice'',
     Groups = [''users''], Superuser = False,
     Config = \<lparr>Runfile = ''/run/running'', SecretsGroup = ''secrets'', SuperGroup = ''super''\<rparr>, Noexec = False\<rparr>"

definition sample_session :: "string \<Rightarrow> pid \<Rightarrow> dtree \<Rightarrow> dtree session" where
  "sample_session sd p d = \<lparr>sid = sd, owner = None, lpid = p, saved = False, candidate = d,
     ses_schema = root_node, ses_schemaFull = root_node, terminated = False\<rparr>"

definition sample_world :: "pid \<Rightarrow> dtree \<Rightarrow> dtree \<Rightarrow> dtree world" where
  "sample_world p cand run = \<lparr>w_sess = sample_session ''s1'' p cand,
     w_cmgr = \<lparr>cm_running = Some run, cm_effective = sample_session ''EFFECTIVE'' SYSTEM [],
               cm_schema = root_node, cm_hadcommit = True, cm_inCommit = False\<rparr>,
     w_dbg = cfgDebugSettings, w_rofs = False, w_log = []\<rparr>"

lemma sample_simps [simp]:
  "commit_Commit sample = sample_commit"
  by (simp add: sample_def)

lemma sample_commit_via: "commit_via_callbacks sample"
  unfolding commit_via_callbacks_def
proof (intro allI impI)
  fix R cc and S D :: "path \<Rightarrow> (dtree, error option) op"
  assume R: "frame_rel R" and S: "\<forall>p. keeps R (S p)"
  have "keeps R (for_each (\<lambda>p. do { _ \<leftarrow> S p; ret () }) ps)" for ps
    by (rule frame_rel.for_each_ok [OF R], rule frame_rel.bind_ok [OF R])
      (use S in \<open>auto intro: frame_rel.ret_ok [OF R]\<close>)
  then show "keeps R (commit_Commit sample cc S D)"
    by (auto simp: sample_commit_def intro!: frame_rel.bind_ok [OF R] frame_rel.ret_ok [OF R])
qed

end
