(* ===== verification/Session_Props.thy ===== *)
theory Session_Props
  imports Sample_Libs
begin

text \<open>
  Properties of a single session: what its lock protects, that nothing happens
  without authority, what \<open>set\<close>, the substitution scripts and \<open>load\<close> do to the
  candidate.
\<close>

subsection \<open>The lock\<close>

text \<open>C1. While process \<open>K\<close> holds the lock of a session, whatever the other
  clients send to it, in any order, nested in any way in each other's waits, and
  whatever other sessions commit meanwhile: the session is what it was in every
  field, so \<open>K\<close> still holds the lock and candidate and saved mark are unchanged. The two requests that do not
  ask for the lock before deleting (load, copy-config) are excluded.\<close>

theorem lock_protects_session:
  assumes "serves L K f" "commit_via_callbacks L" "K \<noteq> 0" "lpid (w_sess w) = K"
  shows "w_sess (f w) = w_sess w"
  using serves_guard [OF assms(1,3,2), of w] assms(4) by (simp add: lock_guard_def)

definition intruder :: "dtree interference" where
  "intruder w = fst (snd (run_state (processreq sample None (discardreq (caller 8 True)))
     (fst (snd (run_state (processreq sample None (setreq (caller 9 True) [''b''])) (w, []))), [])))"

lemma intruder_serves: "serves sample 7 intruder"
proof -
  have "serves sample 7 (\<lambda>w. fst (snd (run_state (processreq sample None (setreq (caller 9 True) [''b''])) (w, []))))"
    by (rule serves.request [OF serves.idle]) (simp_all add: caller_def)
  then have "serves sample 7 (\<lambda>w. fst (snd (run_state (processreq sample None (discardreq (caller 8 True)))
     (fst (snd (run_state (processreq sample None (setreq (caller 9 True) [''b''])) (w, []))), []))))"
    by (rule serves.request) (simp_all add: caller_def)
  then show ?thesis unfolding intruder_def .
qed

theorem lock_protects_session_witness:
  "candidate (w_sess (intruder (sample_world 7 [[''a'']] []))) = [[''a'']] \<and>
   candidate (w_sess (intruder (sample_world 0 [[''a'']] []))) = []"
proof
  show "candidate (w_sess (intruder (sample_world 7 [[''a'']] []))) = [[''a'']]"
    using lock_protects_session [OF intruder_serves sample_commit_via, of "sample_world 7 [[''a'']] []"]
    by (simp add: sample_world_def sample_session_def)
  show "candidate (w_sess (intruder (sample_world 0 [[''a'']] []))) = []"
    by code_simp
qed

text \<open>The session lock is exclusive: after a successful \<open>lock\<close> by \<open>p\<close>, any
  sequence of lock and unlock calls by other processes leaves \<open>p\<close> the holder, and
  every other process is refused both the lock and any change.\<close>

theorem lock_exclusive:
  assumes "p \<noteq> 0" "lpid s = 0" "\<forall>op\<in>set ops. lock_op_pid op \<noteq> p" "q \<noteq> p"
  shows "lpid (session_lock.steps ops (snd (lock p s))) = p \<and>
    trylock q (session_lock.steps ops (snd (lock p s))) \<noteq> None \<and>
    snd (fst (lock q (session_lock.steps ops (snd (lock p s))))) \<noteq> None"
proof -
  have free: "lock_holder s = None" using assms(2) by (simp add: lock_holder_def)
  note ex = session_lock.exclusive [OF assms(1) free assms(3,4)]
  show ?thesis
    using ex by (auto simp: lock_holder_def split: if_splits)
qed

theorem lock_exclusive_witness:
  "trylock 9 (session_lock.steps [Unlock 9, Lock 8] (snd (lock 5 (sample_session ''s'' 0 [])))) \<noteq> None"
  using lock_exclusive [of 5 "sample_session ''s'' 0 []" "[Unlock 9, Lock 8]" 9]
  by (simp add: sample_session_def)

subsection \<open>Setting a path\<close>

lemma set_internal_run:
  "run_state (set_cfg L c p) (w, es) =
    (case trylock (Pid c) (w_sess w) of
       Some err \<Rightarrow> (Some err, w, es)
     | None \<Rightarrow>
        if (if existsInTree L (getUnion w) (newAuther L c (w_sess w)) p False
            then AuthUpdate (newAuther L c (w_sess w)) p else AuthCreate (newAuther L c (w_sess w)) p)
        then run_state (set_internal L c p) (w, es)
        else (Some (AccessDeniedApplicationError None), w, es))"
  by (simp add: set_cfg_def Let_def split: option.split)

text \<open>C9. Nothing of a \<open>set\<close> happens without authority: unless the caller passes
  the lock and is authorised to update the path (if it exists) or to create it
  (if not), the request is answered with the lock error or access denied and the
  world is untouched; in particular no substitution script, which would run with
  superuser privileges, is executed and no other request is served.\<close>

theorem set_needs_authority:
  assumes "\<not> (trylock (Pid c) (w_sess w) = None \<and>
      (if existsInTree L (getUnion w) (newAuther L c (w_sess w)) p False
       then AuthUpdate (newAuther L c (w_sess w)) p
       else AuthCreate (newAuther L c (w_sess w)) p))"
  shows "run_state (set_cfg L c p) (w, es) =
    (Some (if trylock (Pid c) (w_sess w) \<noteq> None then denied_by (lpid (w_sess w))
           else AccessDeniedApplicationError None), w, es)"
  using assms by (auto simp: set_internal_run trylock_def split: if_splits)

theorem set_needs_authority_witness:
  "run_state (set_cfg sample (caller 5 False) [''macro'']) (sample_world 0 [] [], []) =
    (Some (AccessDeniedApplicationError None), sample_world 0 [] [], [])"
proof -
  have *: "lpid (w_sess (sample_world 0 [] [])) = 0"
    by (simp add: sample_world_def sample_session_def)
  have "\<not> (trylock (Pid (caller 5 False)) (w_sess (sample_world 0 [] [])) = None \<and>
      (if existsInTree sample (getUnion (sample_world 0 [] [])) (newAuther sample (caller 5 False)
            (w_sess (sample_world 0 [] []))) [''macro''] False
       then AuthUpdate (newAuther sample (caller 5 False) (w_sess (sample_world 0 [] []))) [''macro'']
       else AuthCreate (newAuther sample (caller 5 False) (w_sess (sample_world 0 [] []))) [''macro'']))"
    by code_simp
  from set_needs_authority [OF this, of "[]"] show ?thesis
    by (simp add: trylock_def *)
qed

subsection \<open>Substitution scripts\<close>

text \<open>The scripts that get to run: all of them, or up to the first that fails.\<close>

fun scripts_run :: "'d libs \<Rightarrow> 'd world \<Rightarrow> path \<Rightarrow> string list \<Rightarrow> event list \<times> error option" where
  "scripts_run L w p [] = ([], None)"
| "scripts_run L w p (sub # subs) =
    (let ev = EvExec (sid (w_sess w)) p sub in
     case exec_Exec L w (sid (w_sess w)) p sub of
       Some err \<Rightarrow> ([ev], Some err)
     | None \<Rightarrow> let (evs, e) = scripts_run L (w\<lparr>w_log := w_log w @ [ev]\<rparr>) p subs in (ev # evs, e))"

lemma run_substs:
  "run_state (for_err (run_subst L p) subs) (w, []) =
    (snd (scripts_run L w p subs), w\<lparr>w_log := w_log w @ fst (scripts_run L w p subs)\<rparr>, [])"
proof (induction subs arbitrary: w)
  case (Cons sub subs)
  show ?case
    using Cons.IH [of "w\<lparr>w_log := w_log w @ [EvExec (sid (w_sess w)) p sub]\<rparr>"]
    by (auto simp: run_subst_def Let_def split: option.split prod.split)
qed simp

text \<open>C15. An authorised \<open>set\<close> that is not interrupted, on every branch: a path the
  schema rejects is answered with that error; a node with substitution scripts
  runs them in order up to the first failure, leaves the candidate alone and
  returns that failure; any other node is set in the union of candidate and
  running, and the candidate becomes what the union tree made of it.\<close>

theorem set_outcome:
  assumes "trylock (Pid c) (w_sess w) = None"
    and "if existsInTree L (getUnion w) (newAuther L c (w_sess w)) p False
         then AuthUpdate (newAuther L c (w_sess w)) p else AuthCreate (newAuther L c (w_sess w)) p"
  shows "run_state (set_cfg L c p) (w, []) =
    (let s = w_sess w;
         v = schema_Validate L w (ses_schema s)
               \<lparr>CurPath = p, v_Sid = sid s, v_Noexec = Noexec c, IncompletePathIsValid = False\<rparr> p
     in if v \<noteq> None then (v, w, [])
        else case schema_Descendant L (ses_schema s) p of
          None \<Rightarrow> (Some (unknown_element p), w, [])
        | Some sch \<Rightarrow>
           if s_subst (sn_info sch) \<noteq> []
           then (snd (scripts_run L w p (s_subst (sn_info sch))),
                 w\<lparr>w_log := w_log w @ fst (scripts_run L w p (s_subst (sn_info sch)))\<rparr>, [])
           else (fst (union_Set L (getUnion w) (newAuther L c s) p),
                 w\<lparr>w_sess := s\<lparr>candidate := snd (union_Set L (getUnion w) (newAuther L c s) p)\<rparr>\<rparr>, []))"
  using assms
  by (auto simp: set_internal_run set_internal_def validateSetPath_def union_set_def run_substs Let_def
      split: option.split prod.split)

theorem set_outcome_witness:
  "fst (run_state (set_cfg sample (caller 5 True) [''macro'', ''x'']) (sample_world 5 [] [], [])) =
      Some (ExternalError ''failed'') \<and>
   snd (run_state (set_cfg sample (caller 5 True) [''a'', ''x'']) (sample_world 5 [] [], [])) =
      (sample_world 5 [[''a'', ''x'']] [], [])"
proof -
  have a: "trylock (Pid (caller 5 True)) (w_sess (sample_world 5 [] [])) = None"
    by code_simp
  have b: "if existsInTree sample (getUnion (sample_world 5 [] []))
             (newAuther sample (caller 5 True) (w_sess (sample_world 5 [] []))) p False
           then AuthUpdate (newAuther sample (caller 5 True) (w_sess (sample_world 5 [] []))) p
           else AuthCreate (newAuther sample (caller 5 True) (w_sess (sample_world 5 [] []))) p" for p
    by (simp add: newAuther_def mk_auther_def Let_def caller_def auth_of_def)
  show ?thesis
    unfolding set_outcome [OF a b]
    by (simp add: sample_def sample_world_def sample_session_def sample_descendant_def leaf_node_def
        Let_def getUnion_def overlay_of_def caller_def)
qed

subsection \<open>Load\<close>

lemma setFn_all_denied:
  assumes "lpid (w_sess w) = K" "K \<noteq> 0" "Pid c \<noteq> K"
  shows "snd (run_state (setFn_all L c ns) (w, es)) = (w, es)"
proof (induction ns)
  case (Cons n ns)
  have "snd (run_state (setFn L c n) (w, es)) = (w, es)"
    using assms by (simp add: setFn_def set_cfg_def trylock_denied split_def Let_def)
  then show ?case using Cons.IH by (simp add: split_def)
qed simp

text \<open>\<open>load\<close> empties the candidate before it asks for the lock: also when another
  process holds it, a readable file replaces the candidate by what the union
  tree leaves after deleting the root (with the authorisation of the caller),
  and only then are the settings of the file rejected one by one.\<close>

lemma load_deletes_despite_lock:
  assumes "lpid (w_sess w) = K" "K \<noteq> 0" "Pid c \<noteq> K" "readFile L file r w = (Inr ltree, invalidPaths)"
  shows "snd (run_state (load L c file r) (w, es)) =
    (w\<lparr>w_sess := (w_sess w)\<lparr>candidate :=
        snd (union_Delete L (getUnion w) (newAuther L c (w_sess w)) [] True)\<rparr>\<rparr>, es)"
proof -
  let ?w = "w\<lparr>w_sess := (w_sess w)\<lparr>candidate :=
        snd (union_Delete L (getUnion w) (newAuther L c (w_sess w)) [] True)\<rparr>\<rparr>"
  have "lpid (w_sess ?w) = K" using assms(1) by simp
  note denied = setFn_all_denied [OF this assms(2,3)]
  show ?thesis
    using assms(4) denied
    by (simp add: load_def delete_then_merge_tree_def union_delete_def merge_tree_def split_def Let_def)
qed

lemma load_deletes_despite_lock_witness:
  "candidate (w_sess (fst (snd (run_state (load sample (caller 9 True) ''f'' None)
     (sample_world 5 [[''a'']] [], []))))) = []"
proof -
  have r: "readFile sample ''f'' None (sample_world 5 [[''a'']] []) =
      (Inr \<lparr>u_overlay = None, u_underlay = Some [[''f'']], u_schema = root_node\<rparr>, [])"
    by (simp add: readFile_def sample_def sample_world_def sample_session_def)
  show ?thesis
    using load_deletes_despite_lock [of "sample_world 5 [[''a'']] []" 5 "caller 9 True", OF _ _ _ r, of "[]"]
    by (simp add: sample_world_def sample_session_def caller_def)
      (simp add: sample_def getUnion_def overlay_of_def)
qed

end
