(* ===== verification/Commit_Props.thy ===== *)
theory Commit_Props
  imports Sample_Libs
begin

text \<open>
  Properties of \<open>commit\<close> and \<open>validate\<close>: the session lock is handed to COMMIT and
  back, the candidate survives exactly the failed commits, and the running tree
  changes exactly with the successful ones.
\<close>

subsection \<open>The commit manager leaves the committing session alone\<close>

definition sess_same :: "'d st \<Rightarrow> 'd st \<Rightarrow> bool" where
  "sess_same s s' \<longleftrightarrow> w_sess (fst s') = w_sess (fst s)"

interpretation same: frame_rel sess_same
  by unfold_locales (auto simp: sess_same_def)

lemma same_prims:
  "keeps sess_same sess" "keeps sess_same the_world" "keeps sess_same (emit ev)" "keeps sess_same (upd_cmgr f)"
  by (auto simp: keeps_def sess_same_def sess_def the_world_def emit_def upd_world_def upd_cmgr_def)

lemma same_on_effective:
  fixes m :: "('d, 'a) op"
  shows "keeps sess_same (on_effective m)"
proof (rule keepsI)
  fix s :: "'d st"
  obtain w es where s: "s = (w, es)" by (cases s)
  obtain a w' es' where "run_state m (w\<lparr>w_sess := cm_effective (w_cmgr w)\<rparr>, es) = (a, w', es')"
    by (metis surj_pair)
  then show "sess_same s (snd (run_state (on_effective m) s))"
    by (simp add: s on_effective_def sess_same_def)
qed

lemmas same_intros = same.steps_ok same_prims same_on_effective

lemma same_CommitMgr:
  assumes "commit_via_callbacks L"
  shows "keeps sess_same (CommitMgr_Commit L sd c cand msg dbg)"
proof -
  have cb: "keeps sess_same (commit_Commit L cc (commitctx_Set L cc) (commitctx_Delete L cc))" for cc
    by (rule commit_via_callbacksD [OF assms same.frame_rel_axioms])
      (simp_all add: commitctx_Set_def commitctx_Delete_def same_on_effective)
  show ?thesis
    unfolding CommitMgr_Commit_def CommitMgr_commit_def commit_trees_def commit_apply_def commit_pre_def commit_post_def
      LogCommitMsg_def LogCommitTime_def commitctx_validate_def run_hooks_def execute_hooks_def
      commitctx_commit_def send_notify_def store_running_def writeRunning_def
    by (intro same_intros cb)
qed

subsection \<open>The lock hand-over\<close>

definition commit_locked :: "'d world \<Rightarrow> 'd world" where
  "commit_locked w = w\<lparr>w_sess := (w_sess w)\<lparr>lpid := COMMIT\<rparr>\<rparr>"

lemma run_with_commit_lock:
  assumes "lpid (w_sess w) = 0 \<or> lpid (w_sess w) = Pid c"
    and "run_state m (commit_locked w, es) = (r, w2, es2)" "lpid (w_sess w2) = COMMIT"
  shows "run_state (with_commit_lock c m) (w, es) =
    (r, w2\<lparr>w_sess := (w_sess w2)\<lparr>lpid := lpid (w_sess w)\<rparr>\<rparr>, es2)"
proof (cases "lpid (w_sess w) = 0")
  case True
  then have "w_sess w\<lparr>lpid := 0\<rparr> = w_sess w" by simp
  then show ?thesis
    using assms True by (simp add: with_commit_lock_def locked_def commit_locked_def Let_def)
next
  case False
  then show ?thesis
    using assms by (simp add: with_commit_lock_def locked_def commit_locked_def Let_def)
qed

lemma wait_guarded:
  assumes "effs_ok (lock_guard K) es" "lpid (w_sess w) = K" "interfere (w, es) = (w', es')"
  shows "lpid (w_sess w') = K" "candidate (w_sess w') = candidate (w_sess w)"
    "saved (w_sess w') = saved (w_sess w)" "effs_ok (lock_guard K) es'"
  using assms by (cases es; auto simp: effs_ok_def lock_guard_def)+

lemma validate_body_guarded: "keeps (framed (lock_guard K)) (validate_body L c)"
  unfolding validate_body_def by (intro quiet_intros)

lemma commit_body_run:
  assumes "commit_via_callbacks L" "effs_ok (lock_guard COMMIT) es" "lpid (w_sess w) = COMMIT"
    and run: "run_state (commit_body L c msg dbg) (w, es) = (r, w', es')"
  shows "lpid (w_sess w') = COMMIT \<and> saved (w_sess w') = saved (w_sess w) \<and>
    candidate (w_sess w') = (if cr_ok r then data_New L ''root'' else candidate (w_sess w))"
proof -
  obtain w1 es1 where i1: "interfere (w, es) = (w1, es1)" by fastforce
  note g1 = wait_guarded [OF assms(2,3) i1]
  obtain r2 w2 es2 where cm:
    "run_state (CommitMgr_Commit L (sid (w_sess w1)) c (candidate (w_sess w1)) msg dbg) (w1, es1) = (r2, w2, es2)"
    by (metis surj_pair)
  have s2: "w_sess w2 = w_sess w1"
    using keepsE [OF same_CommitMgr [OF assms(1)] cm] by (simp add: sess_same_def)
  have e2: "effs_ok (lock_guard COMMIT) es2"
    using consumes_effs_ok [OF keepsE [OF consume_CommitMgr [OF assms(1)] cm]] g1 by simp
  obtain w3 es3 where i3: "interfere (w2, es2) = (w3, es3)" by fastforce
  note g3 = wait_guarded [OF e2 _ i3, unfolded s2, OF g1(1)]
  show ?thesis
    using run i1 cm i3 g1 g3
    by (auto simp: commit_body_def split: if_splits)
qed

text \<open>C2. A commit, on every path through it (denied, nothing to commit, disk
  read-only, refused by the manager, failed validation, committed), interrupted while it
  runs by any requests but load and copy-config (these two do not ask for the lock and may empty the
  candidate, see \<open>load_deletes_despite_lock\<close>) and by changes outside the session: afterwards the session lock
  is held by whoever held it before, the saved mark is unchanged, and the
  candidate is the empty tree if the commit succeeded and exactly the old
  candidate if it did not.\<close>

theorem commit_outcome:
  assumes "commit_via_callbacks L" "\<forall>e\<in>set es. serves L COMMIT e"
    and "run_state (commit L c msg dbg) (w, es) = (r, w', es')"
  shows "lpid (w_sess w') = lpid (w_sess w) \<and> saved (w_sess w') = saved (w_sess w) \<and>
    candidate (w_sess w') = (if cr_ok r then data_New L ''root'' else candidate (w_sess w))"
proof (cases "trylock (Pid c) (w_sess w) = None \<and> changed L c w \<and>
    \<not> (w_rofs w \<and> data_NumChildren L (cm_running (w_cmgr w)) \<noteq> 0)")
  case False
  then show ?thesis
    using assms(3)
    by (auto simp: commit_def preCommitChecks_def MakeCommitError_def split: option.splits if_splits)
next
  case True
  obtain wl where wl: "run_state (commit L c msg dbg) (w, es) =
      run_state (with_commit_lock c (commit_body L c msg dbg)) (wl, es)" "w_sess wl = w_sess w"
  proof (cases "w_rofs w")
    case rofs: True
    show thesis
      by (rule that [of "w\<lparr>w_log := w_log w @ [EvElog ''Commit allowed, but disk is read-only.'']\<rparr>"])
        (use True rofs in \<open>simp_all add: commit_def preCommitChecks_def\<close>)
  next
    case False
    show thesis
      by (rule that [of w]) (use True False in \<open>simp_all add: commit_def preCommitChecks_def\<close>)
  qed
  have free: "lpid (w_sess wl) = 0 \<or> lpid (w_sess wl) = Pid c"
    using True wl(2) by (simp add: trylock_iff)
  obtain r2 w2 es2 where b: "run_state (commit_body L c msg dbg) (commit_locked wl, es) = (r2, w2, es2)"
    by (metis surj_pair)
  have eff: "effs_ok (lock_guard COMMIT) es"
    using serves_effs_ok [OF assms(2) _ assms(1)] by simp
  note body = commit_body_run [OF assms(1) eff _ b, simplified commit_locked_def, simplified]
  have "(r, w', es') = (r2, w2\<lparr>w_sess := (w_sess w2)\<lparr>lpid := lpid (w_sess wl)\<rparr>\<rparr>, es2)"
    using run_with_commit_lock [OF free b] body wl(1) assms(3) by simp
  then show ?thesis using body wl(2) by simp
qed

theorem commit_outcome_witness:
  "candidate (w_sess (fst (snd (run_state (commit sample (caller 5 True) ''msg'' False)
     (sample_world 5 [[''a'']] [], [\<lambda>w. w, \<lambda>w. w]))))) = [] \<and>
   candidate (w_sess (fst (snd (run_state (commit sample (caller 5 True) ''msg'' False)
     (sample_world 0 [[''bad'']] [], [\<lambda>w. w, \<lambda>w. w]))))) = [[''bad'']]"
proof -
  have sv: "\<forall>e\<in>set [\<lambda>w. w, \<lambda>w. w]. serves sample COMMIT e" by (simp add: serves.idle)
  have a: "cr_ok (fst (run_state (commit sample (caller 5 True) ''msg'' False)
     (sample_world 5 [[''a'']] [], [\<lambda>w. w, \<lambda>w. w])))" by code_simp
  have b: "\<not> cr_ok (fst (run_state (commit sample (caller 5 True) ''msg'' False)
     (sample_world 0 [[''bad'']] [], [\<lambda>w. w, \<lambda>w. w])))" by code_simp
  show ?thesis
    using commit_outcome [OF sample_commit_via sv run_split [of "commit sample (caller 5 True) ''msg'' False"
          "(sample_world 5 [[''a'']] [], [\<lambda>w. w, \<lambda>w. w])"]] a
      commit_outcome [OF sample_commit_via sv run_split [of "commit sample (caller 5 True) ''msg'' False"
          "(sample_world 0 [[''bad'']] [], [\<lambda>w. w, \<lambda>w. w])"]] b
    by (simp add: sample_def) (simp add: sample_world_def sample_session_def)
qed

text \<open>Validation on every path, interrupted by any requests but load and copy-config:
  the session keeps its lock holder, its saved mark and its candidate.\<close>

theorem validate_keeps_session:
  assumes "commit_via_callbacks L" "\<forall>e\<in>set es. serves L COMMIT e"
    and "run_state (validate L c) (w, es) = (r, w', es')"
  shows "lpid (w_sess w') = lpid (w_sess w) \<and> saved (w_sess w') = saved (w_sess w) \<and>
    candidate (w_sess w') = candidate (w_sess w)"
proof (cases "trylock (Pid c) (w_sess w) = None")
  case False
  then show ?thesis using assms(3) by (auto simp: validate_def)
next
  case True
  then have free: "lpid (w_sess w) = 0 \<or> lpid (w_sess w) = Pid c" by (simp add: trylock_iff)
  obtain r2 w2 es2 where b: "run_state (validate_body L c) (commit_locked w, es) = (r2, w2, es2)"
    by (metis surj_pair)
  have "framed (lock_guard COMMIT) (commit_locked w, es) (w2, es2)"
    using keepsE [OF validate_body_guarded b] .
  then have g: "lpid (w_sess w2) = COMMIT" "saved (w_sess w2) = saved (w_sess w)"
      "candidate (w_sess w2) = candidate (w_sess w)"
    using serves_effs_ok [OF assms(2) _ assms(1)]
    by (auto simp: framed_def lock_guard_def commit_locked_def)
  then show ?thesis
    using run_with_commit_lock [OF free b g(1)] True assms(3) by (auto simp: validate_def)
qed

theorem validate_keeps_session_witness:
  "candidate (w_sess (fst (snd (run_state (validate sample (caller 5 True))
     (sample_world 5 [[''bad'']] [], [\<lambda>w. w]))))) = [[''bad'']]"
proof -
  have sv: "\<forall>e\<in>set [\<lambda>w. w]. serves sample COMMIT e" by (simp add: serves.idle)
  show ?thesis
    using validate_keeps_session [OF sample_commit_via sv run_split [of "validate sample (caller 5 True)"
          "(sample_world 5 [[''bad'']] [], [\<lambda>w. w])"]]
    by (simp add: sample_world_def sample_session_def)
qed

subsection \<open>The running tree\<close>

lemma log_commit_helpers:
  "keeps log_only (LogCommitMsg cc msg)" "keeps log_only (LogCommitTime cc msg)"
  "keeps log_only (send_notify cc)" "keeps log_only (commitctx_validate L cc)"
  "keeps log_only (run_hooks L dir env acc)"
  unfolding LogCommitMsg_def LogCommitTime_def send_notify_def commitctx_validate_def run_hooks_def execute_hooks_def
  by (intro log_intros)+

text \<open>A commit that is applied always reports success.\<close>

lemma commit_apply_ok: "cr_ok (fst (run_state (commit_apply L cc ucan outs errs user) s))"
  by (simp add: commit_apply_def commit_post_def Let_def split_def)

lemma CommitMgr_commit_failed:
  assumes "run_state (CommitMgr_commit L sd c cand msg dbg) (w, es) = (r, w', es')" "\<not> cr_ok r"
  shows "cm_running (w_cmgr w') = cm_running (w_cmgr w) \<and> cm_effective (w_cmgr w') = cm_effective (w_cmgr w) \<and>
    w_sess w' = w_sess w \<and> es' = es \<and> (\<exists>evs. w_log w' = w_log w @ evs \<and> (\<forall>ev\<in>set evs. \<exists>m. ev = EvElog m))"
proof -
  have ok: "run_state (commit_apply L cc ucan outs errs user) s = (r, x) \<Longrightarrow> False" for cc ucan outs errs user s x
    using commit_apply_ok [of L cc ucan outs errs user s] assms(2) by simp
  show ?thesis
    using assms
    by (auto dest: ok simp: CommitMgr_commit_def commit_trees_def LogCommitMsg_def commitctx_validate_def Let_def
        split: if_splits prod.splits option.splits)
qed

text \<open>C4. A commit that does not succeed publishes nothing: neither the running tree nor
  the effective session changes, no hook, notification, component or file write
  is performed (only error-log lines), and the caller's session is untouched,
  whether the manager is busy, validation fails, or the user is unknown.\<close>

theorem failed_commit_publishes_nothing:
  assumes "run_state (CommitMgr_Commit L sd c cand msg dbg) (w, es) = (r, w', es')" "\<not> cr_ok r"
  shows "cm_running (w_cmgr w') = cm_running (w_cmgr w) \<and> cm_effective (w_cmgr w') = cm_effective (w_cmgr w) \<and>
    w_sess w' = w_sess w \<and> (\<exists>evs. w_log w' = w_log w @ evs \<and> (\<forall>ev\<in>set evs. \<exists>m. ev = EvElog m))"
proof (cases "cm_inCommit (w_cmgr w)")
  case True
  then show ?thesis using assms by (auto simp: CommitMgr_Commit_def)
next
  case False
  let ?w = "w\<lparr>w_cmgr := (w_cmgr w)\<lparr>cm_inCommit := True\<rparr>\<rparr>"
  obtain r2 w2 es2 where c: "run_state (CommitMgr_commit L sd c cand msg dbg) (?w, es) = (r2, w2, es2)"
    by (metis surj_pair)
  then have "r2 = r" "w' = w2\<lparr>w_cmgr := (w_cmgr w2)\<lparr>cm_inCommit := False\<rparr>\<rparr>"
    using assms False by (auto simp: CommitMgr_Commit_def)
  then show ?thesis using CommitMgr_commit_failed [OF c] assms(2) by simp
qed

theorem failed_commit_publishes_nothing_witness:
  "cm_running (w_cmgr (fst (snd (run_state (CommitMgr_Commit sample ''s1'' (caller 5 True) [[''bad'']] '''' False)
     (sample_world 5 [[''bad'']] [[''b'']], []))))) = Some [[''b'']]"
proof -
  have "\<not> cr_ok (fst (run_state (CommitMgr_Commit sample ''s1'' (caller 5 True) [[''bad'']] '''' False)
     (sample_world 5 [[''bad'']] [[''b'']], [])))" by code_simp
  then show ?thesis
    using failed_commit_publishes_nothing [OF run_split [of
          "CommitMgr_Commit sample ''s1'' (caller 5 True) [[''bad'']] '''' False"
          "(sample_world 5 [[''bad'']] [[''b'']], [])"]]
    by (simp add: sample_world_def)
qed

text \<open>The effective session's own view of the configuration.\<close>

definition effective_view :: "'d world \<Rightarrow> 'd unode" where
  "effective_view w = getUnion (w\<lparr>w_sess := cm_effective (w_cmgr w)\<rparr>)"

text \<open>An uninterrupted \<open>Set\<close> or \<open>Delete\<close> changes nothing but the session's candidate.\<close>

definition alone :: "'d st \<Rightarrow> 'd st \<Rightarrow> bool" where
  "alone s s' \<longleftrightarrow> (snd s = [] \<longrightarrow> snd s' = [] \<and> w_cmgr (fst s') = w_cmgr (fst s) \<and>
     lpid (w_sess (fst s')) = lpid (w_sess (fst s)) \<and> terminated (w_sess (fst s')) = terminated (w_sess (fst s)))"

interpretation alone: frame_rel alone
  by unfold_locales (auto simp: alone_def)

lemma alone_prims:
  "keeps alone sess" "keeps alone the_world" "keeps alone (emit ev)" "keeps alone wait_async"
  "keeps alone (upd_sess (\<lambda>s. s\<lparr>candidate := d\<rparr>))"
  by (auto simp: keeps_def alone_def sess_def the_world_def emit_def upd_world_def upd_sess_def)

lemmas alone_intros = alone.steps_ok alone_prims

lemma alone_api: "keeps alone (Session_Set L c p)" "keeps alone (Session_Delete L c p)"
  unfolding Session_Set_def Session_Delete_def api_call_def set_cfg_def set_internal_def validateSetPath_def
    run_subst_def union_set_def del_def union_delete_def
  by (intro alone_intros)+

definition eff_stable :: "'d st \<Rightarrow> 'd st \<Rightarrow> bool" where
  "eff_stable s s' \<longleftrightarrow> (snd s = [] \<longrightarrow> snd s' = [] \<and> w_sess (fst s') = w_sess (fst s) \<and>
     cm_running (w_cmgr (fst s')) = cm_running (w_cmgr (fst s)) \<and>
     lpid (cm_effective (w_cmgr (fst s'))) = lpid (cm_effective (w_cmgr (fst s))) \<and>
     terminated (cm_effective (w_cmgr (fst s'))) = terminated (cm_effective (w_cmgr (fst s))))"

interpretation eff: frame_rel eff_stable
  by unfold_locales (auto simp: eff_stable_def)

lemma eff_on_effective:
  fixes m :: "('d, 'a) op"
  assumes "keeps alone m"
  shows "keeps eff_stable (on_effective m)"
proof (rule keepsI)
  fix s :: "'d st"
  obtain w es where s: "s = (w, es)" by (cases s)
  obtain a w' es' where m: "run_state m (w\<lparr>w_sess := cm_effective (w_cmgr w)\<rparr>, es) = (a, w', es')"
    by (metis surj_pair)
  show "eff_stable s (snd (run_state (on_effective m) s))"
    using keepsE [OF assms m] m by (simp add: s on_effective_def eff_stable_def alone_def)
qed

lemma eff_commit_Commit:
  assumes "commit_via_callbacks L"
  shows "keeps eff_stable (commit_Commit L cc (commitctx_Set L cc) (commitctx_Delete L cc))"
  by (rule commit_via_callbacksD [OF assms eff.frame_rel_axioms])
    (simp_all add: commitctx_Set_def commitctx_Delete_def eff_on_effective alone_api)

lemma log_writeRunning: "keeps log_only (writeRunning L c)"
proof -
  have "keeps log_only (on_effective (Session_Show L c p hs sd))" for p hs sd
    by (rule keepsI)
      (auto simp: log_only_def on_effective_def Session_Show_def intro!: exI [of _ "[]"])
  then show ?thesis
    unfolding writeRunning_def by (intro log_intros)
qed

lemma run_store_running:
  assumes "\<not> terminated (cm_effective (w_cmgr w))"
    and "trylock (Pid (cc_ctx cc)) (cm_effective (w_cmgr w)) = None"
    and "run_state (store_running L cc) (w, es) = (u, w', es')"
  shows "w_sess w' = w_sess w \<and> es' = es \<and>
    w_cmgr w' = (w_cmgr w)\<lparr>cm_effective := (cm_effective (w_cmgr w))\<lparr>candidate := data_New L ''root''\<rparr>,
      cm_running := Some (union_MergeWithoutDefaults L (effective_view w))\<rparr>"
proof -
  let ?m = "(w_cmgr w)\<lparr>cm_effective := (cm_effective (w_cmgr w))\<lparr>candidate := data_New L ''root''\<rparr>,
      cm_running := Some (union_MergeWithoutDefaults L (effective_view w))\<rparr>"
  let ?rest = "do { _ \<leftarrow> writeRunning L (cc_ctx cc); LogCommitTime cc ''Write config'' }"
  have eq: "run_state (store_running L cc) (w, es) = run_state ?rest (w\<lparr>w_cmgr := ?m\<rparr>, es)"
    using assms(1,2)
    by (simp add: store_running_def on_effective_def Session_MergeTreeWithoutDefaults_def
        Session_Discard_def discard_def mergetree_def effective_view_def)
  have "keeps log_only ?rest"
    by (intro log_intros log_writeRunning log_commit_helpers)
  from keepsE [OF this] have "log_only (w\<lparr>w_cmgr := ?m\<rparr>, es) (w', es')"
    using assms(3) eq by metis
  from log_only_fields [OF this] show ?thesis by simp
qed

lemma run_commit_apply:
  assumes via: "commit_via_callbacks L" and live: "\<not> terminated (cm_effective (w_cmgr w))"
    and lk: "trylock (Pid (cc_ctx cc)) (cm_effective (w_cmgr w)) = None"
    and run: "run_state (commit_apply L cc ucan outs errs user) (w, []) = (r, w', es')"
  shows "\<exists>wa ra wc. w_cmgr wa = w_cmgr w \<and> w_sess wa = w_sess w \<and>
      run_state (commit_Commit L cc (commitctx_Set L cc) (commitctx_Delete L cc)) (wa, []) = (ra, wc, []) \<and>
      w_sess w' = w_sess w \<and> w_cmgr w' = (w_cmgr wc)\<lparr>
        cm_effective := (cm_effective (w_cmgr wc))\<lparr>candidate := data_New L ''root''\<rparr>,
        cm_running := Some (union_MergeWithoutDefaults L (effective_view wc))\<rparr>"
proof -
  let ?env = "[''COMMIT_USER='' @ user, ''PATH=/bin:/usr/bin:/sbin:/usr/sbin:/opt/vyatta/bin:/opt/vyatta/sbin'']"
  have pre_log: "keeps log_only (commit_pre L cc ucan ?env (outs, errs))"
    and post_log: "keeps log_only (commit_post L cc env acc)" for env acc
    unfolding commit_pre_def commit_post_def by (intro log_intros log_commit_helpers)+
  obtain outs1 errs1 wa ea where pre: "run_state (commit_pre L cc ucan ?env (outs, errs)) (w, []) = ((outs1, errs1), wa, ea)"
    by (metis surj_pair)
  note wa = log_only_fields [OF keepsE [OF pre_log pre]]
  obtain co ce su fa wc ec where cb:
    "run_state (commit_Commit L cc (commitctx_Set L cc) (commitctx_Delete L cc)) (wa, []) = ((co, ce, su, fa), wc, ec)"
    by (metis surj_pair)
  have stab: "eff_stable (wa, []) (wc, ec)" by (rule keepsE [OF eff_commit_Commit [OF via] cb])
  obtain u1 wn en where nt: "run_state (if su > 0 then send_notify cc else ret ()) (wc, ec) = (u1, wn, en)"
    by (metis surj_pair)
  have "keeps log_only (if su > 0 then send_notify cc else ret ())"
    by (intro log_intros log_commit_helpers)
  note wn = log_only_fields [OF keepsE [OF this nt]]
  obtain u ws es where st: "run_state (store_running L cc) (wn, en) = (u, ws, es)" by (metis surj_pair)
  have vw: "effective_view wn = effective_view wc"
    using wn by (simp add: effective_view_def getUnion_def)
  have store: "w_sess ws = w_sess wn \<and> es = en \<and> w_cmgr ws = (w_cmgr wn)\<lparr>
        cm_effective := (cm_effective (w_cmgr wn))\<lparr>candidate := data_New L ''root''\<rparr>,
        cm_running := Some (union_MergeWithoutDefaults L (effective_view wn))\<rparr>"
    by (rule run_store_running [OF _ _ st]) (use live lk wa wn stab in \<open>auto simp: eff_stable_def trylock_iff\<close>)
  have "run_state (commit_post L cc (?env @ [commit_status su fa]) (outs1 @ co, errs1 @ ce)) (ws, es) = (r, w', es')"
    using run pre cb nt st wa(3) by (simp add: commit_apply_def commitctx_commit_def)
  note w' = log_only_fields [OF keepsE [OF post_log this]]
  show ?thesis
    using wa wn w' store stab cb vw by (intro exI [of _ wa] exI [of _ "(co, ce, su, fa)"] exI [of _ wc]) (auto simp: eff_stable_def)
qed

text \<open>C3. A commit that succeeds publishes the effective configuration: the commit
  package runs on a context whose candidate is the caller's tree merged over the
  old running tree, starting from the old running tree and effective session;
  the new running tree is the effective session's view without defaults at the
  moment the package returns, the effective session starts afresh with an empty
  candidate, the manager is free again, and the caller's session is untouched.\<close>

theorem commit_publishes_effective:
  assumes via: "commit_via_callbacks L" and live: "\<not> terminated (cm_effective (w_cmgr w))"
    and lk: "lpid (cm_effective (w_cmgr w)) = 0 \<or> lpid (cm_effective (w_cmgr w)) = SYSTEM"
    and run: "run_state (CommitMgr_Commit L sd c cand msg dbg) (w, []) = (r, w', es')" and ok: "cr_ok r"
  shows "\<exists>cc wa ra wc.
      cc_candidate cc = union_Merge L \<lparr>u_overlay = Some cand, u_underlay = cm_running (w_cmgr w),
        u_schema = cm_schema (w_cmgr w)\<rparr> \<and>
      cm_running (w_cmgr wa) = cm_running (w_cmgr w) \<and> cm_effective (w_cmgr wa) = cm_effective (w_cmgr w) \<and>
      run_state (commit_Commit L cc (commitctx_Set L cc) (commitctx_Delete L cc)) (wa, []) = (ra, wc, []) \<and>
      cm_running (w_cmgr w') = Some (union_MergeWithoutDefaults L (effective_view wc)) \<and>
      candidate (cm_effective (w_cmgr w')) = data_New L ''root'' \<and>
      \<not> cm_inCommit (w_cmgr w') \<and> w_sess w' = w_sess w"
proof -
  let ?w0 = "w\<lparr>w_cmgr := (w_cmgr w)\<lparr>cm_inCommit := True\<rparr>\<rparr>"
  obtain r2 w2 es2 where c: "run_state (CommitMgr_commit L sd c cand msg dbg) (?w0, []) = (r2, w2, es2)"
    by (metis surj_pair)
  have r2: "r2 = r" "w' = w2\<lparr>w_cmgr := (w_cmgr w2)\<lparr>cm_inCommit := False\<rparr>\<rparr>"
    using run c ok by (auto simp: CommitMgr_Commit_def MakeCommitError_def split: if_splits)
  have "\<exists>cc ucan outs errs user wl.
      run_state (commit_apply L cc ucan outs errs user) (wl, []) = (r2, w2, es2) \<and>
      cc_candidate cc = union_Merge L \<lparr>u_overlay = Some cand,
        u_underlay = cm_running (w_cmgr w), u_schema = cm_schema (w_cmgr w)\<rparr> \<and>
      Pid (cc_ctx cc) = SYSTEM \<and> cm_running (w_cmgr wl) = cm_running (w_cmgr w) \<and>
      cm_effective (w_cmgr wl) = cm_effective (w_cmgr w) \<and> w_sess wl = w_sess w"
    using c ok r2(1)
    by (auto simp: CommitMgr_commit_def commit_trees_def LogCommitMsg_def commitctx_validate_def Let_def
        split: if_splits prod.splits option.splits)
      ((intro exI conjI, assumption, (simp add: newctx_def)+)[1])+
  then obtain cc ucan outs errs user wl where cc: "cc_candidate cc = union_Merge L \<lparr>u_overlay = Some cand,
        u_underlay = cm_running (w_cmgr w), u_schema = cm_schema (w_cmgr w)\<rparr>" "Pid (cc_ctx cc) = SYSTEM"
      "cm_running (w_cmgr wl) = cm_running (w_cmgr w)" "cm_effective (w_cmgr wl) = cm_effective (w_cmgr w)"
      "w_sess wl = w_sess w"
      and ap: "run_state (commit_apply L cc ucan outs errs user) (wl, []) = (r2, w2, es2)" by blast
  have "\<not> terminated (cm_effective (w_cmgr wl))" "trylock (Pid (cc_ctx cc)) (cm_effective (w_cmgr wl)) = None"
    using live lk cc by (simp_all add: trylock_iff)
  from run_commit_apply [OF via this ap] obtain wa ra wc where
    "w_cmgr wa = w_cmgr wl" "w_sess w2 = w_sess wl"
    "run_state (commit_Commit L cc (commitctx_Set L cc) (commitctx_Delete L cc)) (wa, []) = (ra, wc, [])"
    "w_cmgr w2 = (w_cmgr wc)\<lparr>cm_effective := (cm_effective (w_cmgr wc))\<lparr>candidate := data_New L ''root''\<rparr>,
        cm_running := Some (union_MergeWithoutDefaults L (effective_view wc))\<rparr>" by blast
  then show ?thesis using cc r2
    by (intro exI [of _ cc] exI [of _ wa] exI [of _ ra] exI [of _ wc]) simp
qed


theorem commit_publishes_effective_witness:
  "cm_running (w_cmgr (fst (snd (run_state (CommitMgr_Commit sample ''s1'' (caller 5 True) [[''a'']] '''' False)
     (sample_world 5 [[''a'']] [[''b'']], []))))) = Some [[''b''], [''a'']] \<and>
   candidate (cm_effective (w_cmgr (fst (snd (run_state
     (CommitMgr_Commit sample ''s1'' (caller 5 True) [[''a'']] '''' False)
     (sample_world 5 [[''a'']] [[''b'']], [])))))) = []"
proof
  show "cm_running (w_cmgr (fst (snd (run_state (CommitMgr_Commit sample ''s1'' (caller 5 True) [[''a'']] '''' False)
     (sample_world 5 [[''a'']] [[''b'']], []))))) = Some [[''b''], [''a'']]" by code_simp
  have "cr_ok (fst (run_state (CommitMgr_Commit sample ''s1'' (caller 5 True) [[''a'']] '''' False)
     (sample_world 5 [[''a'']] [[''b'']], [])))" by code_simp
  then show "candidate (cm_effective (w_cmgr (fst (snd (run_state
     (CommitMgr_Commit sample ''s1'' (caller 5 True) [[''a'']] '''' False)
     (sample_world 5 [[''a'']] [[''b'']], [])))))) = []"
    using commit_publishes_effective [OF sample_commit_via _ _ run_split [of
          "CommitMgr_Commit sample ''s1'' (caller 5 True) [[''a'']] '''' False"
          "(sample_world 5 [[''a'']] [[''b'']], [])"]]
    by (auto simp: sample_world_def sample_session_def) (simp add: sample_def)
qed

end
