(* ===== verification/Commit_Loop.thy ===== *)
theory Commit_Loop
  imports "HOL-Library.Multiset" Commit_Mgr
begin

text \<open>
  The goroutine \<open>CommitMgr.run\<close> of \<open>session/commitmgr.go\<close> as a step relation.
  Requests are numbered in the order they are received on \<open>reqch\<close>. A commit
  goroutine first runs \<open>m.commit\<close> (\<open>lp_working\<close>), then blocks sending on \<open>donech\<close>
  (\<open>lp_done\<close>), then sends its response (\<open>lp_replying\<close>); the loop itself rejects a
  request at once while \<open>inCommit\<close> is set.
\<close>

record loop =
  lp_inCommit :: bool
  lp_working :: "nat list"
  lp_done :: "nat list"
  lp_replying :: "nat list"
  lp_answers :: "(nat \<times> bool) list"
  lp_next :: nat

definition loop_init :: loop where
  "loop_init = \<lparr>lp_inCommit = False, lp_working = [], lp_done = [], lp_replying = [], lp_answers = [], lp_next = 0\<rparr>"

inductive loop_step :: "loop \<Rightarrow> loop \<Rightarrow> bool" where
  reject: "lp_inCommit s \<Longrightarrow>
    loop_step s (s\<lparr>lp_answers := (lp_next s, False) # lp_answers s, lp_next := Suc (lp_next s)\<rparr>)"
| start: "\<not> lp_inCommit s \<Longrightarrow>
    loop_step s (s\<lparr>lp_inCommit := True, lp_working := lp_next s # lp_working s, lp_next := Suc (lp_next s)\<rparr>)"
| finish: "i \<in> set (lp_working s) \<Longrightarrow>
    loop_step s (s\<lparr>lp_working := remove1 i (lp_working s), lp_done := i # lp_done s\<rparr>)"
| release: "i \<in> set (lp_done s) \<Longrightarrow>
    loop_step s (s\<lparr>lp_inCommit := False, lp_done := remove1 i (lp_done s), lp_replying := i # lp_replying s\<rparr>)"
| reply: "i \<in> set (lp_replying s) \<Longrightarrow>
    loop_step s (s\<lparr>lp_replying := remove1 i (lp_replying s), lp_answers := (i, True) # lp_answers s\<rparr>)"

inductive_cases loop_stepE: "loop_step s t"

definition loop_reachable :: "loop \<Rightarrow> bool" where
  "loop_reachable s \<longleftrightarrow> loop_step\<^sup>*\<^sup>* loop_init s"

definition loop_ids :: "loop \<Rightarrow> nat multiset" where
  "loop_ids s = mset (lp_working s) + mset (lp_done s) + mset (lp_replying s) + mset (map fst (lp_answers s))"

definition loop_inv :: "loop \<Rightarrow> bool" where
  "loop_inv s \<longleftrightarrow>
    length (lp_working s) + length (lp_done s) = (if lp_inCommit s then 1 else 0) \<and>
    loop_ids s = mset [0..<lp_next s]"

lemma loop_inv_init: "loop_inv loop_init"
  by (simp add: loop_inv_def loop_init_def loop_ids_def)

lemma mset_remove1_eq: "i \<in> set xs \<Longrightarrow> mset xs = add_mset i (mset (remove1 i xs))"
  by simp

lemma length_remove1_eq: "i \<in> set xs \<Longrightarrow> length xs = Suc (length (remove1 i xs))"
  by (induction xs) auto

lemma loop_inv_step: "loop_step s t \<Longrightarrow> loop_inv s \<Longrightarrow> loop_inv t"
proof (induction rule: loop_step.induct)
  case (finish i s)
  then show ?case
    by (simp add: loop_inv_def loop_ids_def mset_remove1_eq [OF finish(1)] length_remove1_eq [OF finish(1)]
        del: mset_remove1)
next
  case (release i s)
  then show ?case
    by (auto simp: loop_inv_def loop_ids_def mset_remove1_eq [OF release(1)] length_remove1_eq [OF release(1)]
        simp del: mset_remove1 split: if_splits)
next
  case (reply i s)
  then show ?case
    by (simp add: loop_inv_def loop_ids_def mset_remove1_eq [OF reply(1)] del: mset_remove1)
qed (auto simp: loop_inv_def loop_ids_def)

lemma loop_inv_reachable: "loop_reachable s \<Longrightarrow> loop_inv s"
  unfolding loop_reachable_def
  by (induction rule: rtranclp_induct) (auto intro: loop_inv_init loop_inv_step)

text \<open>C5. At most one commit is ever in progress: in every reachable state of the
  commit manager there is at most one goroutine between accepting a request and
  handing back \<open>done\<close>, there is one exactly when \<open>inCommit\<close> is set, and every
  request received so far is accounted for exactly once, as being worked on,
  waiting to be released, about to be answered, or answered.\<close>

theorem one_commit_at_a_time:
  assumes "loop_reachable s"
  shows "length (lp_working s @ lp_done s) = (if lp_inCommit s then 1 else 0) \<and>
    mset (lp_working s @ lp_done s @ lp_replying s @ map fst (lp_answers s)) = mset [0..<lp_next s]"
  using loop_inv_reachable [OF assms] by (simp add: loop_inv_def loop_ids_def add.assoc)

definition two_requests :: loop where
  "two_requests = \<lparr>lp_inCommit = True, lp_working = [0], lp_done = [], lp_replying = [],
     lp_answers = [(1, False)], lp_next = 2\<rparr>"

lemma two_requests_reachable: "loop_reachable two_requests"
proof -
  let ?s = "loop_init\<lparr>lp_inCommit := True, lp_working := [0], lp_next := 1\<rparr>"
  have a: "loop_step loop_init ?s"
    using loop_step.start [of loop_init] by (simp add: loop_init_def)
  have b: "loop_step ?s two_requests"
    using loop_step.reject [of ?s] by (simp add: loop_init_def two_requests_def numeral_2_eq_2)
  show ?thesis unfolding loop_reachable_def using a b by (meson converse_rtranclp_into_rtranclp rtranclp.rtrancl_refl)
qed

theorem one_commit_at_a_time_witness:
  "length (lp_working two_requests @ lp_done two_requests) = 1"
  using one_commit_at_a_time [OF two_requests_reachable] by (simp add: two_requests_def)

lemma loop_drain_replies:
  "\<exists>t. loop_step\<^sup>*\<^sup>* s t \<and> lp_replying t = [] \<and> lp_working t = lp_working s \<and> lp_done t = lp_done s \<and>
     lp_inCommit t = lp_inCommit s \<and> lp_next t = lp_next s"
proof (induction "length (lp_replying s)" arbitrary: s)
  case (Suc n)
  then obtain i xs where i: "lp_replying s = i # xs" by (cases "lp_replying s") auto
  let ?t = "s\<lparr>lp_replying := remove1 i (lp_replying s), lp_answers := (i, True) # lp_answers s\<rparr>"
  have st: "loop_step s ?t" using loop_step.reply [of i s] i by simp
  have "n = length (lp_replying ?t)" using Suc.hyps(2) i by simp
  from Suc.hyps(1) [OF this] obtain t where "loop_step\<^sup>*\<^sup>* ?t t" "lp_replying t = []"
    "lp_working t = lp_working s" "lp_done t = lp_done s" "lp_inCommit t = lp_inCommit s" "lp_next t = lp_next s" by auto
  then show ?case using st by (meson converse_rtranclp_into_rtranclp)
qed auto

text \<open>C18. The manager can always become free again: from every reachable state the
  pending commit can run to its end, after which no commit is in progress, every
  request received has been answered exactly once, and the next request will be
  accepted.\<close>

theorem commit_manager_drains:
  assumes "loop_reachable s"
  shows "\<exists>t. loop_step\<^sup>*\<^sup>* s t \<and> \<not> lp_inCommit t \<and> lp_next t = lp_next s \<and>
    mset (map fst (lp_answers t)) = mset [0..<lp_next s]"
proof -
  have inv: "loop_inv s" by (rule loop_inv_reachable [OF assms])
  have "\<exists>u. loop_step\<^sup>*\<^sup>* s u \<and> lp_working u = [] \<and> lp_next u = lp_next s \<and> loop_inv u"
  proof (cases "lp_working s")
    case (Cons i xs)
    let ?u = "s\<lparr>lp_working := remove1 i (lp_working s), lp_done := i # lp_done s\<rparr>"
    have st: "loop_step s ?u" using loop_step.finish [of i s] Cons by simp
    have "lp_working ?u = []" using inv Cons by (auto simp: loop_inv_def split: if_splits)
    then show ?thesis using st loop_inv_step [OF st inv] by (intro exI [of _ ?u]) auto
  qed (use inv in auto)
  then obtain u where u: "loop_step\<^sup>*\<^sup>* s u" "lp_working u = []" "lp_next u = lp_next s" "loop_inv u" by blast
  have "\<exists>v. loop_step\<^sup>*\<^sup>* u v \<and> lp_working v = [] \<and> lp_done v = [] \<and> lp_next v = lp_next u \<and> loop_inv v"
  proof (cases "lp_done u")
    case (Cons i xs)
    let ?v = "u\<lparr>lp_inCommit := False, lp_done := remove1 i (lp_done u), lp_replying := i # lp_replying u\<rparr>"
    have st: "loop_step u ?v" using loop_step.release [of i u] Cons by simp
    have "lp_done ?v = []" using u(4) Cons by (auto simp: loop_inv_def split: if_splits)
    then show ?thesis using st loop_inv_step [OF st u(4)] u(2) by (intro exI [of _ ?v]) auto
  qed (use u in auto)
  then obtain v where v: "loop_step\<^sup>*\<^sup>* u v" "lp_working v = []" "lp_done v = []" "lp_next v = lp_next u" "loop_inv v" by blast
  obtain t where t: "loop_step\<^sup>*\<^sup>* v t" "lp_replying t = []" "lp_working t = []" "lp_done t = []"
      "lp_inCommit t = lp_inCommit v" "lp_next t = lp_next v"
    using loop_drain_replies [of v] v by auto
  have st: "loop_step\<^sup>*\<^sup>* s t" using u(1) v(1) t(1) by (meson rtranclp_trans)
  then have "loop_reachable t" using assms unfolding loop_reachable_def by (meson rtranclp_trans)
  then have "loop_inv t" by (rule loop_inv_reachable)
  then have "mset (map fst (lp_answers t)) = mset [0..<lp_next s]" "\<not> lp_inCommit t"
    using t u v by (auto simp: loop_inv_def loop_ids_def split: if_splits)
  then show ?thesis using st t u v by auto
qed

theorem commit_manager_drains_witness:
  "\<exists>t. loop_step\<^sup>*\<^sup>* two_requests t \<and> \<not> lp_inCommit t \<and> lp_next t = 2 \<and>
    mset (map fst (lp_answers t)) = {#0, 1#}"
  using commit_manager_drains [OF two_requests_reachable]
  by (simp add: two_requests_def numeral_2_eq_2)

end
