(* ===== verification/Commit_Refine.thy ===== *)
theory Commit_Refine
  imports Commit_Loop
begin

text \<open>
  What the commit manager promises its callers, as a machine without goroutines and channels: it is free or
  busy with one request, refuses requests while it is busy, and answers every request it took. The loop of
  \<open>CommitMgr.run\<close> with its workers refines this machine; finishing the work before \<open>donech\<close> is read is
  invisible.
\<close>

subsection \<open>Simulation\<close>

text \<open>A concrete machine whose steps are matched by one step of the abstract machine or by none.\<close>

locale refinement_map =
  fixes cstep :: "'c \<Rightarrow> 'c \<Rightarrow> bool"
    and cinit :: 'c
    and cinv :: "'c \<Rightarrow> bool"
    and astep :: "'a \<Rightarrow> 'a \<Rightarrow> bool"
    and ainit :: 'a
    and abs :: "'c \<Rightarrow> 'a"
  assumes init_inv: "cinv cinit"
    and step_inv: "cinv s \<Longrightarrow> cstep s t \<Longrightarrow> cinv t"
    and init_sim: "abs cinit = ainit"
    and step_sim: "cinv s \<Longrightarrow> cstep s t \<Longrightarrow> astep (abs s) (abs t) \<or> abs t = abs s"
begin

lemma reach_inv: "cstep\<^sup>*\<^sup>* cinit s \<Longrightarrow> cinv s"
  by (induction rule: rtranclp_induct) (auto intro: init_inv step_inv)

lemma reach_sim: "cstep\<^sup>*\<^sup>* cinit s \<Longrightarrow> astep\<^sup>*\<^sup>* ainit (abs s)"
proof (induction rule: rtranclp_induct)
  case base
  then show ?case by (simp add: init_sim)
next
  case (step s t)
  then show ?case using step_sim [OF reach_inv [OF step(1)] step(2)] by auto
qed

lemma invariant_transfer:
  assumes "\<And>a. astep\<^sup>*\<^sup>* ainit a \<Longrightarrow> P a" "cstep\<^sup>*\<^sup>* cinit s"
  shows "P (abs s)"
  using assms(1) [OF reach_sim [OF assms(2)]] .

end

subsection \<open>The serial commit service\<close>

record serial =
  sr_busy :: "nat option"
  sr_finished :: "nat multiset"
  sr_answered :: "(nat \<times> bool) multiset"
  sr_next :: nat

definition serial_init :: serial where
  "serial_init = \<lparr>sr_busy = None, sr_finished = {#}, sr_answered = {#}, sr_next = 0\<rparr>"

inductive serial_step :: "serial \<Rightarrow> serial \<Rightarrow> bool" where
  refuse: "sr_busy a = Some j \<Longrightarrow>
    serial_step a (a\<lparr>sr_answered := add_mset (sr_next a, False) (sr_answered a), sr_next := Suc (sr_next a)\<rparr>)"
| accept: "sr_busy a = None \<Longrightarrow> serial_step a (a\<lparr>sr_busy := Some (sr_next a), sr_next := Suc (sr_next a)\<rparr>)"
| complete: "sr_busy a = Some i \<Longrightarrow> serial_step a (a\<lparr>sr_busy := None, sr_finished := add_mset i (sr_finished a)\<rparr>)"
| answer: "i \<in># sr_finished a \<Longrightarrow>
    serial_step a (a\<lparr>sr_finished := sr_finished a - {#i#}, sr_answered := add_mset (i, True) (sr_answered a)\<rparr>)"

inductive_cases serial_stepE: "serial_step a b"

definition serial_of :: "loop \<Rightarrow> serial" where
  "serial_of s = \<lparr>sr_busy = (case lp_working s @ lp_done s of [] \<Rightarrow> None | i # _ \<Rightarrow> Some i),
     sr_finished = mset (lp_replying s), sr_answered = mset (lp_answers s), sr_next = lp_next s\<rparr>"

lemma loop_inv_busy:
  "loop_inv s \<Longrightarrow> lp_inCommit s \<Longrightarrow> (\<exists>i. lp_working s = [i] \<and> lp_done s = [] \<or> lp_working s = [] \<and> lp_done s = [i])"
  "loop_inv s \<Longrightarrow> \<not> lp_inCommit s \<Longrightarrow> lp_working s = [] \<and> lp_done s = []"
  by (cases "lp_working s"; cases "lp_done s"; auto simp: loop_inv_def split: if_splits)+

lemma serial_of_step:
  "loop_step s t \<Longrightarrow> loop_inv s \<Longrightarrow> serial_step (serial_of s) (serial_of t) \<or> serial_of t = serial_of s"
proof (induction rule: loop_step.induct)
  case (reject s)
  then show ?case
    using loop_inv_busy(1) [of s] serial_step.refuse [of "serial_of s"] by (auto simp: serial_of_def)
next
  case (start s)
  then show ?case
    using loop_inv_busy(2) [of s] serial_step.accept [of "serial_of s"] by (simp add: serial_of_def)
next
  case (finish i s)
  then show ?case
    using loop_inv_busy [of s] by (cases "lp_inCommit s") (auto simp: serial_of_def)
next
  case (release i s)
  then show ?case
    using loop_inv_busy [of s] serial_step.complete [of "serial_of s" i] by (cases "lp_inCommit s") (auto simp: serial_of_def)
next
  case (reply i s)
  then show ?case
    using serial_step.answer [of i "serial_of s"] by (simp add: serial_of_def)
qed

interpretation commit_service: refinement_map loop_step loop_init loop_inv serial_step serial_init serial_of
proof
  show "loop_inv loop_init" by (rule loop_inv_init)
  show "serial_of loop_init = serial_init" by (simp add: serial_of_def loop_init_def serial_init_def)
qed (rule loop_inv_step serial_of_step; assumption)+

text \<open>In the serial machine the busy request, the finished and the answered ones are told apart.\<close>

definition told_apart :: "serial \<Rightarrow> bool" where
  "told_apart a \<longleftrightarrow>
    (\<forall>i b. (i, b) \<in># sr_answered a \<longrightarrow> i < sr_next a \<and> sr_busy a \<noteq> Some i \<and> i \<notin># sr_finished a)
    \<and> (\<forall>i\<in>#sr_finished a. i < sr_next a \<and> sr_busy a \<noteq> Some i \<and> count (sr_finished a) i = 1)
    \<and> (\<forall>i. sr_busy a = Some i \<longrightarrow> i < sr_next a)"

lemma told_apart_reachable: "serial_step\<^sup>*\<^sup>* serial_init a \<Longrightarrow> told_apart a"
proof (induction rule: rtranclp_induct)
  case base
  then show ?case by (simp add: serial_init_def told_apart_def)
next
  case (step a b)
  from step(2) show ?case
    using step(3) unfolding told_apart_def
    by (cases rule: serial_step.cases) (auto simp: less_Suc_eq in_diff_count count_eq_zero_iff split: if_splits)
qed

text \<open>C6. The commit manager refines a serial service. Every state the loop of \<open>CommitMgr.run\<close> and its workers can reach
  corresponds to a reachable state of a machine that is busy with at most one request, and every step of the loop is one
  step of that machine or is invisible to it: requests are refused exactly while another is being committed, and a
  request that was answered is neither being committed nor waiting for its answer.\<close>

theorem commit_loop_refines_serial:
  assumes "loop_reachable s"
  shows "serial_step\<^sup>*\<^sup>* serial_init (serial_of s)
    \<and> (\<forall>t. loop_step s t \<longrightarrow> serial_step (serial_of s) (serial_of t) \<or> serial_of t = serial_of s)
    \<and> (lp_inCommit s \<longleftrightarrow> sr_busy (serial_of s) \<noteq> None)
    \<and> (\<forall>i b. (i, b) \<in> set (lp_answers s) \<longrightarrow> i \<notin> set (lp_working s @ lp_done s @ lp_replying s))"
proof -
  have r: "loop_step\<^sup>*\<^sup>* loop_init s" using assms by (simp add: loop_reachable_def)
  have i: "loop_inv s" by (rule commit_service.reach_inv [OF r])
  have u: "told_apart (serial_of s)"
    by (rule commit_service.invariant_transfer [where P = told_apart, OF _ r]) (rule told_apart_reachable)
  have "lp_inCommit s \<longleftrightarrow> sr_busy (serial_of s) \<noteq> None"
    using loop_inv_busy [OF i] by (cases "lp_inCommit s") (auto simp: serial_of_def)
  moreover have "j \<notin> set (lp_working s @ lp_done s @ lp_replying s)" if "(j, b) \<in> set (lp_answers s)" for j b
    using u that loop_inv_busy [OF i] by (cases "lp_inCommit s") (auto simp: serial_of_def told_apart_def)
  ultimately show ?thesis
    using commit_service.reach_sim [OF r] serial_of_step [OF _ i] by blast
qed

theorem commit_loop_refines_serial_witness:
  "serial_step\<^sup>*\<^sup>* serial_init \<lparr>sr_busy = Some 0, sr_finished = {#}, sr_answered = {#(1, False)#}, sr_next = 2\<rparr>"
  using commit_loop_refines_serial [OF two_requests_reachable] by (simp add: serial_of_def two_requests_def)

end
