(* ===== verification/Edit_Props.thy ===== *)
theory Edit_Props
  imports Sample_Libs
begin

text \<open>
  Properties of edit-config: what the flattened operations can address, that
  testing is silent, that changes need authority, and what each error option
  does with failing operations.
\<close>

subsection \<open>What the document can address\<close>

text \<open>The operations that a document names.\<close>

fun doc_ops :: "edit_node \<Rightarrow> operation set" where
  "doc_ops (EditNode lcl spc eop val chs) =
    (if eop = op_notset then {} else {eop}) \<union> (\<Union>c\<in>set chs. doc_ops c)"

definition known_path :: "'d libs \<Rightarrow> snode \<Rightarrow> path \<Rightarrow> bool" where
  "known_path L root p \<longleftrightarrow> schema_Descendant L root p \<noteq> None \<or> schema_Descendant L root (butlast p) \<noteq> None"

definition good_ops :: "'d libs \<Rightarrow> snode \<Rightarrow> path \<Rightarrow> operation set \<Rightarrow> edit_op list \<Rightarrow> bool" where
  "good_ops L root cp S ops \<longleftrightarrow>
    (\<forall>e\<in>set ops. (\<exists>rest. eo_path e = cp @ rest) \<and> eo_op e \<in> S \<and> known_path L root (eo_path e))"

lemma good_ops_simps [simp]:
  "good_ops L root cp S []"
  "good_ops L root cp S (e # ops) \<longleftrightarrow>
    ((\<exists>rest. eo_path e = cp @ rest) \<and> eo_op e \<in> S \<and> known_path L root (eo_path e)) \<and> good_ops L root cp S ops"
  "good_ops L root cp S (xs @ ys) \<longleftrightarrow> good_ops L root cp S xs \<and> good_ops L root cp S ys"
  by (auto simp: good_ops_def)

lemma good_ops_mono: "good_ops L root cp S ops \<Longrightarrow> S \<subseteq> S' \<Longrightarrow> good_ops L root cp S' ops"
  by (auto simp: good_ops_def)

lemma good_ops_prefix: "good_ops L root (cp @ q) S ops \<Longrightarrow> good_ops L root cp S ops"
  by (auto simp: good_ops_def)

lemma seq_ops_Inr: "seq_ops a b = Inr ops \<longleftrightarrow> (\<exists>xs ys. a = Inr xs \<and> b = Inr ys \<and> ops = xs @ ys)"
  by (auto simp: seq_ops_def split: sum.splits)

lemma node_schema_check_Inr: "node_schema_check L root p q spc = Inr sch \<Longrightarrow> schema_Descendant L root p = Some sch"
  by (auto simp: node_schema_check_def split: option.splits if_splits)

lemma getOperation_in: "getOperation parentop en \<in> insert parentop (doc_ops en)"
  by (cases en) (auto simp: getOperation_def)

text \<open>What the recursion into the children of \<open>en\<close> may assume.\<close>

definition child_walk_ok :: "'d libs \<Rightarrow> snode \<Rightarrow> edit_node \<Rightarrow> child_walk \<Rightarrow> bool" where
  "child_walk_ok L root en rec \<longleftrightarrow> (\<forall>d op p ops. rec d op p = Inr ops \<longrightarrow>
     good_ops L root p (insert op (doc_ops en)) ops)"

lemma traverseSubtree_good:
  assumes "child_walk_ok L root en rec" "known_path L root p" "traverseSubtree rec d op p en = Inr ops"
  shows "good_ops L root p (insert op (doc_ops en)) ops"
proof -
  have sub: "insert (getOperation op en) (doc_ops en) \<subseteq> insert op (doc_ops en)"
    using getOperation_in [of op en] by auto
  have "good_ops L root p (insert op (doc_ops en)) xs" if "rec d (getOperation op en) p = Inr xs" for xs
    using assms(1) that good_ops_mono [OF _ sub] unfolding child_walk_ok_def by blast
  moreover have "good_ops L root p (insert op (doc_ops en)) [add_op (getOperation op en) p]"
    using assms(2) getOperation_in [of op en] by (simp add: good_ops_def add_op_def)
  ultimately show ?thesis
    using assms(3) by (auto simp: traverseSubtree_def Let_def seq_ops_Inr split: if_splits)
qed

lemma traverseLeaf_good:
  assumes "traverseLeaf L root op p en = Inr ops"
  shows "good_ops L root p (insert op (doc_ops en)) ops"
  using assms getOperation_in [of op en]
  by (auto simp: traverseLeaf_def Let_def good_ops_def add_op_def known_path_def
      split: sum.splits if_splits dest!: node_schema_check_Inr)

lemma traverseContainer_good:
  assumes "child_walk_ok L root en rec" "traverseContainer L root rec op p en = Inr ops"
  shows "good_ops L root p (insert op (doc_ops en)) ops"
proof -
  from assms(2) obtain sch where sch: "node_schema_check L root p p (en_space en) = Inr sch"
    by (auto simp: traverseContainer_def Let_def split: sum.splits)
  then have kn: "known_path L root p" using node_schema_check_Inr by (fastforce simp: known_path_def)
  show ?thesis
    using assms sch traverseSubtree_good [OF assms(1) kn]
    by (auto simp: traverseContainer_def Let_def child_walk_ok_def split: sum.splits if_splits)
qed

lemma find_key_path:
  assumes "find_key L root sch cp spc chs = KeyPath p"
  shows "\<exists>v. p = cp @ [v] \<and> schema_Descendant L root p \<noteq> None"
  using assms node_schema_check_Inr
  by (fastforce simp: find_key_def split: list.splits if_splits sum.splits)

lemma traverseList_good:
  assumes "child_walk_ok L root en rec" "traverseList L root rec op p en = Inr ops"
  shows "good_ops L root p (insert op (doc_ops en)) ops"
proof (cases "node_schema_check L root p p (en_space en)")
  case (Inr sch)
  then have kn: "known_path L root p" using node_schema_check_Inr by (fastforce simp: known_path_def)
  show ?thesis
  proof (cases "find_key L root sch p (en_space en) (en_children en)")
    case (KeyPath q)
    then obtain v where v: "q = p @ [v]" "known_path L root q"
      using find_key_path by (fastforce simp: known_path_def)
    show ?thesis
      using assms Inr KeyPath traverseSubtree_good [OF assms(1) v(2)] v(1) good_ops_prefix
      by (fastforce simp: traverseList_def split: sum.splits if_splits)
  qed (use assms Inr traverseSubtree_good [OF assms(1) kn] in
      \<open>auto simp: traverseList_def split: sum.splits if_splits\<close>)
qed (use assms in \<open>simp add: traverseList_def\<close>)

lemma doc_ops_children: "c \<in> set (en_children en) \<Longrightarrow> doc_ops c \<subseteq> doc_ops en"
  by (cases en) auto

lemma traverse_good:
  "traverse L root op cp en = Inr ops \<Longrightarrow> good_ops L root (cp @ [en_local en]) (insert op (doc_ops en)) ops"
  "traverse_all L root op cp cs = Inr ops' \<Longrightarrow>
    good_ops L root cp (insert op (\<Union>c\<in>set cs. doc_ops c)) ops'"
proof (induction L root op cp en and L root op cp cs arbitrary: ops and ops' rule: traverse_traverse_all.induct)
  case (1 L root op cp en)
  let ?rec = "\<lambda>dropKey op p. traverse_all L root op p (if dropKey then tl (en_children en) else en_children en)"
  have "child_walk_ok L root en ?rec"
    unfolding child_walk_ok_def
  proof (intro allI impI)
    fix d op' p ops'
    assume r: "traverse_all L root op' p (if d then tl (en_children en) else en_children en) = Inr ops'"
    have "good_ops L root p (insert op' (\<Union>c\<in>set (if d then tl (en_children en) else en_children en). doc_ops c)) ops'"
      by (rule "1.IH" [OF refl refl r])
    moreover have "(\<Union>c\<in>set (if d then tl (en_children en) else en_children en). doc_ops c) \<subseteq> doc_ops en"
      using doc_ops_children [of _ en] list.set_sel(2) [of "en_children en"] by (cases "en_children en = []") auto
    ultimately show "good_ops L root p (insert op' (doc_ops en)) ops'"
      by (rule good_ops_mono [OF _ insert_mono])
  qed
  note rules = traverseContainer_good [OF this] traverseList_good [OF this] traverseLeaf_good
  have sub: "insert (getOperation op en) (doc_ops en) \<subseteq> insert op (doc_ops en)"
    using getOperation_in [of op en] by auto
  have "traverseList L root ?rec (getOperation op en) (cp @ [en_local en]) en = Inr ops \<or>
      traverseLeaf L root (getOperation op en) (cp @ [en_local en]) en = Inr ops \<or>
      traverseContainer L root ?rec (getOperation op en) (cp @ [en_local en]) en = Inr ops \<or> ops = []"
  proof (cases "schema_Descendant L root (cp @ [en_local en])")
    case (Some sch)
    then show ?thesis
      using "1.prems" by (cases "sn_kind sch") (simp_all add: traverse.simps [of L root op cp en] Let_def)
  qed (use "1.prems" in \<open>simp add: traverse.simps [of L root op cp en] Let_def\<close>)
  then show ?case
    using rules by (elim disjE) (blast intro: good_ops_mono [OF _ sub], blast intro: good_ops_mono [OF _ sub],
      blast intro: good_ops_mono [OF _ sub], simp)
next
  case (3 L root op cp c cs)
  then obtain xs ys where xs: "traverse L root op cp c = Inr xs" "traverse_all L root op cp cs = Inr ys" "ops' = xs @ ys"
    by (auto simp: seq_ops_Inr)
  have "good_ops L root cp (insert op (\<Union>c\<in>set (c # cs). doc_ops c)) xs"
    by (rule good_ops_mono [OF good_ops_prefix [OF "3.IH"(1) [OF xs(1)]]]) auto
  moreover have "good_ops L root cp (insert op (\<Union>c\<in>set (c # cs). doc_ops c)) ys"
    by (rule good_ops_mono [OF "3.IH"(2) [OF xs(2)]]) auto
  ultimately show ?case using xs(3) by simp
qed simp

text \<open>C12. Whatever the document contains, each operation that edit-config derives from
  it addresses a path below one of the document's top-level elements, at a node
  the schema has (or a value of such a node), and carries the default operation
  or an operation that the document itself names.\<close>

theorem edit_ops_within_document:
  assumes "edit_ops L ec root = Inr ops" "e \<in> set ops"
  shows "(\<exists>c\<in>set (ec_children ec). \<exists>rest. eo_path e = en_local c # rest) \<and> known_path L root (eo_path e) \<and>
    eo_op e \<in> insert (default_operation_Get (DefaultOperation ec)) (\<Union>c\<in>set (ec_children ec). doc_ops c)"
proof -
  let ?op = "default_operation_Get (DefaultOperation ec)"
  have t: "traverse_all L root ?op [] (ec_children ec) = Inr ops"
    using assms(1) by (simp add: edit_ops_def split: sum.splits)
  have "\<exists>c\<in>set cs. \<exists>rest. eo_path e = en_local c # rest"
    if "traverse_all L root ?op [] cs = Inr os" "e \<in> set os" for cs os
    using that
  proof (induction cs arbitrary: os)
    case (Cons c cs)
    then obtain xs ys where "traverse L root ?op [] c = Inr xs" "traverse_all L root ?op [] cs = Inr ys" "os = xs @ ys"
      by (auto simp: seq_ops_Inr)
    then show ?case
      using Cons traverse_good(1) [of L root ?op "[]" c xs] by (fastforce simp: good_ops_def)
  qed simp
  then show ?thesis
    using t assms(2) traverse_good(2) [OF t] by (auto simp: good_ops_def)
qed

definition doc_example :: edit_config where
  "doc_example = \<lparr>ec_children = [EditNode ''a'' ''urn:s'' op_delete ''1'' []], Target = target_candidate,
     DefaultOperation = defop_merge, TestOption = testopt_set, ErrorOption = erropt_stop\<rparr>"

theorem edit_ops_within_document_witness:
  "edit_ops sample doc_example root_node = Inr [\<lparr>eo_op = op_delete, eo_path = [''a'', ''1'']\<rparr>] \<and>
   known_path sample root_node [''a'', ''1'']"
proof -
  have ops: "edit_ops sample doc_example root_node = Inr [\<lparr>eo_op = op_delete, eo_path = [''a'', ''1'']\<rparr>]"
    by code_simp
  from edit_ops_within_document [OF ops] show ?thesis using ops by simp
qed

subsection \<open>Testing is silent\<close>

lemma silent_cases [silent_intros]:
  "(x = op_notset \<Longrightarrow> silent s m0) \<Longrightarrow> (x = op_merge \<Longrightarrow> silent s m1) \<Longrightarrow> (x = op_replace \<Longrightarrow> silent s m2) \<Longrightarrow>
   (x = op_create \<Longrightarrow> silent s m3) \<Longrightarrow> (x = op_delete \<Longrightarrow> silent s m4) \<Longrightarrow> (x = op_remove \<Longrightarrow> silent s m5) \<Longrightarrow>
    silent s (case x of op_notset \<Rightarrow> m0 | op_merge \<Rightarrow> m1 | op_replace \<Rightarrow> m2
      | op_create \<Rightarrow> m3 | op_delete \<Rightarrow> m4 | op_remove \<Rightarrow> m5)"
  "silent s m0 \<Longrightarrow> silent s m1 \<Longrightarrow> silent s m2 \<Longrightarrow> silent s m3 \<Longrightarrow>
    silent s (case y of erropt_notset \<Rightarrow> m0 | erropt_stop \<Rightarrow> m1 | erropt_cont \<Rightarrow> m2 | erropt_rollback \<Rightarrow> m3)"
  "(b \<Longrightarrow> silent s m0) \<Longrightarrow> (\<not> b \<Longrightarrow> silent s m1) \<Longrightarrow> silent s (case b of True \<Rightarrow> m0 | False \<Rightarrow> m1)"
  by (cases x; cases y; cases b; simp)+

lemma silent_authorize [silent_intros]:
  "TestOption ec = testopt_testonly \<Longrightarrow> silent s (authorize L c ec perm e)"
  unfolding authorize_def by (intro silent_intros) simp_all

lemma silent_Auth [silent_intros]: "TestOption ec = testopt_testonly \<Longrightarrow> silent s (edit_Auth L c ec e)"
  unfolding edit_Auth_def by (intro silent_intros)

lemma silent_Test [silent_intros]: "TestOption ec = testopt_testonly \<Longrightarrow> silent s (edit_Test L c ec e)"
  unfolding edit_Test_def by (intro silent_intros)

lemma silent_perform [silent_intros]:
  "TestOption ec = testopt_testonly \<Longrightarrow> silent s (ec_perform L c ec ops perr)"
  by (induction ops arbitrary: perr) (auto simp: edit_Perform_def intro!: silent_intros)

lemma silent_EditConfig [silent_intros]: "TestOption ec = testopt_testonly \<Longrightarrow> silent s (EditConfig L c ec)"
  unfolding EditConfig_def ec_test_def by (intro silent_intros)

text \<open>C13. An edit-config with test-option \<open>test-only\<close> has no effect whatsoever: whatever
  the operations in the document, the target, the default operation and the error option,
  and whether the operations pass or fail, the session, the commit manager and even
  the accounting trace are exactly what they were, and no other request is
  served. The document itself must not set the option: an element \<open>TestOption\<close> in it overrides
  the parameter, as \<open>document_overrides_test_option\<close> shows.\<close>

theorem test_only_has_no_effect:
  assumes "\<And>doc. xml_Unmarshal L cfg = Inr doc \<Longrightarrow> xc_TestOption doc \<in> {None, Some testopt_testonly}"
  shows "snd (run_state (editConfigXML L c target defop ''test-only'' erropt cfg) (w, es)) = (w, es)"
proof -
  have opt: "TestOption ec = testopt_testonly"
    if "newEditConfigXML L target defop ''test-only'' erropt cfg = Inr ec" for ec
    using that assms by (fastforce simp: newEditConfigXML_def decoded_def test_option_Set_def split: sum.splits)
  have "silent (w, es) (editConfigXML L c target defop ''test-only'' erropt cfg)"
    unfolding editConfigXML_def by (intro silent_intros opt)
  then show ?thesis by (simp add: silent_def)
qed

theorem test_only_has_no_effect_witness:
  "fst (run_state (editConfigXML sample (caller 5 False) ''candidate'' ''merge'' ''test-only'' ''stop-on-error'' ''a'')
       (sample_world 5 [] [], [])) = Some (AccessDeniedApplicationError None) \<and>
   snd (run_state (editConfigXML sample (caller 5 False) ''candidate'' ''merge'' ''test-only'' ''stop-on-error'' ''a'')
       (sample_world 5 [] [], [])) = (sample_world 5 [] [], [])"
proof
  show "fst (run_state (editConfigXML sample (caller 5 False) ''candidate'' ''merge'' ''test-only'' ''stop-on-error'' ''a'')
       (sample_world 5 [] [], [])) = Some (AccessDeniedApplicationError None)" by code_simp
  show "snd (run_state (editConfigXML sample (caller 5 False) ''candidate'' ''merge'' ''test-only'' ''stop-on-error'' ''a'')
       (sample_world 5 [] [], [])) = (sample_world 5 [] [], [])"
    by (rule test_only_has_no_effect) (auto simp: sample_def HasPrefix_def)
qed

text \<open>
  The option fields of the decoded struct are exported and untagged: a document with an element \<open>TestOption\<close>
  (in the sample packages, one that starts with \<open><set>\<close>) sets them, and a request with the option \<open>test-only\<close>
  changes the candidate.
\<close>

lemma document_overrides_test_option:
  "let r = run_state (editConfigXML sample (caller 5 True) ''candidate'' ''merge'' ''test-only'' ''stop-on-error'' ''<set>a'')
       (sample_world 5 [] [], []) in fst r = None \<and> candidate (w_sess (fst (snd r))) = [[''a'', ''1'']]"
  by code_simp

subsection \<open>Authority\<close>

lemma log_authorize: "keeps log_only (authorize L c ec perm e)"
  unfolding authorize_def by (intro log_intros)

lemma log_Auth: "keeps log_only (edit_Auth L c ec e)"
  unfolding edit_Auth_def by (intro log_intros keeps_case_operation log_authorize)

lemma log_Test: "keeps log_only (edit_Test L c ec e)"
  unfolding edit_Test_def by (intro log_intros keeps_case_bool log_Auth)

text \<open>C11. No operation of an edit-config is carried out without authority, under any test
  option: if the authorisation of an operation (of the deletion and of the
  creation for a replace) does not succeed, performing it reports an error, serves
  no other request and leaves the session and the commit manager unchanged; at
  most the refused command is accounted.\<close>

theorem edit_needs_authority:
  assumes "fst (run_state (edit_Auth L c ec e) (w, es)) \<noteq> Inr True"
    and "run_state (edit_Perform L c ec e) (w, es) = (r, w', es')"
  shows "r \<noteq> None \<and> w_sess w' = w_sess w \<and> w_cmgr w' = w_cmgr w \<and> es' = es"
proof -
  obtain a wa ea where a: "run_state (edit_Auth L c ec e) (w, es) = (a, wa, ea)" by (metis surj_pair)
  note la = log_only_fields [OF keepsE [OF log_Auth a]]
  have "(r, w', es') \<in> {(x, wa, ea) | x. x \<noteq> None}"
    using assms a
    by (auto simp: edit_Perform_def edit_Test_def Let_def split: test_option.splits sum.splits bool.splits)
  then show ?thesis using la by auto
qed

theorem edit_needs_authority_witness:
  "candidate (w_sess (fst (snd (run_state (edit_Perform sample (caller 5 False) doc_example
     \<lparr>eo_op = op_delete, eo_path = [''a'']\<rparr>) (sample_world 5 [[''a'']] [], []))))) = [[''a'']]"
proof -
  have "fst (run_state (edit_Auth sample (caller 5 False) doc_example \<lparr>eo_op = op_delete, eo_path = [''a'']\<rparr>)
      (sample_world 5 [[''a'']] [], [])) \<noteq> Inr True" by code_simp
  from edit_needs_authority [OF this run_split] show ?thesis
    by (simp add: sample_world_def sample_session_def)
qed

subsection \<open>Error options\<close>

text \<open>C14. \<open>rollback-on-error\<close> tests before it touches anything: if any of the operations
  fails its test, the request is answered with the first such error and neither
  the session nor the commit manager has changed.\<close>

theorem rollback_tests_first:
  assumes "ErrorOption ec = erropt_rollback" "edit_ops L ec (ses_schema (w_sess w)) = Inr ops"
    and "fst (run_state (ec_test L c ec ops) (w, es)) = Some err"
    and "run_state (EditConfig L c ec) (w, es) = (r, w', es')"
  shows "r = Some err \<and> w_sess w' = w_sess w \<and> w_cmgr w' = w_cmgr w \<and> es' = es"
proof -
  obtain x wa ea where t: "run_state (ec_test L c ec ops) (w, es) = (x, wa, ea)" by (metis surj_pair)
  have "keeps log_only (ec_test L c ec ops)"
    unfolding ec_test_def by (intro log_intros log_Test)
  note la = log_only_fields [OF keepsE [OF this t]]
  show ?thesis using assms t la by (auto simp: EditConfig_def)
qed

definition rollback_example :: edit_config where
  "rollback_example = \<lparr>ec_children = [EditNode ''a'' ''urn:s'' op_notset ''1'' [], EditNode ''b'' ''urn:s'' op_delete ''1'' []],
     Target = target_candidate, DefaultOperation = defop_merge, TestOption = testopt_testset, ErrorOption = erropt_rollback\<rparr>"

theorem rollback_tests_first_witness:
  "fst (run_state (EditConfig sample (caller 5 True) rollback_example) (sample_world 5 [] [], [])) =
      Some (NodeNotExistsError [''b'', ''1'']) \<and>
   candidate (w_sess (fst (snd (run_state (EditConfig sample (caller 5 True) rollback_example)
      (sample_world 5 [] [], []))))) = []"
proof -
  have o: "edit_ops sample rollback_example (ses_schema (w_sess (sample_world 5 [] []))) =
      Inr [\<lparr>eo_op = op_merge, eo_path = [''a'', ''1'']\<rparr>, \<lparr>eo_op = op_delete, eo_path = [''b'', ''1'']\<rparr>]" by code_simp
  have t: "fst (run_state (ec_test sample (caller 5 True) rollback_example
      [\<lparr>eo_op = op_merge, eo_path = [''a'', ''1'']\<rparr>, \<lparr>eo_op = op_delete, eo_path = [''b'', ''1'']\<rparr>])
      (sample_world 5 [] [], [])) = Some (NodeNotExistsError [''b'', ''1''])" by code_simp
  show ?thesis
    using rollback_tests_first [OF _ o t run_split] by (simp add: rollback_example_def sample_world_def sample_session_def)
qed

text \<open>\<open>stop-on-error\<close> (and an unset error option): performing the operations is the
  loop that performs them in order and returns the first error, touching none of
  the operations after it.\<close>

theorem stop_performs_up_to_first_error:
  assumes "ErrorOption ec = erropt_stop \<or> ErrorOption ec = erropt_notset"
  shows "ec_perform L c ec ops [] = for_err (edit_Perform L c ec) ops"
proof (induction ops)
  case (Cons e ops)
  have "(\<lambda>r. case r of None \<Rightarrow> ec_perform L c ec ops []
      | Some err \<Rightarrow> if is_panic err then ret (Some err)
         else (case ErrorOption ec of erropt_stop \<Rightarrow> ret (Some err) | erropt_notset \<Rightarrow> ret (Some err)
           | erropt_cont \<Rightarrow> ec_perform L c ec ops ([] @ [err]) | erropt_rollback \<Rightarrow> ec_perform L c ec ops []))
    = (\<lambda>r. case r of None \<Rightarrow> for_err (edit_Perform L c ec) ops | Some err \<Rightarrow> ret (Some err))"
    using assms Cons.IH by (auto simp: fun_eq_iff split: option.split)
  then show ?case by simp
qed simp

theorem stop_performs_up_to_first_error_witness:
  "ec_perform sample (caller 5 True) doc_example [\<lparr>eo_op = op_merge, eo_path = [''a'']\<rparr>] [] =
    for_err (edit_Perform sample (caller 5 True) doc_example) [\<lparr>eo_op = op_merge, eo_path = [''a'']\<rparr>]"
  by (rule stop_performs_up_to_first_error) (simp add: doc_example_def)

text \<open>The loop that performs every operation and collects the errors.\<close>

fun perform_each :: "('a \<Rightarrow> ('s, error option) state) \<Rightarrow> 'a list \<Rightarrow> ('s, error list) state" where
  "perform_each f [] = ret []"
| "perform_each f (x # xs) = do {
     e \<leftarrow> f x;
     es \<leftarrow> perform_each f xs;
     ret ((case e of None \<Rightarrow> [] | Some err \<Rightarrow> [err]) @ es) }"

lemma perform_cont:
  assumes "ErrorOption ec = erropt_cont"
    and "run_state (perform_each (edit_Perform L c ec) ops) s = (errs, s')" "\<forall>err\<in>set errs. \<not> is_panic err"
  shows "run_state (ec_perform L c ec ops perr) s =
    (if perr @ errs = [] then None else Some (PerformError (perr @ errs)), s')"
  using assms(2,3)
proof (induction ops arbitrary: perr s errs)
  case (Cons e ops)
  obtain r t where r: "run_state (edit_Perform L c ec e) s = (r, t)" by (metis surj_pair)
  obtain errs2 where e2: "run_state (perform_each (edit_Perform L c ec) ops) t = (errs2, s')"
      "errs = (case r of None \<Rightarrow> [] | Some err \<Rightarrow> [err]) @ errs2"
    using Cons.prems(1) r by (auto split: prod.splits)
  then show ?case
    using r assms(1) Cons.prems(2) Cons.IH [OF e2(1)] by (cases r) auto
qed simp

lemma perform_rollback:
  assumes "ErrorOption ec = erropt_rollback"
    and "run_state (perform_each (edit_Perform L c ec) ops) s = (errs, s')" "\<forall>err\<in>set errs. \<not> is_panic err"
  shows "run_state (ec_perform L c ec ops []) s = (None, s')"
  using assms(2,3)
proof (induction ops arbitrary: s errs)
  case (Cons e ops)
  obtain r t where r: "run_state (edit_Perform L c ec e) s = (r, t)" by (metis surj_pair)
  obtain errs2 where e2: "run_state (perform_each (edit_Perform L c ec) ops) t = (errs2, s')"
      "errs = (case r of None \<Rightarrow> [] | Some err \<Rightarrow> [err]) @ errs2"
    using Cons.prems(1) r by (auto split: prod.splits)
  then show ?case
    using r assms(1) Cons.prems(2) Cons.IH [OF e2(1)] by (cases r) auto
qed simp

text \<open>\<open>continue-on-error\<close> performs every operation in order whatever the earlier ones
  did, and reports all their errors in that order (no error if there were none);
  \<open>rollback-on-error\<close> performs the same operations with the same effects but
  answers success however many of them fail.\<close>

theorem continue_and_rollback_perform_all:
  assumes "run_state (perform_each (edit_Perform L c ec) ops) s = (errs, s')" "\<forall>err\<in>set errs. \<not> is_panic err"
  shows "(ErrorOption ec = erropt_cont \<longrightarrow>
      run_state (ec_perform L c ec ops []) s = (if errs = [] then None else Some (PerformError errs), s')) \<and>
    (ErrorOption ec = erropt_rollback \<longrightarrow> run_state (ec_perform L c ec ops []) s = (None, s'))"
  using perform_cont [OF _ assms, of "[]"] perform_rollback [OF _ assms] by auto

theorem continue_and_rollback_perform_all_witness:
  "fst (run_state (ec_perform sample (caller 5 True) rollback_example
      [\<lparr>eo_op = op_create, eo_path = [''a'']\<rparr>] []) (sample_world 5 [[''a'']] [], [])) = None \<and>
   fst (run_state (ec_perform sample (caller 5 True) (rollback_example\<lparr>ErrorOption := erropt_cont\<rparr>)
      [\<lparr>eo_op = op_create, eo_path = [''a'']\<rparr>] []) (sample_world 5 [[''a'']] [], [])) =
     Some (PerformError [NodeExistsError [''a'']])"
proof -
  let ?ops = "[\<lparr>eo_op = op_create, eo_path = [''a'']\<rparr>]" and ?s = "(sample_world 5 [[''a'']] [], [])"
  let ?ec = "rollback_example\<lparr>ErrorOption := erropt_cont\<rparr>"
  have e: "fst (run_state (perform_each (edit_Perform sample (caller 5 True) ?ec) ?ops) ?s) = [NodeExistsError [''a'']]"
      "fst (run_state (perform_each (edit_Perform sample (caller 5 True) rollback_example) ?ops) ?s) =
        [NodeExistsError [''a'']]"
    by code_simp+
  have "fst (run_state (ec_perform sample (caller 5 True) rollback_example ?ops []) ?s) = None"
    using continue_and_rollback_perform_all [OF run_split, of sample "caller 5 True" rollback_example ?ops ?s] e(2)
    by (simp add: rollback_example_def del: perform_each.simps ec_perform.simps)
  moreover have "fst (run_state (ec_perform sample (caller 5 True) ?ec ?ops []) ?s) =
      Some (PerformError [NodeExistsError [''a'']])"
    using continue_and_rollback_perform_all [OF run_split, of sample "caller 5 True" ?ec ?ops ?s] e(1)
    by (simp del: perform_each.simps ec_perform.simps)
  ultimately show ?thesis by blast
qed

end
