(* ===== verification/Session_Mgr.thy ===== *)
theory Session_Mgr
  imports Sample_Libs
begin

text \<open>
  \<open>session/sessionmgr.go\<close> and the constructors of \<open>session/session.go\<close>: the table of
  sessions by id. The methods hold the manager's mutex, so each is one step on the
  table; a nil manager is \<open>None\<close>. Sessions that were removed and killed are kept in
  \<open>mg_killed\<close>. Go iterates over the table in an arbitrary order, which is an
  argument of \<open>UnlockAllPid\<close>.
\<close>

subsection \<open>Sessions\<close>

record 'd mgr =
  mg_sessions :: "string \<rightharpoonup> 'd session"
  mg_killed :: "'d session list"

definition NewSession :: "'d libs \<Rightarrow> string \<Rightarrow> snode \<Rightarrow> snode \<Rightarrow> uid option \<Rightarrow> 'd session" where
  "NewSession L sd st stFull own = \<lparr>sid = sd, owner = own, lpid = 0, saved = False,
     candidate = data_New L ''root'', ses_schema = st, ses_schemaFull = stFull, terminated = False\<rparr>"

definition IsShared :: "'d session \<Rightarrow> bool" where
  "IsShared s \<longleftrightarrow> owner s = None"

definition OwnedBy :: "'d session \<Rightarrow> uid \<Rightarrow> bool" where
  "OwnedBy s u \<longleftrightarrow> \<not> IsShared s \<and> owner s = Some u"

text \<open>\<open>Locked\<close>, \<open>Lock\<close> and \<open>Unlock\<close> of a session, seen from the manager.\<close>

definition api_locked :: "'d session \<Rightarrow> pid" where
  "api_locked s = (if terminated s then - 1 else fst (locked s))"

definition api_lock :: "pid \<Rightarrow> 'd session \<Rightarrow> (pid \<times> error option) \<times> 'd session" where
  "api_lock p s = (if terminated s then ((- 1, Some sessTermError), s) else lock p s)"

definition api_unlock :: "pid \<Rightarrow> 'd session \<Rightarrow> (pid \<times> error option) \<times> 'd session" where
  "api_unlock p s = (if terminated s then ((- 1, Some sessTermError), s) else unlock p s)"

subsection \<open>The table\<close>

definition NewSessionMgr :: "'d mgr" where
  "NewSessionMgr = \<lparr>mg_sessions = Map.empty, mg_killed = []\<rparr>"

definition may_access :: "Context \<Rightarrow> 'd session \<Rightarrow> bool" where
  "may_access c s \<longleftrightarrow> OwnedBy s (Uid c) \<or> IsShared s \<or> Configd c \<or> Superuser c"

definition lookup :: "Context \<Rightarrow> string \<Rightarrow> 'd mgr \<Rightarrow> 'd session option result" where
  "lookup c sd m =
    (case mg_sessions m sd of
       None \<Rightarrow> Inr None
     | Some s \<Rightarrow> if may_access c s then Inr (Some s) else Inl (AccessDeniedApplicationError None))"

definition mgr_get :: "Context \<Rightarrow> string \<Rightarrow> 'd mgr \<Rightarrow> 'd session result" where
  "mgr_get c sd m =
    (case lookup c sd m of
       Inl e \<Rightarrow> Inl e
     | Inr None \<Rightarrow> Inl (OperationFailedApplicationError (Some (''session '' @ sd @ '' does not exist'')) None)
     | Inr (Some s) \<Rightarrow> Inr s)"

definition mgr_Get :: "Context \<Rightarrow> string \<Rightarrow> 'd mgr option \<Rightarrow> 'd session result" where
  "mgr_Get c sd mo = (case mo of None \<Rightarrow> Inl nilSessionMgrError | Some m \<Rightarrow> mgr_get c sd m)"

definition mgr_create ::
  "'d libs \<Rightarrow> Context \<Rightarrow> string \<Rightarrow> snode \<Rightarrow> snode \<Rightarrow> bool \<Rightarrow> 'd mgr \<Rightarrow> 'd session result \<times> 'd mgr" where
  "mgr_create L c sd st stFull shared m =
    (case lookup c sd m of
       Inl e \<Rightarrow> (Inl e, m)
     | Inr (Some s) \<Rightarrow>
         if shared \<noteq> IsShared s then
           (Inl (OperationFailedApplicationError (Some (sd @ '' already exists as '' @
              (if \<not> IsShared s then ''an un-shared session'' else ''a shared session''))) None), m)
         else if api_locked s \<noteq> 0 \<and> api_locked s \<noteq> Pid c then (Inl (lockDenied (Itoa (api_locked s))), m)
         else (Inr s, m)
     | Inr None \<Rightarrow>
         let s = NewSession L sd st stFull (if \<not> shared then Some (Uid c) else None)
         in (Inr s, m\<lparr>mg_sessions := (mg_sessions m)(sd \<mapsto> s)\<rparr>))"

definition mgr_Create ::
  "'d libs \<Rightarrow> Context \<Rightarrow> string \<Rightarrow> snode \<Rightarrow> snode \<Rightarrow> bool \<Rightarrow> 'd mgr option \<Rightarrow> 'd session result \<times> 'd mgr option" where
  "mgr_Create L c sd st stFull shared mo =
    (case mo of None \<Rightarrow> (Inl nilSessionMgrError, None)
     | Some m \<Rightarrow> (case mgr_create L c sd st stFull shared m of (r, m') \<Rightarrow> (r, Some m')))"

text \<open>
  \<open>Kill\<close> acts on the session object \<open>s\<close> that the caller found at \<open>sd\<close>. An object is in the table under one id at
  most, so it terminates the entry of that id if the entry is still there. It runs in a goroutine of its own; a
  session created meanwhile under the same id is another object.
\<close>

definition kill_session :: "string \<Rightarrow> 'd session \<Rightarrow> 'd mgr \<Rightarrow> 'd mgr" where
  "kill_session sd s m =
    m\<lparr>mg_sessions := (\<lambda>i. if i = sd then map_option (\<lambda>_. s\<lparr>terminated := True\<rparr>) (mg_sessions m i) else mg_sessions m i),
      mg_killed := s\<lparr>terminated := True\<rparr> # mg_killed m\<rparr>"

definition mgr_destroy :: "Context \<Rightarrow> string \<Rightarrow> 'd mgr \<Rightarrow> error option \<times> 'd mgr" where
  "mgr_destroy c sd m =
    (case lookup c sd m of
       Inl e \<Rightarrow> (Some e, m)
     | Inr None \<Rightarrow> (None, m)
     | Inr (Some s) \<Rightarrow>
         if api_locked s \<noteq> 0 \<and> api_locked s \<noteq> Pid c then (Some (lockDenied (Itoa (api_locked s))), m)
         else (None, kill_session sd s (m\<lparr>mg_sessions := (mg_sessions m)(sd := None)\<rparr>)))"

lemma kill_removed [simp]:
  "kill_session sd s (m\<lparr>mg_sessions := (mg_sessions m)(sd := None)\<rparr>) =
     m\<lparr>mg_sessions := (mg_sessions m)(sd := None), mg_killed := s\<lparr>terminated := True\<rparr> # mg_killed m\<rparr>"
  by (auto simp: kill_session_def fun_eq_iff)

definition mgr_Destroy :: "Context \<Rightarrow> string \<Rightarrow> 'd mgr option \<Rightarrow> error option \<times> 'd mgr option" where
  "mgr_Destroy c sd mo =
    (case mo of None \<Rightarrow> (Some nilSessionMgrError, None)
     | Some m \<Rightarrow> (case mgr_destroy c sd m of (r, m') \<Rightarrow> (r, Some m')))"

definition mgr_Lock :: "Context \<Rightarrow> string \<Rightarrow> 'd mgr option \<Rightarrow> (pid \<times> error option) \<times> 'd mgr option" where
  "mgr_Lock c sd mo =
    (case mo of None \<Rightarrow> ((- 1, Some nilSessionMgrError), None)
     | Some m \<Rightarrow> (case mgr_get c sd m of
         Inl e \<Rightarrow> ((- 1, Some e), Some m)
       | Inr s \<Rightarrow> let (r, s') = api_lock (Pid c) s
                 in (r, Some (m\<lparr>mg_sessions := (mg_sessions m)(sd \<mapsto> s')\<rparr>))))"

definition mgr_Unlock :: "Context \<Rightarrow> string \<Rightarrow> 'd mgr option \<Rightarrow> (pid \<times> error option) \<times> 'd mgr option" where
  "mgr_Unlock c sd mo =
    (case mo of None \<Rightarrow> ((- 1, Some nilSessionMgrError), None)
     | Some m \<Rightarrow> (case mgr_get c sd m of
         Inl e \<Rightarrow> ((- 1, Some e), Some m)
       | Inr s \<Rightarrow> let (r, s') = api_unlock (Pid c) s
                 in (r, Some (m\<lparr>mg_sessions := (mg_sessions m)(sd \<mapsto> s')\<rparr>))))"

fun unlock_all :: "pid \<Rightarrow> string list \<Rightarrow> error option \<Rightarrow> 'd mgr \<Rightarrow> error option \<times> 'd mgr" where
  "unlock_all p [] e m = (e, m)"
| "unlock_all p (sd # sds) e m =
    (case mg_sessions m sd of
       None \<Rightarrow> unlock_all p sds e m
     | Some s \<Rightarrow>
         if api_locked s \<noteq> 0 \<and> api_locked s = p then
           let (r, s') = api_unlock p s
           in unlock_all p sds (snd r) (m\<lparr>mg_sessions := (mg_sessions m)(sd \<mapsto> s')\<rparr>)
         else unlock_all p sds e m)"

definition UnlockAllPid :: "string list \<Rightarrow> Context \<Rightarrow> 'd mgr option \<Rightarrow> error option \<times> 'd mgr option" where
  "UnlockAllPid order c mo =
    (case mo of None \<Rightarrow> (Some nilSessionMgrError, None)
     | Some m \<Rightarrow> (case unlock_all (Pid c) order None m of (e, m') \<Rightarrow> (e, Some m')))"

subsection \<open>The table invariant\<close>

text \<open>Every session is filed under its own id and is alive.\<close>

definition mgr_ok :: "'d mgr \<Rightarrow> bool" where
  "mgr_ok m \<longleftrightarrow> (\<forall>sd s. mg_sessions m sd = Some s \<longrightarrow> sid s = sd \<and> \<not> terminated s)"

lemma mgr_okD: "mgr_ok m \<Longrightarrow> mg_sessions m sd = Some s \<Longrightarrow> sid s = sd \<and> \<not> terminated s"
  by (simp add: mgr_ok_def)

lemma mgr_ok_upd: "mgr_ok m \<Longrightarrow> sid s = sd \<Longrightarrow> \<not> terminated s \<Longrightarrow>
    mgr_ok (m\<lparr>mg_sessions := (mg_sessions m)(sd \<mapsto> s)\<rparr>)"
  by (auto simp: mgr_ok_def)

lemma api_lock_ids [simp]:
  "sid (snd (api_lock p s)) = sid s" "terminated (snd (api_lock p s)) = terminated s"
  "sid (snd (api_unlock p s)) = sid s" "terminated (snd (api_unlock p s)) = terminated s"
  by (simp_all add: api_lock_def api_unlock_def lock_def unlock_def)

lemma lookup_Some: "lookup c sd m = Inr (Some s) \<longleftrightarrow> mg_sessions m sd = Some s \<and> may_access c s"
  by (auto simp: lookup_def split: option.splits)

lemma mgr_get_Inr: "mgr_get c sd m = Inr s \<longleftrightarrow> mg_sessions m sd = Some s \<and> may_access c s"
  by (auto simp: mgr_get_def lookup_def split: option.splits)

text \<open>The closed form of \<open>UnlockAllPid\<close>: each listed session is released if held by \<open>p\<close>.\<close>

definition released :: "pid \<Rightarrow> 'd session \<Rightarrow> 'd session" where
  "released p s = (if api_locked s \<noteq> 0 \<and> api_locked s = p then snd (api_unlock p s) else s)"

lemma released_idem [simp]: "released p (released p s) = released p s"
  by (auto simp: released_def api_locked_def api_unlock_def unlock_def locked_def)

lemma released_ids [simp]: "sid (released p s) = sid s" "terminated (released p s) = terminated s"
  by (simp_all add: released_def)

lemma unlock_all_sessions:
  "mg_sessions (snd (unlock_all p sds e m)) sd =
    (if sd \<in> set sds then map_option (released p) (mg_sessions m sd) else mg_sessions m sd)"
proof (induction sds arbitrary: e m)
  case (Cons x sds)
  show ?case
  proof (cases "mg_sessions m x")
    case None
    then show ?thesis using Cons.IH [of e m] by simp
  next
    case (Some s)
    let ?m = "m\<lparr>mg_sessions := (mg_sessions m)(x \<mapsto> released p s)\<rparr>"
    have "\<exists>e'. unlock_all p (x # sds) e m = unlock_all p sds e' ?m"
      using Some by (cases "api_locked s \<noteq> 0 \<and> api_locked s = p")
        (auto simp: released_def Let_def split_def fun_upd_idem)
    then obtain e' where "unlock_all p (x # sds) e m = unlock_all p sds e' ?m" ..
    then show ?thesis
      using Cons.IH [of e' ?m] Some by (auto simp: option.map_comp comp_def)
  qed
qed simp

lemma unlock_all_ok: "mgr_ok m \<Longrightarrow> mgr_ok (snd (unlock_all p sds e m))"
  unfolding mgr_ok_def by (auto simp: unlock_all_sessions split: if_splits)

datatype mgr_op =
    MCreate Context string snode snode bool
  | MDestroy Context string
  | MLock Context string
  | MUnlock Context string
  | MUnlockAll Context "string list"

fun mgr_step :: "'d libs \<Rightarrow> mgr_op \<Rightarrow> 'd mgr option \<Rightarrow> 'd mgr option" where
  "mgr_step L (MCreate c sd st stf sh) m = snd (mgr_Create L c sd st stf sh m)"
| "mgr_step L (MDestroy c sd) m = snd (mgr_Destroy c sd m)"
| "mgr_step L (MLock c sd) m = snd (mgr_Lock c sd m)"
| "mgr_step L (MUnlock c sd) m = snd (mgr_Unlock c sd m)"
| "mgr_step L (MUnlockAll c order) m = snd (UnlockAllPid order c m)"

fun mgr_op_ctx :: "mgr_op \<Rightarrow> Context" where
  "mgr_op_ctx (MCreate c _ _ _ _) = c"
| "mgr_op_ctx (MDestroy c _) = c"
| "mgr_op_ctx (MLock c _) = c"
| "mgr_op_ctx (MUnlock c _) = c"
| "mgr_op_ctx (MUnlockAll c _) = c"

lemma mgr_step_ok:
  assumes "mgr_ok m"
  shows "\<exists>m'. mgr_step L x (Some m) = Some m' \<and> mgr_ok m'"
proof (cases x)
  case (MCreate c sd st stf sh)
  have "mgr_ok (snd (mgr_create L c sd st stf sh m))"
    using assms by (auto simp: mgr_create_def Let_def NewSession_def intro!: mgr_ok_upd split: sum.split option.split)
  then show ?thesis using MCreate by (auto simp: mgr_Create_def split: prod.splits)
next
  case (MDestroy c sd)
  have "mgr_ok (snd (mgr_destroy c sd m))"
    using assms by (auto simp: mgr_destroy_def mgr_ok_def split: sum.split option.split)
  then show ?thesis using MDestroy by (auto simp: mgr_Destroy_def split: prod.splits)
next
  case (MLock c sd)
  then show ?thesis
    using assms api_lock_ids(1,2) [of "Pid c"]
    by (auto simp: mgr_Lock_def Let_def split_def mgr_get_Inr intro!: mgr_ok_upd split: sum.split dest: mgr_okD [OF assms])
next
  case (MUnlock c sd)
  then show ?thesis
    using assms api_lock_ids(3,4) [of "Pid c"]
    by (auto simp: mgr_Unlock_def Let_def split_def mgr_get_Inr intro!: mgr_ok_upd split: sum.split dest: mgr_okD [OF assms])
next
  case (MUnlockAll c order)
  then show ?thesis using unlock_all_ok [OF assms] by (auto simp: UnlockAllPid_def split: prod.splits) (metis snd_conv)
qed

subsection \<open>Properties\<close>

lemma mgr_steps_ok:
  "mgr_ok m \<Longrightarrow> \<exists>m'. fold (mgr_step L) xs (Some m) = Some m' \<and> mgr_ok m'"
proof (induction xs arbitrary: m)
  case (Cons x xs)
  obtain m1 where "mgr_step L x (Some m) = Some m1" "mgr_ok m1" using mgr_step_ok [OF Cons.prems] by blast
  then show ?case using Cons.IH by simp
qed simp

lemma unlock_all_killed [simp]: "mg_killed (snd (unlock_all p sds e m)) = mg_killed m"
  by (induction p sds e m rule: unlock_all.induct) (auto simp: Let_def split_def split: option.split)

lemma unlock_all_killed': "unlock_all p sds e m = (e', m') \<Longrightarrow> mg_killed m' = mg_killed m"
  using unlock_all_killed [of p sds e m] by simp

lemma mgr_step_killed:
  "mgr_step L x (Some m) = Some m' \<Longrightarrow> list_all terminated (mg_killed m) \<Longrightarrow> list_all terminated (mg_killed m')"
  by (cases x)
    (auto simp: mgr_Create_def mgr_create_def mgr_Destroy_def mgr_destroy_def mgr_Lock_def mgr_Unlock_def UnlockAllPid_def Let_def
      dest!: unlock_all_killed' split: prod.splits sum.splits option.splits if_splits)

lemma mgr_steps_killed:
  "fold (mgr_step L) xs (Some m) = Some m' \<Longrightarrow> mgr_ok m \<Longrightarrow> list_all terminated (mg_killed m) \<Longrightarrow>
     list_all terminated (mg_killed m')"
proof (induction xs arbitrary: m)
  case (Cons x xs)
  obtain m1 where "mgr_step L x (Some m) = Some m1" "mgr_ok m1" using mgr_step_ok [OF Cons.prems(2)] by blast
  then show ?case using Cons mgr_step_killed by fastforce
qed simp

text \<open>What a \<open>Destroy\<close> without an error has done.\<close>

lemma mgr_Destroy_done:
  assumes "mgr_Destroy c sd (Some m) = (None, Some m')"
  shows "mg_sessions m' = (mg_sessions m)(sd := None) \<and>
    mg_killed m' = (case mg_sessions m sd of None \<Rightarrow> mg_killed m | Some s \<Rightarrow> s\<lparr>terminated := True\<rparr> # mg_killed m)"
  using assms
  by (auto simp: mgr_Destroy_def mgr_destroy_def lookup_def split: prod.splits sum.splits option.splits if_splits)

text \<open>C16. In every state a session manager can get into by creating, destroying, locking
  and unlocking sessions on behalf of any callers, each entry of the table is a
  live session filed under its own id, and every session that was removed is terminated. When such a
  manager answers a further \<open>Destroy\<close> without an error, exactly that id has left the table, and the session
  that was there is among the terminated ones.\<close>

theorem session_table_invariant:
  "\<exists>m. fold (mgr_step L) xs (Some NewSessionMgr) = Some m \<and> mgr_ok m \<and> list_all terminated (mg_killed m) \<and>
    (\<forall>c sd m'. mgr_Destroy c sd (Some m) = (None, Some m') \<longrightarrow> mg_sessions m' = (mg_sessions m)(sd := None) \<and>
       (\<forall>s. mg_sessions m sd = Some s \<longrightarrow> s\<lparr>terminated := True\<rparr> \<in> set (mg_killed m')))"
proof -
  have "mgr_ok NewSessionMgr" by (simp add: mgr_ok_def NewSessionMgr_def)
  then obtain m where m: "fold (mgr_step L) xs (Some NewSessionMgr) = Some m" "mgr_ok m"
    using mgr_steps_ok by blast
  moreover have "list_all terminated (mg_killed m)"
    using mgr_steps_killed [OF m(1)] by (simp add: mgr_ok_def NewSessionMgr_def)
  ultimately show ?thesis by (auto dest: mgr_Destroy_done)
qed

theorem session_table_invariant_witness:
  "\<exists>m m' s. fold (mgr_step sample) [MCreate (caller 5 True) ''n'' root_node root_node False] (Some NewSessionMgr) = Some m \<and>
     mg_sessions m ''n'' = Some s \<and> mgr_Destroy (caller 5 True) ''n'' (Some m) = (None, Some m') \<and>
     mg_sessions m' = (mg_sessions m)(''n'' := None) \<and> s\<lparr>terminated := True\<rparr> \<in> set (mg_killed m')"
proof -
  let ?xs = "[MCreate (caller 5 True) ''n'' root_node root_node False]"
  obtain m where m: "fold (mgr_step sample) ?xs (Some NewSessionMgr) = Some m"
    and d: "\<And>c sd m'. mgr_Destroy c sd (Some m) = (None, Some m') \<Longrightarrow> mg_sessions m' = (mg_sessions m)(sd := None) \<and>
      (\<forall>s. mg_sessions m sd = Some s \<longrightarrow> s\<lparr>terminated := True\<rparr> \<in> set (mg_killed m'))"
    using session_table_invariant [of sample ?xs] by blast
  obtain s where s: "mg_sessions m ''n'' = Some s" "lpid s = 0" "owner s = Some 1000" "\<not> terminated s"
    using m by (auto simp: mgr_Create_def mgr_create_def lookup_def NewSessionMgr_def NewSession_def caller_def Let_def)
  have "\<exists>m'. mgr_Destroy (caller 5 True) ''n'' (Some m) = (None, Some m')"
    using s by (simp add: mgr_Destroy_def mgr_destroy_def lookup_def may_access_def OwnedBy_def IsShared_def caller_def
        api_locked_def locked_def)
  then show ?thesis using m s(1) d by blast
qed

lemma mgr_ops_foreign:
  assumes "mg_sessions m sd = Some s" "\<not> may_access c s"
  shows "lookup c sd m = Inl (AccessDeniedApplicationError None)"
    "mgr_get c sd m = Inl (AccessDeniedApplicationError None)"
  using assms by (simp_all add: lookup_def mgr_get_def)

text \<open>One step keeps the entry \<open>s\<close> at \<open>sd\<close> if no operation may change it.\<close>

lemma mgr_step_entry:
  assumes s: "mg_sessions m sd = Some s"
    and lk: "may_access (mgr_op_ctx x) s \<Longrightarrow>
       snd (api_lock (Pid (mgr_op_ctx x)) s) = s \<and> snd (api_unlock (Pid (mgr_op_ctx x)) s) = s \<and>
       api_locked s \<noteq> 0 \<and> api_locked s \<noteq> Pid (mgr_op_ctx x)"
    and rl: "released (Pid (mgr_op_ctx x)) s = s"
  shows "\<exists>m'. mgr_step L x (Some m) = Some m' \<and> mg_sessions m' sd = Some s"
proof (cases x)
  case (MCreate c sd' st stf sh)
  have "mg_sessions (snd (mgr_create L c sd' st stf sh m)) sd = Some s"
    using s by (auto simp: mgr_create_def Let_def lookup_def split: sum.split option.split)
  then show ?thesis using MCreate by (auto simp: mgr_Create_def split: prod.splits)
next
  case (MDestroy c sd')
  have "mg_sessions (snd (mgr_destroy c sd' m)) sd = Some s"
    using s lk MDestroy by (auto simp: mgr_destroy_def lookup_def split: sum.split option.split)
  then show ?thesis using MDestroy by (auto simp: mgr_Destroy_def split: prod.splits)
next
  case (MLock c sd')
  then show ?thesis
    using s lk by (auto simp: mgr_Lock_def Let_def split_def mgr_get_Inr split: sum.split)
next
  case (MUnlock c sd')
  then show ?thesis
    using s lk by (auto simp: mgr_Unlock_def Let_def split_def mgr_get_Inr split: sum.split)
next
  case (MUnlockAll c order)
  have "mg_sessions (snd (unlock_all (Pid c) order None m)) sd = Some s"
    using s rl MUnlockAll by (simp add: unlock_all_sessions)
  then show ?thesis using MUnlockAll by (auto simp: UnlockAllPid_def split: prod.splits)
qed

lemma mgr_steps_entry:
  assumes "mg_sessions m sd = Some s"
    and "\<And>x m. x \<in> set xs \<Longrightarrow> mg_sessions m sd = Some s \<Longrightarrow>
       \<exists>m'. mgr_step L x (Some m) = Some m' \<and> mg_sessions m' sd = Some s"
  shows "\<exists>m'. fold (mgr_step L) xs (Some m) = Some m' \<and> mg_sessions m' sd = Some s"
  using assms
proof (induction xs arbitrary: m)
  case (Cons x xs)
  obtain m1 where "mgr_step L x (Some m) = Some m1" "mg_sessions m1 sd = Some s"
    using Cons.prems(2) [of x m] Cons.prems(1) by auto
  then show ?case using Cons.IH [of m1] Cons.prems(2) by auto
qed simp

text \<open>A session that is locked, such as the RUNNING and EFFECTIVE sessions which the
  server locks as SYSTEM, cannot be removed, unlocked or replaced by any sequence
  of manager operations of processes other than the holder, whatever their user
  or privileges.\<close>

theorem locked_session_survives:
  assumes "mg_sessions m sd = Some s" "\<not> terminated s" "lpid s \<noteq> 0"
    and "\<forall>x\<in>set xs. Pid (mgr_op_ctx x) \<noteq> lpid s"
  shows "\<exists>m'. fold (mgr_step L) xs (Some m) = Some m' \<and> mg_sessions m' sd = Some s"
proof (rule mgr_steps_entry [OF assms(1)])
  fix x and m' :: "'a mgr" assume "x \<in> set xs" and m': "mg_sessions m' sd = Some s"
  then have "Pid (mgr_op_ctx x) \<noteq> lpid s" using assms(4) by blast
  then show "\<exists>m''. mgr_step L x (Some m') = Some m'' \<and> mg_sessions m'' sd = Some s"
    using assms(2,3)
    by (intro mgr_step_entry [OF m'])
      (auto simp: api_lock_def api_unlock_def api_locked_def locked_def released_def)
qed

definition system_mgr :: "dtree mgr" where
  "system_mgr = \<lparr>mg_sessions = [''RUNNING'' \<mapsto> sample_session ''RUNNING'' SYSTEM []], mg_killed = []\<rparr>"

theorem locked_session_survives_witness:
  "\<exists>m'. fold (mgr_step sample) [MUnlock (caller 5 True) ''RUNNING'', MDestroy (caller 5 True) ''RUNNING''] (Some system_mgr) =
      Some m' \<and> mg_sessions m' ''RUNNING'' = Some (sample_session ''RUNNING'' SYSTEM [])"
  by (rule locked_session_survives) (simp_all add: system_mgr_def sample_session_def caller_def SYSTEM_def)

text \<open>C10. A private session is out of reach of other users: under any sequence of manager
  operations by callers that are neither its owner nor privileged (and are not
  the process holding its lock), the session stays exactly as it is, and such a
  caller who asks for it is denied access.\<close>

theorem private_session_isolated:
  assumes "mg_sessions m sd = Some s" "owner s = Some u"
    and "\<forall>x\<in>set xs. Uid (mgr_op_ctx x) \<noteq> u \<and> \<not> Configd (mgr_op_ctx x) \<and> \<not> Superuser (mgr_op_ctx x) \<and>
       Pid (mgr_op_ctx x) \<noteq> lpid s"
    and "Uid c \<noteq> u" "\<not> Configd c" "\<not> Superuser c"
  shows "\<exists>m'. fold (mgr_step L) xs (Some m) = Some m' \<and> mg_sessions m' sd = Some s \<and>
    mgr_Get c sd (Some m') = Inl (AccessDeniedApplicationError None)"
proof -
  have na: "\<not> may_access d s" if "Uid d \<noteq> u" "\<not> Configd d" "\<not> Superuser d" for d
    using that assms(2) by (simp add: may_access_def OwnedBy_def IsShared_def)
  have "\<exists>m'. fold (mgr_step L) xs (Some m) = Some m' \<and> mg_sessions m' sd = Some s"
  proof (rule mgr_steps_entry [OF assms(1)])
    fix x and m' :: "'a mgr" assume x: "x \<in> set xs" and m': "mg_sessions m' sd = Some s"
    have "released (Pid (mgr_op_ctx x)) s = s"
      using assms(3) x by (auto simp: released_def api_locked_def api_unlock_def locked_def)
    then show "\<exists>m''. mgr_step L x (Some m') = Some m'' \<and> mg_sessions m'' sd = Some s"
      using assms(3) x na by (intro mgr_step_entry [OF m']) auto
  qed
  then show ?thesis using mgr_ops_foreign(2) [OF _ na, of _ sd c] assms by (auto simp: mgr_Get_def)
qed

lemma uid_distinct: "(0 :: uid) \<noteq> 1000"
  by code_simp

definition private_mgr :: "dtree mgr" where
  "private_mgr = \<lparr>mg_sessions = [''p'' \<mapsto> (sample_session ''p'' 0 [[''a'']])\<lparr>owner := Some 0\<rparr>], mg_killed = []\<rparr>"

theorem private_session_isolated_witness:
  "\<exists>m'. fold (mgr_step sample) [MLock (caller 5 True) ''p'', MDestroy (caller 5 True) ''p''] (Some private_mgr) = Some m' \<and>
    mg_sessions m' ''p'' = Some ((sample_session ''p'' 0 [[''a'']])\<lparr>owner := Some 0\<rparr>) \<and>
    mgr_Get (caller 6 True) ''p'' (Some m') = Inl (AccessDeniedApplicationError None)"
  by (rule private_session_isolated) (use uid_distinct in \<open>auto simp: private_mgr_def sample_session_def caller_def\<close>)

lemma unlock_all_no_error:
  assumes "mgr_ok m"
  shows "fst (unlock_all p sds None m) = None"
  using assms
proof (induction sds arbitrary: m)
  case (Cons sd sds)
  show ?case
  proof (cases "mg_sessions m sd")
    case (Some s)
    note s = mgr_okD [OF Cons.prems Some]
    show ?thesis
    proof (cases "api_locked s \<noteq> 0 \<and> api_locked s = p")
      case True
      have "api_unlock p s = ((p, None), s\<lparr>lpid := 0\<rparr>)"
        using True s by (auto simp: api_unlock_def api_locked_def unlock_def locked_def)
      moreover have "mgr_ok (m\<lparr>mg_sessions := (mg_sessions m)(sd \<mapsto> s\<lparr>lpid := 0\<rparr>)\<rparr>)"
        using s by (intro mgr_ok_upd [OF Cons.prems]) auto
      ultimately show ?thesis using True Some Cons.IH by simp
    qed (use Some Cons in auto)
  qed (use Cons in simp)
qed simp

text \<open>When a client goes away, \<open>UnlockAllPid\<close>, in whatever order Go visits the
  table, releases every session that its process held and no other: afterwards no
  live session is held by that process, every session held by somebody else (or
  by nobody) is exactly as before, no session appears or disappears, and no error
  is reported.\<close>

theorem unlock_all_releases_exactly_own:
  assumes "mgr_ok m" "Pid c \<noteq> 0" "dom (mg_sessions m) \<subseteq> set order"
    and "UnlockAllPid order c (Some m) = (e, Some m')"
  shows "e = None \<and> dom (mg_sessions m') = dom (mg_sessions m) \<and>
    (\<forall>sd s. mg_sessions m sd = Some s \<longrightarrow>
       mg_sessions m' sd = Some (if lpid s = Pid c then s\<lparr>lpid := 0\<rparr> else s))"
proof -
  have u: "unlock_all (Pid c) order None m = (e, m')"
    using assms(4) by (simp add: UnlockAllPid_def split: prod.splits)
  have sess: "mg_sessions m' sd = map_option (released (Pid c)) (mg_sessions m sd)" for sd
    using unlock_all_sessions [of "Pid c" order None m sd] u assms(3)
    by (cases "mg_sessions m sd") (auto split: if_splits)
  have "released (Pid c) s = (if lpid s = Pid c then s\<lparr>lpid := 0\<rparr> else s)" if "mg_sessions m sd = Some s" for sd s
    using mgr_okD [OF assms(1) that] assms(2)
    by (auto simp: released_def api_locked_def api_unlock_def unlock_def locked_def)
  then show ?thesis
    using unlock_all_no_error [OF assms(1), of "Pid c" order] u sess by (auto simp: dom_def)
qed

theorem unlock_all_releases_exactly_own_witness:
  "mg_sessions (the (snd (UnlockAllPid [''p''] (caller 5 True)
      (Some \<lparr>mg_sessions = [''p'' \<mapsto> sample_session ''p'' 5 []], mg_killed = []\<rparr>)))) ''p'' =
    Some (sample_session ''p'' 0 [])"
proof -
  let ?m = "\<lparr>mg_sessions = [''p'' \<mapsto> sample_session ''p'' 5 []], mg_killed = []\<rparr>"
  have ok: "mgr_ok ?m" by (simp add: mgr_ok_def sample_session_def)
  obtain e m' where u: "UnlockAllPid [''p''] (caller 5 True) (Some ?m) = (e, Some m')"
    by (cases "unlock_all (Pid (caller 5 True)) [''p''] None ?m") (simp add: UnlockAllPid_def)
  have "Pid (caller 5 True) \<noteq> 0" by (simp add: caller_def)
  from unlock_all_releases_exactly_own [OF ok this _ u] show ?thesis
    using u by (simp add: sample_session_def caller_def)
qed

text \<open>C17. Creating a session under a new id makes exactly that id available: the session
  is unlocked, alive and has an empty candidate, its owner is the caller unless it
  is shared, everybody with access gets it and everybody else is denied, all other
  ids are unaffected, and creating it again hands out the same session or, if the
  sharing differs, an error, without changing anything.\<close>

theorem create_then_get:
  assumes "mg_sessions m sd = None" "mgr_Create L c sd st stf sh (Some m) = (r, Some m')"
  shows "\<exists>s. r = Inr s \<and> lpid s = 0 \<and> candidate s = data_New L ''root'' \<and> \<not> terminated s \<and>
      owner s = (if sh then None else Some (Uid c)) \<and>
      (\<forall>d. mgr_Get d sd (Some m') = (if may_access d s then Inr s else Inl (AccessDeniedApplicationError None))) \<and>
      (\<forall>sd'. sd' \<noteq> sd \<longrightarrow> mg_sessions m' sd' = mg_sessions m sd') \<and>
      mgr_Create L c sd st' stf' sh (Some m') = (Inr s, Some m') \<and>
      (\<exists>e. mgr_Create L c sd st' stf' (\<not> sh) (Some m') = (Inl e, Some m'))"
proof -
  let ?s = "NewSession L sd st stf (if \<not> sh then Some (Uid c) else None)"
  have cr: "r = Inr ?s" "m' = m\<lparr>mg_sessions := (mg_sessions m)(sd \<mapsto> ?s)\<rparr>"
    using assms by (simp_all add: mgr_Create_def mgr_create_def lookup_def Let_def)
  have acc: "may_access c ?s" by (simp add: may_access_def OwnedBy_def IsShared_def NewSession_def)
  have get: "mgr_Get d sd (Some m') = (if may_access d ?s then Inr ?s else Inl (AccessDeniedApplicationError None))" for d
    using cr(2) by (simp add: mgr_Get_def mgr_get_def lookup_def)
  have lk: "lookup c sd m' = Inr (Some ?s)" using cr(2) acc by (simp add: lookup_def)
  have sh: "IsShared ?s = sh" "api_locked ?s = 0"
    by (simp_all add: IsShared_def NewSession_def api_locked_def locked_def)
  have again: "mgr_Create L c sd st' stf' sh (Some m') = (Inr ?s, Some m')"
    using lk sh by (simp add: mgr_Create_def mgr_create_def)
  have other: "\<exists>e. mgr_Create L c sd st' stf' (\<not> sh) (Some m') = (Inl e, Some m')"
    using lk sh by (simp add: mgr_Create_def mgr_create_def)
  show ?thesis
    using cr get again other by (intro exI [of _ ?s]) (simp add: NewSession_def)
qed

theorem create_then_get_witness:
  "\<exists>s. fst (mgr_Create sample (caller 5 True) ''n'' root_node root_node False (Some NewSessionMgr)) = Inr s \<and>
    owner s = Some 1000"
proof -
  have "mg_sessions NewSessionMgr ''n'' = None" by (simp add: NewSessionMgr_def)
  moreover have "\<exists>r m'. mgr_Create sample (caller 5 True) ''n'' root_node root_node False (Some NewSessionMgr) = (r, Some m')"
    by (simp add: mgr_Create_def split: prod.split)
  then obtain r m' where "mgr_Create sample (caller 5 True) ''n'' root_node root_node False (Some NewSessionMgr) = (r, Some m')"
    by blast
  ultimately show ?thesis
    using create_then_get [of NewSessionMgr "''n''" sample "caller 5 True" root_node root_node False r m' root_node root_node]
    by (auto simp: caller_def)
qed

end
