(* ===== verification/Go_Fmt.thy ===== *)
theory Go_Fmt
  imports Go_Lib
begin

text \<open>
  More of Go's standard library: \<open>strings.Split\<close> at a one-character separator,
  \<open>url.QueryUnescape\<close>, \<open>filepath.Clean\<close> on Unix, and \<open>fmt.Errorf\<close> called with a
  format and no operands, which is how the CLI formatter calls it. Text is
  ASCII: a verb is one character.
\<close>

subsection \<open>strings.Split\<close>

fun split_on :: "char \<Rightarrow> string \<Rightarrow> string list" where
  "split_on sep [] = [[]]"
| "split_on sep (c # cs) =
    (if c = sep then [] # split_on sep cs
     else case split_on sep cs of [] \<Rightarrow> [[c]] | w # ws \<Rightarrow> (c # w) # ws)"

lemma split_on_not_Nil [simp]: "split_on sep s \<noteq> []"
  by (induction s) (auto split: list.splits)

lemma Join_split_on: "Join [sep] (split_on sep s) = s"
proof (induction s)
  case (Cons c cs)
  obtain w ws where w: "split_on sep cs = w # ws" by (meson neq_Nil_conv split_on_not_Nil)
  show ?case using Cons w by (cases ws) auto
qed simp

lemma split_on_free: "w \<in> set (split_on sep s) \<Longrightarrow> sep \<notin> set w"
proof (induction s arbitrary: w)
  case (Cons c cs)
  obtain x xs where x: "split_on sep cs = x # xs" by (meson neq_Nil_conv split_on_not_Nil)
  show ?case using Cons x by (auto split: if_splits)
qed simp

lemma split_on_append_sep:
  "sep \<notin> set a \<Longrightarrow> split_on sep (a @ sep # b) = a # split_on sep b"
  by (induction a) auto

lemma split_on_word: "sep \<notin> set a \<Longrightarrow> split_on sep a = [a]"
  by (induction a) auto

lemma split_on_Join:
  "ws \<noteq> [] \<Longrightarrow> \<forall>w\<in>set ws. sep \<notin> set w \<Longrightarrow> split_on sep (Join [sep] ws) = ws"
  by (induction "[sep]" ws rule: Join.induct) (auto simp: split_on_word split_on_append_sep)

subsection \<open>Searching and replacing\<close>

text \<open>\<open>strings.Contains\<close>, \<open>strings.Replace(s, old, new, 1)\<close> for a non-empty \<open>old\<close>,
  \<open>strings.Trim(s, "\n")\<close>, \<open>strings.HasSuffix\<close> and \<open>strings.ContainsAny\<close>.\<close>

fun Contains :: "string \<Rightarrow> string \<Rightarrow> bool" where
  "Contains [] sub = (sub = [])"
| "Contains (c # cs) sub = (HasPrefix (c # cs) sub \<or> Contains cs sub)"

fun Replace1 :: "string \<Rightarrow> string \<Rightarrow> string \<Rightarrow> string" where
  "Replace1 [] old new = []"
| "Replace1 (c # cs) old new =
    (if HasPrefix (c # cs) old then new @ drop (length old) (c # cs) else c # Replace1 cs old new)"

definition trim_nl :: "string \<Rightarrow> string" where
  "trim_nl s = rev (dropWhile (\<lambda>c. c = CHR 0x0A) (rev (dropWhile (\<lambda>c. c = CHR 0x0A) s)))"

definition trim_right_nl :: "string \<Rightarrow> string" where
  "trim_right_nl s = rev (dropWhile (\<lambda>c. c = CHR 0x0A) (rev s))"

definition HasSuffix :: "string \<Rightarrow> string \<Rightarrow> bool" where
  "HasSuffix s suf = HasPrefix (rev s) (rev suf)"

definition ContainsAny :: "string \<Rightarrow> string \<Rightarrow> bool" where
  "ContainsAny s chars = (\<exists>c\<in>set s. c \<in> set chars)"

lemma Contains_iff: "Contains s sub \<longleftrightarrow> (\<exists>a b. s = a @ sub @ b)"
proof (induction s)
  case (Cons c cs)
  show ?case
  proof
    assume "Contains (c # cs) sub"
    then show "\<exists>a b. c # cs = a @ sub @ b"
      using Cons HasPrefix_iff by (metis Contains.simps(2) append_Cons append_Nil)
  next
    assume "\<exists>a b. c # cs = a @ sub @ b"
    then obtain a b where ab: "c # cs = a @ sub @ b" by blast
    show "Contains (c # cs) sub"
    proof (cases a)
      case Nil
      then have "HasPrefix (c # cs) sub" using ab by (simp add: HasPrefix_def)
      then show ?thesis by simp
    next
      case (Cons x a')
      then have "Contains cs sub" using ab Cons.IH by auto
      then show ?thesis by simp
    qed
  qed
qed auto

lemma Replace1_prefix: "old \<noteq> [] \<Longrightarrow> Replace1 (old @ b) old new = new @ b"
  by (cases old) (auto simp: HasPrefix_def)

text \<open>The lines that \<open>bytes.Buffer.ReadString('\n')\<close> returns without an error: those
  that end in a newline.\<close>

definition full_lines :: "string \<Rightarrow> string list" where
  "full_lines s = map (\<lambda>l. l @ [CHR 0x0A]) (butlast (split_on CHR 0x0A s))"

subsection \<open>url.QueryUnescape\<close>

fun hex_val :: "char \<Rightarrow> nat option" where
  "hex_val c = (case digit_val c of None \<Rightarrow> None | Some d \<Rightarrow> if d < 16 then Some d else None)"

fun QueryUnescape :: "string \<Rightarrow> string option" where
  "QueryUnescape [] = Some []"
| "QueryUnescape (c # cs) =
    (if c = CHR ''%'' then
       (case cs of
          a # b # rest \<Rightarrow>
            (case (hex_val a, hex_val b) of
               (Some x, Some y) \<Rightarrow> map_option ((#) (char_of (16 * x + y))) (QueryUnescape rest)
             | _ \<Rightarrow> None)
        | _ \<Rightarrow> None)
     else map_option ((#) (if c = CHR ''+'' then CHR '' '' else c)) (QueryUnescape cs))"

text \<open>\<open>s, _ := url.QueryUnescape(s)\<close>: the text is empty on an error.\<close>

definition unescaped :: "string \<Rightarrow> string" where
  "unescaped s = (case QueryUnescape s of None \<Rightarrow> [] | Some t \<Rightarrow> t)"

lemma QueryUnescape_plain:
  "CHR ''%'' \<notin> set s \<Longrightarrow> CHR ''+'' \<notin> set s \<Longrightarrow> QueryUnescape s = Some s"
  by (induction s) auto

subsection \<open>filepath.Clean\<close>

fun clean_loop :: "bool \<Rightarrow> string list \<Rightarrow> string list \<Rightarrow> string list" where
  "clean_loop rooted out [] = rev out"
| "clean_loop rooted out (c # cs) =
    (if c = [] \<or> c = ''.'' then clean_loop rooted out cs
     else if c = ''..'' then
       (case out of
          p # out' \<Rightarrow> if p \<noteq> ''..'' then clean_loop rooted out' cs else clean_loop rooted (c # out) cs
        | [] \<Rightarrow> if rooted then clean_loop rooted [] cs else clean_loop rooted [c] cs)
     else clean_loop rooted (c # out) cs)"

definition Clean :: "string \<Rightarrow> string" where
  "Clean path =
    (if path = [] then ''.''
     else let rooted = (hd path = CHR ''/'');
              out = Join ''/'' (clean_loop rooted [] (split_on CHR ''/'' path))
          in if rooted then CHR ''/'' # out else if out = [] then ''.'' else out)"

definition plain_comp :: "string \<Rightarrow> bool" where
  "plain_comp c \<longleftrightarrow> c \<noteq> [] \<and> c \<noteq> ''.'' \<and> c \<noteq> ''..'' \<and> CHR ''/'' \<notin> set c"

lemma clean_loop_rooted:
  "\<forall>c\<in>set out. plain_comp c \<Longrightarrow> \<forall>c\<in>set cs. CHR ''/'' \<notin> set c \<Longrightarrow>
    \<forall>c\<in>set (clean_loop True out cs). plain_comp c"
proof (induction cs arbitrary: out)
  case (Cons c cs)
  let ?out = "if c = [] \<or> c = ''.'' then out else if c = ''..'' then tl out else c # out"
  have "clean_loop True out (c # cs) = clean_loop True ?out cs"
    using Cons.prems(1) by (cases out) (auto simp: plain_comp_def)
  moreover have "\<forall>x\<in>set ?out. plain_comp x"
    using Cons.prems by (cases out) (auto simp: plain_comp_def)
  ultimately show ?case using Cons.IH [of ?out] Cons.prems(2) by (simp only: list.set) blast
qed simp

text \<open>A cleaned rooted path is \<open>/\<close> followed by plain components.\<close>

lemma Clean_rooted:
  assumes "path \<noteq> []" "hd path = CHR ''/''"
  shows "\<exists>cs. Clean path = CHR ''/'' # Join ''/'' cs \<and> (\<forall>c\<in>set cs. plain_comp c)"
proof -
  let ?cs = "clean_loop True [] (split_on CHR ''/'' path)"
  have "\<forall>c\<in>set ?cs. plain_comp c"
    by (rule clean_loop_rooted) (auto dest: split_on_free)
  then show ?thesis using assms by (auto simp: Clean_def Let_def)
qed

lemma clean_loop_plain:
  "\<forall>c\<in>set cs. plain_comp c \<Longrightarrow> clean_loop r out cs = rev out @ cs"
  by (induction cs arbitrary: out) (auto simp: plain_comp_def)

subsection \<open>fmt.Errorf without operands\<close>

definition is_digit :: "char \<Rightarrow> bool" where
  "is_digit c = (48 \<le> (of_char c :: nat) \<and> (of_char c :: nat) \<le> 57)"

fun parsenum :: "nat \<Rightarrow> bool \<Rightarrow> string \<Rightarrow> bool \<times> string" where
  "parsenum n b [] = (b, [])"
| "parsenum n b (c # cs) =
    (if is_digit c then
       (if n > 1000000 then (False, []) else parsenum (n * 10 + (of_char c - 48)) True cs)
     else (b, c # cs))"

text \<open>\<open>argNumber\<close>: the rest, whether an index was parsed, and whether it is out of range
  (with no operands every index is).\<close>

definition arg_index :: "string \<Rightarrow> string \<times> bool \<times> bool" where
  "arg_index s =
    (case s of
       [] \<Rightarrow> (s, False, False)
     | c # cs \<Rightarrow>
        if c \<noteq> CHR ''['' then (s, False, False)
        else if length s < 3 \<or> CHR '']'' \<notin> set cs then (cs, False, True)
        else let inner = takeWhile (\<lambda>x. x \<noteq> CHR '']'') cs
             in (drop (Suc (length inner)) cs, parsenum 0 False inner = (True, []), True))"

definition print_flag :: "char \<Rightarrow> bool" where
  "print_flag c = (c \<in> {CHR ''#'', CHR ''0'', CHR ''+'', CHR ''-'', CHR '' ''})"

text \<open>Width and precision: text written, rest, \<open>afterIndex\<close>, bad index.\<close>

definition print_width :: "string \<times> bool \<times> bool \<Rightarrow> string \<times> string \<times> bool \<times> bool" where
  "print_width st = (case st of (s, after, bad) \<Rightarrow>
     if s \<noteq> [] \<and> hd s = CHR ''*'' then (''%!(BADWIDTH)'', tl s, False, bad)
     else case parsenum 0 False s of (present, r) \<Rightarrow> ([], r, after, bad \<or> after \<and> present))"

definition print_prec :: "string \<times> bool \<times> bool \<Rightarrow> string \<times> string \<times> bool \<times> bool" where
  "print_prec st = (case st of (s, after, bad) \<Rightarrow>
     if s \<noteq> [] \<and> hd s = CHR ''.'' then
       case arg_index (tl s) of (r, after', bad') \<Rightarrow>
         if r \<noteq> [] \<and> hd r = CHR ''*'' then (''%!(BADPREC)'', tl r, False, bad \<or> after \<or> bad')
         else ([], snd (parsenum 0 False r), after', bad \<or> after \<or> bad')
     else ([], s, after, bad))"

definition print_verb :: "string \<times> bool \<Rightarrow> string \<times> string" where
  "print_verb st = (case st of (s, bad) \<Rightarrow>
    (case s of
       [] \<Rightarrow> (''%!(NOVERB)'', [])
     | c # cs \<Rightarrow>
         (if c = CHR ''%'' then ''%''
          else ''%!'' @ [c] @ (if bad then ''(BADINDEX)'' else ''(MISSING)''), cs)))"

definition print_directive :: "string \<Rightarrow> string \<times> string" where
  "print_directive s =
    (let (o1, s1, after1, bad1) = print_width (arg_index (dropWhile print_flag s));
         (o2, s2, after2, bad2) = print_prec (s1, after1, bad1);
         (s3, bad3) = (if after2 then (s2, bad2)
                       else case arg_index s2 of (r, _, b) \<Rightarrow> (r, bad2 \<or> b));
         (o3, s4) = print_verb (s3, bad3)
     in (o1 @ o2 @ o3, s4))"

lemma parsenum_le: "length (snd (parsenum n b s)) \<le> length s"
  by (induction n b s rule: parsenum.induct) auto

lemma arg_index_le: "length (fst (arg_index s)) \<le> length s"
  by (auto simp: arg_index_def Let_def split: list.splits)

lemma print_width_le: "length (fst (snd (print_width st))) \<le> length (fst st)"
  using parsenum_le [of 0 False "fst st"]
  by (cases st) (auto simp: print_width_def split: prod.splits)

lemma print_prec_le: "length (fst (snd (print_prec st))) \<le> length (fst st)"
proof -
  obtain s a b where st: "st = (s, a, b)" by (cases st)
  obtain r a' b' where r: "arg_index (tl s) = (r, a', b')" by (metis prod.exhaust)
  have "length r \<le> length s" using arg_index_le [of "tl s"] r by simp
  moreover have "length (snd (parsenum 0 False r)) \<le> length r" by (rule parsenum_le)
  ultimately show ?thesis by (auto simp: st print_prec_def r)
qed

lemma print_verb_le: "length (snd (print_verb st)) \<le> length (fst st)"
  by (auto simp: print_verb_def split: prod.splits list.splits)

lemma print_directive_le: "length (snd (print_directive s)) \<le> length s"
proof -
  obtain i1 where i1: "arg_index (dropWhile print_flag s) = i1" by simp
  obtain o1 s1 a1 b1 where w: "print_width i1 = (o1, s1, a1, b1)" by (metis prod.exhaust)
  obtain o2 s2 a2 b2 where p: "print_prec (s1, a1, b1) = (o2, s2, a2, b2)" by (metis prod.exhaust)
  obtain s3 b3 where x: "(if a2 then (s2, b2) else case arg_index s2 of (r, _, b) \<Rightarrow> (r, b2 \<or> b)) = (s3, b3)"
    by (metis prod.exhaust)
  have "length (fst i1) \<le> length s"
    using arg_index_le [of "dropWhile print_flag s"] i1 length_dropWhile_le [of print_flag s] by simp
  moreover have "length s1 \<le> length (fst i1)" using print_width_le [of i1] w by simp
  moreover have "length s2 \<le> length s1" using print_prec_le [of "(s1, a1, b1)"] p by simp
  moreover have "length s3 \<le> length s2"
    using x arg_index_le [of s2] by (auto split: if_splits prod.splits)
  moreover have "length (snd (print_verb (s3, b3))) \<le> length s3" using print_verb_le [of "(s3, b3)"] by simp
  ultimately have "length (snd (print_verb (s3, b3))) \<le> length s" by linarith
  moreover have "snd (print_directive s) = snd (print_verb (s3, b3))"
    by (simp add: print_directive_def i1 w p x split: prod.splits)
  ultimately show ?thesis by simp
qed

function Errorf :: "string \<Rightarrow> string" where
  "Errorf [] = []"
| "Errorf (c # cs) =
    (if c \<noteq> CHR ''%'' then c # Errorf cs
     else fst (print_directive cs) @ Errorf (snd (print_directive cs)))"
  by pat_completeness auto

termination
  by (relation "measure length") (auto intro: le_less_trans [OF print_directive_le])

lemma Errorf_plain: "CHR ''%'' \<notin> set s \<Longrightarrow> Errorf s = s"
  by (induction s) auto

definition nl :: string where "nl = [CHR 0x0A]"

subsection \<open>Errors of strconv\<close>

text \<open>\<open>strconv.NumError\<close>; the number is quoted for printable text.\<close>

fun quote_char :: "char \<Rightarrow> string" where
  "quote_char c = (if c = CHR 0x22 \<or> c = CHR 0x5C then [CHR 0x5C, c] else [c])"

definition NumError :: "string \<Rightarrow> num_error \<Rightarrow> string" where
  "NumError num e = ''strconv.ParseUint: parsing '' @ [CHR 0x22] @ concat (map quote_char num) @ [CHR 0x22] @
    (case e of ErrSyntax \<Rightarrow> '': invalid syntax'' | ErrRange \<Rightarrow> '': value out of range'')"

subsection \<open>Reading lines\<close>

text \<open>
  \<open>bufio.Scanner\<close> with its default split function and buffer: lines without
  their newline and one carriage return before it, a last line need not end in
  a newline, and a line that fills the buffer of 64 KiB is an error.
\<close>

definition drop_cr :: "string \<Rightarrow> string" where
  "drop_cr l = (if l \<noteq> [] \<and> last l = CHR 0x0D then butlast l else l)"

definition raw_lines :: "string \<Rightarrow> string list" where
  "raw_lines t = (let ls = split_on CHR 0x0A t in if last ls = [] then butlast ls else ls)"

definition MaxScanTokenSize :: nat where "MaxScanTokenSize = 64 * 1024"

fun scan_lines :: "string list \<Rightarrow> error option \<Rightarrow> string list \<times> error option" where
  "scan_lines [] err = ([], err)"
| "scan_lines (l # ls) err =
    (if MaxScanTokenSize \<le> length l then ([], Some (ExternalError ''bufio.Scanner: token too long''))
     else let (rest, e) = scan_lines ls err in (drop_cr l # rest, e))"

end
