(* ===== verification/Cli_Format.thy ===== *)
theory Cli_Format
  imports Go_Fmt
begin

text \<open>
  \<open>common/cli_format.go\<close>: how errors are worded for the CLI. The methods of
  \<open>mgmterror\<close> that the formatter calls on an error are the fields of the record
  \<open>mgmt\<close>: whether the error is \<open>Formattable\<close>, its message, its path as a string, the
  value of its first info entry, its \<open>Error()\<close> text and whether it is a
  \<open>DataExistsError\<close> or \<open>DataMissingError\<close>; \<open>Makepath\<close> belongs to \<open>pathutil\<close>.
\<close>

record mgmt =
  Formattable :: "error \<Rightarrow> bool"
  GetMessage :: "error \<Rightarrow> string"
  GetPath :: "error \<Rightarrow> string"
  GetInfoValue :: "error \<Rightarrow> string option"
  Error_text :: "error \<Rightarrow> string"
  is_DataError :: "error \<Rightarrow> bool"
  Makepath :: "string \<Rightarrow> path"

definition nlnl :: string where "nlnl = [CHR 0x0A, CHR 0x0A]"

definition configPath :: string where "configPath = ''Configuration path: ''"
definition isntValid :: string where "isntValid = '' is not valid''"
definition pathIsInvalid :: string where "pathIsInvalid = ''Path is invalid''"
definition setFailed :: string where "setFailed = ''Set failed''"
definition validationFailed :: string where "validationFailed = ''Value validation failed''"
definition warningsGenerated :: string where
  "warningsGenerated = ''Warnings were generated when applying the configuration:''"

fun is_UnknownElement :: "error \<Rightarrow> bool" where
  "is_UnknownElement (UnknownElementApplicationError _ _) = True"
| "is_UnknownElement _ = False"

fun is_InvalidValue :: "error \<Rightarrow> bool" where
  "is_InvalidValue (InvalidValueApplicationError _) = True"
| "is_InvalidValue _ = False"

definition errpath :: "string \<Rightarrow> string" where
  "errpath p0 =
    (if p0 = [] \<or> p0 = ''/'' then ''[]''
     else let p = (if hd p0 = CHR ''/'' then tl p0 else p0);
              ps = split_on CHR ''/'' p
          in if length ps < 2 then unescaped (''['' @ Join '' '' ps @ '']'')
             else unescaped (Join '' '' (butlast ps) @ '' ['' @ last ps @ '']''))"

definition FormatConfigPathError :: "mgmt \<Rightarrow> error option \<Rightarrow> error option" where
  "FormatConfigPathError M err = (case err of
     None \<Rightarrow> None
   | Some e \<Rightarrow> Some (ExternalError (Errorf
       (if Formattable M e then configPath @ GetMessage M e else configPath @ Error_text M e))))"

definition FormatRpcPathError :: "mgmt \<Rightarrow> error option \<Rightarrow> error option" where
  "FormatRpcPathError M err = (case err of
     None \<Rightarrow> None
   | Some e \<Rightarrow> Some (ExternalError
       (if Formattable M e then
          (if is_UnknownElement e then GetMessage M e
           else (if GetPath M e \<noteq> [] then errpath (GetPath M e) @ isntValid @ nlnl else []) @ GetMessage M e)
        else Error_text M e)))"

definition FormatCommitOrValErrors :: "mgmt \<Rightarrow> error \<Rightarrow> string" where
  "FormatCommitOrValErrors M e =
    (if Formattable M e then
       let pathStr = Join '' '' (Makepath M (GetPath M e))
       in ''['' @ pathStr @ '']'' @ nlnl @ GetMessage M e @ nlnl @ ''[['' @ pathStr @ '']] failed.''
     else Error_text M e)"

definition formatUnknownElemAppError :: "mgmt \<Rightarrow> error \<Rightarrow> bool \<Rightarrow> bool \<Rightarrow> string" where
  "formatUnknownElemAppError M e printPathPrefix printPathInvalid =
    (if printPathPrefix then
       ''['' @ Join '' '' (Makepath M (GetPath M e) @ (case GetInfoValue M e of None \<Rightarrow> [] | Some v \<Rightarrow> [v])) @ '']: ''
     else []) @
    configPath @ GetMessage M e @
    (if printPathInvalid then nlnl @ pathIsInvalid else [])"

definition formatMultilineSetWarnings :: "mgmt \<Rightarrow> error option \<Rightarrow> bool \<Rightarrow> bool \<Rightarrow> bool \<Rightarrow> string" where
  "formatMultilineSetWarnings M err printPathPrefix printSetFailed printPathInvalid = (case err of
     None \<Rightarrow> []
   | Some e \<Rightarrow>
      if Formattable M e then
        if is_UnknownElement e then formatUnknownElemAppError M e printPathPrefix printPathInvalid
        else
          (if printPathPrefix then ''['' @ Join '' '' (Makepath M (GetPath M e)) @ '']: '' else []) @
          configPath @ errpath (GetPath M e) @ isntValid @
          (if is_DataError M e then nlnl @ GetMessage M e
           else if is_InvalidValue e then
             nlnl @ GetMessage M e @ nl @ validationFailed @ (if printSetFailed then nlnl @ setFailed else [])
           else nlnl @ GetMessage M e @ (if printSetFailed then nlnl @ setFailed else []))
      else configPath @ Error_text M e)"

definition FormatConfigPathErrorMultiline :: "mgmt \<Rightarrow> error option \<Rightarrow> error" where
  "FormatConfigPathErrorMultiline M err =
    ExternalError (Errorf (formatMultilineSetWarnings M err False True False))"

definition formatLoadOrMergeWarningMultiline :: "mgmt \<Rightarrow> error option \<Rightarrow> string" where
  "formatLoadOrMergeWarningMultiline M err = formatMultilineSetWarnings M err True False True"

definition FormatWarnings :: "mgmt \<Rightarrow> error list \<Rightarrow> error option" where
  "FormatWarnings M warns =
    (if warns = [] then None
     else Some (ExternalError (Errorf (warningsGenerated @ nlnl @
       concat (map (\<lambda>w. formatLoadOrMergeWarningMultiline M (Some w) @ nlnl) warns)))))"

subsection \<open>What a CLI user sees\<close>

lemma Errorf_step:
  "Errorf (c # cs) = (if c \<noteq> CHR ''%'' then c # Errorf cs
     else fst (print_directive cs) @ Errorf (snd (print_directive cs)))"
  by simp

lemma Errorf_plain_prefix: "CHR ''%'' \<notin> set a \<Longrightarrow> Errorf (a @ b) = a @ Errorf b"
  by (induction a) auto

definition message_part :: "mgmt \<Rightarrow> error \<Rightarrow> string" where
  "message_part M e = (if Formattable M e then GetMessage M e else Error_text M e)"

lemma multiline_has_message:
  "\<exists>a b. formatMultilineSetWarnings M (Some e) x y z = a @ message_part M e @ b"
proof -
  have cat: "\<exists>a b. p @ m @ q = a @ m @ b" "\<exists>a b. p @ m = a @ m @ b" for p m q :: string
    by blast (metis append.right_neutral)
  show ?thesis
  proof (cases "Formattable M e")
    case False
    then show ?thesis by (simp add: formatMultilineSetWarnings_def message_part_def cat(2))
  next
    case f: True
    show ?thesis
    proof (cases "is_UnknownElement e")
      case True
      then show ?thesis using f cat(1)
        by (simp add: formatMultilineSetWarnings_def formatUnknownElemAppError_def message_part_def
            append_assoc [symmetric] del: append_assoc)
    next
      case False
      let ?pre = "(if x then ''['' @ Join '' '' (Makepath M (GetPath M e)) @ '']: '' else []) @
          configPath @ errpath (GetPath M e) @ isntValid @ nlnl"
      let ?post = "(if is_DataError M e then []
        else if is_InvalidValue e then nl @ validationFailed @ (if y then nlnl @ setFailed else [])
        else (if y then nlnl @ setFailed else []))"
      have "formatMultilineSetWarnings M (Some e) x y z = ?pre @ message_part M e @ ?post"
        using f False by (simp add: formatMultilineSetWarnings_def message_part_def)
      then show ?thesis by blast
    qed
  qed
qed

text \<open>A failed set or delete tells the user why. The error text shown for a path
  error contains the error's own message verbatim whenever the whole text is free of percent
  signs; and warnings of a load or merge are reported exactly when there are
  any, in order, each with its message.\<close>

theorem errors_reach_the_user:
  assumes "CHR ''%'' \<notin> set (formatMultilineSetWarnings M (Some e) False True False)"
    and "\<forall>w\<in>set warns. CHR ''%'' \<notin> set (formatLoadOrMergeWarningMultiline M (Some w))"
  shows "(\<exists>a b. FormatConfigPathErrorMultiline M (Some e) = ExternalError (a @ message_part M e @ b))
    \<and> (FormatWarnings M warns = None \<longleftrightarrow> warns = [])
    \<and> (warns \<noteq> [] \<longrightarrow> FormatWarnings M warns = Some (ExternalError (warningsGenerated @ nlnl @
        concat (map (\<lambda>w. formatLoadOrMergeWarningMultiline M (Some w) @ nlnl) warns))))"
proof -
  obtain a b where ab: "formatMultilineSetWarnings M (Some e) False True False = a @ message_part M e @ b"
    using multiline_has_message by blast
  have "FormatConfigPathErrorMultiline M (Some e) = ExternalError (a @ message_part M e @ b)"
    using assms(1) by (simp add: FormatConfigPathErrorMultiline_def ab Errorf_plain)
  moreover have "CHR ''%'' \<notin> set (warningsGenerated @ nlnl @
        concat (map (\<lambda>w. formatLoadOrMergeWarningMultiline M (Some w) @ nlnl) warns))"
    using assms(2) by (auto simp: warningsGenerated_def nlnl_def)
  ultimately show ?thesis
    by (auto simp: FormatWarnings_def Errorf_plain)
qed

definition demo_mgmt :: "string \<Rightarrow> mgmt" where
  "demo_mgmt msg = \<lparr>Formattable = (\<lambda>e. \<not> is_InvalidValue e), GetMessage = (\<lambda>e. msg),
     GetPath = (\<lambda>e. ''/system/load''), GetInfoValue = (\<lambda>e. None), Error_text = (\<lambda>e. msg),
     is_DataError = (\<lambda>e. False), Makepath = (\<lambda>p. split_on CHR ''/'' (tl p))\<rparr>"

theorem errors_reach_the_user_witness:
  "(\<exists>a b. FormatConfigPathErrorMultiline (demo_mgmt ''too big'') (Some (AccessDeniedApplicationError None))
      = ExternalError (a @ ''too big'' @ b))
   \<and> FormatWarnings (demo_mgmt ''too big'') [ExternalError ''w''] \<noteq> None"
proof -
  have a: "CHR ''%'' \<notin> set (formatMultilineSetWarnings (demo_mgmt ''too big'')
      (Some (AccessDeniedApplicationError None)) False True False)"
    by code_simp
  have b: "\<forall>w\<in>set [ExternalError ''w'']. CHR ''%'' \<notin> set (formatLoadOrMergeWarningMultiline (demo_mgmt ''too big'') (Some w))"
    by code_simp
  have m: "message_part (demo_mgmt ''too big'') (AccessDeniedApplicationError None) = ''too big''" by code_simp
  show ?thesis using errors_reach_the_user [OF a b] by (simp add: m)
qed

text \<open>Percent signs are not safe in messages: the formatted text is itself passed to
  \<open>fmt.Errorf\<close> as a format, so a message such as \<open>limit is 50% of max\<close> reaches the user
  with the text after the percent sign garbled.\<close>

lemma percent_garbles_message:
  "FormatConfigPathError (demo_mgmt ''limit is 50% of max'') (Some (AccessDeniedApplicationError None))
     = Some (ExternalError ''Configuration path: limit is 50%!o(MISSING)f max'')
   \<and> FormatConfigPathErrorMultiline (demo_mgmt ''100%'') (Some (AccessDeniedApplicationError None))
     \<noteq> ExternalError (formatMultilineSetWarnings (demo_mgmt ''100%'')
          (Some (AccessDeniedApplicationError None)) False True False)"
  by code_simp

end
