(* ===== verification/Disp_State.thy ===== *)
theory Disp_State
  imports Session_Mgr Cli_Format
begin

text \<open>
  The dispatcher of \<open>server/dispatcher.go\<close>: one \<open>Disp\<close> value per client connection,
  all sharing the session table and the commit manager. Its state is that shared
  part; a handler that has got a session from the table runs the session's
  operations on the world made of that session and the shared commit manager
  (\<open>with_sess\<close>) and the result is filed again.

  The session \<open>EFFECTIVE\<close> of the table is the object the commit manager holds, so
  filing keeps the two equal. A session that another client destroyed while the
  handler was waiting comes back terminated and is not filed again.
\<close>

record 'd dworld =
  dw_mgr :: "'d mgr"
  dw_cmgr :: "'d commit_mgr"
  dw_dbg :: dbg_settings
  dw_rofs :: bool
  dw_log :: "event list"

type_synonym 'd dst = "'d dworld \<times> 'd interference list"
type_synonym ('d, 'a) dop = "('d dst, 'a) state"

record disp =
  d_ms :: snode
  d_msFull :: snode
  d_ctx :: Context

subsection \<open>The packages and programs the dispatcher uses\<close>

datatype stat = NotExist | StatError error | StatFile | StatDir

text \<open>What the code reads of a parsed \<open>net/url\<close> URL; user name and password are decoded.\<close>

record url =
  u_Scheme :: string
  u_Username :: string
  u_Password :: "string option"

text \<open>
  \<open>mg\<close> are the methods of \<open>mgmterror\<close> and \<open>CustomError\<close> its list printer; \<open>Pathstr\<close> and \<open>ErrPath\<close> print a path;
  \<open>NewTaskAccounter\<close> says whether the auth package hands back an accounter;
  \<open>CombinedOutput\<close> is what running a program gives (its text and whether it failed),
  \<open>Output_of\<close> the same with standard output and error apart and \<open>spawn_error\<close> the error of a failed run; \<open>read_job\<close> are the
  session and persist-id fields decoded from \<open>/config/confirmed_commit.job\<close>, if it can
  be opened; \<open>read_file\<close> is the unpacked text of a file and \<open>tmp_*\<close> are the steps on
  the temporary file of a save.
\<close>

record 'd sys =
  mg :: mgmt
  CustomError :: "(error \<Rightarrow> string) \<Rightarrow> error list \<Rightarrow> string"
  Pathstr :: "path \<Rightarrow> string"
  ErrPath :: "path \<Rightarrow> string"
  NewTaskAccounter :: "uid \<Rightarrow> string list \<Rightarrow> path \<Rightarrow> attrs \<Rightarrow> bool"
  CombinedOutput :: "'d dworld \<Rightarrow> string list \<Rightarrow> string \<times> bool"
  Output_of :: "'d dworld \<Rightarrow> string list \<Rightarrow> string \<times> string \<times> bool"
  spawn_error :: "'d dworld \<Rightarrow> string list \<Rightarrow> error"
  read_job :: "'d dworld \<Rightarrow> (string \<times> string) option"
  url_Parse :: "string \<Rightarrow> url result"
  os_Stat :: "'d dworld \<Rightarrow> string \<Rightarrow> stat"
  read_file :: "'d dworld \<Rightarrow> string \<Rightarrow> string result"
  tmp_create :: "'d dworld \<Rightarrow> string \<Rightarrow> string result"
  tmp_write :: "'d dworld \<Rightarrow> string \<Rightarrow> string \<Rightarrow> error option"
  tmp_sync :: "'d dworld \<Rightarrow> string \<Rightarrow> error option"
  tmp_chown :: "'d dworld \<Rightarrow> string \<Rightarrow> uid \<Rightarrow> error option"

subsection \<open>Access to the state\<close>

definition dgets :: "('d dworld \<Rightarrow> 'a) \<Rightarrow> ('d, 'a) dop" where
  "dgets f = gets (f \<circ> fst)"

definition dmodify :: "('d dworld \<Rightarrow> 'd dworld) \<Rightarrow> ('d, unit) dop" where
  "dmodify f = modify (\<lambda>(d, es). (f d, es))"

definition demit :: "event \<Rightarrow> ('d, unit) dop" where
  "demit ev = dmodify (\<lambda>d. d\<lparr>dw_log := dw_log d @ [ev]\<rparr>)"

lemma run_dgets [simp, run_simps]: "run_state (dgets f) (d, es) = (f d, d, es)"
  by (simp add: dgets_def)

lemma run_dmodify [simp, run_simps]: "run_state (dmodify f) (d, es) = ((), f d, es)"
  by (simp add: dmodify_def)

lemma run_demit [simp, run_simps]:
  "run_state (demit ev) (d, es) = ((), d\<lparr>dw_log := dw_log d @ [ev]\<rparr>, es)"
  by (simp add: demit_def)

definition spawn :: "'d sys \<Rightarrow> string list \<Rightarrow> ('d, string \<times> bool) dop" where
  "spawn S cmd = do {
     r \<leftarrow> dgets (\<lambda>d. CombinedOutput S d cmd);
     demit (EvSpawn cmd);
     ret r }"

lemma run_spawn [simp, run_simps]:
  "run_state (spawn S cmd) (d, es) = (CombinedOutput S d cmd, d\<lparr>dw_log := dw_log d @ [EvSpawn cmd]\<rparr>, es)"
  by (simp add: spawn_def)

definition focus :: "'d dworld \<Rightarrow> 'd session \<Rightarrow> 'd world" where
  "focus d s = \<lparr>w_sess = s, w_cmgr = dw_cmgr d, w_dbg = dw_dbg d, w_rofs = dw_rofs d, w_log = dw_log d\<rparr>"

definition file_session :: "string \<Rightarrow> 'd session \<Rightarrow> 'd mgr \<Rightarrow> 'd mgr" where
  "file_session sd s m =
    (if terminated s then m\<lparr>mg_sessions := (mg_sessions m)(sd := None), mg_killed := s # mg_killed m\<rparr>
     else m\<lparr>mg_sessions := (mg_sessions m)(sd \<mapsto> s)\<rparr>)"

definition sync_effective :: "'d session \<Rightarrow> 'd mgr \<Rightarrow> 'd mgr" where
  "sync_effective eff m =
    (if mg_sessions m ''EFFECTIVE'' \<noteq> None then m\<lparr>mg_sessions := (mg_sessions m)(''EFFECTIVE'' \<mapsto> eff)\<rparr> else m)"

definition unfocus :: "string \<Rightarrow> 'd world \<Rightarrow> 'd dworld \<Rightarrow> 'd dworld" where
  "unfocus sd w d =
    (let eff = (if sd = ''EFFECTIVE'' then w_sess w else cm_effective (w_cmgr w))
     in d\<lparr>dw_mgr := sync_effective eff (file_session sd (w_sess w) (dw_mgr d)),
          dw_cmgr := (w_cmgr w)\<lparr>cm_effective := eff\<rparr>,
          dw_dbg := w_dbg w, dw_rofs := w_rofs w, dw_log := w_log w\<rparr>)"

definition with_sess :: "Context \<Rightarrow> string \<Rightarrow> (error \<Rightarrow> 'a) \<Rightarrow> ('d, 'a) op \<Rightarrow> ('d, 'a) dop" where
  "with_sess c sd h m = State (\<lambda>(d, es).
     case mgr_Get c sd (Some (dw_mgr d)) of
       Inl e \<Rightarrow> (h e, d, es)
     | Inr s \<Rightarrow> (case run_state m (focus d s, es) of (a, w, es') \<Rightarrow> (a, unfocus sd w d, es')))"

definition on_mgr :: "('d mgr option \<Rightarrow> 'a \<times> 'd mgr option) \<Rightarrow> ('d, 'a) dop" where
  "on_mgr f = State (\<lambda>(d, es).
     case f (Some (dw_mgr d)) of
       (a, Some m) \<Rightarrow> (a, d\<lparr>dw_mgr := m\<rparr>, es)
     | (a, None) \<Rightarrow> (a, d, es))"

lemma run_with_sess [simp, run_simps]:
  "run_state (with_sess c sd h m) (d, es) =
    (case mgr_get c sd (dw_mgr d) of
       Inl e \<Rightarrow> (h e, d, es)
     | Inr s \<Rightarrow> (case run_state m (focus d s, es) of (a, w, es') \<Rightarrow> (a, unfocus sd w d, es')))"
  by (simp add: with_sess_def mgr_Get_def)

subsection \<open>Session handlers\<close>

fun bool_of :: "'d response \<Rightarrow> bool" where
  "bool_of (boolresp b) = b"
| "bool_of _ = False"

fun lock_of :: "'d response \<Rightarrow> pid \<times> error option" where
  "lock_of (lockresp p e) = (p, e)"
| "lock_of _ = (- 1, None)"

fun show_of :: "'d response \<Rightarrow> string \<times> error option" where
  "show_of (showresp v e) = (v, e)"
| "show_of _ = ([], None)"

fun load_of :: "'d response \<Rightarrow> error option \<times> error list" where
  "load_of (loadresp e ws) = (e, ws)"
| "load_of _ = (None, [])"

fun commit_of :: "'d response \<Rightarrow> commitresp" where
  "commit_of (commitresp_of r) = r"
| "commit_of _ = MakeCommitError sessTermError"

fun err_of :: "'d response \<Rightarrow> error option" where
  "err_of (errresp e) = e"
| "err_of _ = None"

definition SessionExists :: "disp \<Rightarrow> string \<Rightarrow> ('d, bool \<times> error option) dop" where
  "SessionExists D sd = dgets (\<lambda>d.
     case mgr_Get (d_ctx D) sd (Some (dw_mgr d)) of Inl _ \<Rightarrow> (False, None) | Inr _ \<Rightarrow> (True, None))"

definition session_setup :: "'d libs \<Rightarrow> disp \<Rightarrow> string \<Rightarrow> bool \<Rightarrow> ('d, bool \<times> error option) dop" where
  "session_setup L D sd shared = do {
     r \<leftarrow> on_mgr (mgr_Create L (d_ctx D) sd (d_ms D) (d_msFull D) shared);
     ret (case r of Inl e \<Rightarrow> (False, Some e) | Inr _ \<Rightarrow> (True, None)) }"

definition SessionSetup :: "'d libs \<Rightarrow> disp \<Rightarrow> string \<Rightarrow> ('d, bool \<times> error option) dop" where
  "SessionSetup L D sd = session_setup L D sd False"

definition SessionSetupShared :: "'d libs \<Rightarrow> disp \<Rightarrow> string \<Rightarrow> ('d, bool \<times> error option) dop" where
  "SessionSetupShared L D sd = session_setup L D sd True"

definition SessionTeardown :: "disp \<Rightarrow> string \<Rightarrow> ('d, bool \<times> error option) dop" where
  "SessionTeardown D sd = do {
     e \<leftarrow> on_mgr (mgr_Destroy (d_ctx D) sd);
     ret (case e of Some err \<Rightarrow> (False, Some err) | None \<Rightarrow> (True, None)) }"

definition SessionChanged :: "'d libs \<Rightarrow> disp \<Rightarrow> string \<Rightarrow> ('d, bool \<times> error option) dop" where
  "SessionChanged L D sd = with_sess (d_ctx D) sd (\<lambda>e. (False, Some e))
     (do { r \<leftarrow> Session_Changed L (d_ctx D); ret (bool_of r, None) })"

definition SessionSaved :: "'d libs \<Rightarrow> disp \<Rightarrow> string \<Rightarrow> ('d, bool \<times> error option) dop" where
  "SessionSaved L D sd = with_sess (d_ctx D) sd (\<lambda>e. (False, Some e))
     (do { r \<leftarrow> Session_Saved L (d_ctx D); ret (bool_of r, None) })"

definition session_mark :: "'d libs \<Rightarrow> disp \<Rightarrow> string \<Rightarrow> bool \<Rightarrow> ('d, bool \<times> error option) dop" where
  "session_mark L D sd b = with_sess (d_ctx D) sd (\<lambda>e. (False, Some e))
     (do { Session_MarkSaved L (d_ctx D) b; ret (True, None) })"

definition SessionMarkSaved :: "'d libs \<Rightarrow> disp \<Rightarrow> string \<Rightarrow> ('d, bool \<times> error option) dop" where
  "SessionMarkSaved L D sd = session_mark L D sd True"

definition SessionMarkUnsaved :: "'d libs \<Rightarrow> disp \<Rightarrow> string \<Rightarrow> ('d, bool \<times> error option) dop" where
  "SessionMarkUnsaved L D sd = session_mark L D sd False"

definition SessionLock :: "'d libs \<Rightarrow> disp \<Rightarrow> string \<Rightarrow> ('d, pid \<times> error option) dop" where
  "SessionLock L D sd = with_sess (d_ctx D) sd (\<lambda>e. (- 1, Some e))
     (do { r \<leftarrow> Session_Lock L (d_ctx D); ret (lock_of r) })"

definition SessionUnlock :: "'d libs \<Rightarrow> disp \<Rightarrow> string \<Rightarrow> ('d, pid \<times> error option) dop" where
  "SessionUnlock L D sd = with_sess (d_ctx D) sd (\<lambda>e. (- 1, Some e))
     (do { r \<leftarrow> Session_Unlock L (d_ctx D); ret (lock_of r) })"

definition SessionLocked :: "'d libs \<Rightarrow> disp \<Rightarrow> string \<Rightarrow> ('d, pid \<times> error option) dop" where
  "SessionLocked L D sd = with_sess (d_ctx D) sd (\<lambda>e. (- 1, Some e))
     (do { r \<leftarrow> Session_Locked L (d_ctx D); ret (lock_of r) })"

definition discardInternal :: "'d libs \<Rightarrow> disp \<Rightarrow> string \<Rightarrow> ('d, bool \<times> error option) dop" where
  "discardInternal L D sd = with_sess (d_ctx D) sd (\<lambda>e. (False, Some e))
     (do { e \<leftarrow> Session_Discard L (d_ctx D);
           ret (case e of Some err \<Rightarrow> (False, Some err) | None \<Rightarrow> (True, None)) })"

subsection \<open>Read-only sessions\<close>

text \<open>\<open>getROSession\<close>: the id of the session it returns; \<open>None\<close> is a nil pointer.\<close>

definition getROSession :: "disp \<Rightarrow> DB \<Rightarrow> string \<Rightarrow> 'd dworld \<Rightarrow> string option" where
  "getROSession D db sd d =
    (let ok = (\<lambda>x. is_ok (mgr_Get (d_ctx D) x (Some (dw_mgr d))));
         fallback = (\<lambda>x. if ok x then Some x else if ok ''RUNNING'' then Some ''RUNNING'' else None)
     in if db = RUNNING then fallback ''RUNNING''
        else if db = EFFECTIVE then fallback ''EFFECTIVE''
        else if db = AUTO \<or> db = CANDIDATE then fallback sd
        else None)"

definition nil_session :: error where
  "nil_session = RuntimePanic ''nil session''"

definition with_ro :: "disp \<Rightarrow> DB \<Rightarrow> string \<Rightarrow> (error \<Rightarrow> 'a) \<Rightarrow> ('d, 'a) op \<Rightarrow> ('d, 'a) dop" where
  "with_ro D db sd h m = do {
     x \<leftarrow> dgets (getROSession D db sd);
     (case x of None \<Rightarrow> ret (h nil_session) | Some sd' \<Rightarrow> with_sess (d_ctx D) sd' h m) }"

definition show_db :: "'d libs \<Rightarrow> disp \<Rightarrow> DB \<Rightarrow> string \<Rightarrow> path \<Rightarrow> bool \<Rightarrow> bool \<Rightarrow> ('d, string \<times> error option) dop" where
  "show_db L D db sd p hideSecrets showDefaults = with_ro D db sd (\<lambda>e. ([], Some e))
     (Session_Show L (d_ctx D) p hideSecrets showDefaults)"

subsection \<open>Well-formed dispatcher states\<close>

text \<open>The session table is well formed, and its effective session is the commit manager's.\<close>

definition dw_ok :: "'d dworld \<Rightarrow> bool" where
  "dw_ok d \<longleftrightarrow> mgr_ok (dw_mgr d) \<and>
    (\<forall>s. mg_sessions (dw_mgr d) ''EFFECTIVE'' = Some s \<longrightarrow> s = cm_effective (dw_cmgr d))"

lemma dw_ok_log [simp]: "dw_ok (d\<lparr>dw_log := l\<rparr>) = dw_ok d"
  by (simp add: dw_ok_def)

lemma sync_effective_id:
  "(\<And>s. mg_sessions m ''EFFECTIVE'' = Some s \<Longrightarrow> s = eff) \<Longrightarrow> sync_effective eff m = m"
  by (auto simp: sync_effective_def fun_upd_idem)

lemma unfocus_log:
  assumes ok: "dw_ok d" and s: "mg_sessions (dw_mgr d) sd = Some s"
  shows "unfocus sd ((focus d s)\<lparr>w_log := l\<rparr>) d = d\<lparr>dw_log := l\<rparr>"
proof -
  let ?e = "cm_effective (dw_cmgr d)"
  have "\<not> terminated s" using ok s by (auto simp: dw_ok_def dest: mgr_okD)
  then have "file_session sd s (dw_mgr d) = dw_mgr d"
    using s by (simp add: file_session_def fun_upd_idem)
  moreover have "sd = ''EFFECTIVE'' \<Longrightarrow> s = ?e" using ok s by (simp add: dw_ok_def)
  moreover have "sync_effective ?e (dw_mgr d) = dw_mgr d"
    by (rule sync_effective_id) (use ok in \<open>simp add: dw_ok_def\<close>)
  ultimately show ?thesis
    by (cases "sd = ''EFFECTIVE''") (simp_all add: unfocus_def focus_def Let_def)
qed

text \<open>Operations and handlers that only add events satisfying \<open>P\<close> to the trace.\<close>

definition traces :: "(event \<Rightarrow> bool) \<Rightarrow> 'd st \<Rightarrow> 'd st \<Rightarrow> bool" where
  "traces P s s' \<longleftrightarrow> (\<exists>evs. s' = ((fst s)\<lparr>w_log := w_log (fst s) @ evs\<rparr>, snd s) \<and> list_all P evs)"

definition dtraces :: "(event \<Rightarrow> bool) \<Rightarrow> 'd dst \<Rightarrow> 'd dst \<Rightarrow> bool" where
  "dtraces P s s' \<longleftrightarrow> (dw_ok (fst s) \<longrightarrow>
    (\<exists>evs. s' = ((fst s)\<lparr>dw_log := dw_log (fst s) @ evs\<rparr>, snd s) \<and> list_all P evs))"

interpretation trace: frame_rel "traces P" for P
proof
  show "traces P s s" for s :: "'d st"
    unfolding traces_def by (rule exI [of _ "[]"]) (cases s; simp)
  show "traces P s t \<Longrightarrow> traces P t u \<Longrightarrow> traces P s u" for s t u :: "'d st"
    unfolding traces_def by fastforce
qed

interpretation dtrace: frame_rel "dtraces P" for P
proof
  show "dtraces P s s" for s :: "'d dst"
    unfolding dtraces_def by (rule impI, rule exI [of _ "[]"]) (cases s; simp)
  show "dtraces P s u" if "dtraces P s t" "dtraces P t u" for s t u :: "'d dst"
    using that unfolding dtraces_def by (cases s; cases t; cases u) fastforce
qed

lemma trace_prims:
  "keeps (traces P) sess" "keeps (traces P) the_world" "P ev \<Longrightarrow> keeps (traces P) (emit ev)"
proof -
  show "keeps (traces P) sess" "keeps (traces P) the_world" by (simp_all add: sess_def the_world_def)
  show "P ev \<Longrightarrow> keeps (traces P) (emit ev)"
    by (rule keepsI) (auto simp: traces_def emit_def upd_world_def split: prod.split)
qed

lemma trace_query: "keeps (traces P) (query f)"
  unfolding query_def by (intro trace.steps_ok trace_prims)

lemma trace_api_call: "keeps (traces P) m \<Longrightarrow> keeps (traces P) (api_call z m)"
  unfolding api_call_def by (intro trace.steps_ok trace_prims)

lemma trace_respond: "keeps (traces P) m \<Longrightarrow> keeps (traces P) (respond f m)"
  unfolding respond_def by (intro trace.steps_ok)

lemmas trace_intros = trace.steps_ok trace_prims trace_query trace_api_call trace_respond

lemma dtrace_prims:
  "keeps (dtraces P) (dgets f)" "P ev \<Longrightarrow> keeps (dtraces P) (demit ev)"
  "P (EvSpawn cmd) \<Longrightarrow> keeps (dtraces P) (spawn S cmd)"
proof -
  show g: "keeps (dtraces P) (dgets f)" for f by (simp add: dgets_def)
  show e: "P ev \<Longrightarrow> keeps (dtraces P) (demit ev)" for ev
    by (rule keepsI) (auto simp: dtraces_def demit_def dmodify_def split: prod.split)
  show "P (EvSpawn cmd) \<Longrightarrow> keeps (dtraces P) (spawn S cmd)"
    unfolding spawn_def by (intro dtrace.bind_ok dtrace.ret_ok e g)
qed

lemma dtrace_with_sess:
  assumes m: "keeps (traces P) m"
  shows "keeps (dtraces P) (with_sess c sd h m)"
proof (rule keepsI)
  fix s :: "'a dst"
  obtain d es where s: "s = (d, es)" by (cases s)
  show "dtraces P s (snd (run_state (with_sess c sd h m) s))"
  proof (cases "mgr_get c sd (dw_mgr d)")
    case (Inl e)
    then show ?thesis using dtrace.refl by (simp add: s)
  next
    case (Inr x)
    obtain a w es' where r: "run_state m (focus d x, es) = (a, w, es')" by (metis prod.exhaust)
    have "traces P (focus d x, es) (w, es')" using keepsE [OF m r] .
    then obtain evs where w: "w = (focus d x)\<lparr>w_log := dw_log d @ evs\<rparr>" "es' = es" "list_all P evs"
      by (auto simp: traces_def focus_def)
    have "mg_sessions (dw_mgr d) sd = Some x" using Inr by (simp add: mgr_get_Inr)
    then show ?thesis using unfocus_log [of d sd x "dw_log d @ evs"] Inr r w
      by (auto simp: s dtraces_def)
  qed
qed

lemma dtrace_with_ro: "keeps (traces P) m \<Longrightarrow> keeps (dtraces P) (with_ro D db sd h m)"
  unfolding with_ro_def by (intro dtrace.steps_ok dtrace_prims dtrace_with_sess)

lemma trace_Session_Show: "keeps (traces P) (Session_Show L c p hs sd)"
  unfolding Session_Show_def by (intro trace_intros)

lemma dtrace_show_db: "keeps (dtraces P) (show_db L D db sd p hs sdf)"
  unfolding show_db_def by (intro dtrace_with_ro trace_Session_Show)

lemmas dtrace_intros = dtrace.steps_ok dtrace_prims dtrace_with_sess dtrace_with_ro dtrace_show_db

lemma dtracesD:
  "keeps (dtraces P) m \<Longrightarrow> dw_ok d \<Longrightarrow>
    \<exists>evs. snd (run_state m (d, es)) = (d\<lparr>dw_log := dw_log d @ evs\<rparr>, es) \<and> list_all P evs"
  using keepsD [of "dtraces P" m "(d, es)"] by (simp add: dtraces_def)

lemma dtracesE:
  assumes "keeps (dtraces P) m" "dw_ok d" "run_state m (d, es) = (a, d', es')"
  obtains evs where "d' = d\<lparr>dw_log := dw_log d @ evs\<rparr>" "es' = es" "list_all P evs"
  using dtracesD [OF assms(1,2), of es] assms(3) by auto

end
