(* ===== verification/Path_Expand.thy ===== *)
theory Path_Expand
  imports Session_World
begin

text \<open>
  Path completion, \<open>expandPath\<close> of \<open>server/dispatcher.go\<close>: every element of a
  path may be abbreviated to a prefix that is unique among its siblings, and the
  element under the cursor (index \<open>pos\<close>) may be completed in mid-word. The Go
  closures are functions here; what they capture, the text
  \<open>mgmterror.ErrPath(origPath)\<close> of an error message, is their first argument, and
  that formatter, which belongs to another package, is an argument of
  \<open>expandPath\<close>. The recursion is on the remaining path.
\<close>

fun isElemOf :: "string list \<Rightarrow> string \<Rightarrow> bool" where
  "isElemOf [] e = False"
| "isElemOf (v # vs) e = (if v = e then True else isElemOf vs e)"

lemma isElemOf_iff [simp]: "isElemOf l e \<longleftrightarrow> e \<in> set l"
  by (induction l) auto

definition NoPrefix :: string where "NoPrefix = ''TEST_NOT_USING_PREFIX''"
definition InvalidPos :: int where "InvalidPos = - 1"

text \<open>The loop over \<open>sch.Children()\<close>; the state is \<open>(matches, prefixMatch)\<close>.\<close>

fun match_children ::
  "string list \<Rightarrow> string \<Rightarrow> string \<Rightarrow> int \<Rightarrow> snode list \<Rightarrow> snode list \<times> bool \<Rightarrow> snode list \<times> bool" where
  "match_children skip val prefix pos [] acc = acc"
| "match_children skip val prefix pos (c # cs) (ms, pm) =
    (if isElemOf skip (sn_name c) then match_children skip val prefix pos cs (ms, pm)
     else if sn_name c = val then ([c], pm)
     else if HasPrefix (sn_name c) val then match_children skip val prefix pos cs (ms @ [c], pm)
     else if pos = 0 then
       (if HasPrefix (sn_name c) prefix then match_children skip val prefix pos cs (ms @ [c], True)
        else match_children skip val prefix pos cs (ms, pm))
     else match_children skip val prefix pos cs (ms, pm))"

text \<open>\<open>matchnames\<close>, a Go map, kept as an association list: a repeated name overwrites.\<close>

fun put_help :: "string \<Rightarrow> string \<Rightarrow> (string \<times> string) list \<Rightarrow> (string \<times> string) list" where
  "put_help k v [] = [(k, v)]"
| "put_help k v ((k', v') # m) = (if k' = k then (k, v) # m else (k', v') # put_help k v m)"

definition matchnames :: "snode list \<Rightarrow> (string \<times> string) list" where
  "matchnames ms = fold (\<lambda>v m. put_help (sn_name v) (s_help (sn_info v)) m) ms []"

definition invalid_prefix :: "string \<Rightarrow> string \<Rightarrow> error" where
  "invalid_prefix orig prefix = InvalidValueApplicationError
     (orig @ '' has invalid prefix '' @ [CHR 0x27] @ prefix @ [CHR 0x27])"

definition processleaf :: "snode \<Rightarrow> path \<Rightarrow> path \<Rightarrow> path result" where
  "processleaf sch path cpath = (case path of
     [] \<Rightarrow> Inr cpath
   | val # rest \<Rightarrow>
       if s_empty (sn_info sch) then Inl (UnknownElementApplicationError val (Some cpath))
       else case rest of
         [] \<Rightarrow> Inr (cpath @ [val])
       | nxt # _ \<Rightarrow> Inl (UnknownElementApplicationError nxt (Some (cpath @ [val]))))"

definition unknown_kind :: "path \<Rightarrow> error" where
  "unknown_kind cpath =
    (if cpath = [] then RuntimePanic ''index out of range''
     else UnknownElementApplicationError (last cpath) (Some (butlast cpath)))"

function (sequential) processnode ::
    "string \<Rightarrow> snode \<Rightarrow> path \<Rightarrow> path \<Rightarrow> string \<Rightarrow> int \<Rightarrow> path result"
  and processchildrenskip ::
    "string \<Rightarrow> snode \<Rightarrow> path \<Rightarrow> path \<Rightarrow> string list \<Rightarrow> string \<Rightarrow> int \<Rightarrow> path result" where
  "processnode orig sch path cpath prefix pos = (case sn_kind sch of
     KTree \<Rightarrow> processchildrenskip orig sch path cpath [] prefix (pos - 1)
   | KContainer \<Rightarrow> processchildrenskip orig sch path cpath [] prefix (pos - 1)
   | KList \<Rightarrow>
      (case path of
         [] \<Rightarrow> Inr cpath
       | key # rest \<Rightarrow>
           processchildrenskip orig sch rest (cpath @ [key]) (s_keys (sn_info sch)) prefix pos)
   | KLeaf \<Rightarrow> processleaf sch path cpath
   | KLeafList \<Rightarrow> processleaf sch path cpath
   | _ \<Rightarrow> Inl (unknown_kind cpath))"
| "processchildrenskip orig sch [] cpath skip prefix pos = Inr cpath"
| "processchildrenskip orig sch (val # rest) cpath skip prefix pos =
    (case match_children skip val prefix pos (sn_children sch) ([], False) of
       ([], _) \<Rightarrow> Inl (UnknownElementApplicationError val (Some cpath))
     | ([m], pm) \<Rightarrow>
         if pm \<and> length prefix \<ge> length val then Inl (invalid_prefix orig prefix)
         else processnode orig m rest
           (cpath @ [if pm then sn_name m @ drop (length prefix) val else sn_name m]) prefix pos
     | (ms, _) \<Rightarrow> Inl (PathAmbiguousError (cpath @ [val]) (matchnames ms)))"
  by pat_completeness auto

termination
  by (relation "measure (\<lambda>x. case x of
        Inl (_, _, path, _) \<Rightarrow> 2 * length path + 1 | Inr (_, _, path, _) \<Rightarrow> 2 * length path)") auto

definition expandPath :: "(path \<Rightarrow> string) \<Rightarrow> snode \<Rightarrow> path \<Rightarrow> string \<Rightarrow> int \<Rightarrow> path result" where
  "expandPath ErrPath ms path prefix pos = processnode (ErrPath path) ms path [] prefix pos"

subsection \<open>Which paths the schema has\<close>

text \<open>
  The reference: a path whose elements are spelled out, each naming the first
  sibling of that name, list keys and leaf values being free.
\<close>

function (sequential) spelled_path :: "snode \<Rightarrow> path \<Rightarrow> bool"
  and spelled_below :: "snode \<Rightarrow> string list \<Rightarrow> path \<Rightarrow> bool" where
  "spelled_path sch path = (case sn_kind sch of
     KTree \<Rightarrow> spelled_below sch [] path
   | KContainer \<Rightarrow> spelled_below sch [] path
   | KList \<Rightarrow> path = [] \<or> spelled_below sch (s_keys (sn_info sch)) (tl path)
   | KLeaf \<Rightarrow> path = [] \<or> \<not> s_empty (sn_info sch) \<and> length path = 1
   | KLeafList \<Rightarrow> path = [] \<or> \<not> s_empty (sn_info sch) \<and> length path = 1
   | _ \<Rightarrow> False)"
| "spelled_below sch skip [] = True"
| "spelled_below sch skip (v # rest) =
    (case find (\<lambda>c. sn_name c = v \<and> v \<notin> set skip) (sn_children sch) of
       None \<Rightarrow> False | Some c \<Rightarrow> spelled_path c rest)"
  by pat_completeness auto

termination
  by (relation "measure (\<lambda>x. case x of
        Inl (_, path) \<Rightarrow> 2 * length path + 1 | Inr (_, _, path) \<Rightarrow> 2 * length path)") auto

subsection \<open>What an abbreviation means\<close>

text \<open>
  The reference for abbreviations. Among the siblings a word may name, it means the first of exactly that name,
  or else the only one whose name it begins; several such siblings make it ambiguous.
\<close>

definition siblings :: "snode \<Rightarrow> string list \<Rightarrow> snode list" where
  "siblings sch skip = filter (\<lambda>c. sn_name c \<notin> set skip) (sn_children sch)"

definition extending :: "snode \<Rightarrow> string list \<Rightarrow> string \<Rightarrow> snode list" where
  "extending sch skip val = filter (\<lambda>c. HasPrefix (sn_name c) val) (siblings sch skip)"

definition means :: "snode \<Rightarrow> string list \<Rightarrow> string \<Rightarrow> snode \<Rightarrow> bool" where
  "means sch skip val c \<longleftrightarrow>
    find (\<lambda>d. sn_name d = val) (siblings sch skip) = Some c \<or>
    val \<notin> sn_name ` set (siblings sch skip) \<and> extending sch skip val = [c]"

definition ambiguous :: "snode \<Rightarrow> string list \<Rightarrow> string \<Rightarrow> bool" where
  "ambiguous sch skip val \<longleftrightarrow>
    val \<notin> sn_name ` set (siblings sch skip) \<and> length (extending sch skip val) > 1"

inductive abbrev :: "snode \<Rightarrow> path \<Rightarrow> path \<Rightarrow> bool"
  and abbrev_below :: "snode \<Rightarrow> string list \<Rightarrow> path \<Rightarrow> path \<Rightarrow> bool" where
  node: "sn_kind sch \<in> {KTree, KContainer} \<Longrightarrow> abbrev_below sch [] path ps \<Longrightarrow> abbrev sch path ps"
| list_only: "sn_kind sch = KList \<Longrightarrow> abbrev sch [] []"
| list_key: "sn_kind sch = KList \<Longrightarrow> abbrev_below sch (s_keys (sn_info sch)) path ps \<Longrightarrow> abbrev sch (key # path) (key # ps)"
| leaf_only: "sn_kind sch \<in> {KLeaf, KLeafList} \<Longrightarrow> abbrev sch [] []"
| leaf_val: "sn_kind sch \<in> {KLeaf, KLeafList} \<Longrightarrow> \<not> s_empty (sn_info sch) \<Longrightarrow> abbrev sch [v] [v]"
| all_read: "abbrev_below sch skip [] []"
| word: "means sch skip val c \<Longrightarrow> abbrev c path ps \<Longrightarrow> abbrev_below sch skip (val # path) (sn_name c # ps)"

text \<open>The path up to its first ambiguous word, with the names that word may stand for.\<close>

inductive ambig :: "snode \<Rightarrow> path \<Rightarrow> path \<Rightarrow> string set \<Rightarrow> bool"
  and ambig_below :: "snode \<Rightarrow> string list \<Rightarrow> path \<Rightarrow> path \<Rightarrow> string set \<Rightarrow> bool" where
  ambig_node: "sn_kind sch \<in> {KTree, KContainer} \<Longrightarrow> ambig_below sch [] path ps N \<Longrightarrow> ambig sch path ps N"
| ambig_list: "sn_kind sch = KList \<Longrightarrow> ambig_below sch (s_keys (sn_info sch)) path ps N \<Longrightarrow> ambig sch (key # path) (key # ps) N"
| ambig_here: "ambiguous sch skip val \<Longrightarrow> ambig_below sch skip (val # path) [val] (sn_name ` set (extending sch skip val))"
| ambig_later: "means sch skip val c \<Longrightarrow> ambig c path ps N \<Longrightarrow> ambig_below sch skip (val # path) (sn_name c # ps) N"

subsection \<open>The matching loop\<close>

lemma match_children_spec:
  assumes "pos \<noteq> 0"
  shows "match_children skip val prefix pos cs (ms, pm) =
    (case find (\<lambda>c. sn_name c = val \<and> val \<notin> set skip) cs of
       Some c \<Rightarrow> ([c], pm)
     | None \<Rightarrow> (ms @ filter (\<lambda>c. sn_name c \<notin> set skip \<and> HasPrefix (sn_name c) val) cs, pm))"
  using assms by (induction cs arbitrary: ms) (auto split: option.split)

lemma single_match:
  assumes "pos \<noteq> 0" and "match_children skip val prefix pos cs ([], False) = ([m], pm)"
  shows "\<not> pm" and "HasPrefix (sn_name m) val"
    and "find (\<lambda>c. sn_name c = sn_name m \<and> sn_name m \<notin> set skip) cs = Some m"
proof -
  let ?f = "find (\<lambda>c. sn_name c = val \<and> val \<notin> set skip) cs"
  let ?pre = "\<lambda>c. sn_name c \<notin> set skip \<and> HasPrefix (sn_name c) val"
  have m: "(case ?f of Some c \<Rightarrow> ([c], False) | None \<Rightarrow> (filter ?pre cs, False)) = ([m], pm)"
    using assms by (simp add: match_children_spec cong: option.case_cong)
  show "\<not> pm" using m by (auto split: option.splits)
  have "filter ?pre cs = [m] \<Longrightarrow> find (\<lambda>c. sn_name c = sn_name m \<and> sn_name m \<notin> set skip) cs = Some m \<and> ?pre m"
  proof (induction cs)
    case (Cons c cs)
    show ?case
    proof (cases "?pre c")
      case True
      then show ?thesis using Cons.prems by auto
    next
      case False
      have "filter ?pre cs = [m]" using Cons.prems False by simp
      moreover from this have "?pre m" using filter_eq_ConsD by fastforce
      ultimately show ?thesis using Cons.IH False by auto
    qed
  qed simp
  then show "HasPrefix (sn_name m) val"
    and "find (\<lambda>c. sn_name c = sn_name m \<and> sn_name m \<notin> set skip) cs = Some m"
    using m by (auto split: option.splits simp: find_Some_iff)
qed

lemma find_exact_name: "find (\<lambda>c. sn_name c = v \<and> v \<notin> set skip) cs = Some c \<Longrightarrow> sn_name c = v"
  by (auto simp: find_Some_iff)

lemma processleaf_ok:
  "processleaf sch path cpath = Inr ps \<longleftrightarrow>
    ps = cpath @ path \<and> (path = [] \<or> \<not> s_empty (sn_info sch) \<and> length path = 1)"
  by (auto simp: processleaf_def split: list.splits if_splits)

lemma HasPrefix_all_self: "list_all2 HasPrefix p p"
  by (simp add: list_all2_same)

subsection \<open>Completion against the reference\<close>

lemma expand_sound:
  "processnode orig sch path cpath prefix pos = Inr ps \<Longrightarrow> pos < 0 \<Longrightarrow>
    \<exists>qs. ps = cpath @ qs \<and> spelled_path sch qs \<and> list_all2 HasPrefix qs path"
  "processchildrenskip orig sch path cpath skip prefix pos = Inr ps \<Longrightarrow> pos < 0 \<Longrightarrow>
    \<exists>qs. ps = cpath @ qs \<and> spelled_below sch skip qs \<and> list_all2 HasPrefix qs path"
proof (induction orig sch path cpath prefix pos and orig sch path cpath skip prefix pos
    arbitrary: ps and ps rule: processnode_processchildrenskip.induct)
  case (1 orig sch path cpath prefix pos)
  show ?case
  proof (cases "sn_kind sch = KList")
    case True
    show ?thesis
    proof (cases path)
      case Nil
      then show ?thesis using 1 True by simp
    next
      case (Cons key rest)
      have "\<exists>qs. ps = (cpath @ [key]) @ qs \<and> spelled_below sch (s_keys (sn_info sch)) qs
          \<and> list_all2 HasPrefix qs rest"
        using 1 True Cons by simp
      then obtain qs where "ps = cpath @ (key # qs)"
        "spelled_below sch (s_keys (sn_info sch)) qs" "list_all2 HasPrefix qs rest" by auto
      then show ?thesis using True Cons by (intro exI [of _ "key # qs"]) simp
    qed
  next
    case False
    then show ?thesis using 1
      by (cases "sn_kind sch") (auto simp: processleaf_ok HasPrefix_all_self)
  qed
next
  case (3 orig sch val rest cpath skip prefix pos)
  obtain ms pm where mc: "match_children skip val prefix pos (sn_children sch) ([], False) = (ms, pm)"
    by fastforce
  obtain m where ms: "ms = [m]" using 3(2) mc by (auto split: list.splits)
  note sm = single_match [OF _ mc [unfolded ms]]
  have "\<exists>qs. ps = (cpath @ [sn_name m]) @ qs \<and> spelled_path m qs \<and> list_all2 HasPrefix qs rest"
    using 3 mc ms sm by simp
  then obtain qs where "ps = cpath @ (sn_name m # qs)" "spelled_path m qs" "list_all2 HasPrefix qs rest"
    by auto
  then show ?case using sm 3(3) by (intro exI [of _ "sn_name m # qs"]) simp
qed simp

lemma expand_exact:
  "spelled_path sch path \<Longrightarrow> pos < 0 \<Longrightarrow>
    processnode orig sch path cpath prefix pos = Inr (cpath @ path)"
  "spelled_below sch skip path \<Longrightarrow> pos < 0 \<Longrightarrow>
    processchildrenskip orig sch path cpath skip prefix pos = Inr (cpath @ path)"
proof (induction orig sch path cpath prefix pos and orig sch path cpath skip prefix pos
    rule: processnode_processchildrenskip.induct)
  case (1 orig sch path cpath prefix pos)
  then show ?case
    by (cases path; cases "sn_kind sch") (auto simp: processleaf_def)
next
  case (3 orig sch val rest cpath skip prefix pos)
  then obtain c where c: "find (\<lambda>c. sn_name c = val \<and> val \<notin> set skip) (sn_children sch) = Some c"
    and w: "spelled_path c rest"
    by (auto split: option.splits)
  have mc: "match_children skip val prefix pos (sn_children sch) ([], False) = ([c], False)"
    using c 3(3) by (simp add: match_children_spec)
  have "processnode orig c rest (cpath @ [val]) prefix pos = Inr (cpath @ val # rest)"
    using 3(1) [of "[c]" False c "[]"] w 3(3) mc find_exact_name [OF c]
    by (simp del: processnode.simps spelled_path.simps)
  then show ?case using mc find_exact_name [OF c] by (simp del: processnode.simps)
qed simp

lemma expandPath_top:
  assumes "sn_kind ms = KTree"
  shows "expandPath E ms path prefix pos = processchildrenskip (E path) ms path [] [] prefix (pos - 1)"
    and "spelled_path ms path = spelled_below ms [] path"
  using assms by (simp_all add: expandPath_def)

lemma find_filter: "find P (filter Q cs) = find (\<lambda>c. Q c \<and> P c) cs"
  by (induction cs) auto

lemma find_exact_siblings:
  "find (\<lambda>d. sn_name d = val) (siblings sch skip) = find (\<lambda>c. sn_name c = val \<and> val \<notin> set skip) (sn_children sch)"
  unfolding siblings_def find_filter by (rule arg_cong2 [where f = find]) auto

lemma find_None_names: "find (\<lambda>d. sn_name d = val) cs = None \<longleftrightarrow> val \<notin> sn_name ` set cs"
  by (auto simp: find_None_iff)

lemma extending_children:
  "extending sch skip val = filter (\<lambda>c. sn_name c \<notin> set skip \<and> HasPrefix (sn_name c) val) (sn_children sch)"
  by (simp add: extending_def siblings_def filter_filter conj_commute)

text \<open>The loop in terms of the reference.\<close>

lemma match_children_means:
  assumes "pos < 0"
  shows "match_children skip val prefix pos (sn_children sch) ([], False) =
    (case find (\<lambda>d. sn_name d = val) (siblings sch skip) of
       Some c \<Rightarrow> ([c], False) | None \<Rightarrow> (extending sch skip val, False))"
  using assms by (simp add: match_children_spec find_exact_siblings extending_children cong: option.case_cong)

lemma means_iff: "match_children skip val prefix pos (sn_children sch) ([], False) = ([c], pm) \<Longrightarrow> pos < 0 \<Longrightarrow>
   means sch skip val d \<longleftrightarrow> d = c"
  by (auto simp: match_children_means means_def find_None_names[symmetric] split: option.splits)

lemma not_means: "match_children skip val prefix pos (sn_children sch) ([], False) = ([], pm) \<Longrightarrow> pos < 0 \<Longrightarrow>
   \<not> means sch skip val d \<and> \<not> ambiguous sch skip val"
  by (auto simp: match_children_means means_def ambiguous_def find_None_names[symmetric] split: option.splits)

lemma means_ambiguous: "match_children skip val prefix pos (sn_children sch) ([], False) = (m # n # ms, pm) \<Longrightarrow> pos < 0 \<Longrightarrow>
   \<not> means sch skip val d \<and> ambiguous sch skip val \<and> extending sch skip val = m # n # ms"
  by (auto simp: match_children_means means_def ambiguous_def find_None_names[symmetric] split: option.splits)

lemma single_not_ambiguous: "match_children skip val prefix pos (sn_children sch) ([], False) = ([c], pm) \<Longrightarrow> pos < 0 \<Longrightarrow>
   \<not> ambiguous sch skip val \<and> \<not> pm"
  by (auto simp: match_children_means ambiguous_def find_None_names[symmetric] split: option.splits)

inductive_simps abbrev_iff: "abbrev sch path ps"
inductive_simps abbrev_below_Nil [simp]: "abbrev_below sch skip [] ps"
inductive_simps abbrev_below_Cons: "abbrev_below sch skip (v # path) ps"
inductive_simps ambig_iff: "ambig sch path ps N"
inductive_simps ambig_below_Nil [simp]: "ambig_below sch skip [] ps N"
inductive_simps ambig_below_Cons: "ambig_below sch skip (v # path) ps N"

lemma set_put_help: "fst ` set (put_help k v m) = insert k (fst ` set m)"
  by (induction k v m rule: put_help.induct) auto

lemma matchnames_names: "fst ` set (matchnames ms) = sn_name ` set ms"
proof -
  have "fst ` set (fold (\<lambda>v m. put_help (sn_name v) (s_help (sn_info v)) m) ms acc) = sn_name ` set ms \<union> fst ` set acc" for acc
    by (induction ms arbitrary: acc) (auto simp: set_put_help)
  then show ?thesis by (simp add: matchnames_def)
qed

lemma expand_abbrev:
  "pos < 0 \<Longrightarrow> processnode orig sch path cpath prefix pos = Inr ps \<longleftrightarrow> (\<exists>qs. ps = cpath @ qs \<and> abbrev sch path qs)"
  "pos < 0 \<Longrightarrow> processchildrenskip orig sch path cpath skip prefix pos = Inr ps \<longleftrightarrow>
     (\<exists>qs. ps = cpath @ qs \<and> abbrev_below sch skip path qs)"
proof (induction orig sch path cpath prefix pos and orig sch path cpath skip prefix pos
    arbitrary: ps and ps rule: processnode_processchildrenskip.induct)
  case (1 orig sch path cpath prefix pos)
  show ?case
  proof (cases "sn_kind sch = KList")
    case True
    then show ?thesis using 1 by (cases path) (auto simp: abbrev_iff)
  next
    case False
    then show ?thesis using 1
      by (cases "sn_kind sch") (auto simp: abbrev_iff processleaf_ok length_Suc_conv)
  qed
next
  case (3 orig sch val rest cpath skip prefix pos)
  obtain ms pm where mc: "match_children skip val prefix pos (sn_children sch) ([], False) = (ms, pm)"
    by fastforce
  show ?case
  proof (cases ms)
    case Nil
    then show ?thesis using not_means [of skip val prefix pos sch] mc 3(2)
      by (auto simp: abbrev_below_Cons simp del: processnode.simps)
  next
    case (Cons m ms')
    show ?thesis
    proof (cases ms')
      case Nil
      then show ?thesis
        using mc Cons 3(1) [of "[m]" pm m "[]"] 3(2) means_iff [of skip val prefix pos sch m pm]
          single_not_ambiguous [of skip val prefix pos sch m pm]
        by (auto simp: abbrev_below_Cons simp del: processnode.simps)
    next
      case (Cons n ns)
      then show ?thesis
        using mc \<open>ms = m # ms'\<close> 3(2) means_ambiguous [of skip val prefix pos sch m n ns pm]
        by (auto simp: abbrev_below_Cons simp del: processnode.simps)
    qed
  qed
qed auto

lemma expand_ambig:
  "pos < 0 \<Longrightarrow> (\<exists>nm. processnode orig sch path cpath prefix pos = Inl (PathAmbiguousError ps nm) \<and> fst ` set nm = N) \<longleftrightarrow>
     (\<exists>qs. ps = cpath @ qs \<and> ambig sch path qs N)"
  "pos < 0 \<Longrightarrow> (\<exists>nm. processchildrenskip orig sch path cpath skip prefix pos = Inl (PathAmbiguousError ps nm) \<and> fst ` set nm = N) \<longleftrightarrow>
     (\<exists>qs. ps = cpath @ qs \<and> ambig_below sch skip path qs N)"
proof (induction orig sch path cpath prefix pos and orig sch path cpath skip prefix pos
    arbitrary: ps and ps rule: processnode_processchildrenskip.induct)
  case (1 orig sch path cpath prefix pos)
  show ?case
  proof (cases "sn_kind sch = KList")
    case True
    then show ?thesis using 1 by (cases path) (auto simp: ambig_iff)
  next
    case False
    then show ?thesis using 1
      by (cases "sn_kind sch") (auto simp: ambig_iff processleaf_def unknown_kind_def split: list.splits if_splits)
  qed
next
  case (3 orig sch val rest cpath skip prefix pos)
  obtain ms pm where mc: "match_children skip val prefix pos (sn_children sch) ([], False) = (ms, pm)"
    by fastforce
  show ?case
  proof (cases ms)
    case Nil
    then show ?thesis using not_means [of skip val prefix pos sch] mc 3(2)
      by (auto simp: ambig_below_Cons simp del: processnode.simps)
  next
    case (Cons m ms')
    show ?thesis
    proof (cases ms')
      case Nil
      then show ?thesis
        using mc Cons 3(1) [of "[m]" pm m "[]"] 3(2) means_iff [of skip val prefix pos sch m pm]
          single_not_ambiguous [of skip val prefix pos sch m pm]
        by (auto simp: ambig_below_Cons simp del: processnode.simps)
    next
      case (Cons n ns)
      then show ?thesis
        using mc \<open>ms = m # ms'\<close> 3(2) means_ambiguous [of skip val prefix pos sch m n ns pm]
        by (auto simp: ambig_below_Cons matchnames_names simp del: processnode.simps)
    qed
  qed
qed simp

text \<open>The same loop in the element under the cursor, when no sibling has the exact name.\<close>

lemma match_children_cursor:
  assumes "val \<notin> sn_name ` set cs"
  shows "match_children [] val prefix 0 cs (ms, pm) =
    (ms @ filter (\<lambda>c. HasPrefix (sn_name c) val \<or> HasPrefix (sn_name c) prefix) cs,
     pm \<or> (\<exists>c\<in>set cs. \<not> HasPrefix (sn_name c) val \<and> HasPrefix (sn_name c) prefix))"
  using assms by (induction cs arbitrary: ms pm) auto

lemma HasPrefix_appendD: "HasPrefix s (p @ t) \<Longrightarrow> HasPrefix s p"
  by (auto simp: HasPrefix_iff)

text \<open>C19. Completion accepts exactly the unambiguous abbreviations. Below the model set's root, \<open>Expand\<close> answers
  \<open>ps\<close> exactly when every word of the path means one schema node among its siblings (the one of exactly that
  name, or else the only one whose name the word begins; list keys and leaf values are free) and \<open>ps\<close> spells
  them out. It answers that the path is ambiguous exactly when the first word that does not mean one node
  begins the names of several siblings and is the name of none, and it lists the names of these siblings. An accepted path is a schema path
  spelled out in full each of whose elements extends what the user typed, and every schema path that is spelled out is accepted as
  it stands.\<close>

theorem expand_canonical:
  assumes "sn_kind ms = KTree"
  shows "(expandPath E ms path prefix 0 = Inr ps \<longleftrightarrow> abbrev ms path ps)
      \<and> ((\<exists>names. expandPath E ms path prefix 0 = Inl (PathAmbiguousError ps names) \<and> fst ` set names = N)
           \<longleftrightarrow> ambig ms path ps N)
      \<and> (expandPath E ms path prefix 0 = Inr ps \<longrightarrow>
            spelled_path ms ps \<and> list_all2 HasPrefix ps path \<and> expandPath E ms ps prefix 0 = Inr ps)
      \<and> (spelled_path ms path \<longrightarrow> expandPath E ms path prefix 0 = Inr path)"
proof -
  have exact: "spelled_path ms p \<Longrightarrow> expandPath E ms p prefix 0 = Inr p" for p
    using expand_exact(2) [of ms "[]" p "- 1" "E p" "[]" prefix] assms
    by (simp add: expandPath_top del: spelled_path.simps processnode.simps)
  have "expandPath E ms path prefix 0 = Inr ps \<longleftrightarrow> abbrev ms path ps"
    using expand_abbrev(2) [of "- 1" "E path" ms path "[]" "[]" prefix ps] assms
    by (simp add: expandPath_top abbrev_iff del: spelled_path.simps processnode.simps)
  moreover have "(\<exists>names. expandPath E ms path prefix 0 = Inl (PathAmbiguousError ps names) \<and> fst ` set names = N)
      \<longleftrightarrow> ambig ms path ps N"
    using expand_ambig(2) [of "- 1" "E path" ms path "[]" "[]" prefix ps N] assms
    by (simp add: expandPath_top ambig_iff del: spelled_path.simps processnode.simps)
  ultimately show ?thesis
    using expand_sound(2) [of "E path" ms path "[]" "[]" prefix "- 1" ps] exact assms
    by (auto simp: expandPath_top simp del: spelled_path.simps processnode.simps)
qed

definition demo_leaf :: "string \<Rightarrow> snode" where
  "demo_leaf n = SNode \<lparr>s_kind = KLeaf, s_name = n, s_ns = ''urn:d'', s_presence = True, s_keys = [],
     s_empty = False, s_subst = [], s_help = n\<rparr> [] []"

definition demo_list :: "string \<Rightarrow> snode list \<Rightarrow> snode" where
  "demo_list n cs = SNode \<lparr>s_kind = KList, s_name = n, s_ns = ''urn:d'', s_presence = True, s_keys = [''key''],
     s_empty = False, s_subst = [], s_help = n\<rparr> (demo_leaf ''key'' # cs) []"

definition demo_tree :: "snode list \<Rightarrow> snode" where
  "demo_tree cs = SNode \<lparr>s_kind = KTree, s_name = ''root'', s_ns = ''urn:d'', s_presence = False, s_keys = [],
     s_empty = False, s_subst = [], s_help = []\<rparr> cs []"

theorem expand_canonical_witness:
  "let r = demo_tree [demo_list ''interfaces'' [demo_leaf ''address''], demo_leaf ''interval''] in
   expandPath concat r [''interf'', ''dp0'', ''addr'', ''10.0.0.1''] NoPrefix 0 = Inr [''interfaces'', ''dp0'', ''address'', ''10.0.0.1'']
   \<and> abbrev r [''interf'', ''dp0'', ''addr'', ''10.0.0.1''] [''interfaces'', ''dp0'', ''address'', ''10.0.0.1'']
   \<and> ambig r [''inter'', ''x''] [''inter''] {''interfaces'', ''interval''}"
proof -
  let ?r = "demo_tree [demo_list ''interfaces'' [demo_leaf ''address''], demo_leaf ''interval'']"
  let ?h = "[(''interfaces'', ''interfaces''), (''interval'', ''interval'')]"
  have e: "expandPath concat ?r [''interf'', ''dp0'', ''addr'', ''10.0.0.1''] NoPrefix 0
      = Inr [''interfaces'', ''dp0'', ''address'', ''10.0.0.1'']" by code_simp
  have a: "expandPath concat ?r [''inter'', ''x''] NoPrefix 0 = Inl (PathAmbiguousError [''inter''] ?h)"
    by code_simp
  have n: "fst ` set ?h = {''interfaces'', ''interval''}" by simp
  have k: "sn_kind ?r = KTree" by code_simp
  have "abbrev ?r [''interf'', ''dp0'', ''addr'', ''10.0.0.1''] [''interfaces'', ''dp0'', ''address'', ''10.0.0.1'']"
    using expand_canonical [OF k, of concat "[''interf'', ''dp0'', ''addr'', ''10.0.0.1'']" NoPrefix] e by blast
  moreover have "ambig ?r [''inter'', ''x''] [''inter''] {''interfaces'', ''interval''}"
    using expand_canonical [OF k, of concat "[''inter'', ''x'']" NoPrefix "[''inter'']" "{''interfaces'', ''interval''}"] a n by blast
  ultimately show ?thesis using e unfolding Let_def by blast
qed

text \<open>Completion in mid-word. When the cursor stands inside the first word, after
  \<open>prefix\<close>, and exactly one child of the root extends that prefix without
  extending the whole word, the word becomes that child's name followed by the
  text right of the cursor.\<close>

theorem midword_completion:
  assumes root: "sn_kind ms = KTree"
    and one: "filter (\<lambda>c. HasPrefix (sn_name c) prefix) (sn_children ms) = [m]"
    and longer: "\<not> HasPrefix (sn_name m) (prefix @ tail)" and tail: "tail \<noteq> []"
    and kind: "sn_kind m \<in> {KContainer, KList, KLeaf, KLeafList}"
  shows "expandPath E ms [prefix @ tail] prefix 1 = Inr [sn_name m @ tail]"
proof -
  let ?val = "prefix @ tail"
  have only: "\<forall>c\<in>set (sn_children ms). HasPrefix (sn_name c) prefix \<longrightarrow> c = m"
    using arg_cong [OF one, of set] by auto
  have m: "m \<in> set (sn_children ms)" "HasPrefix (sn_name m) prefix"
    using filter_eq_ConsD [OF one] by auto
  have no: "\<forall>c\<in>set (sn_children ms). \<not> HasPrefix (sn_name c) ?val"
    using only longer HasPrefix_appendD by blast
  have "?val \<notin> sn_name ` set (sn_children ms)"
    using no by auto
  then have "match_children [] ?val prefix 0 (sn_children ms) ([], False) = ([m], True)"
    using one no m longer by (auto simp: match_children_cursor cong: filter_cong)
  then show ?thesis using root kind tail
    by (auto simp: expandPath_top processleaf_def)
qed

theorem midword_completion_witness:
  "expandPath concat (demo_tree [demo_leaf ''system'', demo_list ''dataplane'' []]) [''datadp0''] ''data'' 1
     = Inr [''dataplanedp0'']"
proof -
  let ?r = "demo_tree [demo_leaf ''system'', demo_list ''dataplane'' []]"
  have h: "sn_kind ?r = KTree"
    "filter (\<lambda>c. HasPrefix (sn_name c) ''data'') (sn_children ?r) = [demo_list ''dataplane'' []]"
    "\<not> HasPrefix (sn_name (demo_list ''dataplane'' [])) (''data'' @ ''dp0'')"
    "sn_kind (demo_list ''dataplane'' []) \<in> {KContainer, KList, KLeaf, KLeafList}"
    by (simp_all add: demo_tree_def demo_list_def demo_leaf_def HasPrefix_def)
  have n: "sn_name (demo_list ''dataplane'' []) = ''dataplane''" by (simp add: demo_list_def)
  show ?thesis using midword_completion [OF h(1-3) _ h(4), of concat] by (simp add: n)
qed

text \<open>Two ways in which mid-word completion goes wrong. First, an exact name
  found after a sibling that only shares the prefix is still treated as a
  mid-word match: with children \<open>foz\<close> and \<open>foobar\<close> and the cursor after \<open>fo\<close>, the
  correct word \<open>foobar\<close> becomes \<open>foobarobar\<close>, although without the cursor it is
  accepted unchanged. Second, the position is not counted down past a list: in
  \<open>l/k1/foXX\<close> the third word is not completed when the cursor is in it, and it is
  when the cursor is in the first.\<close>

lemma cursor_completion_defects:
  "expandPath concat (demo_tree [demo_leaf ''foz'', demo_leaf ''foobar'']) [''foobar''] ''fo'' 1
     = Inr [''foobarobar'']
   \<and> expandPath concat (demo_tree [demo_leaf ''foz'', demo_leaf ''foobar'']) [''foobar''] ''fo'' 0
     = Inr [''foobar'']
   \<and> expandPath concat (demo_tree [demo_list ''l'' [demo_leaf ''foobar'']]) [''l'', ''k1'', ''foXX''] ''fo'' 3
     = Inl (UnknownElementApplicationError ''foXX'' (Some [''l'', ''k1'']))
   \<and> expandPath concat (demo_tree [demo_list ''l'' [demo_leaf ''foobar'']]) [''l'', ''k1'', ''foXX''] ''fo'' 1
     = Inr [''l'', ''k1'', ''foobarXX'']"
  by code_simp

end
