(* ===== verification/Aaa.thy ===== *)
theory Aaa
  imports Disp_State Path_Expand
begin

text \<open>
  \<open>server/aaa.go\<close>: authorisation and accounting of commands. A command is its
  words together with one attribute per word that says whether the word is
  secret; the accounter sees the words, so the two lists must stay aligned.
\<close>

record commandArgs =
  ca_cmd :: path
  ca_attrs :: attrs

text \<open>A nil slice argument is the empty list; the caller passes \<open>nil\<close> or a list.\<close>

definition newCommandArgs ::
  "'d libs \<Rightarrow> 'd sys \<Rightarrow> disp \<Rightarrow> string \<Rightarrow> string list \<Rightarrow> path \<Rightarrow> commandArgs option" where
  "newCommandArgs L S D cmd args pathArgs =
    (case expandPath (ErrPath S) (d_ms D) pathArgs NoPrefix InvalidPos of
       Inl _ \<Rightarrow> None
     | Inr ps \<Rightarrow>
         let attrs = (case schema_AttrsForPath L (d_msFull D) ps of None \<Rightarrow> [] | Some a \<Rightarrow> a);
             cmdArgs = cmd # args;
             cmdAttrs = map (\<lambda>_. False) cmdArgs
         in Some \<lparr>ca_cmd = cmdArgs @ ps, ca_attrs = cmdAttrs @ attrs\<rparr>)"

definition newCommandArgsForAaa ::
  "'d libs \<Rightarrow> 'd sys \<Rightarrow> disp \<Rightarrow> string \<Rightarrow> string list \<Rightarrow> path \<Rightarrow> commandArgs option" where
  "newCommandArgsForAaa L S D cmd args pathArgs =
    (if Configd (d_ctx D) then None else newCommandArgs L S D cmd args pathArgs)"

definition authCommand :: "disp \<Rightarrow> commandArgs option \<Rightarrow> bool" where
  "authCommand D args =
    (if Configd (d_ctx D) then True
     else case args of
       None \<Rightarrow> False
     | Some a \<Rightarrow> AuthorizeCommand (Auth (d_ctx D)) (Uid (d_ctx D)) (Groups (d_ctx D)) (ca_cmd a) (ca_attrs a))"

definition getAccounter :: "'d sys \<Rightarrow> disp \<Rightarrow> commandArgs option \<Rightarrow> commandArgs option" where
  "getAccounter S D args =
    (case args of
       None \<Rightarrow> None
     | Some a \<Rightarrow>
         if NewTaskAccounter S (Uid (d_ctx D)) (Groups (d_ctx D)) (ca_cmd a) (ca_attrs a) then Some a else None)"

definition accountCmdWrap ::
  "'d sys \<Rightarrow> disp \<Rightarrow> commandArgs option \<Rightarrow> ('d, 'a \<times> error option) dop \<Rightarrow> ('d, 'a \<times> error option) dop" where
  "accountCmdWrap S D args fn =
    (case getAccounter S D args of
       None \<Rightarrow> fn
     | Some a \<Rightarrow> do {
         demit (EvAccountStart (Uid (d_ctx D)) (ca_cmd a) (ca_attrs a));
         (r, err) \<leftarrow> fn;
         demit (EvAccountStop (Uid (d_ctx D)) (ca_cmd a) err);
         ret (r, err) })"

text \<open>The handlers of this form: refuse, or run the operation inside the accounting.\<close>

definition authorised ::
  "'d sys \<Rightarrow> disp \<Rightarrow> commandArgs option \<Rightarrow> 'a \<Rightarrow> ('d, 'a \<times> error option) dop \<Rightarrow> ('d, 'a \<times> error option) dop" where
  "authorised S D args zero fn =
    (if \<not> authCommand D args then ret (zero, Some (AccessDeniedApplicationError None))
     else accountCmdWrap S D args fn)"

definition Discard :: "'d libs \<Rightarrow> 'd sys \<Rightarrow> disp \<Rightarrow> string \<Rightarrow> ('d, bool \<times> error option) dop" where
  "Discard L S D sd = accountCmdWrap S D (newCommandArgsForAaa L S D ''discard'' [] []) (discardInternal L D sd)"

subsection \<open>What the auth package may assume\<close>

lemma expandPath_empty: "sn_kind ms = KTree \<Longrightarrow> expandPath E ms [] prefix pos = Inr []"
  by (simp add: expandPath_top)

lemma expandPath_neg_length:
  "expandPath E ms path prefix pos = Inr ps \<Longrightarrow> pos < 0 \<Longrightarrow> length ps = length path"
  using expand_sound(1) [of "E path" ms path "[]" prefix pos ps]
  by (auto simp: expandPath_def dest: list_all2_lengthD)

text \<open>Command arguments are aligned with their attributes. For every command whose
  path arguments the schema completes, with an attribute source that gives one
  attribute per path element, the words are the command, its arguments and the
  completed path, in this order; there is one attribute per word; neither the
  command word nor a non-path argument is ever marked secret; and a path word
  is marked secret exactly when the schema says so of the completed path.\<close>

theorem command_args_aligned:
  assumes "newCommandArgs L S D cmd args pathArgs = Some a"
    and "\<And>p at. schema_AttrsForPath L (d_msFull D) p = Some at \<Longrightarrow> length at = length p"
    and "schema_AttrsForPath L (d_msFull D) (drop (Suc (length args)) (ca_cmd a)) = Some at"
  shows "length (ca_attrs a) = length (ca_cmd a)
    \<and> take (Suc (length args)) (ca_cmd a) = cmd # args
    \<and> list_all2 HasPrefix (drop (Suc (length args)) (ca_cmd a)) pathArgs
    \<and> spelled_path (d_ms D) (drop (Suc (length args)) (ca_cmd a))
    \<and> (\<forall>i\<le>length args. \<not> ca_attrs a ! i)
    \<and> drop (Suc (length args)) (ca_attrs a) = at"
proof -
  obtain ps where ps: "expandPath (ErrPath S) (d_ms D) pathArgs NoPrefix InvalidPos = Inr ps"
    using assms(1) by (auto simp: newCommandArgs_def split: sum.splits)
  have a: "ca_cmd a = (cmd # args) @ ps" "ca_attrs a = map (\<lambda>_. False) (cmd # args) @ at"
    using assms(1,3) ps by (auto simp: newCommandArgs_def Let_def)
  have d: "drop (Suc (length args)) (ca_cmd a) = ps" by (simp add: a)
  have sound: "spelled_path (d_ms D) ps \<and> list_all2 HasPrefix ps pathArgs"
    using ps expand_sound(1) [of "ErrPath S pathArgs" "d_ms D" pathArgs "[]" NoPrefix InvalidPos ps]
    by (simp add: expandPath_def InvalidPos_def del: spelled_path.simps processnode.simps)
  have flags: "\<forall>i\<le>length args. \<not> ca_attrs a ! i"
    by (simp add: a nth_append nth_Cons split: nat.split)
  show ?thesis using assms(2) [OF assms(3)] sound flags by (simp add: d) (simp add: a)
qed

definition demo_ctx :: "bool \<Rightarrow> Context" where
  "demo_ctx b = caller 42 b"

definition demo_disp :: "bool \<Rightarrow> disp" where
  "demo_disp b = \<lparr>d_ms = root_node, d_msFull = root_node, d_ctx = demo_ctx b\<rparr>"

definition demo_sys :: "'d sys" where
  "demo_sys = \<lparr>mg = demo_mgmt ''failed'', CustomError = (\<lambda>f es. concat (map f es)), Pathstr = concat, ErrPath = concat, NewTaskAccounter = (\<lambda>u g c a. True),
     CombinedOutput = (\<lambda>d cmd. (''done'', False)), Output_of = (\<lambda>d cmd. ([], [], False)),
     spawn_error = (\<lambda>d cmd. ExternalError ''exit status 1''), read_job = (\<lambda>d. None),
     url_Parse = (\<lambda>u. Inr \<lparr>u_Scheme = [], u_Username = [], u_Password = None\<rparr>),
     os_Stat = (\<lambda>d p. NotExist), read_file = (\<lambda>d p. Inl (ExternalError ''no such file'')),
     tmp_create = (\<lambda>d p. Inr ''/var/tmp/configd/.save.1''), tmp_write = (\<lambda>d p t. None),
     tmp_sync = (\<lambda>d p. None), tmp_chown = (\<lambda>d p u. None)\<rparr>"

theorem command_args_aligned_witness:
  "newCommandArgs sample demo_sys (demo_disp True) ''set'' [''-q''] [''mac'', ''v'']
     = Some \<lparr>ca_cmd = [''set'', ''-q'', ''macro'', ''v''], ca_attrs = [False, False, False, False]\<rparr>
   \<and> list_all2 HasPrefix [''macro'', ''v''] [''mac'', ''v'']"
proof -
  let ?a = "\<lparr>ca_cmd = [''set'', ''-q'', ''macro'', ''v''], ca_attrs = [False, False, False, False]\<rparr>"
  have e: "newCommandArgs sample demo_sys (demo_disp True) ''set'' [''-q''] [''mac'', ''v''] = Some ?a"
    by code_simp
  have l: "length at = length p" if "schema_AttrsForPath sample (d_msFull (demo_disp True)) p = Some at" for p at
    using that by (auto simp: sample_def)
  have s: "schema_AttrsForPath sample (d_msFull (demo_disp True)) (drop (Suc (length [''-q''])) (ca_cmd ?a))
      = Some [False, False]"
    by (simp add: sample_def)
  show ?thesis using e command_args_aligned [OF e l s] by simp
qed

end
