(* ===== verification/Confirmed_Commit.thy ===== *)
theory Confirmed_Commit
  imports Config_Mgmt
begin

text \<open>
  \<open>server/confirmed_commit.go\<close> and the commit, confirm and rollback handlers of
  \<open>server/dispatcher.go\<close>. A confirmed commit is undone unless it is confirmed in
  time; the timer and the pending job belong to \<open>vyatta-config-mgmt.pl\<close>, which is run
  as an external program and leaves the job file that \<open>getConfirmedCommitInfo\<close> reads.
\<close>

subsection \<open>Parameters of a commit\<close>

definition DefaultTimeout :: "32 word" where "DefaultTimeout = 600"

record ConfirmedCommitInfo =
  Session :: string
  PersistId :: string

record commitInfo =
  ci_confirmed :: bool
  ci_timeout :: "32 word"
  ci_persist :: string
  ci_persistId :: string

definition getConfirmedCommitInfo :: "'d sys \<Rightarrow> 'd dworld \<Rightarrow> ConfirmedCommitInfo" where
  "getConfirmedCommitInfo S d =
    (case read_job S d of
       None \<Rightarrow> \<lparr>Session = [], PersistId = []\<rparr>
     | Some (s, p) \<Rightarrow> \<lparr>Session = s, PersistId = p\<rparr>)"

definition newCommitInfo :: "bool \<Rightarrow> string \<Rightarrow> string \<Rightarrow> string \<Rightarrow> commitInfo result" where
  "newCommitInfo confirmed timeout persist persistid =
    (let mk = (\<lambda>t. \<lparr>ci_confirmed = confirmed, ci_timeout = t, ci_persist = persist, ci_persistId = persistid\<rparr>)
     in if timeout \<noteq> [] then
          (case ParseUint timeout 10 32 of
             Inl e \<Rightarrow> Inl (InvalidValueProtocolError (NumError timeout e))
           | Inr seconds \<Rightarrow>
               if seconds = 0 then
                 Inl (InvalidValueProtocolError ''timeout value out of range, 0 is not permitted'')
               else Inr (mk (of_nat seconds)))
        else Inr (mk DefaultTimeout))"

definition arguments :: "commitInfo \<Rightarrow> string \<Rightarrow> string list" where
  "arguments c session =
    [''--action=confirmed-commit'', ''--seconds='' @ format_uint 10 (unat (ci_timeout c))] @
    (if ci_persist c \<noteq> [] then [''--persist='' @ ci_persist c] else []) @
    (if ci_persistId c \<noteq> [] then [''--persistid='' @ ci_persistId c] else []) @
    [''--session='' @ session]"

subsection \<open>Running the configuration management script\<close>

definition mgmt_pl :: string where "mgmt_pl = ''/opt/vyatta/sbin/vyatta-config-mgmt.pl''"

definition run_mgmt :: "'d sys \<Rightarrow> string list \<Rightarrow> ('d, string \<times> error option) dop" where
  "run_mgmt S args = do {
     (out, failed) \<leftarrow> spawn S (mgmt_pl # args);
     ret (if failed then ([], Some (failed_with out)) else (out, None)) }"

fun first_line :: "string list \<Rightarrow> string option" where
  "first_line [] = None"
| "first_line (s # ss) = (if s \<noteq> [] then Some s else first_line ss)"

definition logEvent :: "string \<Rightarrow> string \<Rightarrow> ('d, unit) dop" where
  "logEvent pfx msg =
    (case first_line (split_on CHR 0x0A msg) of
       None \<Rightarrow> ret ()
     | Some s \<Rightarrow> demit (EvWlog (pfx @ '': '' @ s)))"

definition logConfirmedCommitEvent :: "string \<Rightarrow> ('d, unit) dop" where
  "logConfirmedCommitEvent msg = logEvent ''Confirmed Commit'' msg"

definition logRollbackEvent :: "string \<Rightarrow> ('d, unit) dop" where
  "logRollbackEvent msg = logEvent ''Rollback'' msg"

definition logRollbackError :: "'d sys \<Rightarrow> error \<Rightarrow> ('d, unit) dop" where
  "logRollbackError S e = logRollbackEvent (''Failed with error: '' @ Error_text (mg S) e)"

definition ConfirmingCommit :: "'d sys \<Rightarrow> ('d, string \<times> error option) dop" where
  "ConfirmingCommit S = run_mgmt S [''--action=confirming-commit'']"

definition ConfirmSilent :: "'d sys \<Rightarrow> ('d, string \<times> error option) dop" where
  "ConfirmSilent S = run_mgmt S [''--action=confirm-silent'']"

definition confirmInternal :: "'d sys \<Rightarrow> ('d, string \<times> error option) dop" where
  "confirmInternal S = run_mgmt S [''--action=confirm'']"

definition Confirm :: "'d libs \<Rightarrow> 'd sys \<Rightarrow> disp \<Rightarrow> ('d, string \<times> error option) dop" where
  "Confirm L S D = accountCmdWrap S D (newCommandArgsForAaa L S D ''confirm'' [] []) (confirmInternal S)"

definition confirmPersistIdInternal :: "'d sys \<Rightarrow> string \<Rightarrow> ('d, string \<times> error option) dop" where
  "confirmPersistIdInternal S persistid = run_mgmt S [''--action=confirm'', ''--persistid='' @ persistid]"

definition ConfirmPersistId :: "'d libs \<Rightarrow> 'd sys \<Rightarrow> disp \<Rightarrow> string \<Rightarrow> ('d, string \<times> error option) dop" where
  "ConfirmPersistId L S D persistid =
    accountCmdWrap S D (newCommandArgsForAaa L S D ''confirm'' [''persist-id'', persistid] [])
      (confirmPersistIdInternal S persistid)"

definition setConfirmedCommitTimeout :: "'d sys \<Rightarrow> disp \<Rightarrow> commitInfo \<Rightarrow> ('d, string \<times> error option) dop" where
  "setConfirmedCommitTimeout S D cmt = do {
     (out, err) \<leftarrow> run_mgmt S (arguments cmt (Itoa (Pid (d_ctx D))));
     (case err of
        Some e \<Rightarrow> ret ([], Some e)
      | None \<Rightarrow> do {
          logConfirmedCommitEvent (''Scheduled revert for persist-id ['' @ ci_persist cmt @ '']'');
          ret (out, None) }) }"

definition setConfirmTimeout :: "'d sys \<Rightarrow> int \<Rightarrow> ('d, string \<times> error option) dop" where
  "setConfirmTimeout S mins = run_mgmt S [''--action=commit-confirm'', ''--minutes='' @ Itoa mins]"

definition sessionTermination :: "'d sys \<Rightarrow> disp \<Rightarrow> ('d, error option) dop" where
  "sessionTermination S D = do {
     info \<leftarrow> dgets (getConfirmedCommitInfo S);
     if Session info \<noteq> [] \<and> PersistId info = [] \<and> Session info = Itoa (Pid (d_ctx D)) then do {
       (out, err) \<leftarrow> run_mgmt S [''--action=revert-configuration''];
       ret err }
     else ret None }"

subsection \<open>A pending confirmed commit\<close>

definition performConfirmingCommitIfRequired ::
  "'d sys \<Rightarrow> string \<Rightarrow> commitInfo option \<Rightarrow> bool \<Rightarrow> ('d, bool \<times> error option) dop" where
  "performConfirmingCommitIfRequired S pd cmt revert = do {
     info \<leftarrow> dgets (getConfirmedCommitInfo S);
     if Session info \<noteq> [] then
       if revert then do { _ \<leftarrow> ConfirmingCommit S; ret (True, None) }
       else (case cmt of
          None \<Rightarrow> ret (False, Some (AccessDeniedApplicationError
                    (Some ''Operation blocked by outstanding confirmed commit'')))
        | Some c \<Rightarrow>
            if PersistId info \<noteq> ci_persistId c then
              ret (False, Some (InvalidValueProtocolError
                ''persist-id does not match outstanding confirmed commit''))
            else if ci_persistId c = [] \<and> Session info \<noteq> pd then
              ret (False, Some (AccessDeniedApplicationError
                (Some ''operation blocked by outstanding confirmed commit'')))
            else if \<not> ci_confirmed c then do {
              logConfirmedCommitEvent (''Confirming pending confirmed commit: persist-id ['' @ PersistId info @ '']'');
              _ \<leftarrow> ConfirmingCommit S;
              ret (True, None) }
            else do {
              logConfirmedCommitEvent (''Follow-up commit: persist-id ['' @ PersistId info @ '']'');
              ret (False, None) })
     else ret (False, None) }"

definition output_text :: "exec_output list \<Rightarrow> string" where
  "output_text outs = concat (map (\<lambda>x.
     (case o_path x of Some p \<Rightarrow> Sprint_path p @ nl | None \<Rightarrow> []) @
     (if o_text x \<noteq> [] then o_text x @ nl else [])) outs)"

text \<open>What \<open>confirmedCommitInternal\<close> does once the session's commit has succeeded cleanly.\<close>

definition after_commit ::
  "'d libs \<Rightarrow> 'd sys \<Rightarrow> disp \<Rightarrow> int \<Rightarrow> commitInfo option \<Rightarrow> string \<Rightarrow> ('d, string \<times> error option) dop" where
  "after_commit L S D confirmTimeout cmt text = do {
     (ok, err) \<leftarrow> Save L S D;
     if \<not> ok then ret ([], err)
     else (case cmt of
         Some c \<Rightarrow>
           if ci_confirmed c then do {
             (out, _) \<leftarrow> setConfirmedCommitTimeout S D c;
             ret (text @ (if out \<noteq> [] then nl @ out @ nl else []), None) }
           else if confirmTimeout \<noteq> 0 then do {
             (out, e) \<leftarrow> setConfirmTimeout S confirmTimeout;
             ret (text @ nl @ out @ nl, e) }
           else ret (text, None)
       | None \<Rightarrow>
           if confirmTimeout \<noteq> 0 then do {
             (out, e) \<leftarrow> setConfirmTimeout S confirmTimeout;
             ret (text @ nl @ out @ nl, e) }
           else ret (text, None)) }"

definition commit_session :: "'d libs \<Rightarrow> disp \<Rightarrow> string \<Rightarrow> string \<Rightarrow> bool \<Rightarrow> ('d, commitresp) dop" where
  "commit_session L D sd message debug = with_sess (d_ctx D) sd (\<lambda>_. MakeCommitError sessTermError)
     (do { r \<leftarrow> Session_Commit_api L (d_ctx D) message debug; ret (commit_of r) })"

definition confirmedCommitInternal ::
  "'d libs \<Rightarrow> 'd sys \<Rightarrow> disp \<Rightarrow> string \<Rightarrow> string \<Rightarrow> bool \<Rightarrow> int \<Rightarrow> commitInfo option \<Rightarrow> bool
    \<Rightarrow> ('d, string \<times> error option) dop" where
  "confirmedCommitInternal L S D sd message debug confirmTimeout cmt revert = do {
     got \<leftarrow> dgets (\<lambda>d. mgr_Get (d_ctx D) sd (Some (dw_mgr d)));
     (case got of
        Inl e \<Rightarrow> ret ([], Some e)
      | Inr _ \<Rightarrow> do {
          (confirming, e) \<leftarrow> performConfirmingCommitIfRequired S (Itoa (Pid (d_ctx D))) cmt revert;
          (case e of
             Some err \<Rightarrow> ret ([], Some err)
           | None \<Rightarrow> do {
               (ch, _) \<leftarrow> (if confirming then SessionChanged L D sd else ret (True, None));
               if confirming \<and> \<not> ch then ret ([], None)
               else do {
                 r \<leftarrow> commit_session L D sd message debug;
                 if cr_ok r \<and> cr_err r = [] then
                   after_commit L S D confirmTimeout cmt (output_text (cr_out r))
                 else if cr_ok r then
                   ret (output_text (cr_out r) @
                        CustomError S (FormatCommitOrValErrors (mg S)) (cr_err r) @ nl @
                        nl @ ''Commit succeeded (non-fatal failures detected).'' @ nl, None)
                 else ret ([], Some (MgmtErrorList (cr_err r))) } }) }) }"

definition commitInternal ::
  "'d libs \<Rightarrow> 'd sys \<Rightarrow> disp \<Rightarrow> string \<Rightarrow> string \<Rightarrow> bool \<Rightarrow> int \<Rightarrow> bool \<Rightarrow> ('d, string \<times> error option) dop" where
  "commitInternal L S D sd message debug confirmTimeout revert =
    confirmedCommitInternal L S D sd message debug confirmTimeout None revert"

definition comment_args :: "string \<Rightarrow> string list" where
  "comment_args message = (if message \<noteq> [] then [''comment'', message] else [])"

definition CommitConfirm ::
  "'d libs \<Rightarrow> 'd sys \<Rightarrow> disp \<Rightarrow> string \<Rightarrow> string \<Rightarrow> bool \<Rightarrow> int \<Rightarrow> ('d, string \<times> error option) dop" where
  "CommitConfirm L S D sd message debug mins =
    accountCmdWrap S D (newCommandArgsForAaa L S D ''commit-confirm'' (Itoa mins # comment_args message) [])
      (commitInternal L S D sd message debug mins False)"

definition Commit ::
  "'d libs \<Rightarrow> 'd sys \<Rightarrow> disp \<Rightarrow> string \<Rightarrow> string \<Rightarrow> bool \<Rightarrow> ('d, string \<times> error option) dop" where
  "Commit L S D sd message debug =
    accountCmdWrap S D (newCommandArgsForAaa L S D ''commit'' (comment_args message) [])
      (commitInternal L S D sd message debug 0 False)"

definition ConfirmedCommit ::
  "'d libs \<Rightarrow> 'd sys \<Rightarrow> disp \<Rightarrow> string \<Rightarrow> string \<Rightarrow> bool \<Rightarrow> string \<Rightarrow> string \<Rightarrow> string \<Rightarrow> bool
    \<Rightarrow> ('d, string \<times> error option) dop" where
  "ConfirmedCommit L S D sd message confirmed timeout persist persistid debug =
    (case newCommitInfo confirmed timeout persist persistid of
       Inl e \<Rightarrow> ret ([], Some e)
     | Inr cmt \<Rightarrow>
         accountCmdWrap S D (newCommandArgsForAaa L S D ''commit'' (comment_args message) [])
           (confirmedCommitInternal L S D sd message debug 0 (Some cmt) False))"

subsection \<open>The timeout\<close>

lemma unat_of_seconds: "n < 2 ^ 32 \<Longrightarrow> unat (of_nat n :: 32 word) = n"
  by (simp add: unat_of_nat)

text \<open>C24. Timeouts survive the way to the script. A timeout is accepted exactly when it is
  absent or the decimal text of a number from 1 to \<open>2 ^ 32 - 1\<close>, an absent one
  means 600 seconds, and the script that schedules the revert is started with the
  very number of seconds that the client wrote.\<close>

theorem confirmed_timeout_roundtrip:
  assumes "0 < n" and "n < 2 ^ 32"
  shows "((\<exists>c. newCommitInfo cf t p i = Inr c) \<longleftrightarrow>
           t = [] \<or> (\<exists>k. 0 < k \<and> k < 2 ^ 32 \<and> ParseUint t 10 32 = Inr k))
    \<and> (\<exists>c. newCommitInfo cf [] p i = Inr c \<and> unat (ci_timeout c) = 600)
    \<and> (\<exists>c. newCommitInfo cf (format_uint 10 n) p i = Inr c
         \<and> ''--seconds='' @ format_uint 10 n \<in> set (arguments c session))"
proof -
  have "ParseUint (format_uint 10 n) 10 32 = Inr n"
    using assms by (simp add: ParseUint_format)
  then have "\<exists>c. newCommitInfo cf (format_uint 10 n) p i = Inr c
         \<and> ''--seconds='' @ format_uint 10 n \<in> set (arguments c session)"
    using assms by (simp add: newCommitInfo_def Let_def arguments_def unat_of_seconds)
  moreover have "(\<exists>c. newCommitInfo cf t p i = Inr c) \<longleftrightarrow>
           t = [] \<or> (\<exists>k. 0 < k \<and> k < 2 ^ 32 \<and> ParseUint t 10 32 = Inr k)"
    by (auto simp: newCommitInfo_def Let_def dest: ParseUint_bound split: sum.splits)
  ultimately show ?thesis by (simp add: newCommitInfo_def Let_def DefaultTimeout_def)
qed

theorem confirmed_timeout_roundtrip_witness:
  "(\<exists>c. newCommitInfo True (format_uint 10 4294967295) [] [] = Inr c
      \<and> ''--seconds='' @ format_uint 10 4294967295 \<in> set (arguments c ''12''))
   \<and> newCommitInfo True ''4294967296'' [] [] = Inl (InvalidValueProtocolError
        (NumError ''4294967296'' ErrRange))
   \<and> \<not> is_ok (newCommitInfo True ''0'' [] [])"
proof -
  have "newCommitInfo True ''4294967296'' [] [] = Inl (InvalidValueProtocolError
        (NumError ''4294967296'' ErrRange))" and "\<not> is_ok (newCommitInfo True ''0'' [] [])"
    by (simp_all add: newCommitInfo_def Let_def ParseUint_def digit_val_def)
  then show ?thesis
    using confirmed_timeout_roundtrip [of 4294967295 True "[]" "[]" "[]" "''12''"] by simp
qed

subsection \<open>Who may commit while a confirmed commit is pending\<close>

lemma run_logEvent:
  "\<exists>evs. run_state (logEvent pfx msg) (d, es) = ((), d\<lparr>dw_log := dw_log d @ evs\<rparr>, es)
    \<and> list_all (\<lambda>e. \<exists>m. e = EvWlog m) evs"
  by (cases "first_line (split_on CHR 0x0A msg)") (auto simp: logEvent_def intro: exI [of _ "[]"])

lemma run_run_mgmt [simp, run_simps]:
  "run_state (run_mgmt S args) (d, es) =
    (let r = CombinedOutput S d (mgmt_pl # args)
     in (if snd r then ([], Some (failed_with (fst r))) else (fst r, None)),
     d\<lparr>dw_log := dw_log d @ [EvSpawn (mgmt_pl # args)]\<rparr>, es)"
  by (simp add: run_mgmt_def Let_def split_def)

definition may_proceed :: "ConfirmedCommitInfo \<Rightarrow> string \<Rightarrow> commitInfo option \<Rightarrow> bool \<Rightarrow> bool" where
  "may_proceed info pd cmt revert \<longleftrightarrow>
    Session info = [] \<or> revert \<or>
    (\<exists>c. cmt = Some c \<and> PersistId info = ci_persistId c \<and> (ci_persistId c = [] \<longrightarrow> Session info = pd))"

definition confirms :: "ConfirmedCommitInfo \<Rightarrow> string \<Rightarrow> commitInfo option \<Rightarrow> bool \<Rightarrow> bool" where
  "confirms info pd cmt revert \<longleftrightarrow>
    Session info \<noteq> [] \<and> may_proceed info pd cmt revert \<and>
    (revert \<or> (\<exists>c. cmt = Some c \<and> \<not> ci_confirmed c))"

lemma pending_commit_run:
  "\<exists>confirming err evs.
     run_state (performConfirmingCommitIfRequired S pd cmt revert) (d, es)
       = ((confirming, err), d\<lparr>dw_log := dw_log d @ evs\<rparr>, es)
     \<and> (err = None) = may_proceed (getConfirmedCommitInfo S d) pd cmt revert
     \<and> confirming = confirms (getConfirmedCommitInfo S d) pd cmt revert
     \<and> (EvSpawn [mgmt_pl, ''--action=confirming-commit''] \<in> set evs) = confirming
     \<and> (err = None \<or> evs = [])"
proof -
  let ?i = "getConfirmedCommitInfo S d"
  note defs = performConfirmingCommitIfRequired_def may_proceed_def confirms_def ConfirmingCommit_def
    logConfirmedCommitEvent_def
  consider "Session ?i = []" | "Session ?i \<noteq> []" "revert" | "Session ?i \<noteq> []" "\<not> revert" "cmt = None"
    | c where "Session ?i \<noteq> []" "\<not> revert" "cmt = Some c" by (cases cmt) auto
  then show ?thesis
  proof cases
    case (4 c)
    consider "PersistId ?i \<noteq> ci_persistId c"
      | "PersistId ?i = ci_persistId c" "ci_persistId c = []" "Session ?i \<noteq> pd"
      | "PersistId ?i = ci_persistId c" "ci_persistId c \<noteq> [] \<or> Session ?i = pd" by blast
    then show ?thesis
    proof cases
      case 1
      then show ?thesis using 4
        by (intro exI [of _ False] exI exI [of _ "[]"]) (auto simp: defs)
    next
      case 2
      then show ?thesis using 4
        by (intro exI [of _ False] exI exI [of _ "[]"]) (auto simp: defs)
    next
      case 3
      obtain evs where l: "run_state (logEvent ''Confirmed Commit''
          ((if ci_confirmed c then ''Follow-up commit: persist-id [''
            else ''Confirming pending confirmed commit: persist-id ['') @ PersistId ?i @ '']'')) (d, es)
          = ((), d\<lparr>dw_log := dw_log d @ evs\<rparr>, es)" "list_all (\<lambda>e. \<exists>m. e = EvWlog m) evs"
        using run_logEvent by blast
      then have n: "EvSpawn x \<notin> set evs" for x by (auto simp: list_all_iff)
      show ?thesis
      proof (cases "ci_confirmed c")
        case True
        then show ?thesis using 4 3 l n
          by (intro exI [of _ False] exI [of _ None] exI [of _ evs]) (auto simp: defs)
      next
        case False
        then show ?thesis using 4 3 l n
          by (intro exI [of _ True] exI [of _ None]
              exI [of _ "evs @ [EvSpawn [mgmt_pl, ''--action=confirming-commit'']]"])
            (auto simp: defs Let_def)
      qed
    qed
  next
    case 1
    then show ?thesis by (intro exI [of _ False] exI [of _ None] exI [of _ "[]"]) (simp add: defs)
  next
    case 2
    then show ?thesis
      by (intro exI [of _ True] exI [of _ None] exI [of _ "[EvSpawn [mgmt_pl, ''--action=confirming-commit'']]"])
        (simp add: defs Let_def)
  next
    case 3
    then show ?thesis by (intro exI [of _ False] exI exI [of _ "[]"]) (auto simp: defs)
  qed
qed

text \<open>C22. The rule for commits while a confirmed commit is pending. The commit goes
  ahead exactly when nothing is pending, when it is the revert itself, or when it
  carries the pending commit's persist-id and, if that is empty, comes from the
  process that made the pending commit. It confirms the pending commit exactly
  when it may go ahead and is a revert or is not itself a confirmed commit, and only then
  is the script told so. A refused commit causes no external action.\<close>

theorem pending_commit_rule:
  "\<exists>confirming err evs.
     run_state (performConfirmingCommitIfRequired S pd cmt revert) (d, es)
       = ((confirming, err), d\<lparr>dw_log := dw_log d @ evs\<rparr>, es)
     \<and> (err = None) = may_proceed (getConfirmedCommitInfo S d) pd cmt revert
     \<and> confirming = confirms (getConfirmedCommitInfo S d) pd cmt revert
     \<and> (EvSpawn [mgmt_pl, ''--action=confirming-commit''] \<in> set evs) = confirming
     \<and> (err = None \<or> evs = [])"
  by (rule pending_commit_run)

text \<open>C23. A blocked commit has no effect. While a confirmed commit of another client is
  pending, a commit that may not go ahead returns an error and leaves the whole
  state as it was: sessions, running and effective trees, and the outside world.\<close>

theorem blocked_commit_changes_nothing:
  assumes "\<not> may_proceed (getConfirmedCommitInfo S d) (Itoa (Pid (d_ctx D))) cmt revert"
  shows "\<exists>e. run_state (confirmedCommitInternal L S D sd message debug ct cmt revert) (d, es) = (([], Some e), d, es)"
proof (cases "mgr_Get (d_ctx D) sd (Some (dw_mgr d))")
  case (Inl e)
  then show ?thesis by (simp add: confirmedCommitInternal_def)
next
  case (Inr s)
  obtain confirming err evs where r:
    "run_state (performConfirmingCommitIfRequired S (Itoa (Pid (d_ctx D))) cmt revert) (d, es)
       = ((confirming, err), d\<lparr>dw_log := dw_log d @ evs\<rparr>, es)"
    "(err = None) = may_proceed (getConfirmedCommitInfo S d) (Itoa (Pid (d_ctx D))) cmt revert"
    "err = None \<or> evs = []"
    using pending_commit_run [of S "Itoa (Pid (d_ctx D))" cmt revert d es] by blast
  then show ?thesis using Inr assms by (auto simp: confirmedCommitInternal_def)
qed

definition pending_sys :: "string \<Rightarrow> string \<Rightarrow> bool \<Rightarrow> dtree sys" where
  "pending_sys js jp failing = demo_sys\<lparr>read_job := (\<lambda>d. if js = [] then None else Some (js, jp)),
     CombinedOutput := (\<lambda>d cmd. if failing \<and> hd cmd = mgmt_pl then (''no space'', True) else (''done'', False))\<rparr>"

theorem blocked_commit_changes_nothing_witness:
  "\<exists>e. run_state (confirmedCommitInternal sample (pending_sys ''99'' [] False) (demo_disp True) ''s1'' [] False 0
      None False) (demo_dworld, []) = (([], Some e), demo_dworld, [])"
proof -
  have n: "\<not> may_proceed (getConfirmedCommitInfo (pending_sys ''99'' [] False) demo_dworld)
      (Itoa (Pid (d_ctx (demo_disp True)))) None False"
    by (simp add: may_proceed_def getConfirmedCommitInfo_def pending_sys_def)
  show ?thesis by (rule blocked_commit_changes_nothing [OF n])
qed

text \<open>A confirmed commit whose revert could not be scheduled is reported as a
  success. Once the configuration is committed and saved, a failure of the script
  that schedules the revert is dropped: the client gets the normal output and no
  error, although nothing will undo the commit if it is not confirmed.\<close>

lemma revert_not_scheduled_is_silent:
  assumes "ci_confirmed c"
    and "run_state (Save L S D) (d, es) = ((True, e0), d1, es1)"
    and "CombinedOutput S d1 (mgmt_pl # arguments c (Itoa (Pid (d_ctx D)))) = (out, True)"
  shows "run_state (after_commit L S D ct (Some c) text) (d, es) =
    ((text, None), d1\<lparr>dw_log := dw_log d1 @ [EvSpawn (mgmt_pl # arguments c (Itoa (Pid (d_ctx D))))]\<rparr>, es1)"
  using assms by (simp add: after_commit_def setConfirmedCommitTimeout_def Let_def)

lemma revert_not_scheduled_is_silent_witness:
  "fst (run_state (after_commit sample (pending_sys [] [] True) (demo_disp True) 0
      (Some \<lparr>ci_confirmed = True, ci_timeout = 600, ci_persist = [], ci_persistId = []\<rparr>) ''out'') (demo_dworld, []))
    = (''out'', None)"
proof -
  let ?c = "\<lparr>ci_confirmed = True, ci_timeout = 600, ci_persist = [], ci_persistId = []\<rparr>"
  let ?S = "pending_sys [] [] True"
  let ?r = "run_state (Save sample ?S (demo_disp True)) (demo_dworld, [])"
  have s: "fst (fst ?r)" by code_simp
  have sv: "?r = ((True, snd (fst ?r)), fst (snd ?r), snd (snd ?r))"
    using s by (cases ?r) (auto simp: prod_eq_iff)
  have out: "CombinedOutput ?S (fst (snd ?r)) (mgmt_pl # arguments ?c (Itoa (Pid (d_ctx (demo_disp True)))))
      = (''no space'', True)"
    by (simp add: pending_sys_def)
  show ?thesis
    using revert_not_scheduled_is_silent [OF _ sv out, of 0 "''out''"] by simp
qed

end
