(* ===== verification/Disp_Edit.thy ===== *)
theory Disp_Edit
  imports Confirmed_Commit
begin

text \<open>
  The handlers of \<open>server/dispatcher.go\<close> and \<open>server/config_mgmt.go\<close> that change a
  session: set, delete, load, merge, validate, edit-config, copy-config and
  rollback. A reader over a user process is the text the process writes; a
  process that fails makes the load fail with its error.
\<close>

subsection \<open>Set and delete\<close>

definition normalizePath :: "'d libs \<Rightarrow> disp \<Rightarrow> path \<Rightarrow> path result" where
  "normalizePath L D ps = schema_NormalizePath L (d_ms D) ps"

definition authDelete :: "'d libs \<Rightarrow> disp \<Rightarrow> path \<Rightarrow> bool" where
  "authDelete L D p = AuthorizeDelete (Auth (d_ctx D)) (Uid (d_ctx D)) (Groups (d_ctx D)) p
     (schema_AttrsForPath L (d_msFull D) p)"

definition setInternal :: "'d libs \<Rightarrow> 'd sys \<Rightarrow> disp \<Rightarrow> string \<Rightarrow> path \<Rightarrow> ('d, string \<times> error option) dop" where
  "setInternal L S D sd ps = with_sess (d_ctx D) sd (\<lambda>e. ([], Some e))
     (do { e \<leftarrow> Session_Set L (d_ctx D) ps;
           ret (case e of
                  Some err \<Rightarrow> ([], Some (FormatConfigPathErrorMultiline (mg S) (Some err)))
                | None \<Rightarrow> ([], None)) })"

definition Set :: "'d libs \<Rightarrow> 'd sys \<Rightarrow> disp \<Rightarrow> string \<Rightarrow> string \<Rightarrow> ('d, string \<times> error option) dop" where
  "Set L S D sd p =
    (case normalizePath L D (Makepath (mg S) p) of
       Inl e \<Rightarrow> ret ([], Some (FormatConfigPathErrorMultiline (mg S) (Some e)))
     | Inr ps \<Rightarrow> authorised S D (newCommandArgsForAaa L S D ''set'' [] ps) [] (setInternal L S D sd ps))"

definition deleteInternal :: "'d libs \<Rightarrow> 'd sys \<Rightarrow> disp \<Rightarrow> string \<Rightarrow> path \<Rightarrow> ('d, bool \<times> error option) dop" where
  "deleteInternal L S D sd ps =
    (if \<not> authDelete L D ps then ret (False, Some (AccessDeniedApplicationError None))
     else with_sess (d_ctx D) sd (\<lambda>e. (False, Some e))
       (do { e \<leftarrow> Session_Delete L (d_ctx D) ps;
             ret (case e of
                    Some err \<Rightarrow> (False, Some (FormatConfigPathErrorMultiline (mg S) (Some err)))
                  | None \<Rightarrow> (True, None)) }))"

definition Delete :: "'d libs \<Rightarrow> 'd sys \<Rightarrow> disp \<Rightarrow> string \<Rightarrow> string \<Rightarrow> ('d, bool \<times> error option) dop" where
  "Delete L S D sd p =
    (let ps = Makepath (mg S) p
     in authorised S D (newCommandArgsForAaa L S D ''delete'' [] ps) False (deleteInternal L S D sd ps))"

definition not_supported :: "'a \<Rightarrow> ('d, 'a \<times> error option) dop" where
  "not_supported z = ret (z, Some (OperationNotSupportedApplicationError []))"

definition Rename :: "string \<Rightarrow> string \<Rightarrow> string \<Rightarrow> ('d, bool \<times> error option) dop" where
  "Rename sd fpath tpath = not_supported False"

definition Copy :: "string \<Rightarrow> string \<Rightarrow> string \<Rightarrow> ('d, bool \<times> error option) dop" where
  "Copy sd fpath tpath = not_supported False"

definition Comment :: "string \<Rightarrow> string \<Rightarrow> ('d, bool \<times> error option) dop" where
  "Comment sd p = not_supported False"

subsection \<open>Load and merge\<close>

definition loadReportWarningsReader ::
  "'d libs \<Rightarrow> 'd sys \<Rightarrow> disp \<Rightarrow> string \<Rightarrow> string \<Rightarrow> string option \<Rightarrow> ('d, bool \<times> error option) dop" where
  "loadReportWarningsReader L S D sd file r = with_sess (d_ctx D) sd (\<lambda>e. (False, Some e))
     (do { resp \<leftarrow> Session_Load L (d_ctx D) file r;
           ret (case load_of resp of
                  (Some err, _) \<Rightarrow> (False, Some err)
                | (None, warns) \<Rightarrow> (True, FormatWarnings (mg S) warns)) })"

definition LoadReportWarnings :: "'d libs \<Rightarrow> 'd sys \<Rightarrow> disp \<Rightarrow> string \<Rightarrow> string \<Rightarrow> ('d, bool \<times> error option) dop" where
  "LoadReportWarnings L S D sd file =
    authorised S D (newCommandArgsForAaa L S D ''load'' [file] []) False (loadReportWarningsReader L S D sd file None)"

definition suppress_warnings :: "('d, bool \<times> error option) dop \<Rightarrow> ('d, bool \<times> error option) dop" where
  "suppress_warnings m = do { (ok, errOrWarns) \<leftarrow> m; ret (if ok then (ok, None) else (ok, errOrWarns)) }"

definition Load :: "'d libs \<Rightarrow> 'd sys \<Rightarrow> disp \<Rightarrow> string \<Rightarrow> string \<Rightarrow> ('d, bool \<times> error option) dop" where
  "Load L S D sd file = suppress_warnings (LoadReportWarnings L S D sd file)"

definition mergeReportWarningsInternal ::
  "'d libs \<Rightarrow> 'd sys \<Rightarrow> disp \<Rightarrow> string \<Rightarrow> string \<Rightarrow> ('d, bool \<times> error option) dop" where
  "mergeReportWarningsInternal L S D sd file = with_sess (d_ctx D) sd (\<lambda>e. (False, Some e))
     (do { resp \<leftarrow> Session_Merge L (d_ctx D) file;
           ret (case load_of resp of
                  (Some err, _) \<Rightarrow> (False, Some err)
                | (None, warns) \<Rightarrow> (True, FormatWarnings (mg S) warns)) })"

definition MergeReportWarnings :: "'d libs \<Rightarrow> 'd sys \<Rightarrow> disp \<Rightarrow> string \<Rightarrow> string \<Rightarrow> ('d, bool \<times> error option) dop" where
  "MergeReportWarnings L S D sd file =
    authorised S D (cfgMgmtCommandArgs L S D ''merge'' file [] []) False (mergeReportWarningsInternal L S D sd file)"

definition Merge :: "'d libs \<Rightarrow> 'd sys \<Rightarrow> disp \<Rightarrow> string \<Rightarrow> string \<Rightarrow> ('d, bool \<times> error option) dop" where
  "Merge L S D sd file = suppress_warnings (MergeReportWarnings L S D sd file)"

text \<open>\<open>userProcessReader\<close>: the text of the process, or the error its pipe is closed with.\<close>

definition read_process :: "'d sys \<Rightarrow> string list \<Rightarrow> ('d, string result) dop" where
  "read_process S cmd = do {
     (out, stderr, failed) \<leftarrow> dgets (\<lambda>d. Output_of S d cmd);
     err \<leftarrow> dgets (\<lambda>d. spawn_error S d cmd);
     demit (EvSpawn cmd);
     ret (case handleCallerCommandError stderr (if failed then Some err else None) of
            Some e \<Rightarrow> Inl e | None \<Rightarrow> Inr out) }"

definition loadFromInternal ::
  "'d libs \<Rightarrow> 'd sys \<Rightarrow> disp \<Rightarrow> string \<Rightarrow> string \<Rightarrow> string \<Rightarrow> bool \<Rightarrow> ('d, bool \<times> error option) dop" where
  "loadFromInternal L S D sd source routingInstance local =
    (if local then do {
       let cfgFile = parseLocalPath source;
       bad \<leftarrow> dgets (validLocalConfigPath S D cfgFile);
       (case bad of
          Some e \<Rightarrow> ret (False, Some e)
        | None \<Rightarrow> loadReportWarningsReader L S D sd cfgFile None) }
     else do {
       got \<leftarrow> dgets (\<lambda>d. mgr_Get (d_ctx D) sd (Some (dw_mgr d)));
       (case got of
          Inl e \<Rightarrow> ret (False, Some e)
        | Inr _ \<Rightarrow> do {
            txt \<leftarrow> read_process S (newUserRemoteFileReader D source routingInstance);
            (case txt of
               Inl e \<Rightarrow> ret (False, Some e)
             | Inr t \<Rightarrow> loadReportWarningsReader L S D sd [] (Some t)) }) })"

definition LoadFrom :: "'d libs \<Rightarrow> 'd sys \<Rightarrow> disp \<Rightarrow> string \<Rightarrow> string \<Rightarrow> string \<Rightarrow> ('d, bool \<times> error option) dop" where
  "LoadFrom L S D sd source routingInstance =
    (case parseMgmtURI S source of
       Inl e \<Rightarrow> ret (False, Some e)
     | Inr (local, redactedSource) \<Rightarrow>
         let args = cfgMgmtCommandArgs L S D ''load'' redactedSource routingInstance []
         in if \<not> authCommand D args then ret (False, Some (AccessDeniedApplicationError None))
            else do {
              (if \<not> Configd (d_ctx D) then
                 demit (EvWlog (''Load config ['' @ redactedSource @ ''] by '' @ User (d_ctx D)))
               else ret ());
              accountCmdWrap S D args (loadFromInternal L S D sd source routingInstance local) })"

subsection \<open>Validate\<close>

definition validate_text :: "exec_output list \<Rightarrow> string" where
  "validate_text outs = concat (map (\<lambda>x. Sprint_path (case o_path x of Some p \<Rightarrow> p | None \<Rightarrow> []) @ nl @ o_text x @ nl) outs)"

definition validateInternal :: "'d libs \<Rightarrow> disp \<Rightarrow> string \<Rightarrow> ('d, string \<times> error option) dop" where
  "validateInternal L D sd = with_sess (d_ctx D) sd (\<lambda>e. ([], Some e))
     (do { resp \<leftarrow> Session_Validate L (d_ctx D);
           let r = commit_of resp;
           ret (if cr_ok r then (validate_text (cr_out r), None) else ([], Some (MgmtErrorList (cr_err r)))) })"

definition Validate :: "'d libs \<Rightarrow> 'd sys \<Rightarrow> disp \<Rightarrow> string \<Rightarrow> ('d, string \<times> error option) dop" where
  "Validate L S D sd = accountCmdWrap S D (newCommandArgsForAaa L S D ''validate'' [] []) (validateInternal L D sd)"

definition validateConfigInternal ::
  "'d libs \<Rightarrow> 'd sys \<Rightarrow> disp \<Rightarrow> string \<Rightarrow> string \<Rightarrow> ('d, string \<times> error option) dop" where
  "validateConfigInternal L S D encoding cfg = do {
     let sn = ''VALIDATE'' @ Itoa (Pid (d_ctx D));
     (_, err) \<leftarrow> SessionSetup L D sn;
     (case err of
        Some e \<Rightarrow> ret ([], Some e)
      | None \<Rightarrow> do {
          e2 \<leftarrow> with_ro D CANDIDATE sn Some
            (do { r \<leftarrow> Session_CopyConfig L (d_ctx D) [] encoding cfg [] ''candidate'' []; ret (err_of r) });
          r \<leftarrow> (case e2 of Some e \<Rightarrow> ret ([], Some e) | None \<Rightarrow> Validate L S D sn);
          _ \<leftarrow> SessionTeardown D sn;
          ret r }) }"

definition ValidateConfig :: "'d libs \<Rightarrow> 'd sys \<Rightarrow> disp \<Rightarrow> string \<Rightarrow> string \<Rightarrow> ('d, string \<times> error option) dop" where
  "ValidateConfig L S D encoding cfg =
    accountCmdWrap S D (newCommandArgsForAaa L S D ''validate'' [] []) (validateConfigInternal L S D encoding cfg)"

subsection \<open>edit-config and copy-config\<close>

definition EditConfigXML ::
  "'d libs \<Rightarrow> disp \<Rightarrow> string \<Rightarrow> string \<Rightarrow> string \<Rightarrow> string \<Rightarrow> string \<Rightarrow> string \<Rightarrow> ('d, string \<times> error option) dop" where
  "EditConfigXML L D sd target defop testopt erropt cfg = with_sess (d_ctx D) sd (\<lambda>e. ([], Some e))
     (do { r \<leftarrow> Session_EditConfigXML L (d_ctx D) target defop testopt erropt cfg; ret ([], err_of r) })"

definition copyConfigInternal ::
  "'d libs \<Rightarrow> disp \<Rightarrow> string \<Rightarrow> string \<Rightarrow> string \<Rightarrow> string \<Rightarrow> string \<Rightarrow> string \<Rightarrow> string
    \<Rightarrow> ('d, string \<times> error option) dop" where
  "copyConfigInternal L D sd sds senc scfg surl tds turl = with_sess (d_ctx D) sd (\<lambda>e. ([], Some e))
     (do { r \<leftarrow> Session_CopyConfig L (d_ctx D) sds senc scfg surl tds turl; ret ([], err_of r) })"

definition CopyConfig ::
  "'d libs \<Rightarrow> 'd sys \<Rightarrow> disp \<Rightarrow> string \<Rightarrow> string \<Rightarrow> string \<Rightarrow> string \<Rightarrow> string \<Rightarrow> string \<Rightarrow> string
    \<Rightarrow> ('d, string \<times> error option) dop" where
  "CopyConfig L S D sd sds senc scfg surl tds turl =
    (let args = cfgMgmtCommandArgs L S D ''load'' ''copy-config'' [] senc
     in if \<not> authCommand D args then ret ([], Some (AccessDeniedApplicationError None))
        else do {
          (if \<not> Configd (d_ctx D) then demit (EvWlog (''copy-config by '' @ User (d_ctx D))) else ret ());
          accountCmdWrap S D args (copyConfigInternal L D sd sds senc scfg surl tds turl) })"

subsection \<open>Rollback\<close>

fun number_from :: "nat \<Rightarrow> 'a list \<Rightarrow> (nat \<times> 'a) list" where
  "number_from n [] = []"
| "number_from n (x # xs) = (n, x) # number_from (Suc n) xs"

definition GetCommitLog :: "'d sys \<Rightarrow> ('d, (string \<times> string) list \<times> error option) dop" where
  "GetCommitLog S = do {
     let cmd = [mgmt_pl, ''--action=show-commit-log-brief''];
     (out, _, failed) \<leftarrow> dgets (\<lambda>d. Output_of S d cmd);
     err \<leftarrow> dgets (\<lambda>d. spawn_error S d cmd);
     demit (EvSpawn cmd);
     ret (if failed then ([], Some err)
          else (map (\<lambda>(i, v). (Itoa (int i), map (\<lambda>c. if c = CHR ''_'' then CHR '' '' else c) v))
                  (filter (\<lambda>(i, v). v \<noteq> []) (number_from 0 (split_on CHR '' '' out))), None)) }"

definition configRevisionFileName :: "string \<Rightarrow> string" where
  "configRevisionFileName revision =
    (if revision = ''saved'' then ''/config/config.boot''
     else ''/config/archive/config.boot.'' @ revision @ ''.gz'')"

definition newInvalidConfigRevisionError :: "string \<Rightarrow> error" where
  "newInvalidConfigRevisionError revision = failed_with (''Invalid revision ['' @ revision @ '']'')"

definition loadArchivedConfig :: "'d libs \<Rightarrow> 'd sys \<Rightarrow> disp \<Rightarrow> string \<Rightarrow> string \<Rightarrow> ('d, error option) dop" where
  "loadArchivedConfig L S D sd revision = do {
     let file = configRevisionFileName revision;
     txt \<leftarrow> dgets (\<lambda>d. read_file S d file);
     (case txt of
        Inl e \<Rightarrow> do { logRollbackError S e; ret (Some e) }
      | Inr t \<Rightarrow> do {
          (ok, err) \<leftarrow> loadReportWarningsReader L S D sd file (Some t);
          if ok then ret None
          else do {
            (case err of Some e \<Rightarrow> logRollbackError S e | None \<Rightarrow> ret ());
            ret err } }) }"

definition rollbackCommandAuthArgs :: "'d libs \<Rightarrow> 'd sys \<Rightarrow> disp \<Rightarrow> string \<Rightarrow> string \<Rightarrow> commandArgs option" where
  "rollbackCommandAuthArgs L S D revn cmnt =
    newCommandArgsForAaa L S D (if revn = ''revert'' then ''cancel-commit'' else ''rollback'')
      ((if revn = ''revert'' then [] else [revn]) @ comment_args cmnt) []"

definition rollback_fail :: "'d sys \<Rightarrow> error \<Rightarrow> ('d, string \<times> error option) dop" where
  "rollback_fail S e = do { logRollbackError S e; ret ([], Some e) }"

text \<open>The check that there is something to roll back to.\<close>

definition rollback_check :: "'d sys \<Rightarrow> string \<Rightarrow> ('d, error option) dop" where
  "rollback_check S revision =
    (if revision \<noteq> ''revert'' then do {
       (log, _) \<leftarrow> GetCommitLog S;
       (case map_of log revision of
          None \<Rightarrow> do {
            logRollbackError S (newInvalidConfigRevisionError revision);
            ret (Some (newInvalidConfigRevisionError revision)) }
        | Some v \<Rightarrow> do {
            logConfirmedCommitEvent (''Reverting confirmed-commit revision '' @ revision @ '' ['' @ v @ ''] from archive'');
            ret None }) }
     else do {
       st \<leftarrow> dgets (\<lambda>d. os_Stat S d (configRevisionFileName revision));
       ret (if st = NotExist then Some (failed_with (''No pending confirmed commit to cancel'' @ nl)) else None) })"

definition rollback_commit ::
  "'d libs \<Rightarrow> 'd sys \<Rightarrow> disp \<Rightarrow> string \<Rightarrow> string \<Rightarrow> string \<Rightarrow> bool \<Rightarrow> ('d, string \<times> error option) dop" where
  "rollback_commit L S D sd revision cmnt debug = do {
     (changed2, e2) \<leftarrow> SessionChanged L D sd;
     (case e2 of
        Some e \<Rightarrow> rollback_fail S e
      | None \<Rightarrow>
          if changed2 then do {
            (out, err) \<leftarrow> commitInternal L S D sd cmnt debug 0 (revision = ''revert'');
            let retStr = (if out \<noteq> [] then out @ nl else []);
            (case err of
               Some e \<Rightarrow> do { logRollbackError S e; ret (retStr, Some e) }
             | None \<Rightarrow> do { logRollbackEvent ''Completed successfully''; ret (retStr, None) }) }
          else do { logRollbackEvent ''Completed successfully''; ret ([], None) }) }"

definition rollbackInternal ::
  "'d libs \<Rightarrow> 'd sys \<Rightarrow> disp \<Rightarrow> string \<Rightarrow> string \<Rightarrow> string \<Rightarrow> bool \<Rightarrow> ('d, string \<times> error option) dop" where
  "rollbackInternal L S D sd revision cmnt debug = do {
     _ \<leftarrow> ConfirmSilent S;
     logRollbackEvent ''Commit/Rollback operation - any pending rollback cancelled.'';
     (changed1, e1) \<leftarrow> SessionChanged L D sd;
     (case e1 of
        Some e \<Rightarrow> rollback_fail S e
      | None \<Rightarrow>
          if changed1 then rollback_fail S (failed_with
            (''Cannot rollback: configuration modified.'' @ nl @ ''Commit or discard the changes before rollback.''))
          else do {
            bad \<leftarrow> rollback_check S revision;
            (case bad of
               Some e \<Rightarrow> ret ([], Some e)
             | None \<Rightarrow> do {
                 e \<leftarrow> loadArchivedConfig L S D sd revision;
                 (case e of
                    Some err \<Rightarrow> ret ([], Some err)
                  | None \<Rightarrow> rollback_commit L S D sd revision cmnt debug) }) }) }"

definition Rollback ::
  "'d libs \<Rightarrow> 'd sys \<Rightarrow> disp \<Rightarrow> string \<Rightarrow> string \<Rightarrow> string \<Rightarrow> bool \<Rightarrow> ('d, string \<times> error option) dop" where
  "Rollback L S D sd revision cmnt debug =
    authorised S D (rollbackCommandAuthArgs L S D revision cmnt) []
      (rollbackInternal L S D sd revision cmnt debug)"

definition cancel_refused :: "ConfirmedCommitInfo \<Rightarrow> string \<Rightarrow> string \<Rightarrow> error option" where
  "cancel_refused info persistid pd =
    (if Session info = [] then Some (failed_with ''No confirmed commit pending'')
     else if PersistId info \<noteq> persistid then
       Some (InvalidValueProtocolError ''persist-id does not match pending confirmed commit'')
     else if PersistId info = [] \<and> Session info \<noteq> pd then
       Some (AccessDeniedApplicationError (Some ''Pending confirmed commit initiated by another session''))
     else None)"

definition CancelCommit ::
  "'d libs \<Rightarrow> 'd sys \<Rightarrow> disp \<Rightarrow> string \<Rightarrow> string \<Rightarrow> string \<Rightarrow> bool \<Rightarrow> bool \<Rightarrow> ('d, string \<times> error option) dop" where
  "CancelCommit L S D sd cmnt persistid force debug = do {
     info \<leftarrow> dgets (getConfirmedCommitInfo S);
     (case (if force then None else cancel_refused info persistid (Itoa (Pid (d_ctx D)))) of
        Some e \<Rightarrow> ret ([], Some e)
      | None \<Rightarrow> do {
          logConfirmedCommitEvent (''Cancelling pending confirmed-commit with persist-id ['' @ PersistId info @ '']'');
          Rollback L S D sd ''revert'' cmnt debug }) }"

definition ExtractArchive :: "'d sys \<Rightarrow> string \<Rightarrow> string \<Rightarrow> ('d, string \<times> error option) dop" where
  "ExtractArchive S revision destination =
    run_mgmt S [''--action=extract-archive'', ''--revnum='' @ revision, ''--dest='' @ destination]"

definition disp_SetConfigDebug :: "LogType list \<Rightarrow> string \<Rightarrow> string \<Rightarrow> ('d, string \<times> error option) dop" where
  "disp_SetConfigDebug order logName lvl = do {
     st \<leftarrow> dgets dw_dbg;
     (case SetConfigDebug order st logName lvl of
        (r, st') \<Rightarrow> do { dmodify (\<lambda>d. d\<lparr>dw_dbg := st'\<rparr>); ret r }) }"

end
