(* ===== verification/Disp_Guard.thy ===== *)
theory Disp_Guard
  imports Disp_Edit
begin

text \<open>
  The session lock seen from outside: whatever calls other clients make through
  the dispatcher, a session that a process has locked stays in the table exactly
  as it is. The calls that replace the candidate through \<open>load\<close> are left out, since they do
  not ask for the lock first.
\<close>

subsection \<open>The relation\<close>

definition dguard :: "pid \<Rightarrow> string \<Rightarrow> 'd dst \<Rightarrow> 'd dst \<Rightarrow> bool" where
  "dguard K sd s s' \<longleftrightarrow> (effs_ok (lock_guard K) (snd s) \<longrightarrow>
     effs_ok (lock_guard K) (snd s') \<and>
     (\<forall>x. mg_sessions (dw_mgr (fst s)) sd = Some x \<and> lpid x = K \<and> \<not> terminated x \<longrightarrow>
        mg_sessions (dw_mgr (fst s')) sd = Some x))"

interpretation dguard: frame_rel "dguard K sd" for K sd
  by unfold_locales (auto simp: dguard_def)

named_theorems dguard_intros \<open>handlers that leave a session locked by another process alone\<close>

lemmas dguard_steps [dguard_intros] = dguard.steps_ok

lemma dguard_prims [dguard_intros]:
  "keeps (dguard K sd) (dgets f)" "keeps (dguard K sd) (demit ev)" "keeps (dguard K sd) (spawn S cmd)"
proof -
  show g: "keeps (dguard K sd) (dgets f)" for f by (simp add: dgets_def)
  show e: "keeps (dguard K sd) (demit ev)" for ev
    by (rule keepsI) (auto simp: dguard_def demit_def dmodify_def split: prod.split)
  show "keeps (dguard K sd) (spawn S cmd)"
    unfolding spawn_def by (intro dguard.bind_ok dguard.ret_ok e g)
qed

lemma dguard_dmodify:
  "(\<And>d. dw_mgr (f d) = dw_mgr d) \<Longrightarrow> keeps (dguard K sd) (dmodify f)"
  by (rule keepsI) (auto simp: dguard_def dmodify_def split: prod.split)

lemma unfocus_other:
  assumes "sd \<noteq> ''EFFECTIVE''"
  shows "mg_sessions (dw_mgr (unfocus sd' w d)) sd =
    (if sd = sd' then (if terminated (w_sess w) then None else Some (w_sess w)) else mg_sessions (dw_mgr d) sd)"
  using assms by (simp add: unfocus_def Let_def sync_effective_def file_session_def)

lemma dguard_with_sess [dguard_intros]:
  fixes m :: "('d, 'a) op"
  assumes sd: "sd \<noteq> ''EFFECTIVE''" and m: "keeps (framed (lock_guard K)) m"
  shows "keeps (dguard K sd) (with_sess c sd' h m)"
proof (rule keepsI)
  fix s :: "'d dst"
  obtain d es where s: "s = (d, es)" by (cases s)
  show "dguard K sd s (snd (run_state (with_sess c sd' h m) s))"
  proof (cases "mgr_get c sd' (dw_mgr d)")
    case (Inl e)
    then show ?thesis using dguard.refl by (simp add: s)
  next
    case (Inr x)
    obtain a w es' where r: "run_state m (focus d x, es) = (a, w, es')" by (metis prod.exhaust)
    have "framed (lock_guard K) (focus d x, es) (w, es')" using keepsE [OF m r] .
    moreover have "mg_sessions (dw_mgr d) sd' = Some x" using Inr by (simp add: mgr_get_Inr)
    ultimately show ?thesis using Inr r
      by (auto simp: s dguard_def unfocus_other [OF sd] framed_def lock_guard_def focus_def)
  qed
qed

lemma dguard_with_ro [dguard_intros]:
  "sd \<noteq> ''EFFECTIVE'' \<Longrightarrow> keeps (framed (lock_guard K)) m \<Longrightarrow> keeps (dguard K sd) (with_ro D db sd' h m)"
  unfolding with_ro_def by (intro dguard_intros)

lemma dguard_on_mgr:
  assumes "\<And>m x. mg_sessions m sd = Some x \<Longrightarrow> lpid x = K \<Longrightarrow> \<not> terminated x \<Longrightarrow>
      (case f (Some m) of (_, Some m') \<Rightarrow> mg_sessions m' sd = Some x | (_, None) \<Rightarrow> True)"
  shows "keeps (dguard K sd) (on_mgr f)"
proof (rule keepsI)
  fix s :: "'a dst"
  obtain d es where s: "s = (d, es)" by (cases s)
  show "dguard K sd s (snd (run_state (on_mgr f) s))"
    using assms [of "dw_mgr d"]
    by (auto simp: s on_mgr_def dguard_def split: prod.splits option.splits)
qed

lemma dguard_mgr_ops [dguard_intros]:
  assumes "Pid c \<noteq> K" "K \<noteq> 0"
  shows "keeps (dguard K sd) (on_mgr (mgr_Create L c sd' st stf sh))"
    and "keeps (dguard K sd) (on_mgr (mgr_Destroy c sd'))"
proof -
  show "keeps (dguard K sd) (on_mgr (mgr_Create L c sd' st stf sh))"
    by (rule dguard_on_mgr)
      (auto simp: mgr_Create_def mgr_create_def lookup_def Let_def split: option.splits)
  show "keeps (dguard K sd) (on_mgr (mgr_Destroy c sd'))"
    by (rule dguard_on_mgr)
      (use assms in \<open>auto simp: mgr_Destroy_def mgr_destroy_def lookup_def api_locked_def locked_def split: option.splits\<close>)
qed

subsection \<open>Session calls\<close>

lemma guarded_api_call: "keeps (framed (lock_guard K)) m \<Longrightarrow> keeps (framed (lock_guard K)) (api_call z m)"
  unfolding api_call_def by (intro quiet_intros)

lemma guarded_send:
  assumes "Pid (req_ctx r) \<noteq> K" "K \<noteq> 0" "\<not> skips_lock r" "commit_via_callbacks L"
  shows "keeps (framed (lock_guard K)) (send L r z)"
  unfolding send_def by (intro guarded_api_call guarded_processreq assms)

lemma guarded_calls:
  assumes "Pid c \<noteq> K" "K \<noteq> 0" "commit_via_callbacks L"
  shows "keeps (framed (lock_guard K)) (Session_Set L c p)"
    "keeps (framed (lock_guard K)) (Session_Delete L c p)"
    "keeps (framed (lock_guard K)) (Session_Discard L c)"
    "keeps (framed (lock_guard K)) (Session_Show L c p hs sdf)"
    "keeps (framed (lock_guard K)) (Session_Changed L c)"
    "keeps (framed (lock_guard K)) (Session_Saved L c)"
    "keeps (framed (lock_guard K)) (Session_MarkSaved L c b)"
    "keeps (framed (lock_guard K)) (Session_Lock L c)"
    "keeps (framed (lock_guard K)) (Session_Unlock L c)"
    "keeps (framed (lock_guard K)) (Session_Locked L c)"
    "keeps (framed (lock_guard K)) (Session_Validate L c)"
    "keeps (framed (lock_guard K)) (Session_Commit_api L c msg dbg)"
    "keeps (framed (lock_guard K)) (Session_Merge L c file)"
    "keeps (framed (lock_guard K)) (Session_EditConfigXML L c t d0 t0 e0 cfg)"
  unfolding Session_Set_def Session_Delete_def Session_Discard_def Session_Show_def
    Session_Changed_def Session_Saved_def Session_MarkSaved_def Session_Lock_def Session_Unlock_def
    Session_Locked_def Session_Validate_def Session_Commit_api_def Session_Merge_def Session_EditConfigXML_def
  by (intro quiet_intros guarded_api_call guarded_send; use assms in simp)+

subsection \<open>Handlers\<close>

lemmas handler_defs = SessionExists_def session_setup_def SessionTeardown_def SessionChanged_def
  SessionSaved_def session_mark_def SessionLock_def SessionUnlock_def SessionLocked_def discardInternal_def
  Discard_def setInternal_def Set_def deleteInternal_def Delete_def mergeReportWarningsInternal_def
  MergeReportWarnings_def Merge_def suppress_warnings_def validateInternal_def Validate_def EditConfigXML_def
  commit_session_def disp_SetConfigDebug_def

lemma dguard_accountCmdWrap [dguard_intros]:
  "keeps (dguard K sd) fn \<Longrightarrow> keeps (dguard K sd) (accountCmdWrap S D args fn)"
  unfolding accountCmdWrap_def by (intro dguard_intros)

lemma dguard_authorised [dguard_intros]:
  "keeps (dguard K sd) fn \<Longrightarrow> keeps (dguard K sd) (authorised S D args z fn)"
  unfolding authorised_def by (intro dguard_intros)

lemma dguard_logs [dguard_intros]:
  "keeps (dguard K sd) (run_mgmt S args)" "keeps (dguard K sd) (logEvent pfx msg)"
  unfolding run_mgmt_def logEvent_def by (intro dguard_intros)+

lemma dguard_performConfirming [dguard_intros]:
  "keeps (dguard K sd) (performConfirmingCommitIfRequired S pd cmt revert)"
  unfolding performConfirmingCommitIfRequired_def ConfirmingCommit_def logConfirmedCommitEvent_def
  by (intro dguard_intros)

lemma dguard_run_as_caller [dguard_intros]: "keeps (dguard K sd) (run_as_caller S D cmd)"
  unfolding run_as_caller_def by (intro dguard_intros)

lemma dguard_SaveTo:
  assumes "sd \<noteq> ''EFFECTIVE''" "Pid (d_ctx D) \<noteq> K" "K \<noteq> 0" "commit_via_callbacks L"
  shows "keeps (dguard K sd) (SaveTo L S D dest ri)"
  unfolding SaveTo_def saveToInternal_def save_tail_def set_owner_def writeTempRunningConfigFile_def
    writeRunningConfigToFile_def getCurrentConfigVersion_def show_db_def copyFile_def uploadFile_def
  by (intro dguard_intros guarded_calls assms)

lemma raised_pid [simp]: "Pid (d_ctx (raised D)) = Pid (d_ctx D)"
  by (simp add: raised_def RaisePrivileges_def)

lemma dguard_confirmedCommit:
  assumes "sd \<noteq> ''EFFECTIVE''" "Pid (d_ctx D) \<noteq> K" "K \<noteq> 0" "commit_via_callbacks L"
  shows "keeps (dguard K sd) (confirmedCommitInternal L S D sd' msg dbg ct cmt revert)"
proof -
  have "keeps (dguard K sd) (Save L S D)"
    unfolding Save_def using dguard_SaveTo [of sd "raised D"] assms by simp
  then have "keeps (dguard K sd) (after_commit L S D ct cmt tx)" for tx
    unfolding after_commit_def setConfirmedCommitTimeout_def setConfirmTimeout_def logConfirmedCommitEvent_def
    by (intro dguard_intros)
  then show ?thesis
    unfolding confirmedCommitInternal_def SessionChanged_def commit_session_def
    by (intro dguard_intros quiet_intros guarded_calls assms)
qed

datatype dcall =
    CSessionExists string
  | CSessionSetup string
  | CSessionSetupShared string
  | CSessionTeardown string
  | CSessionChanged string
  | CSessionSaved string
  | CSessionMarkSaved string
  | CSessionMarkUnsaved string
  | CSessionLock string
  | CSessionUnlock string
  | CSessionLocked string
  | CDiscard string
  | CSet string string
  | CDelete string string
  | CMerge string string
  | CValidate string
  | CEditConfigXML string string string string string string
  | CCommit string string bool
  | CCommitConfirm string string bool int
  | CConfirmedCommit string string bool string string string bool
  | CConfirm
  | CConfirmPersistId string
  | CSaveTo string string
  | CSave
  | CExtractArchive string string
  | CSetConfigDebug "LogType list" string string
  | CLoad string string
  | CLoadFrom string string string
  | CCopyConfig string string string string string string string
  | CRollback string string string bool
  | CCancelCommit string string string bool bool
  | CValidateConfig string string

definition quietly :: "('d, 'a) dop \<Rightarrow> ('d, unit) dop" where
  "quietly m = do { _ \<leftarrow> m; ret () }"

fun call_run :: "'d libs \<Rightarrow> 'd sys \<Rightarrow> disp \<Rightarrow> dcall \<Rightarrow> ('d, unit) dop" where
  "call_run L S D (CSessionExists sd) = quietly (SessionExists D sd)"
| "call_run L S D (CSessionSetup sd) = quietly (SessionSetup L D sd)"
| "call_run L S D (CSessionSetupShared sd) = quietly (SessionSetupShared L D sd)"
| "call_run L S D (CSessionTeardown sd) = quietly (SessionTeardown D sd)"
| "call_run L S D (CSessionChanged sd) = quietly (SessionChanged L D sd)"
| "call_run L S D (CSessionSaved sd) = quietly (SessionSaved L D sd)"
| "call_run L S D (CSessionMarkSaved sd) = quietly (SessionMarkSaved L D sd)"
| "call_run L S D (CSessionMarkUnsaved sd) = quietly (SessionMarkUnsaved L D sd)"
| "call_run L S D (CSessionLock sd) = quietly (SessionLock L D sd)"
| "call_run L S D (CSessionUnlock sd) = quietly (SessionUnlock L D sd)"
| "call_run L S D (CSessionLocked sd) = quietly (SessionLocked L D sd)"
| "call_run L S D (CDiscard sd) = quietly (Discard L S D sd)"
| "call_run L S D (CSet sd p) = quietly (Set L S D sd p)"
| "call_run L S D (CDelete sd p) = quietly (Delete L S D sd p)"
| "call_run L S D (CMerge sd file) = quietly (Merge L S D sd file)"
| "call_run L S D (CValidate sd) = quietly (Validate L S D sd)"
| "call_run L S D (CEditConfigXML sd t d0 t0 e0 cfg) = quietly (EditConfigXML L D sd t d0 t0 e0 cfg)"
| "call_run L S D (CCommit sd msg dbg) = quietly (Commit L S D sd msg dbg)"
| "call_run L S D (CCommitConfirm sd msg dbg mins) = quietly (CommitConfirm L S D sd msg dbg mins)"
| "call_run L S D (CConfirmedCommit sd msg cf t p i dbg) = quietly (ConfirmedCommit L S D sd msg cf t p i dbg)"
| "call_run L S D CConfirm = quietly (Confirm L S D)"
| "call_run L S D (CConfirmPersistId i) = quietly (ConfirmPersistId L S D i)"
| "call_run L S D (CSaveTo dest ri) = quietly (SaveTo L S D dest ri)"
| "call_run L S D CSave = quietly (Save L S D)"
| "call_run L S D (CExtractArchive r dest) = quietly (ExtractArchive S r dest)"
| "call_run L S D (CSetConfigDebug order n lvl) = quietly (disp_SetConfigDebug order n lvl)"
| "call_run L S D (CLoad sd file) = quietly (Load L S D sd file)"
| "call_run L S D (CLoadFrom sd src ri) = quietly (LoadFrom L S D sd src ri)"
| "call_run L S D (CCopyConfig sd a b c d e f) = quietly (CopyConfig L S D sd a b c d e f)"
| "call_run L S D (CRollback sd r c dbg) = quietly (Rollback L S D sd r c dbg)"
| "call_run L S D (CCancelCommit sd c i f dbg) = quietly (CancelCommit L S D sd c i f dbg)"
| "call_run L S D (CValidateConfig enc cfg) = quietly (ValidateConfig L S D enc cfg)"

fun loads :: "dcall \<Rightarrow> bool" where
  "loads (CLoad _ _) = True"
| "loads (CLoadFrom _ _ _) = True"
| "loads (CCopyConfig _ _ _ _ _ _ _) = True"
| "loads (CRollback _ _ _ _) = True"
| "loads (CCancelCommit _ _ _ _ _) = True"
| "loads (CValidateConfig _ _) = True"
| "loads _ = False"

lemma dguard_quietly [dguard_intros]: "keeps (dguard K sd) m \<Longrightarrow> keeps (dguard K sd) (quietly m)"
  unfolding quietly_def by (intro dguard_intros)

lemma dguard_call:
  assumes "\<not> loads c" and hyps: "sd \<noteq> ''EFFECTIVE''" "Pid (d_ctx D) \<noteq> K" "K \<noteq> 0" "commit_via_callbacks L"
  shows "keeps (dguard K sd) (call_run L S D c)"
proof -
  note sess = guarded_calls [OF hyps(2-4)]
  note mgr = dguard_mgr_ops [OF hyps(2,3)]
  note big = dguard_SaveTo [OF hyps] dguard_confirmedCommit [OF hyps]
  have save: "keeps (dguard K sd) (Save L S D)"
    unfolding Save_def using dguard_SaveTo [of sd "raised D"] hyps by simp
  show ?thesis
    using assms(1)
    by (cases c)
      (simp_all only: call_run.simps loads.simps not_True_eq_False,
       ((unfold handler_defs SessionSetup_def SessionSetupShared_def SessionMarkSaved_def SessionMarkUnsaved_def
          Commit_def CommitConfirm_def ConfirmedCommit_def commitInternal_def Confirm_def confirmInternal_def
          ConfirmPersistId_def confirmPersistIdInternal_def ExtractArchive_def)?;
        (intro dguard_intros quiet_intros mgr big save dguard_dmodify hyps sess; simp))+)
qed

text \<open>A locked session is out of reach of the other clients. Process \<open>K\<close> holds the
  lock of session \<open>sd\<close> (any but \<open>EFFECTIVE\<close>, which belongs to the commit manager). Whatever sequence of calls clients with other process ids
  make, on this or any other session, with any arguments and results, interrupted
  by any requests of others: the entry of \<open>sd\<close> in the session table
  is the very same session, with the same lock, candidate, owner and saved mark.
  The calls that load a configuration are excluded.\<close>

theorem locked_session_out_of_reach:
  assumes "\<forall>(D, c)\<in>set calls. Pid (d_ctx D) \<noteq> K \<and> \<not> loads c"
    and "commit_via_callbacks L" "\<forall>e\<in>set es. serves L K e" "K \<noteq> 0"
    and "sd \<noteq> ''EFFECTIVE''" "mg_sessions (dw_mgr d) sd = Some x" "lpid x = K" "\<not> terminated x"
  shows "mg_sessions (dw_mgr (fst (snd (run_state (for_each (\<lambda>(D, c). call_run L S D c) calls) (d, es))))) sd = Some x"
proof -
  have "keeps (dguard K sd) (for_each (\<lambda>(D, c). call_run L S D c) calls)"
    using assms(1)
  proof (induction calls)
    case (Cons a calls)
    obtain D c where a: "a = (D, c)" by (cases a)
    have "keeps (dguard K sd) (call_run L S D c)"
      by (rule dguard_call) (use Cons.prems a assms in auto)
    then show ?case using Cons a by (auto intro!: dguard_intros)
  qed (simp add: dguard.ret_ok)
  then have "dguard K sd (d, es) (snd (run_state (for_each (\<lambda>(D, c). call_run L S D c) calls) (d, es)))"
    by (rule keepsD)
  then show ?thesis
    using serves_effs_ok [OF assms(3,4,2)] assms(6-8) by (simp add: dguard_def)
qed

definition locked_dworld :: "pid \<Rightarrow> dtree dworld" where
  "locked_dworld p = demo_dworld\<lparr>dw_mgr := demo_mgr\<lparr>mg_sessions :=
     (mg_sessions demo_mgr)(''s1'' \<mapsto> sample_session ''s1'' p [[''a'', ''1'']])\<rparr>\<rparr>"

definition attack :: "(disp \<times> dcall) list" where
  "attack = [(demo_disp True, CSet ''s1'' ''/a/2''), (demo_disp True, CDiscard ''s1''),
     (demo_disp True, CSessionUnlock ''s1''), (demo_disp True, CSessionTeardown ''s1''),
     (demo_disp True, CCommit ''s1'' [] False)]"

theorem locked_session_out_of_reach_witness:
  "map_option candidate (mg_sessions (dw_mgr (fst (snd (run_state
      (for_each (\<lambda>(D, c). call_run sample demo_sys D c) attack) (locked_dworld 7, []))))) ''s1'') = Some [[''a'', ''1'']]
   \<and> mg_sessions (dw_mgr (fst (snd (run_state
      (for_each (\<lambda>(D, c). call_run sample demo_sys D c) attack) (locked_dworld 0, []))))) ''s1'' = None"
proof
  let ?x = "sample_session ''s1'' 7 [[''a'', ''1'']]"
  have a: "\<forall>(D, c)\<in>set attack. Pid (d_ctx D) \<noteq> 7 \<and> \<not> loads c"
    by (simp add: attack_def demo_disp_def demo_ctx_def caller_def)
  have m: "mg_sessions (dw_mgr (locked_dworld 7)) ''s1'' = Some ?x" by (simp add: locked_dworld_def)
  have "mg_sessions (dw_mgr (fst (snd (run_state
      (for_each (\<lambda>(D, c). call_run sample demo_sys D c) attack) (locked_dworld 7, []))))) ''s1'' = Some ?x"
    by (rule locked_session_out_of_reach [OF a sample_commit_via _ _ _ m])
      (simp_all add: sample_session_def)
  then show "map_option candidate (mg_sessions (dw_mgr (fst (snd (run_state
      (for_each (\<lambda>(D, c). call_run sample demo_sys D c) attack) (locked_dworld 7, []))))) ''s1'') = Some [[''a'', ''1'']]"
    by (simp add: sample_session_def)
  show "mg_sessions (dw_mgr (fst (snd (run_state
      (for_each (\<lambda>(D, c). call_run sample demo_sys D c) attack) (locked_dworld 0, []))))) ''s1'' = None"
    by code_simp
qed

subsection \<open>Authorisation\<close>

fun checks_command :: "dcall \<Rightarrow> bool" where
  "checks_command (CSet _ _) = True"
| "checks_command (CDelete _ _) = True"
| "checks_command (CMerge _ _) = True"
| "checks_command (CLoad _ _) = True"
| "checks_command (CLoadFrom _ _ _) = True"
| "checks_command (CCopyConfig _ _ _ _ _ _ _) = True"
| "checks_command (CRollback _ _ _ _) = True"
| "checks_command (CSaveTo _ _) = True"
| "checks_command _ = False"

definition denies_all :: "disp \<Rightarrow> bool" where
  "denies_all D \<longleftrightarrow> \<not> Configd (d_ctx D) \<and>
    (\<forall>cmd at. \<not> AuthorizeCommand (Auth (d_ctx D)) (Uid (d_ctx D)) (Groups (d_ctx D)) cmd at)"

lemma authCommand_denied: "denies_all D \<Longrightarrow> \<not> authCommand D args"
  by (simp add: authCommand_def denies_all_def split: option.split)

lemma authorised_denied:
  "denies_all D \<Longrightarrow> run_state (authorised S D args z fn) s = ((z, Some (AccessDeniedApplicationError None)), s)"
  by (simp add: authorised_def authCommand_denied)

text \<open>C20. No command without authorisation. A caller who is not configd itself and to
  whom the auth package denies every command changes nothing through the handlers that
  authorise commands (set, delete, merge, load in its three forms, copy-config,
  rollback, save): no session, no file, no log entry.\<close>

theorem denied_commands_do_nothing:
  assumes "denies_all D" and "checks_command c"
  shows "run_state (call_run L S D c) s = ((), s)"
  using assms(2) assms(1)
  by (cases c)
    (simp_all add: quietly_def Set_def Delete_def Merge_def MergeReportWarnings_def Load_def LoadReportWarnings_def
      LoadFrom_def CopyConfig_def Rollback_def SaveTo_def suppress_warnings_def authorised_denied
      authCommand_denied Let_def split: sum.split)

theorem denied_commands_do_nothing_witness:
  "run_state (call_run sample demo_sys (demo_disp False) (CSet ''s1'' ''/a/2'')) (demo_dworld, []) = ((), demo_dworld, [])
   \<and> dw_log (fst (snd (run_state (call_run sample demo_sys (demo_disp True) (CSet ''s1'' ''/a/2'')) (demo_dworld, [])))) \<noteq> []"
proof
  have "denies_all (demo_disp False)" by (simp add: denies_all_def demo_disp_def demo_ctx_def caller_def auth_of_def)
  then show "run_state (call_run sample demo_sys (demo_disp False) (CSet ''s1'' ''/a/2'')) (demo_dworld, [])
      = ((), demo_dworld, [])"
    by (rule denied_commands_do_nothing) simp
qed code_simp

subsection \<open>Rollback\<close>

definition log_event :: "event \<Rightarrow> bool" where
  "log_event e \<longleftrightarrow> (\<exists>m. e = EvWlog m) \<or> e = EvSpawn [mgmt_pl, ''--action=confirm-silent'']"

lemma dtrace_rollback_logs:
  "keeps (dtraces log_event) (logEvent pfx msg)" "keeps (dtraces log_event) (ConfirmSilent S)"
  unfolding logEvent_def ConfirmSilent_def run_mgmt_def
  by (intro dtrace_intros; simp add: log_event_def)+

lemma trace_Session_Changed: "keeps (traces P) (Session_Changed L c)"
  unfolding Session_Changed_def send_def by (simp only: processreq.simps) (intro trace_intros)

lemma dtrace_SessionChanged: "keeps (dtraces P) (SessionChanged L D sd)"
  unfolding SessionChanged_def by (intro dtrace_intros trace_intros trace_Session_Changed)

lemma changed_focus_log [simp]: "changed L c (focus (d\<lparr>dw_log := l\<rparr>) x) = changed L c (focus d x)"
  by (simp add: changed_def getUnion_def getRunning_def focus_def)

lemma SessionChanged_run:
  assumes ok: "dw_ok d" and x: "mg_sessions (dw_mgr d) sd = Some x" "may_access (d_ctx D) x"
  shows "run_state (SessionChanged L D sd) (d, es) = ((changed L (d_ctx D) (focus d x), None), d, es)"
proof -
  have "\<not> terminated x" using ok x by (auto simp: dw_ok_def dest: mgr_okD)
  moreover have "unfocus sd (focus d x) d = d"
    using unfocus_log [OF ok x(1), of "dw_log d"] by (simp add: focus_def)
  moreover have "mgr_get (d_ctx D) sd (dw_mgr d) = Inr x" using x by (simp add: mgr_get_Inr)
  moreover have "w_sess (focus d x) = x" by (simp add: focus_def)
  ultimately show ?thesis
    by (simp add: SessionChanged_def Session_Changed_def send_def respond_def)
qed

text \<open>C21. Rollback never throws away uncommitted work. If the session has uncommitted
  changes, a rollback to any revision ends in an error, and the
  session table and both trees are what they were; only a pending confirmation
  timer has been cancelled and log lines written.\<close>

theorem rollback_keeps_uncommitted_changes:
  assumes ok: "dw_ok d" and x: "mg_sessions (dw_mgr d) sd = Some x" "may_access (d_ctx D) x"
    and ch: "changed L (d_ctx D) (focus d x)"
  shows "\<exists>e evs. run_state (rollbackInternal L S D sd rv cmnt debug) (d, es) =
      (([], Some e), d\<lparr>dw_log := dw_log d @ evs\<rparr>, es) \<and> list_all log_event evs"
proof -
  let ?err = "failed_with (''Cannot rollback: configuration modified.'' @ nl @
    ''Commit or discard the changes before rollback.'')"
  let ?d = "\<lambda>evs. d\<lparr>dw_log := dw_log d @ evs\<rparr>"
  let ?ev = "EvSpawn [mgmt_pl, ''--action=confirm-silent'']"
  have lg: "\<exists>evs. run_state (logEvent p m) (?d l, es) = ((), ?d (l @ evs), es) \<and> list_all log_event evs" for p m l
    using run_logEvent [of p m "?d l" es] by (auto simp: log_event_def list_all_iff)
  obtain evs2 where r2: "run_state (logEvent ''Rollback''
      ''Commit/Rollback operation - any pending rollback cancelled.'') (?d [?ev], es) = ((), ?d ([?ev] @ evs2), es)"
      "list_all log_event evs2"
    using lg by blast
  have r3: "run_state (SessionChanged L D sd) (?d ([?ev] @ evs2), es) = ((True, None), ?d ([?ev] @ evs2), es)"
    using SessionChanged_run [of "?d ([?ev] @ evs2)" sd x D L es] ok x ch by simp
  obtain evs3 where r4: "run_state (logEvent ''Rollback'' (''Failed with error: '' @ Error_text (mg S) ?err))
      (?d ([?ev] @ evs2), es) = ((), ?d (([?ev] @ evs2) @ evs3), es)" "list_all log_event evs3"
    using lg by blast
  have "run_state (rollbackInternal L S D sd rv cmnt debug) (d, es) = (([], Some ?err), ?d (([?ev] @ evs2) @ evs3), es)"
    using r2(1) r3 r4(1)
    by (simp add: rollbackInternal_def ConfirmSilent_def logRollbackEvent_def rollback_fail_def
        logRollbackError_def Let_def)
  moreover have "list_all log_event (([?ev] @ evs2) @ evs3)"
    using r2(2) r4(2) by (simp add: log_event_def)
  ultimately show ?thesis by blast
qed

theorem rollback_keeps_uncommitted_changes_witness:
  "\<exists>e evs. run_state (rollbackInternal sample demo_sys (demo_disp True) ''s1'' ''1'' [] False) (demo_dworld, []) =
      (([], Some e), demo_dworld\<lparr>dw_log := dw_log demo_dworld @ evs\<rparr>, []) \<and> list_all log_event evs"
proof -
  let ?x = "sample_session ''s1'' 0 [[''a'', ''1'']]"
  have m: "mg_sessions (dw_mgr demo_dworld) ''s1'' = Some ?x" by (simp add: demo_dworld_def demo_mgr_def)
  have a: "may_access (d_ctx (demo_disp True)) ?x" by code_simp
  have c: "changed sample (d_ctx (demo_disp True)) (focus demo_dworld ?x)" by code_simp
  show ?thesis by (rule rollback_keeps_uncommitted_changes [OF demo_dworld_ok m a c])
qed

end
