(* ===== verification/Disp_Query.thy ===== *)
theory Disp_Query
  imports Disp_Edit Complex_Main
begin

text \<open>
  The read side of \<open>server/dispatcher.go\<close>: template and node queries, show and
  compare, tree retrieval, completion and the reading of configuration files.
  A Go map that is returned is an association list, except where the session
  hands back a map of its own.
\<close>

subsection \<open>The packages the queries use\<close>

datatype ytype = YEmpty | YInteger | YUinteger | YBoolean | YLeafref | YOther

type_synonym noderef = "(string \<times> (string \<times> string) list) list"

text \<open>
  \<open>PathDescendant\<close> gives the node of a \<open>TmplCompat\<close> and its \<open>Val\<close> flag; \<open>n_*\<close> read a
  schema node; \<open>AuthorizePathPerm\<close> is \<open>Auth.AuthorizePath\<close> with a permission number
  that need not be one of the named ones; \<open>leafref_AllowedValues\<close> finds the node of a
  reference in the xpath tree of a union and evaluates the leafref there;
  \<open>diff_Serialize\<close> prints the difference of two trees below a path;
  \<open>ExecNoErr\<close> gives the output of a script, if there is any.
\<close>

record 'd qlibs =
  PathDescendant :: "snode \<Rightarrow> path \<Rightarrow> (snode \<times> bool) option"
  n_type :: "snode \<Rightarrow> ytype"
  n_desc :: "snode \<Rightarrow> string"
  n_secret :: "snode \<Rightarrow> bool"
  n_default :: "snode \<Rightarrow> string"
  n_allowed :: "snode \<Rightarrow> string"
  AuthorizePathPerm :: "uid \<Rightarrow> string list \<Rightarrow> path \<Rightarrow> attrs option \<Rightarrow> int \<Rightarrow> bool"
  GetPerms :: "string list \<Rightarrow> (string \<times> string) list"
  ms_Validate :: "'d dworld \<Rightarrow> snode \<Rightarrow> validate_ctx \<Rightarrow> path \<Rightarrow> error option"
  ExecNoErr :: "'d dworld \<Rightarrow> string \<Rightarrow> path \<Rightarrow> string \<Rightarrow> string option result"
  leafref_AllowedValues :: "'d unode \<Rightarrow> noderef \<Rightarrow> snode \<Rightarrow> string list result"
  LoadStringNoValidate :: "string \<Rightarrow> string \<Rightarrow> 'd result"
  diff_Serialize :: "'d \<Rightarrow> 'd \<Rightarrow> snode \<Rightarrow> path \<Rightarrow> bool \<Rightarrow> bool \<Rightarrow> string"
  union_Marshal :: "'d unode \<Rightarrow> string \<Rightarrow> string \<Rightarrow> union_option list \<Rightarrow> string \<times> error option"

text \<open>A decoded JSON value; a number is a \<open>float64\<close>.\<close>

datatype jval = JNull | JBool bool | JNum rat | JStr string | JArr "jval list" | JObj "(string \<times> jval) list"

subsection \<open>Authorisation and paths\<close>

abbreviation access_denied :: error where
  "access_denied \<equiv> AccessDeniedApplicationError None"

definition authRead :: "'d libs \<Rightarrow> disp \<Rightarrow> path \<Rightarrow> bool" where
  "authRead L D p = AuthorizeRead (Auth (d_ctx D)) (Uid (d_ctx D)) (Groups (d_ctx D)) p
     (schema_AttrsForPath L (d_msFull D) p)"

definition authPath :: "'d libs \<Rightarrow> 'd qlibs \<Rightarrow> disp \<Rightarrow> path \<Rightarrow> int \<Rightarrow> bool" where
  "authPath L Q D p perm = AuthorizePathPerm Q (Uid (d_ctx D)) (Groups (d_ctx D)) p
     (schema_AttrsForPath L (d_msFull D) p) perm"

fun validate_loop :: "'d libs \<Rightarrow> snode \<Rightarrow> path \<Rightarrow> path \<Rightarrow> error option" where
  "validate_loop L sn seen [] = None"
| "validate_loop L sn seen (v # ps) =
    (case schema_SchemaChild L sn v of
       None \<Rightarrow> Some (UnknownElementApplicationError v (Some seen))
     | Some ch \<Rightarrow> validate_loop L ch (seen @ [v]) ps)"

definition validatePath :: "'d libs \<Rightarrow> disp \<Rightarrow> path \<Rightarrow> error option" where
  "validatePath L D ps = validate_loop L (d_ms D) [] ps"

definition getPathError :: "'d libs \<Rightarrow> disp \<Rightarrow> path \<Rightarrow> string \<Rightarrow> error" where
  "getPathError L D ps unexpected =
    (case validatePath L D ps of Some e \<Rightarrow> e | None \<Rightarrow> failed_with unexpected)"

definition schemaPathDescendant :: "'d libs \<Rightarrow> 'd qlibs \<Rightarrow> disp \<Rightarrow> path \<Rightarrow> (snode \<times> bool) result" where
  "schemaPathDescendant L Q D ps =
    (case PathDescendant Q (d_ms D) ps of
       None \<Rightarrow> Inl (getPathError L D ps ''Schema not found'')
     | Some tmpl \<Rightarrow> Inr tmpl)"

subsection \<open>Templates\<close>

definition tmpl_type :: "ytype \<Rightarrow> (string \<times> string) list" where
  "tmpl_type t = (case t of
     YEmpty \<Rightarrow> []
   | YInteger \<Rightarrow> [(''type'', ''u32'')]
   | YUinteger \<Rightarrow> [(''type'', ''u32'')]
   | YBoolean \<Rightarrow> [(''type'', ''bool'')]
   | _ \<Rightarrow> [(''type'', ''txt'')])"

definition TmplGet :: "'d libs \<Rightarrow> 'd sys \<Rightarrow> 'd qlibs \<Rightarrow> disp \<Rightarrow> string \<Rightarrow> (string \<times> string) list result" where
  "TmplGet L S Q D p =
    (case schemaPathDescendant L Q D (Makepath (mg S) p) of
       Inl e \<Rightarrow> Inl e
     | Inr (sn, v) \<Rightarrow>
         let m = (if v then [(''is_value'', ''1'')] else [])
               @ (if n_desc Q sn \<noteq> [] then [(''comp_help'', n_desc Q sn)] else [])
               @ (if n_secret Q sn then [(''secret'', ''1'')] else [])
               @ (if s_help (sn_info sn) \<noteq> [] then [(''help'', s_help (sn_info sn))] else [])
         in (case sn_kind sn of
               KList \<Rightarrow> (case s_keys (sn_info sn) of
                   [] \<Rightarrow> Inl (RuntimePanic ''index out of range'')
                 | k # _ \<Rightarrow> Inr (m @ [(''tag'', ''1''), (''key'', k)] @ tmpl_type (n_type Q sn)))
             | KLeafList \<Rightarrow> Inr (m @ [(''multi'', ''1'')] @ tmpl_type (n_type Q sn))
             | KLeaf \<Rightarrow> Inr (m @ [(''default'', n_default Q sn)] @ tmpl_type (n_type Q sn))
             | KContainer \<Rightarrow> Inr (m @ [(''presence'', if s_presence (sn_info sn) then ''1'' else ''0'')])
             | _ \<Rightarrow> Inr (m @ tmpl_type (n_type Q sn))))"

text \<open>The children of a template: those the caller may read, without the key of a list.\<close>

fun tmpl_children :: "'d libs \<Rightarrow> disp \<Rightarrow> path \<Rightarrow> snode \<Rightarrow> snode list \<Rightarrow> string list result" where
  "tmpl_children L D ps sn [] = Inr []"
| "tmpl_children L D ps sn (n # ns) =
    (if \<not> authRead L D (ps @ [sn_name n]) then tmpl_children L D ps sn ns
     else if sn_kind sn = KList \<and> s_keys (sn_info sn) = [] then Inl (RuntimePanic ''index out of range'')
     else if sn_kind sn = KList \<and> sn_name n = hd (s_keys (sn_info sn)) then tmpl_children L D ps sn ns
     else (case tmpl_children L D ps sn ns of Inl e \<Rightarrow> Inl e | Inr xs \<Rightarrow> Inr (sn_name n # xs)))"

definition TmplGetChildren :: "'d libs \<Rightarrow> 'd sys \<Rightarrow> 'd qlibs \<Rightarrow> disp \<Rightarrow> string \<Rightarrow> string list result" where
  "TmplGetChildren L S Q D p =
    (let ps = Makepath (mg S) p
     in if \<not> authRead L D ps then Inl access_denied
        else (case schemaPathDescendant L Q D ps of
           Inl e \<Rightarrow> Inl e
         | Inr (sn, v) \<Rightarrow>
             if \<not> v \<and> sn_kind sn = KList then Inr [''node.tag'']
             else tmpl_children L D ps sn (sn_children sn)))"

definition TmplValidatePath :: "'d libs \<Rightarrow> 'd sys \<Rightarrow> 'd qlibs \<Rightarrow> disp \<Rightarrow> string \<Rightarrow> bool \<times> error option" where
  "TmplValidatePath L S Q D p = (is_ok (schemaPathDescendant L Q D (Makepath (mg S) p)), None)"

definition TmplValidateValues ::
  "'d libs \<Rightarrow> 'd sys \<Rightarrow> 'd qlibs \<Rightarrow> disp \<Rightarrow> string \<Rightarrow> ('d, bool \<times> error option) dop" where
  "TmplValidateValues L S Q D p =
    (let ps = Makepath (mg S) p
     in if \<not> authRead L D ps then ret (False, Some access_denied)
        else dgets (\<lambda>d. (ms_Validate Q d (d_ms D)
               \<lparr>CurPath = ps, v_Sid = ''RUNNING'', v_Noexec = False, IncompletePathIsValid = False\<rparr> ps = None, None)))"

subsection \<open>Leafref completion\<close>

text \<open>A reference stops at the leaf; a list and its entry give one element with the key.\<close>

fun node_ref_loop :: "'d libs \<Rightarrow> snode \<Rightarrow> path \<Rightarrow> noderef \<Rightarrow> (snode \<times> noderef) result" where
  "node_ref_loop L cur [] acc = Inr (cur, acc)"
| "node_ref_loop L cur (elem # ps) acc =
    (case schema_SchemaChild L cur elem of
       None \<Rightarrow> Inl (RuntimePanic ''nil schema node'')
     | Some n \<Rightarrow> (case sn_kind n of
         KListEntry \<Rightarrow> (case s_keys (sn_info n) of
             [] \<Rightarrow> Inl (RuntimePanic ''index out of range'')
           | k # _ \<Rightarrow> node_ref_loop L n ps (acc @ [(sn_name n, [(k, elem)])]))
       | KList \<Rightarrow> node_ref_loop L n ps acc
       | KLeafValue \<Rightarrow> node_ref_loop L n ps acc
       | _ \<Rightarrow> node_ref_loop L n ps (acc @ [(sn_name n, [])])))"

definition MakeNodeRef :: "'d libs \<Rightarrow> path \<Rightarrow> snode \<Rightarrow> noderef result" where
  "MakeNodeRef L ps startNode =
    (if ps = [] then Inr []
     else case node_ref_loop L startNode ps [] of
       Inl e \<Rightarrow> Inl e
     | Inr (cur, acc) \<Rightarrow>
         if sn_kind cur = KListEntry then
           (case s_keys (sn_info cur) of
              [] \<Rightarrow> Inl (RuntimePanic ''index out of range'')
            | k # _ \<Rightarrow> Inr (acc @ [(k, [])]))
         else Inr acc)"

fun tree_of :: "'d response \<Rightarrow> 'd unode option \<times> error option" where
  "tree_of (gettreeresp t e) = (t, e)"
| "tree_of _ = (None, None)"

text \<open>How many elements have to go so that the rest of the path exists; the path is given reversed.\<close>

fun missing_tail :: "'d libs \<Rightarrow> Context \<Rightarrow> path \<Rightarrow> nat \<Rightarrow> ('d, nat) op" where
  "missing_tail L c [] k = ret k"
| "missing_tail L c (x # r) k = do {
     b \<leftarrow> Session_Exists L c (rev (x # r));
     if bool_of b then ret k else missing_tail L c r (Suc k) }"

text \<open>The root node that was read is a view of the session's trees, so it shows the dummy value.\<close>

definition leafref_eval :: "'d libs \<Rightarrow> 'd qlibs \<Rightarrow> snode \<Rightarrow> path \<Rightarrow> snode \<Rightarrow> ('d, string list result) op" where
  "leafref_eval L Q sch ps lr = do {
     w \<leftarrow> the_world;
     ret (case MakeNodeRef L ps sch of
            Inl e \<Rightarrow> Inl e
          | Inr r \<Rightarrow> (case leafref_AllowedValues Q (getUnion w) r lr of Inl _ \<Rightarrow> Inr [] | Inr vs \<Rightarrow> Inr vs)) }"

definition leafref_op :: "'d libs \<Rightarrow> 'd qlibs \<Rightarrow> Context \<Rightarrow> path \<Rightarrow> snode \<Rightarrow> ('d, string list result) op" where
  "leafref_op L Q c ps lr = do {
     t \<leftarrow> Session_GetTree L c [] \<lparr>Defaults = False, Secrets = True, CouldExistIsAllowed = False\<rparr>;
     (case tree_of t of
        (_, Some _) \<Rightarrow> ret (Inr [])
      | (None, None) \<Rightarrow> ret (Inl (RuntimePanic ''nil union node''))
      | (Some rt, None) \<Rightarrow> do {
          b \<leftarrow> Session_Exists L c ps;
          if bool_of b then leafref_eval L Q (u_schema rt) ps lr
          else do {
            index \<leftarrow> missing_tail L c (tl (rev ps)) 0;
            let createPS = ps @ [''dummyValue''];
            e \<leftarrow> Session_Set L c createPS;
            (case e of
               Some _ \<Rightarrow> ret (Inr [])
             | None \<Rightarrow> do {
                 r \<leftarrow> leafref_eval L Q (u_schema rt) createPS lr;
                 _ \<leftarrow> Session_Delete L c (take (length ps - index) ps);
                 ret r }) } }) }"

definition getLeafrefVals ::
  "'d libs \<Rightarrow> 'd qlibs \<Rightarrow> disp \<Rightarrow> string \<Rightarrow> path \<Rightarrow> snode \<Rightarrow> ('d, string list result) dop" where
  "getLeafrefVals L Q D sd ps lr =
    (if ps = [] then ret (Inr [])
     else with_ro D CANDIDATE sd Inl (leafref_op L Q (d_ctx D) ps lr))"

definition spaced :: "string \<Rightarrow> string" where
  "spaced s = map (\<lambda>c. if c = CHR 0x0A then CHR '' '' else c) s"

definition escape_angle :: "string \<Rightarrow> string" where
  "escape_angle v = concat (map (\<lambda>c. if c = CHR ''<'' \<or> c = CHR ''>'' then [CHR 0x5C, c] else [c]) v)"

definition run_allowed :: "'d qlibs \<Rightarrow> string \<Rightarrow> path \<Rightarrow> string \<Rightarrow> ('d, string list result) dop" where
  "run_allowed Q sd ps script = do {
     r \<leftarrow> dgets (\<lambda>d. ExecNoErr Q d sd ps script);
     demit (EvExec sd ps script);
     ret (case r of
            Inl e \<Rightarrow> Inl e
          | Inr None \<Rightarrow> Inr []
          | Inr (Some out) \<Rightarrow> Inr (map escape_angle (split_on CHR '' '' (TrimSpace (spaced out))))) }"

definition TmplGetAllowed ::
  "'d libs \<Rightarrow> 'd sys \<Rightarrow> 'd qlibs \<Rightarrow> disp \<Rightarrow> string \<Rightarrow> string \<Rightarrow> ('d, string list result) dop" where
  "TmplGetAllowed L S Q D sd p =
    (let ps = Makepath (mg S) p
     in if \<not> authRead L D ps then ret (Inl access_denied)
        else (case schemaPathDescendant L Q D ps of
           Inl e \<Rightarrow> ret (Inl e)
         | Inr (sn, v) \<Rightarrow>
             if n_type Q sn = YLeafref \<and> sn_kind sn \<noteq> KLeafValue then getLeafrefVals L Q D sd ps sn
             else if n_allowed Q sn = [] \<or> v then ret (Inr [])
             else run_allowed Q sd ps (n_allowed Q sn)))"

subsection \<open>Node queries\<close>

fun names_of :: "'d response \<Rightarrow> string list result" where
  "names_of (getresp xs None) = Inr xs"
| "names_of (getresp xs (Some e)) = Inl e"
| "names_of _ = Inr []"

fun status_of :: "'d response \<Rightarrow> NodeStatus \<times> error option" where
  "status_of (statusresp v e) = (v, e)"
| "status_of _ = (UNCHANGED, None)"

fun default_of :: "'d response \<Rightarrow> bool \<times> error option" where
  "default_of (defaultresp v e) = (v, e)"
| "default_of _ = (False, None)"

fun type_of :: "'d response \<Rightarrow> NodeType \<times> error option" where
  "type_of (typeresp v e) = (v, e)"
| "type_of _ = (CONTAINER, None)"

fun help_of :: "'d response \<Rightarrow> (string \<rightharpoonup> string) result" where
  "help_of (helpresp m None) = Inr (case m of None \<Rightarrow> Map.empty | Some h \<Rightarrow> h)"
| "help_of (helpresp m (Some e)) = Inl e"
| "help_of _ = Inr Map.empty"

definition Get :: "'d libs \<Rightarrow> 'd sys \<Rightarrow> disp \<Rightarrow> DB \<Rightarrow> string \<Rightarrow> string \<Rightarrow> ('d, string list result) dop" where
  "Get L S D db sd p =
    (let ps = Makepath (mg S) p
     in if \<not> authRead L D ps then ret (Inl access_denied)
        else do {
          chs \<leftarrow> with_ro D db sd Inl (do { r \<leftarrow> Session_Get L (d_ctx D) ps; ret (names_of r) });
          ret (case chs of Inl e \<Rightarrow> Inl e | Inr cs \<Rightarrow> Inr (filter (\<lambda>ch. authRead L D (ps @ [ch])) cs)) })"

definition Exists :: "'d libs \<Rightarrow> 'd sys \<Rightarrow> disp \<Rightarrow> DB \<Rightarrow> string \<Rightarrow> string \<Rightarrow> ('d, bool \<times> error option) dop" where
  "Exists L S D db sd p =
    (let ps = Makepath (mg S) p
     in case validatePath L D ps of
          Some e \<Rightarrow> ret (False, FormatConfigPathError (mg S) (Some e))
        | None \<Rightarrow>
            if \<not> authRead L D ps then ret (False, Some access_denied)
            else with_ro D db sd (\<lambda>e. (False, Some e))
              (do { r \<leftarrow> Session_Exists L (d_ctx D) ps; ret (bool_of r, None) }))"

definition NodeGetStatus ::
  "'d libs \<Rightarrow> 'd sys \<Rightarrow> disp \<Rightarrow> DB \<Rightarrow> string \<Rightarrow> string \<Rightarrow> ('d, NodeStatus \<times> error option) dop" where
  "NodeGetStatus L S D db sd p =
    (let ps = Makepath (mg S) p
     in if \<not> authRead L D ps then ret (UNCHANGED, Some access_denied)
        else with_ro D db sd (\<lambda>e. (UNCHANGED, Some e))
          (do { r \<leftarrow> Session_GetStatus L (d_ctx D) ps; ret (status_of r) }))"

definition NodeIsDefault ::
  "'d libs \<Rightarrow> 'd sys \<Rightarrow> disp \<Rightarrow> DB \<Rightarrow> string \<Rightarrow> string \<Rightarrow> ('d, bool \<times> error option) dop" where
  "NodeIsDefault L S D db sd p =
    (let ps = Makepath (mg S) p
     in if \<not> authRead L D ps then ret (False, Some access_denied)
        else with_ro D db sd (\<lambda>e. (False, Some e))
          (do { r \<leftarrow> Session_IsDefault L (d_ctx D) ps; ret (default_of r) }))"

definition NodeGetType ::
  "'d libs \<Rightarrow> 'd sys \<Rightarrow> disp \<Rightarrow> string \<Rightarrow> string \<Rightarrow> ('d, NodeType \<times> error option) dop" where
  "NodeGetType L S D sd p =
    (let ps = Makepath (mg S) p
     in if \<not> authRead L D ps then ret (CONTAINER, Some access_denied)
        else with_ro D AUTO sd (\<lambda>e. (CONTAINER, Some e))
          (do { r \<leftarrow> Session_GetType L (d_ctx D) ps; ret (type_of r) }))"

definition SessionGetEnv :: "string \<Rightarrow> ('d, (string \<times> string) list \<times> error option) dop" where
  "SessionGetEnv sd = not_supported []"

definition EditGetEnv :: "string \<Rightarrow> ('d, (string \<times> string) list \<times> error option) dop" where
  "EditGetEnv sd = not_supported []"

definition NodeGetCompleteEnv :: "string \<Rightarrow> string \<Rightarrow> ('d, (string \<times> int) list \<times> error option) dop" where
  "NodeGetCompleteEnv sd p = not_supported []"

definition NodeGetComment :: "string \<Rightarrow> string \<Rightarrow> ('d, (string \<times> int) list \<times> error option) dop" where
  "NodeGetComment sd p = not_supported []"

definition ValidatePath :: "'d libs \<Rightarrow> 'd sys \<Rightarrow> disp \<Rightarrow> string \<Rightarrow> string \<Rightarrow> ('d, string \<times> error option) dop" where
  "ValidatePath L S D sd p =
    (case normalizePath L D (Makepath (mg S) p) of
       Inl e \<Rightarrow> ret ([], Some e)
     | Inr ps \<Rightarrow>
         if \<not> authRead L D ps then ret ([], Some access_denied)
         else with_ro D AUTO sd (\<lambda>e. ([], Some e))
           (do { r \<leftarrow> Session_ValidateSet L (d_ctx D) ps; ret ([], err_of r) }))"

definition AuthAuthorize :: "'d libs \<Rightarrow> 'd sys \<Rightarrow> 'd qlibs \<Rightarrow> disp \<Rightarrow> string \<Rightarrow> int \<Rightarrow> bool \<times> error option" where
  "AuthAuthorize L S Q D p perm =
    (case normalizePath L D (Makepath (mg S) p) of
       Inl e \<Rightarrow> (False, Some e)
     | Inr ps \<Rightarrow> (authPath L Q D ps perm, None))"

definition AuthGetPerms :: "'d qlibs \<Rightarrow> disp \<Rightarrow> (string \<times> string) list \<times> error option" where
  "AuthGetPerms Q D = (GetPerms Q (Groups (d_ctx D)), None)"

subsection \<open>Reading configuration files\<close>

definition readCfgFile ::
  "'d libs \<Rightarrow> 'd sys \<Rightarrow> disp \<Rightarrow> string \<Rightarrow> bool \<Rightarrow> bool \<Rightarrow> ('d, string \<times> error option) dop" where
  "readCfgFile L S D file raw forceShowSecrets = do {
     txt \<leftarrow> dgets (\<lambda>d. read_file S d file);
     (case txt of
        Inl e \<Rightarrow> ret ([], Some e)
      | Inr t \<Rightarrow>
          if raw then ret (t, None)
          else (case load_LoadFile L file t (d_ms D) of
             (dtree, Some e, _) \<Rightarrow> ret ([], Some e)
           | (dtree, None, _) \<Rightarrow>
               let ut = \<lparr>u_overlay = Some (data_New L ''root''), u_underlay = Some dtree, u_schema = d_ms D\<rparr>
               in with_ro D RUNNING ''RUNNING'' (\<lambda>e. ([], Some e))
                    (do { s \<leftarrow> sess;
                          ret (fst (union_Show L ut [] ([Authorizer (newAuther L (d_ctx D) s)]
                                 @ (if forceShowSecrets then [ForceShowSecrets] else []))), None) }))) }"

definition ReadConfigFileRaw :: "'d libs \<Rightarrow> 'd sys \<Rightarrow> disp \<Rightarrow> string \<Rightarrow> ('d, string \<times> error option) dop" where
  "ReadConfigFileRaw L S D file = readCfgFile L S D file True False"

definition ReadConfigFile :: "'d libs \<Rightarrow> 'd sys \<Rightarrow> disp \<Rightarrow> string \<Rightarrow> ('d, string \<times> error option) dop" where
  "ReadConfigFile L S D file = readCfgFile L S D file False False"

definition readConfigFileForceShowSecrets ::
  "'d libs \<Rightarrow> 'd sys \<Rightarrow> disp \<Rightarrow> string \<Rightarrow> ('d, string \<times> error option) dop" where
  "readConfigFileForceShowSecrets L S D file = readCfgFile L S D file False True"

definition MigrateConfigFile :: "string \<Rightarrow> string \<times> error option" where
  "MigrateConfigFile file = ([], None)"

subsection \<open>Compare\<close>

definition Compare ::
  "'d sys \<Rightarrow> 'd qlibs \<Rightarrow> disp \<Rightarrow> string \<Rightarrow> string \<Rightarrow> string \<Rightarrow> bool \<Rightarrow> string \<times> error option" where
  "Compare S Q D old new spath ctxdiff =
    (case LoadStringNoValidate Q ''old'' old of
       Inl e \<Rightarrow> ([], Some e)
     | Inr t1 \<Rightarrow> (case LoadStringNoValidate Q ''new'' new of
         Inl e \<Rightarrow> ([], Some e)
       | Inr t2 \<Rightarrow>
           (diff_Serialize Q t1 t2 (d_ms D) (Makepath (mg S) spath) ctxdiff (\<not> InSecretsGroup (d_ctx D)), None)))"

definition validCompareConfigRevision :: "'d sys \<Rightarrow> string \<Rightarrow> ('d, bool) dop" where
  "validCompareConfigRevision S revision =
    (if revision = ''saved'' \<or> revision = ''session'' then ret True
     else do { (log, _) \<leftarrow> GetCommitLog S; ret (map_of log revision \<noteq> None) })"

definition show_force ::
  "'d libs \<Rightarrow> disp \<Rightarrow> DB \<Rightarrow> string \<Rightarrow> bool \<Rightarrow> ('d, string \<times> error option) dop" where
  "show_force L D db sd showDefaults = with_ro D db sd (\<lambda>e. ([], Some e))
     (do { r \<leftarrow> Session_ShowForceSecrets L (d_ctx D) [] False showDefaults; ret (show_of r) })"

text \<open>Both texts are fetched in order; the first error ends the comparison.\<close>

definition compare_texts ::
  "('d, string \<times> error option) dop \<Rightarrow> ('d, string \<times> error option) dop \<Rightarrow> (string \<Rightarrow> string \<Rightarrow> string \<times> error option)
    \<Rightarrow> ('d, string \<times> error option) dop" where
  "compare_texts first second f = do {
     (one, e1) \<leftarrow> first;
     (case e1 of
        Some e \<Rightarrow> ret ([], Some e)
      | None \<Rightarrow> do {
          (two, e2) \<leftarrow> second;
          (case e2 of Some e \<Rightarrow> ret ([], Some e) | None \<Rightarrow> ret (f one two)) }) }"

definition compareConfigRevisionsInternal ::
  "'d libs \<Rightarrow> 'd sys \<Rightarrow> 'd qlibs \<Rightarrow> disp \<Rightarrow> string \<Rightarrow> string \<Rightarrow> string \<Rightarrow> ('d, string \<times> error option) dop" where
  "compareConfigRevisionsInternal L S Q D sd revOne revTwo = do {
     ok1 \<leftarrow> validCompareConfigRevision S revOne;
     if \<not> ok1 then ret ([], Some (newInvalidConfigRevisionError revOne))
     else do {
       ok2 \<leftarrow> validCompareConfigRevision S revTwo;
       if \<not> ok2 then ret ([], Some (newInvalidConfigRevisionError revTwo))
       else compare_texts
         (if revOne = ''session'' then show_force L D CANDIDATE sd False
          else readConfigFileForceShowSecrets L S D (configRevisionFileName revOne))
         (readConfigFileForceShowSecrets L S D (configRevisionFileName revTwo))
         (\<lambda>one two. Compare S Q D one two [] True) } }"

definition CompareConfigRevisions ::
  "'d libs \<Rightarrow> 'd sys \<Rightarrow> 'd qlibs \<Rightarrow> disp \<Rightarrow> string \<Rightarrow> string \<Rightarrow> string \<Rightarrow> ('d, string \<times> error option) dop" where
  "CompareConfigRevisions L S Q D sd revOne revTwo =
    (let authArgs = (if revOne \<noteq> ''session'' then [revOne, revTwo] else [revTwo])
     in authorised S D (newCommandArgsForAaa L S D ''compare'' authArgs []) []
          (compareConfigRevisionsInternal L S Q D sd revOne revTwo))"

definition compareSessionChangesInternal ::
  "'d libs \<Rightarrow> 'd sys \<Rightarrow> 'd qlibs \<Rightarrow> disp \<Rightarrow> string \<Rightarrow> ('d, string \<times> error option) dop" where
  "compareSessionChangesInternal L S Q D sd =
    compare_texts (show_force L D RUNNING sd False) (show_force L D CANDIDATE sd False)
      (\<lambda>runningShow candShow. Compare S Q D candShow runningShow [] True)"

definition CompareSessionChanges ::
  "'d libs \<Rightarrow> 'd sys \<Rightarrow> 'd qlibs \<Rightarrow> disp \<Rightarrow> string \<Rightarrow> ('d, string \<times> error option) dop" where
  "CompareSessionChanges L S Q D sd =
    authorised S D (newCommandArgsForAaa L S D ''compare'' [] []) [] (compareSessionChangesInternal L S Q D sd)"

subsection \<open>Show\<close>

definition showCommandArgs :: "'d libs \<Rightarrow> 'd sys \<Rightarrow> disp \<Rightarrow> path \<Rightarrow> bool \<Rightarrow> commandArgs option" where
  "showCommandArgs L S D p showDefaults =
    newCommandArgsForAaa L S D ''show'' (if showDefaults then [''-all''] else []) p"

definition Show :: "'d libs \<Rightarrow> 'd sys \<Rightarrow> disp \<Rightarrow> DB \<Rightarrow> string \<Rightarrow> string \<Rightarrow> bool \<Rightarrow> ('d, string \<times> error option) dop" where
  "Show L S D db sd p hideSecrets =
    (let ps = Makepath (mg S) p
     in authorised S D (showCommandArgs L S D ps False) [] (show_db L D db sd ps hideSecrets False))"

definition ShowDefaults ::
  "'d libs \<Rightarrow> 'd sys \<Rightarrow> disp \<Rightarrow> DB \<Rightarrow> string \<Rightarrow> string \<Rightarrow> bool \<Rightarrow> ('d, string \<times> error option) dop" where
  "ShowDefaults L S D db sd p hideSecrets =
    (let ps = Makepath (mg S) p
     in authorised S D (showCommandArgs L S D ps True) [] (show_db L D db sd ps hideSecrets True))"

definition showConfigWithContextDiffsInternal ::
  "'d libs \<Rightarrow> 'd sys \<Rightarrow> 'd qlibs \<Rightarrow> disp \<Rightarrow> string \<Rightarrow> string \<Rightarrow> bool \<Rightarrow> ('d, string \<times> error option) dop" where
  "showConfigWithContextDiffsInternal L S Q D sd p showDefaults =
    compare_texts (show_force L D RUNNING sd showDefaults) (show_force L D CANDIDATE sd showDefaults)
      (\<lambda>runningShow candShow. Compare S Q D candShow runningShow p False)"

definition ShowConfigWithContextDiffs ::
  "'d libs \<Rightarrow> 'd sys \<Rightarrow> 'd qlibs \<Rightarrow> disp \<Rightarrow> string \<Rightarrow> string \<Rightarrow> bool \<Rightarrow> ('d, string \<times> error option) dop" where
  "ShowConfigWithContextDiffs L S Q D sd p showDefaults =
    authorised S D (showCommandArgs L S D (Makepath (mg S) p) showDefaults) []
      (showConfigWithContextDiffsInternal L S Q D sd p showDefaults)"

subsection \<open>Trees\<close>

fun NewTreeOpts :: "(string \<times> jval) list \<Rightarrow> TreeOpts" where
  "NewTreeOpts [] = \<lparr>Defaults = False, Secrets = False, CouldExistIsAllowed = False\<rparr>"
| "NewTreeOpts ((flag, JBool v) # fs) =
    (if flag = ''Defaults'' then (NewTreeOpts fs)\<lparr>Defaults := v\<rparr>
     else if flag = ''Secrets'' then (NewTreeOpts fs)\<lparr>Secrets := v\<rparr>
     else if flag = ''CouldExist'' then (NewTreeOpts fs)\<lparr>CouldExistIsAllowed := v\<rparr>
     else NewTreeOpts fs)"
| "NewTreeOpts ((flag, v) # fs) = NewTreeOpts fs"

definition AllowCouldExist :: "TreeOpts \<Rightarrow> TreeOpts" where
  "AllowCouldExist t = t\<lparr>CouldExistIsAllowed := True\<rparr>"

definition ToUnionOptions :: "TreeOpts \<Rightarrow> union_option list" where
  "ToUnionOptions t =
    (if Defaults t then [IncludeDefaults] else []) @ (if \<not> Secrets t then [HideSecrets] else [])"

definition fixupEmptyStringForEncoding :: "string \<Rightarrow> string \<Rightarrow> string" where
  "fixupEmptyStringForEncoding out encoding =
    (if out = [] then
       if encoding \<in> {''json'', ''internal'', ''rfc7951''} then ''{}''
       else if encoding \<in> {''xml'', ''netconf''} then ''<data></data>''
       else out
     else out)"

definition tree_get_op ::
  "'d libs \<Rightarrow> 'd qlibs \<Rightarrow> Context \<Rightarrow> path \<Rightarrow> string \<Rightarrow> TreeOpts \<Rightarrow> ('d, string \<times> error option) op" where
  "tree_get_op L Q c ps encoding opts = do {
     r \<leftarrow> Session_GetTree L c ps opts;
     s \<leftarrow> sess;
     ret (case tree_of r of
            (_, Some e) \<Rightarrow> (fixupEmptyStringForEncoding [] encoding, Some e)
          | (None, None) \<Rightarrow> (fixupEmptyStringForEncoding [] encoding, None)
          | (Some ut, None) \<Rightarrow>
              union_Marshal Q ut ''data'' encoding (ToUnionOptions opts @ [Authorizer (newAuther L c s)])) }"

definition TreeGet ::
  "'d libs \<Rightarrow> 'd sys \<Rightarrow> 'd qlibs \<Rightarrow> disp \<Rightarrow> DB \<Rightarrow> string \<Rightarrow> string \<Rightarrow> string \<Rightarrow> (string \<times> jval) list
    \<Rightarrow> ('d, string \<times> error option) dop" where
  "TreeGet L S Q D db sd p encoding flags =
    (let ps = Makepath (mg S) p;
         opts = (if encoding = ''netconf'' then AllowCouldExist (NewTreeOpts flags) else NewTreeOpts flags)
     in with_ro D db sd (\<lambda>e. ([], Some e)) (tree_get_op L Q (d_ctx D) ps encoding opts))"

definition printWarnings :: "mgmt \<Rightarrow> error list \<Rightarrow> ('d, unit) op" where
  "printWarnings M warns =
    (if warns \<noteq> [] then do {
       emit (EvElog ''Warnings generated creating full config and state tree:'');
       for_each (\<lambda>warn. emit (EvElog (CHR 0x09 # Error_text M warn))) warns }
     else ret ())"

fun fulltree_of :: "'d response \<Rightarrow> 'd unode option \<times> error option \<times> error list" where
  "fulltree_of (getfulltreeresp t e ws) = (t, e, ws)"
| "fulltree_of _ = (None, None, [])"

definition full_get_op ::
  "'d libs \<Rightarrow> 'd sys \<Rightarrow> 'd qlibs \<Rightarrow> Context \<Rightarrow> path \<Rightarrow> string \<Rightarrow> TreeOpts
    \<Rightarrow> ('d, string \<times> error option \<times> error list) op" where
  "full_get_op L S Q c ps encoding opts = do {
     r \<leftarrow> Session_GetFullTree L c ps opts;
     s \<leftarrow> sess;
     (case fulltree_of r of (t, e, warns) \<Rightarrow> do {
        printWarnings (mg S) warns;
        ret (case (e, t) of
               (Some err, _) \<Rightarrow> (fixupEmptyStringForEncoding [] encoding, Some err, warns)
             | (None, None) \<Rightarrow> (fixupEmptyStringForEncoding [] encoding, None, warns)
             | (None, Some ut) \<Rightarrow>
                 (case union_Marshal Q ut ''data'' encoding (ToUnionOptions opts @ [Authorizer (newAuther L c s)]) of
                    (out, err) \<Rightarrow> (fixupEmptyStringForEncoding out encoding, err, warns))) }) }"

definition TreeGetFullWithWarnings ::
  "'d libs \<Rightarrow> 'd sys \<Rightarrow> 'd qlibs \<Rightarrow> disp \<Rightarrow> DB \<Rightarrow> string \<Rightarrow> string \<Rightarrow> string \<Rightarrow> (string \<times> jval) list
    \<Rightarrow> ('d, string \<times> error option \<times> error list) dop" where
  "TreeGetFullWithWarnings L S Q D db sd p encoding flags =
    with_ro D db sd (\<lambda>e. ([], Some e, []))
      (full_get_op L S Q (d_ctx D) (Makepath (mg S) p) encoding (AllowCouldExist (NewTreeOpts flags)))"

definition TreeGetFull ::
  "'d libs \<Rightarrow> 'd sys \<Rightarrow> 'd qlibs \<Rightarrow> disp \<Rightarrow> DB \<Rightarrow> string \<Rightarrow> string \<Rightarrow> string \<Rightarrow> (string \<times> jval) list
    \<Rightarrow> ('d, string \<times> error option) dop" where
  "TreeGetFull L S Q D db sd p encoding flags = do {
     (out, err, _) \<leftarrow> TreeGetFullWithWarnings L S Q D db sd p encoding flags;
     ret (out, err) }"

subsection \<open>Completion\<close>

definition GetHelp :: "'d libs \<Rightarrow> 'd sys \<Rightarrow> disp \<Rightarrow> string \<Rightarrow> bool \<Rightarrow> string \<Rightarrow> ('d, (string \<rightharpoonup> string) result) dop" where
  "GetHelp L S D sd fromSchema p = with_ro D CANDIDATE sd Inl
     (do { r \<leftarrow> Session_GetHelp L (d_ctx D) fromSchema (Makepath (mg S) p); ret (help_of r) })"

definition add_allowed :: "(string \<rightharpoonup> string) \<Rightarrow> string list \<Rightarrow> (string \<rightharpoonup> string)" where
  "add_allowed comps allowed =
    fold (\<lambda>v m. if ContainsAny v ''<>'' then m else m(v \<mapsto> [])) allowed comps"

definition GetCompletions ::
  "'d libs \<Rightarrow> 'd sys \<Rightarrow> 'd qlibs \<Rightarrow> disp \<Rightarrow> string \<Rightarrow> bool \<Rightarrow> string \<Rightarrow> ('d, (string \<rightharpoonup> string) \<times> error option) dop" where
  "GetCompletions L S Q D sd fromSchema p = do {
     (typ, e1) \<leftarrow> NodeGetType L S D sd p;
     (case e1 of
        Some e \<Rightarrow> ret (Map.empty, Some e)
      | None \<Rightarrow>
          if (\<not> fromSchema \<or> typ \<noteq> CONTAINER) \<and> \<not> authRead L D (Makepath (mg S) p)
          then ret (Map.empty, Some access_denied)
          else do {
            r \<leftarrow> GetHelp L S D sd fromSchema p;
            (case r of
               Inl e \<Rightarrow> ret (Map.empty, Some e)
             | Inr comps \<Rightarrow>
                 if \<not> fromSchema \<or> \<not> typ \<noteq> CONTAINER then ret (comps, None)
                 else do {
                   allowed \<leftarrow> TmplGetAllowed L S Q D sd p;
                   ret (case allowed of
                          Inl e \<Rightarrow> (comps, Some e)
                        | Inr vs \<Rightarrow> (add_allowed comps vs, None)) }) }) }"

definition ExpandWithPrefix :: "'d sys \<Rightarrow> disp \<Rightarrow> string \<Rightarrow> string \<Rightarrow> int \<Rightarrow> string \<times> error option" where
  "ExpandWithPrefix S D p prefix pos =
    (case expandPath (ErrPath S) (d_ms D) (Makepath (mg S) p) prefix (pos + 1) of
       Inl e \<Rightarrow> ([], FormatConfigPathError (mg S) (Some e))
     | Inr ps \<Rightarrow> (Pathstr S ps, None))"

definition Expand :: "'d sys \<Rightarrow> disp \<Rightarrow> string \<Rightarrow> string \<times> error option" where
  "Expand S D p = ExpandWithPrefix S D p NoPrefix InvalidPos"

end
