(* ===== verification/Load_Keys.thy ===== *)
theory Load_Keys
  imports Disp_Query
begin

text \<open>
  \<open>server/load_keys.go\<close>: loading the public keys of a user from an
  \<open>authorized_keys\<close> file into the configuration, and the list of optional features
  of the system in \<open>server/dispatcher.go\<close>. A line that does not parse ends the
  load; the keys before it have been set and stay in the candidate.
\<close>

subsection \<open>Keys\<close>

text \<open>\<open>k_Marshal\<close> is what \<open>ssh.MarshalAuthorizedKey\<close> gives for the key.\<close>

record sshPublicKey =
  k_Type :: string
  k_Marshal :: string
  k_Comment :: string
  k_Options :: "string list"

text \<open>\<open>ssh.ParseAuthorizedKey\<close> on one line.\<close>

type_synonym key_parser = "string \<Rightarrow> sshPublicKey result"

definition loginSchemaPathForUser :: "string \<Rightarrow> path" where
  "loginSchemaPathForUser user = [''system'', ''login'', ''user'', user]"

definition publicKeysSchemaPathForUser :: "string \<Rightarrow> path" where
  "publicKeysSchemaPathForUser user = loginSchemaPathForUser user @ [''authentication'', ''public-keys'']"

definition TrimPrefix :: "string \<Rightarrow> string \<Rightarrow> string" where
  "TrimPrefix s p = (if HasPrefix s p then drop (length p) s else s)"

definition Base64Key :: "sshPublicKey \<Rightarrow> string" where
  "Base64Key k = trim_right_nl (TrimPrefix (k_Marshal k) (k_Type k @ '' ''))"

definition OptionsStr :: "sshPublicKey \<Rightarrow> string" where
  "OptionsStr k = Join '','' (k_Options k)"

definition ConfigurationCommands :: "'d sys \<Rightarrow> sshPublicKey \<Rightarrow> string \<Rightarrow> string list" where
  "ConfigurationCommands S k user =
    (let base = publicKeysSchemaPathForUser user @ [k_Comment k];
         opts = OptionsStr k
     in [Pathstr S (base @ [''type'', k_Type k]), Pathstr S (base @ [''key'', Base64Key k])]
        @ (if opts \<noteq> [] then [Pathstr S (base @ [''options'', opts])] else []))"

subsection \<open>Reading keys\<close>

text \<open>A user process as a reader: its text, and the error its pipe is closed with.\<close>

definition process_stream :: "'d sys \<Rightarrow> string list \<Rightarrow> ('d, string \<times> error option) dop" where
  "process_stream S cmd = do {
     (out, stderr, failed) \<leftarrow> dgets (\<lambda>d. Output_of S d cmd);
     err \<leftarrow> dgets (\<lambda>d. spawn_error S d cmd);
     demit (EvSpawn cmd);
     ret (out, handleCallerCommandError stderr (if failed then Some err else None)) }"

subsection \<open>Loading\<close>

fun loadKeysParse ::
  "'d sys \<Rightarrow> key_parser \<Rightarrow> (sshPublicKey \<Rightarrow> ('d, error option) dop) \<Rightarrow> nat \<Rightarrow> string list \<Rightarrow> error option
    \<Rightarrow> ('d, error option) dop" where
  "loadKeysParse S parse callback n [] serr = ret serr"
| "loadKeysParse S parse callback n (line # ls) serr =
    (if line = [] \<or> HasPrefix line ''#'' then loadKeysParse S parse callback (Suc n) ls serr
     else (case parse line of
        Inl e \<Rightarrow> ret (Some (ExternalError (''On line '' @ Itoa (int (Suc n)) @ '': '' @ Error_text (mg S) e)))
      | Inr k \<Rightarrow> do {
          e \<leftarrow> callback k;
          (case e of
             Some err \<Rightarrow> ret (Some err)
           | None \<Rightarrow> loadKeysParse S parse callback (Suc n) ls serr) }))"

definition set_command :: "'d libs \<Rightarrow> 'd sys \<Rightarrow> disp \<Rightarrow> string \<Rightarrow> string \<Rightarrow> ('d, error option) dop" where
  "set_command L S D sd cmd =
    (case normalizePath L D (Makepath (mg S) cmd) of
       Inl e \<Rightarrow> ret (Some e)
     | Inr ps \<Rightarrow> do { (_, e) \<leftarrow> setInternal L S D sd ps; ret e })"

definition setPublicKeyForUser ::
  "'d libs \<Rightarrow> 'd sys \<Rightarrow> disp \<Rightarrow> string \<Rightarrow> string \<Rightarrow> sshPublicKey \<Rightarrow> ('d, error option) dop" where
  "setPublicKeyForUser L S D sd user key = for_err (set_command L S D sd) (ConfigurationCommands S key user)"

definition userIsConfigured :: "'d libs \<Rightarrow> 'd sys \<Rightarrow> disp \<Rightarrow> string \<Rightarrow> string \<Rightarrow> ('d, error option) dop" where
  "userIsConfigured L S D sd user = do {
     (userExists, e) \<leftarrow> Exists L S D AUTO sd (Pathstr S (loginSchemaPathForUser user));
     ret (case e of
            Some err \<Rightarrow> Some err
          | None \<Rightarrow>
              if \<not> userExists then Some (failed_with (''User '' @ user @ '' does not exist in the configuration''))
              else None) }"

definition loadKeyCommandArgs ::
  "'d libs \<Rightarrow> 'd sys \<Rightarrow> disp \<Rightarrow> string \<Rightarrow> string \<Rightarrow> string \<Rightarrow> commandArgs option" where
  "loadKeyCommandArgs L S D user source routingInstance =
    newCommandArgsForAaa L S D ''loadkey''
      ([user] @ (if routingInstance \<noteq> [] then [''routing-instance'', routingInstance] else []) @ [source]) []"

definition loadKeysIsSupported :: "'d libs \<Rightarrow> 'd sys \<Rightarrow> 'd qlibs \<Rightarrow> disp \<Rightarrow> bool" where
  "loadKeysIsSupported L S Q D = fst (TmplValidatePath L S Q D (Pathstr S (publicKeysSchemaPathForUser ''@@'')))"

text \<open>The commit at the end; without command arguments the message cannot be built.\<close>

definition load_keys_commit ::
  "'d libs \<Rightarrow> 'd sys \<Rightarrow> disp \<Rightarrow> string \<Rightarrow> string \<Rightarrow> commandArgs option \<Rightarrow> ('d, string \<times> error option) dop" where
  "load_keys_commit L S D sd source args = do {
     (changed, _) \<leftarrow> SessionChanged L D sd;
     if \<not> changed then ret (''No keys were loaded from '' @ [CHR 0x27] @ source @ [CHR 0x27], None)
     else do {
       _ \<leftarrow> ConfirmSilent S;
       (case args of
          None \<Rightarrow> ret ([], Some (RuntimePanic ''nil pointer dereference''))
        | Some a \<Rightarrow> do {
            (out, err) \<leftarrow> commitInternal L S D sd (Join '' '' (ca_cmd a)) False 0 False;
            ret (case err of
                   Some e \<Rightarrow> (out, Some e)
                 | None \<Rightarrow> ((if out \<noteq> [] then trim_right_nl out @ nlnl else out)
                     @ ''Loaded keys from '' @ [CHR 0x27] @ source @ [CHR 0x27], None)) }) } }"

definition loadKeysInternal ::
  "'d libs \<Rightarrow> 'd sys \<Rightarrow> key_parser \<Rightarrow> disp \<Rightarrow> string \<Rightarrow> string \<Rightarrow> string \<Rightarrow> string \<Rightarrow> bool \<Rightarrow> commandArgs option
    \<Rightarrow> ('d, string \<times> error option) dop" where
  "loadKeysInternal L S parse D sd user source0 routingInstance local args = do {
     bad \<leftarrow> userIsConfigured L S D sd user;
     (case bad of
        Some e \<Rightarrow> ret ([], Some e)
      | None \<Rightarrow> do {
          let source = (if local then parseLocalPath source0 else source0);
          bad2 \<leftarrow> (if local then dgets (validLocalConfigPath S D source) else ret None);
          (case bad2 of
             Some e \<Rightarrow> ret ([], Some e)
           | None \<Rightarrow> do {
               (txt, rerr) \<leftarrow> process_stream S
                 (if local then newUserFileReader D source else newUserRemoteFileReader D source routingInstance);
               let (ls, serr) = scan_lines (raw_lines txt) rerr;
               err \<leftarrow> loadKeysParse S parse (setPublicKeyForUser L S D sd user) 0 ls serr;
               (case err of
                  Some e \<Rightarrow> ret ([], Some (failed_with (''Loading key file failed'' @ nl @ Error_text (mg S) e)))
                | None \<Rightarrow> load_keys_commit L S D sd source args) }) }) }"

definition LoadKeys ::
  "'d libs \<Rightarrow> 'd sys \<Rightarrow> 'd qlibs \<Rightarrow> key_parser \<Rightarrow> disp \<Rightarrow> string \<Rightarrow> string \<Rightarrow> string \<Rightarrow> string
    \<Rightarrow> ('d, string \<times> error option) dop" where
  "LoadKeys L S Q parse D sd user source routingInstance =
    (if \<not> loadKeysIsSupported L S Q D then not_supported []
     else case parseMgmtURI S source of
       Inl e \<Rightarrow> ret ([], Some e)
     | Inr (local, redactedSource) \<Rightarrow>
         let args = loadKeyCommandArgs L S D user redactedSource routingInstance
         in authorised S D args [] (loadKeysInternal L S parse D sd user source routingInstance local args))"

text \<open>The well known names of \<open>common/features.go\<close>.\<close>

definition ConfigManagementFeature :: string where "ConfigManagementFeature = ''config-mgmt''"
definition LoadKeysFeature :: string where "LoadKeysFeature = ''loadkeys''"
definition RoutingInstanceFeature :: string where "RoutingInstanceFeature = ''routing-instance''"

definition present :: "stat \<Rightarrow> bool" where
  "present st \<longleftrightarrow> st = StatFile \<or> st = StatDir"

definition GetConfigSystemFeatures ::
  "'d libs \<Rightarrow> 'd sys \<Rightarrow> 'd qlibs \<Rightarrow> disp \<Rightarrow> ('d, string list \<times> error option) dop" where
  "GetConfigSystemFeatures L S Q D = do {
     ri \<leftarrow> dgets (\<lambda>d. present (os_Stat S d ''/usr/sbin/chvrf''));
     cm \<leftarrow> dgets (\<lambda>d. present (os_Stat S d mgmt_pl));
     ret ((if ri then [RoutingInstanceFeature] else [])
        @ (if cm then [ConfigManagementFeature] else [])
        @ (if loadKeysIsSupported L S Q D then [LoadKeysFeature] else []), None) }"

end
