(* ===== verification/Cli_Base.thy ===== *)
theory Cli_Base
  imports Load_Keys "HOL-Library.AList"
begin

text \<open>
  The configuration shell \<open>cmd/cfgcli\<close>, part one: what its commands are written
  with. A run of the tool is a program over a state (the daemon behind the
  client, what was printed, the environment) that returns an exit code. As
  \<open>os.Exit\<close> may be called deep inside a helper, a helper that may end the process
  takes the rest of the run as its last argument (\<open>k\<close>). A Go map is an association
  list; the order in which \<open>range\<close> visits its keys is a parameter. An index out of range ends
  the process with exit code 2; argument slices have no spare capacity.
\<close>

subsection \<open>The daemon as the tool sees it: \<open>cfgManager\<close>\<close>

type_synonym smap = "(string \<times> string) list"

record 'w cfgManager =
  api_CancelCommit :: "string \<Rightarrow> string \<Rightarrow> bool \<Rightarrow> bool \<Rightarrow> ('w, string \<times> error option) state"
  api_Commit :: "string \<Rightarrow> bool \<Rightarrow> ('w, string \<times> error option) state"
  api_CommitConfirm :: "string \<Rightarrow> bool \<Rightarrow> int \<Rightarrow> ('w, string \<times> error option) state"
  api_CompareConfigRevisions :: "string \<Rightarrow> string \<Rightarrow> ('w, string \<times> error option) state"
  api_CompareSessionChanges :: "('w, string \<times> error option) state"
  api_Confirm :: "('w, string \<times> error option) state"
  api_ConfirmSilent :: "('w, string \<times> error option) state"
  api_ConfirmPersistId :: "string \<Rightarrow> ('w, string \<times> error option) state"
  api_Delete :: "string \<Rightarrow> ('w, error option) state"
  api_Discard :: "('w, error option) state"
  api_Set :: "string \<Rightarrow> ('w, string \<times> error option) state"
  api_TmplGet :: "string \<Rightarrow> ('w, smap \<times> error option) state"
  api_LoadFrom :: "string \<Rightarrow> string \<Rightarrow> ('w, error option) state"
  api_LoadKeys :: "string \<Rightarrow> string \<Rightarrow> string \<Rightarrow> ('w, string \<times> error option) state"
  api_MergeReportWarnings :: "string \<Rightarrow> ('w, bool \<times> error option) state"
  api_Rollback :: "string \<Rightarrow> string \<Rightarrow> bool \<Rightarrow> ('w, string \<times> error option) state"
  api_Save :: "string \<Rightarrow> ('w, error option) state"
  api_SaveTo :: "string \<Rightarrow> string \<Rightarrow> ('w, error option) state"
  api_ShowConfigWithContextDiffs :: "string \<Rightarrow> bool \<Rightarrow> ('w, string \<times> error option) state"
  api_Validate :: "('w, string \<times> error option) state"
  api_GetCompletions :: "bool \<Rightarrow> string \<Rightarrow> ('w, smap \<times> error option) state"
  api_Exists :: "DB \<Rightarrow> string \<Rightarrow> ('w, bool \<times> error option) state"
  api_Expand :: "string \<Rightarrow> ('w, string \<times> error option) state"
  api_ExpandWithPrefix :: "string \<Rightarrow> string \<Rightarrow> int \<Rightarrow> ('w, string \<times> error option) state"
  api_Get :: "DB \<Rightarrow> string \<Rightarrow> ('w, string list \<times> error option) state"
  api_GetCommitLog :: "('w, smap \<times> error option) state"
  api_GetConfigSystemFeatures :: "('w, string list \<times> error option) state"
  api_SessionChanged :: "('w, bool \<times> error option) state"
  api_SessionMarkSaved :: "('w, error option) state"
  api_NodeGetType :: "string \<Rightarrow> ('w, int \<times> error option) state"
  api_TmplValidatePath :: "string \<Rightarrow> ('w, bool \<times> error option) state"

text \<open>
  What belongs to other packages: the methods of \<open>mgmterror\<close>, \<open>pathutil.Pathstr\<close>, \<open>natsort.Sort\<close>,
  the visiting order of a map, \<open>bash -c\<close> with extra environment entries, and
  whether the system logger can be opened.
\<close>

record 'w cli =
  api :: "'w cfgManager"
  x_mg :: mgmt
  x_CustomError :: "(error \<Rightarrow> string) \<Rightarrow> error list \<Rightarrow> string"
  x_Pathstr :: "path \<Rightarrow> string"
  x_natsort :: "string list \<Rightarrow> string list"
  x_range :: "string list \<Rightarrow> string list"
  x_bash :: "string \<Rightarrow> smap \<Rightarrow> ('w, string \<times> error option) state"
  x_syslog :: bool

record 'w cst =
  c_back :: 'w
  c_stdout :: string
  c_stderr :: string
  c_syslog :: "string list"
  c_env :: "string \<Rightarrow> string"

type_synonym 'w cmd = "('w cst, int) state"

definition remote :: "('w, 'a) state \<Rightarrow> ('w cst, 'a) state" where
  "remote m = State (\<lambda>s. let (a, w) = run_state m (c_back s) in (a, s\<lparr>c_back := w\<rparr>))"

definition put_out :: "string \<Rightarrow> ('w cst, unit) state" where
  "put_out t = modify (\<lambda>s. s\<lparr>c_stdout := c_stdout s @ t\<rparr>)"

definition put_err :: "string \<Rightarrow> ('w cst, unit) state" where
  "put_err t = modify (\<lambda>s. s\<lparr>c_stderr := c_stderr s @ t\<rparr>)"

definition Getenv :: "string \<Rightarrow> ('w cst, string) state" where
  "Getenv n = gets (\<lambda>s. c_env s n)"

abbreviation os_Exit :: "int \<Rightarrow> 'w cmd" where
  "os_Exit n \<equiv> ret n"

definition gopanic :: "'w cmd" where
  "gopanic = ret 2"

lemma run_remote [simp]: "run_state (remote m) s = (fst (run_state m (c_back s)), s\<lparr>c_back := snd (run_state m (c_back s))\<rparr>)"
  by (simp add: remote_def split: prod.split)

lemma run_put [simp]:
  "run_state (put_out t) s = ((), s\<lparr>c_stdout := c_stdout s @ t\<rparr>)"
  "run_state (put_err t) s = ((), s\<lparr>c_stderr := c_stderr s @ t\<rparr>)"
  "run_state (Getenv n) s = (c_env s n, s)"
  by (simp_all add: put_out_def put_err_def Getenv_def)

subsection \<open>Slices, maps and text\<close>

definition elem_at :: "'a list \<Rightarrow> int \<Rightarrow> 'a option" where
  "elem_at xs i = (if 0 \<le> i \<and> i < int (length xs) then Some (xs ! nat i) else None)"

definition slice :: "'a list \<Rightarrow> int \<Rightarrow> int \<Rightarrow> 'a list option" where
  "slice xs a b = (if 0 \<le> a \<and> a \<le> b \<and> b \<le> int (length xs) then Some (take (nat (b - a)) (drop (nat a) xs)) else None)"

definition with_at :: "'a list \<Rightarrow> int \<Rightarrow> ('a \<Rightarrow> 'w cmd) \<Rightarrow> 'w cmd" where
  "with_at xs i k = (case elem_at xs i of None \<Rightarrow> gopanic | Some x \<Rightarrow> k x)"

definition with_slice :: "'a list \<Rightarrow> int \<Rightarrow> int \<Rightarrow> ('a list \<Rightarrow> 'w cmd) \<Rightarrow> 'w cmd" where
  "with_slice xs a b k = (case slice xs a b of None \<Rightarrow> gopanic | Some ys \<Rightarrow> k ys)"

definition mget :: "smap \<Rightarrow> string \<Rightarrow> string" where
  "mget m k = (case map_of m k of None \<Rightarrow> [] | Some v \<Rightarrow> v)"

definition quot :: string where "quot = [CHR 0x22]"
definition apos :: string where "apos = [CHR 0x27]"

text \<open>\<open>strings.Replace(s, "c", new, -1)\<close>.\<close>

definition replace_char :: "char \<Rightarrow> string \<Rightarrow> string \<Rightarrow> string" where
  "replace_char c new s = concat (map (\<lambda>d. if d = c then new else [d]) s)"

definition invalid_command :: "string list \<Rightarrow> string \<Rightarrow> error" where
  "invalid_command done word = ExternalError (''Invalid command: '' @ Join '' '' done @ '' ['' @ word @ '']'')"

text \<open>
  \<open>text/tabwriter\<close> with minimal width 8, padding 1 and blanks: every cell but the last of a
  line is padded to the width of its column, which is shared by the adjacent lines that have the column.
\<close>

definition tab_rows :: "string \<Rightarrow> string list list" where
  "tab_rows t = map (split_on CHR 0x09) (split_on CHR 0x0A t)"

definition column_run :: "nat \<Rightarrow> nat \<Rightarrow> string list list \<Rightarrow> string list list" where
  "column_run i j rows =
    (let has = (\<lambda>r. j < length r - 1)
     in rev (takeWhile has (rev (take i rows))) @ takeWhile has (drop i rows))"

definition column_width :: "nat \<Rightarrow> nat \<Rightarrow> string list list \<Rightarrow> nat" where
  "column_width i j rows = fold (\<lambda>r w. max w (length (r ! j) + 1)) (column_run i j rows) 8"

definition tabwrite :: "string \<Rightarrow> string" where
  "tabwrite t =
    (let rows = tab_rows t
     in Join nl (map (\<lambda>i. let r = rows ! i in
          concat (map (\<lambda>j. pad_right (column_width i j rows) (r ! j)) [0..<length r - 1]) @ last r) [0..<length rows]))"

subsection \<open>Output and errors\<close>

definition writeOutput :: "string \<Rightarrow> string" where
  "writeOutput out = nlnl @ ''  '' @ out @ nl"

definition printOutput :: "string \<Rightarrow> ('w cst, unit) state" where
  "printOutput out = put_out (writeOutput (replace_char CHR 0x0A (''  '' @ nl) out))"

definition cli_err_text :: "'w cli \<Rightarrow> error \<Rightarrow> string" where
  "cli_err_text X e = Error_text (x_mg X) e"

definition printError :: "'w cli \<Rightarrow> error \<Rightarrow> ('w cst, unit) state" where
  "printError X e = put_err (writeOutput (cli_err_text X e))"

definition indented :: "string \<Rightarrow> string" where
  "indented t = nl @ ''  '' @ replace_char CHR 0x0A (nl @ ''  '') t @ nlnl"

definition handleError :: "'w cli \<Rightarrow> error option \<Rightarrow> 'w cmd \<Rightarrow> 'w cmd" where
  "handleError X err k = (case err of
     None \<Rightarrow> k
   | Some e \<Rightarrow> do { put_err (indented (cli_err_text X e)); os_Exit 1 })"

definition handleNoError :: "string \<Rightarrow> ('w cst, unit) state" where
  "handleNoError msg = put_err (indented msg)"

definition handleErrorNoIndent :: "'w cli \<Rightarrow> string \<Rightarrow> error option \<Rightarrow> 'w cmd \<Rightarrow> 'w cmd" where
  "handleErrorNoIndent X operation err k = (case err of
     None \<Rightarrow> k
   | Some (MgmtErrorList es) \<Rightarrow> do {
       put_err (nl @ x_CustomError X (FormatCommitOrValErrors (x_mg X)) es @ nlnl @ operation @ '' failed!'' @ nl @ nlnl);
       os_Exit 1 }
   | Some e \<Rightarrow> do { put_err (nl @ cli_err_text X e @ nlnl); os_Exit 1 })"

definition cli_logRollbackEvent :: "'w cli \<Rightarrow> string \<Rightarrow> ('w cst, unit) state" where
  "cli_logRollbackEvent X msg =
    (if \<not> x_syslog X then ret ()
     else case filter (\<lambda>l. l \<noteq> []) (split_on CHR 0x0A msg) of
       [] \<Rightarrow> ret ()
     | l # _ \<Rightarrow> modify (\<lambda>s. s\<lparr>c_syslog := c_syslog s @ [''Rollback: '' @ l]\<rparr>))"

definition handleRollbackError :: "'w cli \<Rightarrow> error option \<Rightarrow> 'w cmd \<Rightarrow> 'w cmd" where
  "handleRollbackError X err k = (case err of
     None \<Rightarrow> k
   | Some e \<Rightarrow> do { cli_logRollbackEvent X (''Failed with error: '' @ cli_err_text X e); handleError X err k })"

definition handleCompError :: "'w cli \<Rightarrow> error option \<Rightarrow> (error \<Rightarrow> 'w cmd \<Rightarrow> 'w cmd) \<Rightarrow> 'w cmd \<Rightarrow> 'w cmd" where
  "handleCompError X err errHandler k = (case err of
     None \<Rightarrow> k
   | Some e \<Rightarrow> errHandler e (do {
       printOutput (''COMPREPLY=( '' @ quot @ quot @ '' '' @ quot @ '' '' @ quot @ '' )'');
       os_Exit 1 }))"

text \<open>The two error handlers that are passed around.\<close>

definition by_printError :: "'w cli \<Rightarrow> error \<Rightarrow> 'w cmd \<Rightarrow> 'w cmd" where
  "by_printError X e k = do { printError X e; k }"

definition by_handleError :: "'w cli \<Rightarrow> error \<Rightarrow> 'w cmd \<Rightarrow> 'w cmd" where
  "by_handleError X e k = handleError X (Some e) k"

definition sessionChanged :: "'w cli \<Rightarrow> (bool \<Rightarrow> 'w cmd) \<Rightarrow> 'w cmd" where
  "sessionChanged X k = do {
     (r, err) \<leftarrow> remote (api_SessionChanged (api X));
     handleError X err (k r) }"

subsection \<open>The command line and its shell\<close>

record Ctx =
  cx_Args :: "string list"
  cx_CompCurIdx :: int
  cx_CompCurWord :: string
  cx_Prefix :: string
  cx_LastComp :: string
  cx_DoHelp :: bool
  cx_Print :: bool
  cx_All :: bool
  cx_HasLoadKey :: bool
  cx_HasConfigMgmt :: bool
  cx_HasRoutingInstance :: bool

definition pager :: string where "pager = ''${VYATTA_PAGER:-cat}''"
definition editenv :: string where "editenv = ''VYATTA_EDIT_LEVEL''"
definition configBootPath :: string where "configBootPath = ''/config/config.boot''"
definition routingInstanceArg :: string where "routingInstanceArg = ''routing-instance''"

definition shellOutExecute :: "'w cli \<Rightarrow> string \<Rightarrow> smap \<Rightarrow> 'w cmd \<Rightarrow> 'w cmd" where
  "shellOutExecute X snippit env k = do {
     (out, err) \<leftarrow> remote (x_bash X snippit env);
     (case err of
        Some e \<Rightarrow> handleError X err k
      | None \<Rightarrow> do { (if out \<noteq> [] then printOutput out else ret ()); k }) }"

definition doSnippitAndContinue :: "'w cli \<Rightarrow> Ctx \<Rightarrow> string \<Rightarrow> smap \<Rightarrow> 'w cmd \<Rightarrow> 'w cmd" where
  "doSnippitAndContinue X ctx snippit env k =
    (if cx_Print ctx then do {
       put_out (concat (map (\<lambda>(n, v). n @ ''='' @ quot @ v @ quot @ '' '') env) @ snippit);
       k }
     else shellOutExecute X snippit env k)"

definition doSnippit :: "'w cli \<Rightarrow> Ctx \<Rightarrow> string \<Rightarrow> smap \<Rightarrow> 'w cmd" where
  "doSnippit X ctx snippit env = doSnippitAndContinue X ctx snippit env (os_Exit 0)"

text \<open>\<open>echo "..."\<close> with the text as it is, and with the text escaped.\<close>

definition echo :: "string \<Rightarrow> string" where
  "echo t = ''echo '' @ quot @ t @ quot"

definition escapeConfig :: "string \<Rightarrow> string" where
  "escapeConfig s = concat (map (\<lambda>c. if c \<in> {CHR 0x5C, CHR 0x22, CHR ''$'', CHR 0x60} then [CHR 0x5C, c] else [c]) s)"

definition paged :: "string \<Rightarrow> string" where
  "paged t = ''echo -n '' @ quot @ escapeConfig t @ quot @ '' | '' @ pager"

subsection \<open>Paths\<close>

definition editPathLength :: "'w cli \<Rightarrow> string list \<Rightarrow> ('w cst, path \<times> int) state" where
  "editPathLength X args = do {
     lvl \<leftarrow> Getenv editenv;
     let epath = Makepath (x_mg X) lvl;
     ret (epath @ args, int (length epath)) }"

definition editPath :: "'w cli \<Rightarrow> string list \<Rightarrow> ('w cst, path) state" where
  "editPath X args = do { (out, _) \<leftarrow> editPathLength X args; ret out }"

definition expandPathString ::
  "'w cli \<Rightarrow> path \<Rightarrow> (error \<Rightarrow> 'w cmd \<Rightarrow> 'w cmd) \<Rightarrow> (string \<Rightarrow> 'w cmd) \<Rightarrow> 'w cmd" where
  "expandPathString X p errHandler k = do {
     (pstr, err) \<leftarrow> remote (api_Expand (api X) (x_Pathstr X p));
     handleCompError X err errHandler (k pstr) }"

definition ExpandPath :: "'w cli \<Rightarrow> path \<Rightarrow> (path \<Rightarrow> 'w cmd) \<Rightarrow> 'w cmd" where
  "ExpandPath X p k = expandPathString X p (by_printError X) (\<lambda>pstr. k (Makepath (x_mg X) pstr))"

definition checkValidPath :: "'w cli \<Rightarrow> Ctx \<Rightarrow> (error option \<Rightarrow> 'w cmd) \<Rightarrow> 'w cmd" where
  "checkValidPath X ctx k = do {
     p \<leftarrow> editPath X (tl (cx_Args ctx));
     let typed = do {
       (_, err) \<leftarrow> remote (api_ExpandWithPrefix (api X) (x_Pathstr X p) (cx_Prefix ctx) (cx_CompCurIdx ctx - 1));
       k (case err of
            Some e \<Rightarrow> if Contains (cli_err_text X e) ''is not valid'' then Some e else None
          | None \<Rightarrow> None) };
     if p = [] then k None
     else if cx_Prefix ctx = [] \<and> last p = [] then
       ExpandPath X (butlast p) (\<lambda>q. do {
         (v, _) \<leftarrow> remote (api_TmplValidatePath (api X) (x_Pathstr X q));
         if v then k None else typed })
     else typed }"

subsection \<open>What bash makes of a quoted text\<close>

text \<open>
  The text between double quotes as bash reads it (Bash manual, double quotes): a backslash before
  a dollar, a remote quote, a double quote or a backslash is removed, before a newline
  both go; an unescaped dollar or remote quote starts an expansion and a double quote
  ends the string, for which the result is \<open>None\<close>.
\<close>

fun bash_quoted :: "string \<Rightarrow> string option" where
  "bash_quoted [] = Some []"
| "bash_quoted (c # cs) =
    (if c = CHR 0x22 \<or> c = CHR ''$'' \<or> c = CHR 0x60 then None
     else if c \<noteq> CHR 0x5C then map_option ((#) c) (bash_quoted cs)
     else case cs of
       [] \<Rightarrow> None
     | d # ds \<Rightarrow>
         if d \<in> {CHR 0x5C, CHR 0x22, CHR ''$'', CHR 0x60} then map_option ((#) d) (bash_quoted ds)
         else if d = CHR 0x0A then bash_quoted ds
         else map_option (\<lambda>t. c # d # t) (bash_quoted ds))"

lemma bash_quoted_escapeConfig: "bash_quoted (escapeConfig t) = Some t"
  by (induction t) (auto simp: escapeConfig_def)

end
