(* ===== verification/Cli_Valid.thy ===== *)
theory Cli_Valid
  imports Cli_Base
begin

text \<open>
  The argument checks of \<open>cmd/cfgcli/completefns.go\<close>. They are used in two ways: on
  completion, with the cursor position and the text before it, and before a
  command runs, where the position is 0 and the text is \<open>__noncomp__\<close>. A verdict is
  \<open>None\<close> when an index is out of range, otherwise the error, if any.
\<close>

type_synonym verdict = "error option option"

abbreviation valid :: verdict where "valid \<equiv> Some None"

text \<open>\<open>fmt.Errorf("Invalid command: %s [%s]", strings.Join(args[0:n], " "), w)\<close>\<close>

definition invalid_upto :: "string list \<Rightarrow> int \<Rightarrow> string option \<Rightarrow> verdict" where
  "invalid_upto args n w = (case (slice args 0 n, w) of
     (Some d, Some x) \<Rightarrow> Some (Some (invalid_command d x))
   | _ \<Rightarrow> None)"

subsection \<open>Keywords with arguments\<close>

record cmdDef =
  cd_needArg :: bool
  cd_argpresent :: bool
  cd_argval :: string
  cd_present :: bool
  cd_pos :: int
  cd_help :: string
  cd_atStart :: bool

type_synonym cmdDefs = "(string \<times> cmdDef) list"

definition assignArgument :: "cmdDefs \<Rightarrow> string \<Rightarrow> string \<Rightarrow> cmdDefs" where
  "assignArgument c keyword v = (case map_of c keyword of
     None \<Rightarrow> c
   | Some def \<Rightarrow> AList.update keyword (def\<lparr>cd_argpresent := True, cd_argval := v\<rparr>) c)"

definition keywordPresent :: "cmdDefs \<Rightarrow> string \<Rightarrow> int \<Rightarrow> cmdDefs \<times> bool" where
  "keywordPresent c keyword pos = (case map_of c keyword of
     None \<Rightarrow> (c, False)
   | Some def \<Rightarrow> (AList.update keyword (def\<lparr>cd_pos := pos, cd_present := True\<rparr>) c, cd_needArg def))"

definition matches_keyword :: "cmdDefs \<Rightarrow> int \<Rightarrow> int \<Rightarrow> string \<Rightarrow> string \<Rightarrow> string \<Rightarrow> bool" where
  "matches_keyword c keywordPos idx prefix val keyword = (case map_of c keyword of
     None \<Rightarrow> False
   | Some def \<Rightarrow> (\<not> cd_atStart def \<or> idx = 0)
       \<and> (HasPrefix keyword val \<or> (prefix \<noteq> [] \<and> keywordPos = idx + 1 \<and> HasPrefix keyword prefix)))"

definition matchKeyword :: "(string list \<Rightarrow> string list) \<Rightarrow> cmdDefs \<Rightarrow> int \<Rightarrow> int \<Rightarrow> string \<Rightarrow> string \<Rightarrow> string" where
  "matchKeyword rng c keywordPos idx prefix val =
    (case find (matches_keyword c keywordPos idx prefix val) (rng (map fst c)) of
       None \<Rightarrow> []
     | Some keyword \<Rightarrow> keyword)"

text \<open>The loop over \<open>args[1:]\<close>; the result is the definitions, the last match and the error.\<close>

fun keyword_loop ::
  "(string list \<Rightarrow> string list) \<Rightarrow> string list \<Rightarrow> int \<Rightarrow> string \<Rightarrow> string list \<Rightarrow> int \<Rightarrow> string \<Rightarrow> bool \<Rightarrow> cmdDefs
    \<Rightarrow> cmdDefs \<times> string \<times> error option" where
  "keyword_loop rng args keywordPos prefix [] idx match needarg cmds = (cmds, match, None)"
| "keyword_loop rng args keywordPos prefix (val # vs) idx match needarg cmds =
    (if needarg then keyword_loop rng args keywordPos prefix vs (idx + 1) match False (assignArgument cmds match val)
     else let kw = matchKeyword rng cmds keywordPos idx prefix val in
       if kw = [] then (cmds, [], Some (ExternalError
         (''Invalid command: '' @ Join '' '' (take (nat (idx + 1)) args) @ '' ['' @ val @ '']'' @ nl)))
       else let (cmds', need) = keywordPresent cmds kw (idx + 1)
         in keyword_loop rng args keywordPos prefix vs (idx + 1) (if need then kw else []) need cmds')"

definition validateKeywordsAndArguments ::
  "(string list \<Rightarrow> string list) \<Rightarrow> string list \<Rightarrow> int \<Rightarrow> string \<Rightarrow> cmdDefs \<Rightarrow> cmdDefs \<times> string \<times> error option" where
  "validateKeywordsAndArguments rng args keywordPos prefix cmds =
    keyword_loop rng args keywordPos prefix (tl args) 0 [] False cmds"

definition validateArgumentIfAny :: "string list \<Rightarrow> int \<Rightarrow> string \<Rightarrow> string \<Rightarrow> verdict" where
  "validateArgumentIfAny args keywordPos prefix keyword =
    (let n = int (length args); word = elem_at args keywordPos
     in if n = keywordPos + 1 then
          (case word of
             None \<Rightarrow> None
           | Some w \<Rightarrow> if \<not> HasPrefix keyword prefix \<and> \<not> HasPrefix keyword w then invalid_upto args keywordPos word else valid)
        else if n > keywordPos + 1 \<and> (case word of None \<Rightarrow> True | Some w \<Rightarrow> \<not> HasPrefix keyword w) then
          invalid_upto args keywordPos word
        else if n \<ge> keywordPos + 3 then invalid_upto args (keywordPos + 2) (elem_at args (keywordPos + 2))
        else valid)"

definition validateCommentIfAny :: "string list \<Rightarrow> int \<Rightarrow> string \<Rightarrow> verdict" where
  "validateCommentIfAny args keywordPos prefix = validateArgumentIfAny args keywordPos prefix ''comment''"

definition validatePersistIdIfAny :: "string list \<Rightarrow> int \<Rightarrow> string \<Rightarrow> verdict" where
  "validatePersistIdIfAny args keywordPos prefix = validateArgumentIfAny args keywordPos prefix ''persist-id''"

text \<open>The argument list is never empty: its first element is the command.\<close>

definition removeTrailingEmptyArgument :: "string list \<Rightarrow> string list" where
  "removeTrailingEmptyArgument args = (if args \<noteq> [] \<and> last args = [] then butlast args else args)"

definition cancel_commit_defs :: cmdDefs where
  "cancel_commit_defs =
    (let d = (\<lambda>need start h. \<lparr>cd_needArg = need, cd_argpresent = False, cd_argval = [], cd_present = False,
                cd_pos = 0, cd_help = h, cd_atStart = start\<rparr>)
     in [(''force'', d False True ''Force cancelling of pending confirmed commit''),
         (''comment'', d True False ''Comment for the commit log''),
         (''persist-id'', d True True ''Persist-id of confirmed commit'')])"

definition processCancelCommitCmd :: "(string list \<Rightarrow> string list) \<Rightarrow> Ctx \<Rightarrow> cmdDefs \<times> string \<times> error option" where
  "processCancelCommitCmd rng ctx =
    validateKeywordsAndArguments rng (removeTrailingEmptyArgument (cx_Args ctx)) (cx_CompCurIdx ctx) (cx_Prefix ctx)
      cancel_commit_defs"

subsection \<open>The checks of the commands\<close>

definition validSingleCommand :: "Ctx \<Rightarrow> verdict" where
  "validSingleCommand ctx =
    (let args = cx_Args ctx; n = length args
     in if cx_Prefix ctx \<noteq> [] \<and> n = 2 \<or> n > 2 then invalid_upto args 1 (elem_at args 1) else valid)"

definition loadsaveValid :: "Ctx \<Rightarrow> verdict" where
  "loadsaveValid ctx =
    (let args = cx_Args ctx; n = length args
     in if cx_HasRoutingInstance ctx then
          (if cx_CompCurIdx ctx \<in> {1, 2, 3} then valid
           else if cx_Prefix ctx \<noteq> [] \<and> n = 5 \<or> n > 5 then invalid_upto args (int n) (elem_at args (cx_CompCurIdx ctx))
           else valid)
        else
          (if cx_CompCurIdx ctx = 1 then valid
           else if cx_Prefix ctx \<noteq> [] \<and> n = 3 \<or> n > 3 then invalid_upto args 2 (elem_at args 2)
           else valid))"

definition loadKeyValid :: "Ctx \<Rightarrow> verdict" where
  "loadKeyValid ctx =
    (let args = cx_Args ctx; n = length args
     in if cx_HasRoutingInstance ctx then
          (if cx_CompCurIdx ctx \<in> {1, 2, 3, 4} then valid
           else if cx_Prefix ctx \<noteq> [] \<and> n = 6 \<or> n > 6 then invalid_upto args (int n) (elem_at args (cx_CompCurIdx ctx))
           else valid)
        else
          (if cx_CompCurIdx ctx \<in> {1, 2} then valid
           else if cx_Prefix ctx \<noteq> [] \<and> n = 4 \<or> n > 4 then invalid_upto args 3 (elem_at args 3)
           else valid))"

definition rollbackValid :: "Ctx \<Rightarrow> verdict" where
  "rollbackValid ctx =
    (if length (cx_Args ctx) \<le> 2 then valid
     else validateCommentIfAny (removeTrailingEmptyArgument (cx_Args ctx)) 2 (cx_Prefix ctx))"

definition cancelcommitValid :: "(string list \<Rightarrow> string list) \<Rightarrow> Ctx \<Rightarrow> verdict" where
  "cancelcommitValid rng ctx =
    (if length (cx_Args ctx) = 1 then valid else Some (snd (snd (processCancelCommitCmd rng ctx))))"

definition confirmValid :: "Ctx \<Rightarrow> verdict" where
  "confirmValid ctx =
    (if length (cx_Args ctx) = 1 then valid
     else validatePersistIdIfAny (removeTrailingEmptyArgument (cx_Args ctx)) 1 (cx_Prefix ctx))"

definition commitConfValid :: "Ctx \<Rightarrow> verdict" where
  "commitConfValid ctx =
    (if length (cx_Args ctx) = 1 then Some (Some (ExternalError ''Timeout must be specified for commit-confirm''))
     else let args = removeTrailingEmptyArgument (cx_Args ctx) in
       if 2 \<le> length args \<and> (case Atoi (args ! 1) of Inl _ \<Rightarrow> True | Inr timeout \<Rightarrow> timeout \<le> 0)
       then Some (Some (ExternalError (''Invalid timeout: '' @ args ! 1)))
       else validateCommentIfAny args 2 (cx_Prefix ctx))"

definition commitValid :: "Ctx \<Rightarrow> verdict" where
  "commitValid ctx =
    (if length (cx_Args ctx) = 1 then valid
     else validateCommentIfAny (removeTrailingEmptyArgument (cx_Args ctx)) 1 (cx_Prefix ctx))"

definition is_number :: "string \<Rightarrow> bool" where
  "is_number s = (case Atoi s of Inl _ \<Rightarrow> False | Inr _ \<Rightarrow> True)"

definition compareValid :: "Ctx \<Rightarrow> verdict" where
  "compareValid ctx =
    (let args = cx_Args ctx; n = length args; pfx = cx_Prefix ctx
     in if n = 1 then valid
        else if \<not> cx_HasConfigMgmt ctx then validSingleCommand ctx
        else if cx_CompCurIdx ctx = 1 then
          (if pfx = [] \<or> HasPrefix ''saved'' pfx \<or> is_number pfx then valid else invalid_upto args 1 (Some pfx))
        else case elem_at args 1 of None \<Rightarrow> None | Some a1 \<Rightarrow>
          if cx_CompCurIdx ctx = 2 then
            (if HasPrefix ''saved'' a1 then (if pfx \<noteq> [] then invalid_upto args 2 (Some pfx) else valid)
             else if is_number a1 then
               (if pfx \<noteq> [] \<and> \<not> is_number pfx then invalid_upto args 2 (Some pfx) else valid)
             else invalid_upto args 1 (Some a1))
          else if HasPrefix ''saved'' a1 then
            (if pfx \<noteq> [] \<and> n = 3 \<or> n > 3 then invalid_upto args 2 (elem_at args 2) else valid)
          else if pfx \<noteq> [] \<and> n = 4 \<or> n > 4 then invalid_upto args 3 (elem_at args 3)
          else valid)"

definition exitValid :: "Ctx \<Rightarrow> verdict" where
  "exitValid ctx =
    (let args = cx_Args ctx; n = length args; pfx = cx_Prefix ctx
     in if cx_CompCurIdx ctx = 1 then (if \<not> HasPrefix ''discard'' pfx then invalid_upto args 1 (Some pfx) else valid)
        else if cx_CompCurIdx ctx = 2 then (if pfx \<noteq> [] then invalid_upto args 2 (Some pfx) else valid)
        else if pfx \<noteq> [] \<and> n = 3 \<or> n > 3 then invalid_upto args 2 (elem_at args 2)
        else valid)"

definition mergeValid :: "Ctx \<Rightarrow> verdict" where
  "mergeValid ctx =
    (let args = cx_Args ctx; n = length args
     in if cx_CompCurIdx ctx = 1 then valid
        else if n < 2 then Some (Some (ExternalError ''Invalid command: merge requires a path argument''))
        else if n \<ge> 3 then invalid_upto args 2 (elem_at args 2)
        else valid)"

definition checked :: "(Ctx \<Rightarrow> verdict) \<Rightarrow> Ctx \<Rightarrow> (error option \<Rightarrow> 'w cmd) \<Rightarrow> 'w cmd" where
  "checked f ctx k = (case f ctx of None \<Rightarrow> gopanic | Some e \<Rightarrow> k e)"

end
