(* ===== verification/Cli_Run.thy ===== *)
theory Cli_Run
  imports Cli_Valid
begin

text \<open>
  The commands themselves, \<open>cmd/cfgcli/runfns.go\<close>, in the order of the file. What a
  command prints for the shell is a snippet that the shell evaluates.
\<close>

definition validateConfirmPersistIdIfAny :: "'w cli \<Rightarrow> Ctx \<Rightarrow> nat \<Rightarrow> (string \<Rightarrow> 'w cmd) \<Rightarrow> 'w cmd" where
  "validateConfirmPersistIdIfAny X ctx kp k =
    (if length (cx_Args ctx) = kp + 1 then handleError X (Some (ExternalError ''Please provide persisit-id.'')) (k [])
     else k (if length (cx_Args ctx) > kp + 1 then cx_Args ctx ! (kp + 1) else []))"

definition confirmRun :: "'w cli \<Rightarrow> Ctx \<Rightarrow> 'w cmd" where
  "confirmRun X ctx = validateConfirmPersistIdIfAny X ctx 1 (\<lambda>persistid. do {
     (out, err) \<leftarrow> remote (if persistid = [] then api_Confirm (api X) else api_ConfirmPersistId (api X) persistid);
     handleErrorNoIndent X ''Confirm'' err (do {
       cli_logRollbackEvent X ''Commit confirmed.'';
       if out \<noteq> [] then doSnippit X ctx (echo out @ nl) [] else os_Exit 0 }) })"

definition confirmSilentRun :: "'w cli \<Rightarrow> ('w cst, unit) state" where
  "confirmSilentRun X = do {
     remote (api_ConfirmSilent (api X));
     cli_logRollbackEvent X ''Commit/Rollback operation - any pending rollback cancelled.'' }"

definition validateCommitCommentIfAny :: "'w cli \<Rightarrow> Ctx \<Rightarrow> nat \<Rightarrow> (string \<Rightarrow> 'w cmd) \<Rightarrow> 'w cmd" where
  "validateCommitCommentIfAny X ctx kp k =
    (if length (cx_Args ctx) = kp + 1 then handleError X (Some (ExternalError ''Please provide comment.'')) (k [])
     else k (if length (cx_Args ctx) > kp + 1 then cx_Args ctx ! (kp + 1) else []))"

definition isCommitDebugOn :: "('w cst, bool) state" where
  "isCommitDebugOn = do { v \<leftarrow> Getenv ''COMMIT_DEBUG''; ret (v \<noteq> []) }"

subsection \<open>Where a configuration is loaded from or saved to\<close>

text \<open>\<open>^\w+://.+\<close>\<close>

definition word_char :: "char \<Rightarrow> bool" where
  "word_char c = (let n = (of_char c :: nat) in
     48 \<le> n \<and> n \<le> 57 \<or> 65 \<le> n \<and> n \<le> 90 \<or> 97 \<le> n \<and> n \<le> 122 \<or> n = 95)"

definition is_remote :: "string \<Rightarrow> bool" where
  "is_remote uri =
    (let tail = dropWhile word_char uri
     in uri \<noteq> [] \<and> word_char (hd uri) \<and> HasPrefix tail ''://'' \<and> length tail > 3 \<and> tail ! 3 \<noteq> CHR 0x0A)"

definition parseCfgMgmtCmdArgs :: "'w cli \<Rightarrow> string list \<Rightarrow> string \<Rightarrow> (string \<Rightarrow> string \<Rightarrow> 'w cmd) \<Rightarrow> 'w cmd" where
  "parseCfgMgmtCmdArgs X args usage k =
    (let absolute = (\<lambda>uri. if is_remote uri \<or> HasPrefix uri ''/'' then uri else ''/config/'' @ uri)
     in if length args = 3 \<and> args ! 0 = routingInstanceArg then k (absolute (args ! 2)) (args ! 1)
        else if length args = 1 then k (absolute (args ! 0)) []
        else handleError X (Some (ExternalError (''Invalid arguments: '' @ Join '' '' args @ nl @ ''Usage: '' @ usage)))
               (k (absolute []) []))"

definition saveRunInternal :: "'w cli \<Rightarrow> Ctx \<Rightarrow> string list \<Rightarrow> 'w cmd \<Rightarrow> 'w cmd" where
  "saveRunInternal X ctx args k = sessionChanged X (\<lambda>chg.
     let warn = (if chg then echo ''Warning: you have uncommitted changes that will not be saved.'' @ nl else []);
         finish = (\<lambda>buf. do {
           e \<leftarrow> remote (api_SessionMarkSaved (api X));
           handleError X e (doSnippitAndContinue X ctx buf [] k) })
     in if args = [] then do {
          e \<leftarrow> remote (api_Save (api X) configBootPath);
          handleError X e (finish warn) }
        else parseCfgMgmtCmdArgs X args ''save [routing-instance <name>] <destination>'' (\<lambda>dest ri. do {
          e \<leftarrow> remote (api_SaveTo (api X) dest ri);
          handleError X e (finish (warn @ echo (''Configuration saved to '' @ apos @ dest @ apos) @ nl)) }))"

subsection \<open>Commit, cancel and roll back\<close>

definition commitRunInternal :: "'w cli \<Rightarrow> Ctx \<Rightarrow> string \<Rightarrow> int \<Rightarrow> 'w cmd \<Rightarrow> 'w cmd" where
  "commitRunInternal X ctx cmnt confirmTimeout k = sessionChanged X (\<lambda>chg.
     let committed = (\<lambda>out.
           let saved = saveRunInternal X ctx [] k
           in if out \<noteq> [] then doSnippitAndContinue X ctx (echo out @ nl) [] saved else saved)
     in if \<not> chg then handleError X (Some (ExternalError ''No configuration changes to commit'')) (os_Exit 0)
        else do {
          dbg \<leftarrow> isCommitDebugOn;
          if confirmTimeout \<noteq> 0 then do {
            (out, err) \<leftarrow> remote (api_CommitConfirm (api X) cmnt dbg confirmTimeout);
            handleErrorNoIndent X ''Commit'' err (do {
              cli_logRollbackEvent X (''Commit will rollback in '' @ Itoa confirmTimeout @ '' minutes unless confirmed.'');
              committed out }) }
          else do {
            (out, err) \<leftarrow> remote (api_Commit (api X) cmnt dbg);
            handleErrorNoIndent X ''Commit'' err (committed out) } })"

definition commitConfRun :: "'w cli \<Rightarrow> Ctx \<Rightarrow> 'w cmd" where
  "commitConfRun X ctx = validateCommitCommentIfAny X ctx 2 (\<lambda>cmnt.
     with_at (cx_Args ctx) 1 (\<lambda>t.
       commitRunInternal X ctx cmnt (case Atoi t of Inr n \<Rightarrow> n | Inl ErrSyntax \<Rightarrow> 0
         | Inl ErrRange \<Rightarrow> (if hd t = CHR ''-'' then - (2 ^ 63) else 2 ^ 63 - 1)) (os_Exit 0)))"

definition commitRun :: "'w cli \<Rightarrow> Ctx \<Rightarrow> 'w cmd" where
  "commitRun X ctx = validateCommitCommentIfAny X ctx 1 (\<lambda>cmnt. do {
     confirmSilentRun X;
     commitRunInternal X ctx cmnt 0 (os_Exit 0) })"

definition getCmdArg :: "cmdDefs \<Rightarrow> string \<Rightarrow> bool \<times> string" where
  "getCmdArg cmds arg = (case map_of cmds arg of
     None \<Rightarrow> (False, [])
   | Some def \<Rightarrow> (cd_present def, cd_argval def))"

text \<open>An output ends the process before the error is looked at.\<close>

definition shown_or_failed :: "'w cli \<Rightarrow> Ctx \<Rightarrow> string \<Rightarrow> error option \<Rightarrow> 'w cmd" where
  "shown_or_failed X ctx out err =
    (if out \<noteq> [] then doSnippit X ctx (echo out @ nl) [] else handleError X err (os_Exit 0))"

definition cancelcommitRun :: "'w cli \<Rightarrow> Ctx \<Rightarrow> 'w cmd" where
  "cancelcommitRun X ctx =
    (let cmds = fst (processCancelCommitCmd (x_range X) ctx)
     in do {
       dbg \<leftarrow> isCommitDebugOn;
       (out, err) \<leftarrow> remote (api_CancelCommit (api X) (snd (getCmdArg cmds ''comment'')) (snd (getCmdArg cmds ''persist-id''))
         (fst (getCmdArg cmds ''force'')) dbg);
       shown_or_failed X ctx out err })"

definition rollbackRun :: "'w cli \<Rightarrow> Ctx \<Rightarrow> 'w cmd" where
  "rollbackRun X ctx =
    (let args = cx_Args ctx
     in if tl args = [] then handleError X (Some (ExternalError
          (''Missing argument, usage is:'' @ nl @ ''  rollback <revision> [comment <text>]''))) gopanic
        else do {
          dbg \<leftarrow> isCommitDebugOn;
          (out, err) \<leftarrow> remote (api_Rollback (api X) (args ! 1)
            (if 3 \<le> length (tl args) \<and> args ! 2 = ''comment'' then args ! 3 else []) dbg);
          shown_or_failed X ctx out err })"

subsection \<open>Compare, delete, discard and edit\<close>

definition compareRun :: "'w cli \<Rightarrow> Ctx \<Rightarrow> 'w cmd" where
  "compareRun X ctx =
    (let args = cx_Args ctx;
         finish = (\<lambda>diff msg err. handleError X err
           (if diff \<noteq> [] then doSnippit X ctx (paged diff) []
            else if msg \<noteq> [] then doSnippit X ctx (echo msg @ nl) []
            else os_Exit 0))
     in if length args = 1 then do {
          (diff, err) \<leftarrow> remote (api_CompareSessionChanges (api X));
          finish diff [] err }
        else if length args > 2 then do {
          (diff, err) \<leftarrow> remote (api_CompareConfigRevisions (api X) (args ! 1) (args ! 2));
          finish diff (if diff = [] then ''No changes between revision '' @ args ! 1 @ '' and revision '' @ args ! 2 @ '' configurations''
             else []) err }
        else with_at args 1 (\<lambda>r. do {
          (diff, err) \<leftarrow> remote (api_CompareConfigRevisions (api X) ''session'' r);
          finish diff (if diff = [] \<and> r \<noteq> ''saved''
            then ''No changes between working and revision '' @ r @ '' configurations'' else []) err }))"

definition notspec :: "string \<Rightarrow> error" where
  "notspec c = ExternalError (''Must specify a path to '' @ c)"

definition deleteRun :: "'w cli \<Rightarrow> Ctx \<Rightarrow> 'w cmd" where
  "deleteRun X ctx =
    handleError X (if tl (cx_Args ctx) = [] then Some (notspec ''delete'') else None) (do {
      p \<leftarrow> editPath X (tl (cx_Args ctx));
      expandPathString X p (by_handleError X) (\<lambda>pstr. do {
        e \<leftarrow> remote (api_Delete (api X) pstr);
        handleError X e (os_Exit 0) }) })"

definition discardRun :: "'w cli \<Rightarrow> Ctx \<Rightarrow> 'w cmd" where
  "discardRun X ctx = do { e \<leftarrow> remote (api_Discard (api X)); handleError X e (os_Exit 0) }"

definition promptstr :: "path \<Rightarrow> string" where
  "promptstr p = ''edit'' @ concat (map (\<lambda>e. '' '' @ e) p)"

definition doEditSnippit :: "'w cli \<Rightarrow> Ctx \<Rightarrow> path \<Rightarrow> 'w cmd" where
  "doEditSnippit X ctx p =
    doSnippit X ctx (''export '' @ editenv @ ''='' @ apos @ (if p = [] then ''/'' else x_Pathstr X p) @ apos
      @ ''; export PS1='' @ apos @ ''['' @ promptstr p @ '']'' @ [CHR 0x5C] @ ''n'' @ [CHR 0x5C] @ ''u@'' @ [CHR 0x5C] @ ''h# ''
      @ apos @ '';'') []"

definition isListKey :: "smap \<Rightarrow> bool" where
  "isListKey tmpl = (mget tmpl ''is_value'' = ''1'' \<and> mget tmpl ''tag'' = ''1'')"

definition isValue :: "smap \<Rightarrow> bool" where
  "isValue tmpl = (mget tmpl ''is_value'' = ''1'')"

definition editRun :: "'w cli \<Rightarrow> Ctx \<Rightarrow> 'w cmd" where
  "editRun X ctx = do {
     ep \<leftarrow> editPath X (tl (cx_Args ctx));
     ExpandPath X ep (\<lambda>p. do {
       (tmpl, err) \<leftarrow> remote (api_TmplGet (api X) (x_Pathstr X p));
       handleError X err (handleError X
         (if \<not> isListKey tmpl \<and> mget tmpl ''type'' \<noteq> [] then
            Some (ExternalError (''The '' @ quot @ ''edit'' @ quot @ '' command cannot be issued at the specified level''))
          else None) (do {
         (found, err) \<leftarrow> remote (api_Exists (api X) CANDIDATE (x_Pathstr X p));
         handleError X err (do {
           (if \<not> found then do { _ \<leftarrow> remote (api_Set (api X) (x_Pathstr X p)); ret () } else ret ());
           doEditSnippit X ctx p }) })) }) }"

definition exit_snippit :: "bool \<Rightarrow> bool \<Rightarrow> string" where
  "exit_snippit chg keep =
    (let t = (\<lambda>b. if b then ''true'' else ''false''); tab = [CHR 0x09]
     in nl @ tab @ tab @ ''if ! cli-shell-api editLevelAtRoot; then'' @ nl
        @ tab @ tab @ tab @ ''reset_edit_level'' @ nl @ tab @ tab @ tab @ ''return 0'' @ nl @ tab @ tab @ ''fi'' @ nl
        @ tab @ tab @ ''if '' @ t chg @ ''; then'' @ nl @ tab @ tab @ tab @ ''if '' @ t keep @ ''; then'' @ nl
        @ tab @ tab @ tab @ tab @ echo ''Cannot exit: configuration modified.'' @ nl
        @ ''       '' @ tab @ tab @ tab @ echo (''Use '' @ apos @ ''exit discard'' @ apos @ '' to discard the changes and exit.'') @ nl
        @ tab @ tab @ tab @ tab @ ''return 1'' @ nl @ tab @ tab @ tab @ ''fi'' @ nl @ tab @ tab @ ''fi'' @ nl
        @ tab @ tab @ ''builtin exit'' @ nl @ tab)"

definition exitRun :: "'w cli \<Rightarrow> Ctx \<Rightarrow> 'w cmd" where
  "exitRun X ctx =
    (let finish = (\<lambda>discard. sessionChanged X (\<lambda>chg. doSnippit X ctx (exit_snippit chg (\<not> discard)) []))
     in if length (cx_Args ctx) > 1 \<and> HasPrefix ''discard'' (cx_Args ctx ! 1) then sessionChanged X finish
        else finish False)"

subsection \<open>Load, merge, run and save\<close>

definition loadRun :: "'w cli \<Rightarrow> Ctx \<Rightarrow> 'w cmd" where
  "loadRun X ctx = sessionChanged X (\<lambda>chg.
     handleError X (if chg then Some (ExternalError (''Cannot load: configuration modified.'' @ nl
         @ ''Commit or discard the changes before loading a config file.'')) else None)
      (let load = (\<lambda>source ri. do {
             err \<leftarrow> remote (api_LoadFrom (api X) source ri);
             sessionChanged X (\<lambda>now.
               let buf = (case err of None \<Rightarrow> [] | Some e \<Rightarrow> trim_right_nl (cli_err_text X e) @ nlnl)
                     @ (if err = None \<or> now then ''Configuration loaded from '' @ apos @ source @ apos else [])
                     @ (if now then '' will replace the existing configuration'' @ nl
                          @ ''Use '' @ apos @ ''compare'' @ apos @ '' to view the changes, or '' @ apos @ ''commit'' @ apos
                          @ '' to make them active''
                        else nl @ ''No configuration changes to commit'')
               in handleError X (map_option (\<lambda>_. ExternalError buf) err)
                    (doSnippit X ctx (''echo -e '' @ quot @ buf @ quot) [])) })
       in if length (cx_Args ctx) < 2 then load configBootPath []
          else parseCfgMgmtCmdArgs X (tl (cx_Args ctx)) ''load [routing-instance <name>] <source>'' load))"

definition loadkeyRun :: "'w cli \<Rightarrow> Ctx \<Rightarrow> 'w cmd" where
  "loadkeyRun X ctx =
    (let usage = ''loadkey <user> [routing-instance <name>] <source>''
     in if length (cx_Args ctx) < 3 then handleError X (Some (ExternalError (''Invalid command, usage is:'' @ nl @ ''  '' @ usage))) gopanic
        else sessionChanged X (\<lambda>chg.
          handleError X (if chg then Some (ExternalError (''Cannot load key: configuration modified.'' @ nl
              @ ''Commit or discard the changes before loading a key.'')) else None)
            (parseCfgMgmtCmdArgs X (drop 2 (cx_Args ctx)) usage (\<lambda>source ri. do {
               (out, err) \<leftarrow> remote (api_LoadKeys (api X) (cx_Args ctx ! 1) source ri);
               handleError X err (if out \<noteq> [] then doSnippit X ctx (echo out) [] else os_Exit 0) }))))"

definition mergeRun :: "'w cli \<Rightarrow> Ctx \<Rightarrow> 'w cmd" where
  "mergeRun X ctx = do {
     modify (\<lambda>s. s\<lparr>c_env := (c_env s)(editenv := [])\<rparr>);
     (done, errOrWarn) \<leftarrow> remote (api_MergeReportWarnings (api X) (Join '' '' (tl (cx_Args ctx))));
     if \<not> done then handleError X errOrWarn (os_Exit 0)
     else do {
       (case errOrWarn of None \<Rightarrow> ret () | Some e \<Rightarrow> handleNoError (cli_err_text X e));
       os_Exit 0 } }"

text \<open>\<open>json.Encoder\<close> on ASCII text; the characters of HTML are escaped as well.\<close>

definition hex_digit :: "nat \<Rightarrow> char" where
  "hex_digit n = ''0123456789abcdef'' ! n"

definition json_char :: "char \<Rightarrow> string" where
  "json_char c =
    (let n = (of_char c :: nat); bs = CHR 0x5C
     in if c = CHR 0x22 \<or> c = bs then [bs, c]
        else if c = CHR 0x0A then [bs, CHR ''n''] else if c = CHR 0x0D then [bs, CHR ''r''] else if c = CHR 0x09 then [bs, CHR ''t'']
        else if n < 32 \<or> c = CHR ''<'' \<or> c = CHR ''>'' \<or> c = CHR ''&''
        then [bs, CHR ''u'', CHR ''0'', CHR ''0'', hex_digit (n div 16), hex_digit (n mod 16)]
        else [c])"

definition json_string :: "string \<Rightarrow> string" where
  "json_string s = quot @ concat (map json_char s) @ quot"

definition encodeOpcArgs :: "Ctx \<Rightarrow> string list \<Rightarrow> string" where
  "encodeOpcArgs ctx args =
    (let out = ''{'' @ json_string ''args'' @ '':['' @ Join '','' (map json_string args) @ '']}''
     in if cx_Print ctx then replace_char CHR 0x22 [CHR 0x5C, CHR 0x22] out else out)"

definition runRun :: "'w cli \<Rightarrow> Ctx \<Rightarrow> 'w cmd" where
  "runRun X ctx =
    (case tl (cx_Args ctx) of
       [] \<Rightarrow> handleError X (Some (ExternalError ''Incomplete command: run'')) gopanic
     | a # as \<Rightarrow>
         let opc = [(''OPC_ARGS'', encodeOpcArgs ctx (a # as))]
         in if HasPrefix a ''/'' then doSnippit X ctx (Join '' '' (a # as)) []
            else if HasPrefix ''set'' a then doSnippit X ctx (''_vyatta_op_run '' @ quot @ ''${@:2}'' @ quot) []
            else if HasPrefix ''show'' a then doSnippit X ctx (''/opt/vyatta/bin/opc -op run-from-env | '' @ pager) opc
            else doSnippit X ctx ''/opt/vyatta/bin/opc -op run-from-env'' opc)"

definition saveRun :: "'w cli \<Rightarrow> Ctx \<Rightarrow> 'w cmd" where
  "saveRun X ctx =
    (if length (cx_Args ctx) = 1 then do {
       handleNoError (apos @ ''commit'' @ apos @ '' saves configuration.  This command has no effect'');
       os_Exit 0 }
     else saveRunInternal X ctx (tl (cx_Args ctx)) (os_Exit 0))"

subsection \<open>Set, show and the edit level\<close>

definition isSecret :: "'w cli \<Rightarrow> string \<Rightarrow> (bool \<Rightarrow> 'w cmd) \<Rightarrow> 'w cmd" where
  "isSecret X p k = do {
     (tmpl, err) \<leftarrow> remote (api_TmplGet (api X) p);
     handleError X err (k (mget tmpl ''secret'' = ''1'')) }"

definition setRun :: "'w cli \<Rightarrow> Ctx \<Rightarrow> 'w cmd" where
  "setRun X ctx =
    handleError X (if tl (cx_Args ctx) = [] then Some (notspec ''set'') else None) (do {
      ep \<leftarrow> editPath X (tl (cx_Args ctx));
      expandPathString X ep (by_handleError X) (\<lambda>p. do {
        (tmpl, err) \<leftarrow> remote (api_TmplGet (api X) p);
        handleError X err
          (let plain = do {
                 (out, err) \<leftarrow> remote (api_Set (api X) p);
                 handleError X err (if out \<noteq> [] then doSnippit X ctx (echo out @ nl) [] else os_Exit 0) }
           in if isValue tmpl then plain
              else isSecret X p (\<lambda>secret.
                if secret then doSnippit X ctx (''cfgcli -action setSecret '' @ p) [] else plain)) }) })"

definition showRun :: "'w cli \<Rightarrow> Ctx \<Rightarrow> 'w cmd" where
  "showRun X ctx = checkValidPath X ctx (\<lambda>err. handleError X err (do {
     ep \<leftarrow> editPath X (tl (cx_Args ctx));
     expandPathString X ep (by_printError X) (\<lambda>p. do {
       (out, err) \<leftarrow> remote (api_ShowConfigWithContextDiffs (api X) p (cx_All ctx));
       handleError X err (if out \<noteq> [] then doSnippit X ctx (paged out) [] else os_Exit 0) }) }))"

definition topRun :: "'w cli \<Rightarrow> Ctx \<Rightarrow> 'w cmd" where
  "topRun X ctx = do {
     lvl \<leftarrow> Getenv editenv;
     handleError X (if lvl = ''/'' then Some (ExternalError ''Already at the top level'') else None)
       (doEditSnippit X ctx []) }"

definition upRun :: "'w cli \<Rightarrow> Ctx \<Rightarrow> 'w cmd" where
  "upRun X ctx = do {
     lvl \<leftarrow> Getenv editenv;
     handleError X (if lvl = ''/'' then Some (ExternalError ''Already at the top level'') else None) (do {
       let p = Makepath (x_mg X) lvl;
       (tmpl, err) \<leftarrow> remote (api_TmplGet (api X) (x_Pathstr X p));
       handleError X err
         (with_slice p 0 (int (length p) - (if isListKey tmpl then 2 else 1)) (doEditSnippit X ctx)) }) }"

definition validateRun :: "'w cli \<Rightarrow> Ctx \<Rightarrow> 'w cmd" where
  "validateRun X ctx = sessionChanged X (\<lambda>chg.
     handleError X (if chg then None else Some (ExternalError ''No configuration changes to validate'')) (do {
       (out, err) \<leftarrow> remote (api_Validate (api X));
       handleErrorNoIndent X ''Validate'' err
         (if out \<noteq> [] then doSnippit X ctx (echo out @ nl) [] else os_Exit 0) }))"

end
