(* ===== verification/Cli_Complete.thy ===== *)
theory Cli_Complete
  imports Cli_Run
begin

text \<open>
  Completion, the rest of \<open>cmd/cfgcli/completefns.go\<close>: which words are offered at the
  cursor, the help text, and the text that bash evaluates to get them. A
  completion function hands its text to the rest of the run.
\<close>

definition CompHeader :: string where "CompHeader = nl @ ''Possible Completions:''"

definition defaultcomps :: smap where
  "defaultcomps = [(''<Enter>'', ''Execute the current command'')]"

definition fromschema :: "string \<Rightarrow> bool" where
  "fromschema cmd = (cmd \<notin> {''delete'', ''show'', ''comment'', ''activate'', ''deactivate''})"

definition getcompletions :: "'w cli \<Rightarrow> string list \<Rightarrow> (smap \<Rightarrow> 'w cmd) \<Rightarrow> 'w cmd" where
  "getcompletions X args k = do {
     (comps, err) \<leftarrow> remote (api_GetCompletions (api X) (fromschema (hd args)) (x_Pathstr X (tl args)));
     handleCompError X err (by_printError X) (k comps) }"

definition placeholder :: "string \<Rightarrow> bool" where
  "placeholder k = (HasPrefix k ''<'' \<and> HasSuffix k ''>'')"

definition range_keys :: "'w cli \<Rightarrow> (string \<times> 'a) list \<Rightarrow> string list" where
  "range_keys X m = x_range X (map fst m)"

definition mapkeys :: "'w cli \<Rightarrow> string \<Rightarrow> smap \<Rightarrow> string list \<times> string list" where
  "mapkeys X prefix m =
    (let ks = filter (\<lambda>k. HasPrefix k prefix) (range_keys X m)
     in (x_natsort X (filter (\<lambda>k. \<not> placeholder k) ks), x_natsort X (filter placeholder ks)))"

definition gettypeprefix :: "'w cli \<Rightarrow> path \<Rightarrow> ('w cst, string) state" where
  "gettypeprefix X p = do {
     (v, _) \<leftarrow> remote (api_TmplValidatePath (api X) (x_Pathstr X p));
     if \<not> v then ret ''  ''
     else do {
       (t, e) \<leftarrow> remote (api_NodeGetType (api X) (x_Pathstr X p));
       ret (if e \<noteq> None then ''  ''
            else if t = LEAF then ''  '' else if t = LEAF_LIST then ''+ ''
            else if t = CONTAINER then '' >'' else if t = LIST then ''+>'' else ''  '') } }"

subsection \<open>Help text\<close>

text \<open>One line per completion; the last of the proper ones has no newline.\<close>

fun help_rows :: "bool \<Rightarrow> (string \<Rightarrow> ('s, string) state) \<Rightarrow> string list \<Rightarrow> ('s, string) state" where
  "help_rows opn row [] = ret []"
| "help_rows opn row (n # ns) = do {
     t \<leftarrow> row n;
     rest \<leftarrow> help_rows opn row ns;
     ret (t @ (if opn \<and> ns = [] then [] else nl) @ rest) }"

definition help_text :: "'w cli \<Rightarrow> smap \<Rightarrow> (string \<Rightarrow> ('w cst, string) state) \<Rightarrow> ('w cst, string) state" where
  "help_text X comps lead = do {
     let (keys, nckeys) = mapkeys X [] comps;
     let row = (\<lambda>n. do { l \<leftarrow> lead n; ret (l @ n @ [CHR 0x09] @ mget comps n) });
     a \<leftarrow> help_rows False row nckeys;
     b \<leftarrow> help_rows True row keys;
     ret (tabwrite (CompHeader @ nl @ a @ b)) }"

definition printPathHelp :: "'w cli \<Rightarrow> Ctx \<Rightarrow> smap \<Rightarrow> (string \<Rightarrow> 'w cmd) \<Rightarrow> 'w cmd" where
  "printPathHelp X ctx comps k = ExpandPath X (tl (cx_Args ctx)) (\<lambda>p. do {
     t \<leftarrow> help_text X comps (\<lambda>n. do { typfx \<leftarrow> gettypeprefix X (p @ [n]); ret (typfx @ '' '') });
     k t })"

definition printHelp :: "'w cli \<Rightarrow> Ctx \<Rightarrow> smap \<Rightarrow> (string \<Rightarrow> 'w cmd) \<Rightarrow> 'w cmd" where
  "printHelp X ctx comps k = do { t \<leftarrow> help_text X comps (\<lambda>n. ret ''  ''); k t }"

subsection \<open>The text for bash\<close>

definition getCompReply :: "bool \<Rightarrow> string \<Rightarrow> string list \<Rightarrow> string" where
  "getCompReply dohelp helptext compreply =
    (if dohelp \<and> helptext \<noteq> [] then ''echo '' @ quot @ escapeConfig helptext @ quot @ '' | '' @ pager @ '';'' else [])
    @ ''COMPREPLY=( '' @ Join '' '' compreply @ '' )''"

definition prefixFilterMap :: "smap \<Rightarrow> string \<Rightarrow> smap" where
  "prefixFilterMap m pfx = filter (\<lambda>(k, v). HasPrefix k pfx) m"

definition prefix_of :: "Ctx \<Rightarrow> string" where
  "prefix_of ctx =
    (if cx_CompCurWord ctx = [] then (case cx_Args ctx of [] \<Rightarrow> [] | a # _ \<Rightarrow> a) else cx_Prefix ctx)"

definition makeAmbiguous :: "string list \<Rightarrow> bool" where
  "makeAmbiguous compreply =
    (length compreply = 1 \<or> length (remdups (map (\<lambda>rep. if rep = [] then None else Some (hd rep)) compreply)) = 1)"

text \<open>The two work-arounds for bash, each on the list of replies.\<close>

definition hack1 :: "string \<Rightarrow> string \<Rightarrow> string list \<Rightarrow> string list" where
  "hack1 cur pfx compreply =
    (if (cur = [] \<or> compreply \<noteq> [] \<and> HasPrefix (hd compreply) cur) \<and> pfx = [] then
       (if compreply = [] then [quot @ '' '' @ quot @ '' '', quot @ quot]
        else if makeAmbiguous compreply then compreply @ ['' '']
        else compreply)
     else compreply)"

definition append_space :: "bool \<Rightarrow> string list \<Rightarrow> string list" where
  "append_space appendSpace compreply =
    (if length compreply = 1 \<and> appendSpace then [hd compreply @ '' ''] else compreply)"

definition current_word :: "Ctx \<Rightarrow> string option" where
  "current_word ctx =
    (if cx_Args ctx \<noteq> [] \<and> int (length (cx_Args ctx)) > cx_CompCurIdx ctx then elem_at (cx_Args ctx) (cx_CompCurIdx ctx)
     else Some (cx_Prefix ctx))"

type_synonym 'w printFn = "Ctx \<Rightarrow> smap \<Rightarrow> (string \<Rightarrow> 'w cmd) \<Rightarrow> 'w cmd"

definition doComplete :: "'w cli \<Rightarrow> Ctx \<Rightarrow> bool \<Rightarrow> smap \<Rightarrow> 'w printFn \<Rightarrow> (string \<Rightarrow> 'w cmd) \<Rightarrow> 'w cmd" where
  "doComplete X ctx appendSpace compsin prntFn k =
    (case current_word ctx of
       None \<Rightarrow> gopanic
     | Some cur \<Rightarrow>
        let comps = prefixFilterMap compsin (prefix_of ctx);
            words = filter (\<lambda>w. \<not> placeholder w) (range_keys X comps);
            compreply = append_space appendSpace (hack1 cur (prefix_of ctx) words);
            dohelp = (cx_DoHelp ctx \<or> cur = [])
        in if length compreply = 1 \<and> cur \<noteq> [] \<and> HasPrefix (hd compreply) cur
              \<or> length compreply = 1 \<and> cx_Prefix ctx \<noteq> [] \<and> HasPrefix (hd compreply) (cx_Prefix ctx)
           then k (getCompReply False [] compreply)
           else if dohelp \<or> compreply = [] then
             prntFn ctx (if compreply = [] then compsin else comps) (\<lambda>t.
               k (getCompReply True t [quot @ quot, quot @ '' '' @ quot]))
           else k (getCompReply dohelp [] compreply))"

subsection \<open>The completions of the commands\<close>

abbreviation simpleComp :: "'w cli \<Rightarrow> Ctx \<Rightarrow> smap \<Rightarrow> (string \<Rightarrow> 'w cmd) \<Rightarrow> 'w cmd" where
  "simpleComp X ctx m \<equiv> doComplete X ctx True m (printHelp X)"

definition singleCommandComp :: "'w cli \<Rightarrow> Ctx \<Rightarrow> (string \<Rightarrow> 'w cmd) \<Rightarrow> 'w cmd" where
  "singleCommandComp X ctx = simpleComp X ctx defaultcomps"

definition loadsaveComp :: "Ctx \<Rightarrow> string \<Rightarrow> string \<Rightarrow> smap" where
  "loadsaveComp ctx opname prep =
    (if cx_Prefix ctx = [] then
       let far = opname @ '' '' @ prep @ '' file on remote machine''
       in [(''<Enter>'', if opname = ''Save'' then ''(deprecated - '' @ apos @ ''commit'' @ apos @ '' saves system config file)''
              else opname @ '' '' @ prep @ '' system config file''),
           (''<file>'', opname @ '' '' @ prep @ '' file on local machine''),
           (''scp://<user>:<passwd>@<host>/<file>'', far), (''ftp://<user>:<passwd>@<host>/<file>'', far),
           (''http://<user>:<passwd>@<host>/<file>'', far), (''tftp://<host>/<file>'', far)]
     else defaultcomps)"

definition ri_loadsaveComp :: "Ctx \<Rightarrow> string \<Rightarrow> string \<Rightarrow> smap" where
  "ri_loadsaveComp ctx opname prep =
    (if cx_Prefix ctx = []
     then AList.update routingInstanceArg ''Use routing instance for remote connection'' (loadsaveComp ctx opname prep)
     else loadsaveComp ctx opname prep)"

definition blanks :: "string list \<Rightarrow> smap" where
  "blanks names = fold (\<lambda>n. AList.update n []) names []"

definition addRINames :: "'w cli \<Rightarrow> ('w cst, smap) state" where
  "addRINames X = do {
     (names, err) \<leftarrow> remote (api_Get (api X) RUNNING ''routing/routing-instance'');
     ret (if err \<noteq> None then [] else blanks names) }"

definition riComp :: "'w cli \<Rightarrow> Ctx \<Rightarrow> (smap \<Rightarrow> 'w cmd) \<Rightarrow> 'w cmd" where
  "riComp X ctx k =
    (if cx_Prefix ctx = [] then
       with_at (cx_Args ctx) (cx_CompCurIdx ctx - 1) (\<lambda>a.
         if a = routingInstanceArg then do { m \<leftarrow> addRINames X; k m } else k defaultcomps)
     else k defaultcomps)"

text \<open>\<open>load\<close> and \<open>save\<close>, and \<open>loadkey\<close> one word later: \<open>from\<close> is the position of the first argument.\<close>

definition transferComp :: "'w cli \<Rightarrow> Ctx \<Rightarrow> int \<Rightarrow> string \<Rightarrow> string \<Rightarrow> smap \<Rightarrow> (string \<Rightarrow> 'w cmd) \<Rightarrow> 'w cmd" where
  "transferComp X ctx first opname prep m k =
    (if cx_HasRoutingInstance ctx then
       (if cx_CompCurIdx ctx = first then simpleComp X ctx (ri_loadsaveComp ctx opname prep) k
        else if cx_CompCurIdx ctx = first + 1 then riComp X ctx (\<lambda>m'. simpleComp X ctx m' k)
        else if cx_CompCurIdx ctx = first + 2 then simpleComp X ctx (loadsaveComp ctx opname prep) k
        else simpleComp X ctx m k)
     else if cx_CompCurIdx ctx = first then simpleComp X ctx (loadsaveComp ctx opname prep) k
     else simpleComp X ctx m k)"

definition loadComp :: "'w cli \<Rightarrow> Ctx \<Rightarrow> (string \<Rightarrow> 'w cmd) \<Rightarrow> 'w cmd" where
  "loadComp X ctx = transferComp X ctx 1 ''Load'' ''from'' defaultcomps"

definition saveComp :: "'w cli \<Rightarrow> Ctx \<Rightarrow> (string \<Rightarrow> 'w cmd) \<Rightarrow> 'w cmd" where
  "saveComp X ctx = transferComp X ctx 1 ''Save'' ''to'' defaultcomps"

definition loadkeyComp :: "'w cli \<Rightarrow> Ctx \<Rightarrow> (string \<Rightarrow> 'w cmd) \<Rightarrow> 'w cmd" where
  "loadkeyComp X ctx k =
    (if cx_CompCurIdx ctx = 1 then do {
       (us, err) \<leftarrow> remote (api_Get (api X) CANDIDATE ''/system/login/user'');
       handleError X err (transferComp X ctx 2 ''Load'' ''from'' (blanks us) k) }
     else transferComp X ctx 2 ''Load'' ''from'' defaultcomps k)"

definition add_all :: "smap \<Rightarrow> smap \<Rightarrow> smap" where
  "add_all m new = fold (\<lambda>(k, v). AList.update k v) new m"

definition rollbackComp :: "'w cli \<Rightarrow> Ctx \<Rightarrow> (string \<Rightarrow> 'w cmd) \<Rightarrow> 'w cmd" where
  "rollbackComp X ctx k =
    (if cx_CompCurIdx ctx = 1 then do {
       (commits, _) \<leftarrow> remote (api_GetCommitLog (api X));
       simpleComp X ctx (add_all [(''<N>'', ''Rollback to revision N'')] commits) k }
     else if cx_CompCurIdx ctx = 2 then
       simpleComp X ctx [(''<Enter>'', ''Execute the current command''), (''comment'', ''Comment for commit log'')] k
     else if cx_CompCurIdx ctx = 3 then simpleComp X ctx [(''<text>'', ''Comment for commit log'')] k
     else simpleComp X ctx defaultcomps k)"

definition cancelcommitComp :: "'w cli \<Rightarrow> Ctx \<Rightarrow> (string \<Rightarrow> 'w cmd) \<Rightarrow> 'w cmd" where
  "cancelcommitComp X ctx k =
    (let (commands, match, _) = processCancelCommitCmd (x_range X) ctx;
         n = int (length (cx_Args ctx));
         argument = (if match = [] then [] else (case map_of commands match of
            None \<Rightarrow> []
          | Some def \<Rightarrow>
              if cd_needArg def \<and> \<not> cd_argpresent def \<and> cd_pos def \<noteq> n - 1 \<or> cd_pos def = n - 2
              then [(''<text>'', cd_help def)] else []));
         offered = (\<lambda>def. (\<not> cd_present def \<or> cd_pos def = n - 1 \<or> cd_needArg def \<and> \<not> cd_argpresent def)
            \<and> (\<not> cd_atStart def \<or> n \<le> 2));
         m = (if argument \<noteq> [] then argument
              else (''<Enter>'', ''Cancel pending confirmed commit'')
                # [(keyword, cd_help def). (keyword, def) \<leftarrow> commands, offered def])
     in simpleComp X ctx m k)"

definition confirmComp :: "'w cli \<Rightarrow> Ctx \<Rightarrow> (string \<Rightarrow> 'w cmd) \<Rightarrow> 'w cmd" where
  "confirmComp X ctx = simpleComp X ctx
    (if cx_CompCurIdx ctx = 1 then [(''<Enter>'', ''Confirm acceptance of running configuration''),
       (''persist-id'', ''Persist-id of pending confirmed commit'')]
     else if cx_CompCurIdx ctx = 2 then [(''<text>'', ''Persist-id of pending confirmed commit'')]
     else defaultcomps)"

definition commitConfComp :: "'w cli \<Rightarrow> Ctx \<Rightarrow> (string \<Rightarrow> 'w cmd) \<Rightarrow> 'w cmd" where
  "commitConfComp X ctx = simpleComp X ctx
    (if cx_CompCurIdx ctx = 1 then
       [(''<value>'', ''Time (minutes) to issue '' @ apos @ ''confirm'' @ apos @ '' before automatic rollback'')]
     else if cx_CompCurIdx ctx = 2 then [(''<Enter>'', ''Commit working configuration subject to confirmation''),
       (''comment'', ''Comment for commit log'')]
     else if cx_CompCurIdx ctx = 3 then [(''<text>'', ''Comment for the commit log'')]
     else defaultcomps)"

definition commitComp :: "'w cli \<Rightarrow> Ctx \<Rightarrow> (string \<Rightarrow> 'w cmd) \<Rightarrow> 'w cmd" where
  "commitComp X ctx = simpleComp X ctx
    (if cx_CompCurIdx ctx = 1 then [(''<Enter>'', ''Commit working configuration''), (''comment'', ''Comment for commit log'')]
     else if cx_CompCurIdx ctx = 2 then [(''<text>'', ''Comment for the commit log'')]
     else defaultcomps)"

definition compareComp :: "'w cli \<Rightarrow> Ctx \<Rightarrow> (string \<Rightarrow> 'w cmd) \<Rightarrow> 'w cmd" where
  "compareComp X ctx k =
    (if \<not> cx_HasConfigMgmt ctx then simpleComp X ctx defaultcomps k
     else do {
       (commits, _) \<leftarrow> remote (api_GetCommitLog (api X));
       if cx_CompCurIdx ctx = 1 then
         simpleComp X ctx (add_all [(''<Enter>'', ''Compare candidate with running''), (''saved'', ''Compare candidate with saved''),
           (''<N>'', ''Compare candidate with revision N''), (''<N> <M>'', ''Compare revision N with revision M'')] commits) k
       else if cx_CompCurIdx ctx = 2 then with_at (cx_Args ctx) 1 (\<lambda>a1.
         simpleComp X ctx (if HasPrefix ''saved'' a1 then [(''<Enter>'', ''Compare candidate with saved'')]
           else add_all [(''<Enter>'', ''Compare candidate with revision N''), (''<M>'', ''Compare revision N with revision M'')]
             commits) k)
       else simpleComp X ctx defaultcomps k })"

definition pathComp :: "'w cli \<Rightarrow> Ctx \<Rightarrow> (string \<Rightarrow> 'w cmd) \<Rightarrow> 'w cmd" where
  "pathComp X ctx k = with_slice (cx_Args ctx) 1 (cx_CompCurIdx ctx) (\<lambda>typed. do {
     (epath, elen) \<leftarrow> editPathLength X typed;
     ExpandPath X epath (\<lambda>p.
       let ctx' = ctx\<lparr>cx_Args := hd (cx_Args ctx) # p, cx_CompCurIdx := cx_CompCurIdx ctx + elen\<rparr>
       in getcompletions X (cx_Args ctx') (\<lambda>m. doComplete X ctx' True m (printPathHelp X) k)) })"

definition exitComp :: "'w cli \<Rightarrow> Ctx \<Rightarrow> (string \<Rightarrow> 'w cmd) \<Rightarrow> 'w cmd" where
  "exitComp X ctx = simpleComp X ctx
    (if cx_CompCurIdx ctx = 1 then [(''<Enter>'', mget defaultcomps ''<Enter>''), (''discard'', ''Discard any changes'')]
     else defaultcomps)"

definition mergeComp :: "'w cli \<Rightarrow> Ctx \<Rightarrow> (string \<Rightarrow> 'w cmd) \<Rightarrow> 'w cmd" where
  "mergeComp X ctx = simpleComp X ctx
    (if cx_CompCurIdx ctx = 1 then [(''<file>'', ''Load from file on local machine'')] else defaultcomps)"

definition runComp :: "'w cli \<Rightarrow> Ctx \<Rightarrow> (string \<Rightarrow> 'w cmd) \<Rightarrow> 'w cmd" where
  "runComp X ctx k = k []"

end
