(* ===== verification/Cli_Main.thy ===== *)
theory Cli_Main
  imports Cli_Complete
begin

text \<open>
  The command table (\<open>cmd/cfgcli/commands.go\<close>), the two entry points \<open>run\<close> and
  \<open>complete\<close> and the other actions (\<open>main.go\<close>, \<open>getpass.go\<close>, \<open>shellinit.go\<close>).
\<close>

subsection \<open>Commands\<close>

record 'w command =
  cmd_Name :: string
  cmd_Help :: string
  cmd_CompFn :: "Ctx \<Rightarrow> (string \<Rightarrow> 'w cmd) \<Rightarrow> 'w cmd"
  cmd_RunFn :: "Ctx \<Rightarrow> 'w cmd"
  cmd_ValidFn :: "(Ctx \<Rightarrow> (error option \<Rightarrow> 'w cmd) \<Rightarrow> 'w cmd) option"

definition NewCommand ::
  "string \<Rightarrow> string \<Rightarrow> (Ctx \<Rightarrow> (string \<Rightarrow> 'w cmd) \<Rightarrow> 'w cmd) \<Rightarrow> (Ctx \<Rightarrow> 'w cmd)
    \<Rightarrow> (Ctx \<Rightarrow> (error option \<Rightarrow> 'w cmd) \<Rightarrow> 'w cmd) option \<Rightarrow> string \<times> 'w command" where
  "NewCommand name help cfunc rfunc vfunc =
    (name, \<lparr>cmd_Name = name, cmd_Help = help, cmd_CompFn = cfunc, cmd_RunFn = rfunc, cmd_ValidFn = vfunc\<rparr>)"

type_synonym 'w commands = "(string \<times> 'w command) list"

definition populateCommands :: "'w cli \<Rightarrow> 'w commands" where
  "populateCommands X = [
     NewCommand ''commit'' ''Commit the current set of changes'' (commitComp X) (commitRun X) (Some (checked commitValid)),
     NewCommand ''compare'' ''Compare configuration revisions'' (compareComp X) (compareRun X) (Some (checked compareValid)),
     NewCommand ''delete'' ''Delete a configuration element'' (pathComp X) (deleteRun X) (Some (checkValidPath X)),
     NewCommand ''discard'' ''Discard uncommitted changes'' (singleCommandComp X) (discardRun X) (Some (checked validSingleCommand)),
     NewCommand ''edit'' ''Edit a sub-element'' (pathComp X) (editRun X) (Some (checkValidPath X)),
     NewCommand ''exit'' ''Exit from this configuration level'' (exitComp X) (exitRun X) (Some (checked exitValid)),
     NewCommand ''load'' ''Load configuration from a file and replace candidate configuration'' (loadComp X) (loadRun X)
       (Some (checked loadsaveValid)),
     NewCommand ''merge'' ''Merge configuration from a file into the candidate configuration'' (mergeComp X) (mergeRun X)
       (Some (checked mergeValid)),
     NewCommand ''run'' ''Run an operational-mode command'' (runComp X) (runRun X) None,
     NewCommand ''save'' ''Save configuration to a file'' (saveComp X) (saveRun X) (Some (checked loadsaveValid)),
     NewCommand ''set'' ''Set the value of a parameter or create a new element'' (pathComp X) (setRun X) (Some (checkValidPath X)),
     NewCommand ''show'' ''Show the configuration (default values may be suppressed)'' (pathComp X) (showRun X)
       (Some (checkValidPath X)),
     NewCommand ''top'' ''Set the edit level to the root'' (singleCommandComp X) (topRun X) (Some (checked validSingleCommand)),
     NewCommand ''up'' ''Set the edit level one level up'' (singleCommandComp X) (upRun X) (Some (checked validSingleCommand)),
     NewCommand ''validate'' ''Validate the current set of changes'' (singleCommandComp X) (validateRun X)
       (Some (checked validSingleCommand))]"

definition mgmt_commands :: "'w cli \<Rightarrow> 'w commands" where
  "mgmt_commands X = [
     NewCommand ''confirm'' ''Confirm configuration changes'' (confirmComp X) (confirmRun X) (Some (checked confirmValid)),
     NewCommand ''cancel-commit'' ''Cancel a confirmed commit'' (cancelcommitComp X) (cancelcommitRun X)
       (Some (checked (cancelcommitValid (x_range X)))),
     NewCommand ''rollback'' ''Rollback to a previous configuration'' (rollbackComp X) (rollbackRun X) (Some (checked rollbackValid)),
     NewCommand ''commit-confirm'' ''Commit the current set of changes; rollback if not confirmed'' (commitConfComp X)
       (commitConfRun X) (Some (checked commitConfValid))]"

definition loadkey_command :: "'w cli \<Rightarrow> 'w commands" where
  "loadkey_command X = [NewCommand ''loadkey'' ''Load user SSH key from a file'' (loadkeyComp X) (loadkeyRun X) (Some (checked loadKeyValid))]"

definition has_feature :: "'w cli \<Rightarrow> string \<Rightarrow> ('w cst, bool) state" where
  "has_feature X f = do {
     (feats, err) \<leftarrow> remote (api_GetConfigSystemFeatures (api X));
     ret (err = None \<and> f \<in> set feats) }"

definition checkLoadKey :: "'w cli \<Rightarrow> ('w cst, bool) state" where
  "checkLoadKey X = has_feature X LoadKeysFeature"

definition checkConfigMgmt :: "'w cli \<Rightarrow> ('w cst, bool) state" where
  "checkConfigMgmt X = has_feature X ConfigManagementFeature"

definition checkRoutingInstance :: "'w cli \<Rightarrow> ('w cst, bool) state" where
  "checkRoutingInstance X = has_feature X RoutingInstanceFeature"

text \<open>The table of a run: the fixed commands and those of the features the system has.\<close>

definition updateDynamicCommands :: "'w cli \<Rightarrow> ('w cst, 'w commands) state" where
  "updateDynamicCommands X = do {
     mgmt \<leftarrow> checkConfigMgmt X;
     key \<leftarrow> checkLoadKey X;
     ret (populateCommands X @ (if mgmt then mgmt_commands X else []) @ (if key then loadkey_command X else [])) }"

definition CommandHelps :: "'w commands \<Rightarrow> smap" where
  "CommandHelps cmds = map (\<lambda>(k, v). (k, cmd_Help v)) cmds"

definition ExpandCommand :: "'w cli \<Rightarrow> 'w commands \<Rightarrow> string \<Rightarrow> string result" where
  "ExpandCommand X cmds name =
    (let keys = range_keys X cmds
     in if name \<in> set keys then Inr name
        else case filter (\<lambda>k. HasPrefix k name) keys of
          [] \<Rightarrow> Inl (UnknownElementApplicationError name None)
        | [k] \<Rightarrow> Inr k
        | ks \<Rightarrow> Inl (PathAmbiguousError [] (map (\<lambda>k. (k, mget (CommandHelps cmds) k)) ks)))"

definition GetCommand :: "'w cli \<Rightarrow> 'w commands \<Rightarrow> string \<Rightarrow> 'w command result" where
  "GetCommand X cmds name = (case ExpandCommand X cmds name of
     Inl e \<Rightarrow> Inl e
   | Inr n \<Rightarrow> (case map_of cmds n of
       None \<Rightarrow> Inl (ExternalError (''Invalid command '' @ n))
     | Some c \<Rightarrow> Inr c))"

subsection \<open>The flag of \<open>show\<close>\<close>

text \<open>\<open>flag.FlagSet\<close> with the one boolean flag \<open>all\<close>: what is left, its value, and what is printed on error.\<close>

definition parse_bool :: "string \<Rightarrow> bool option" where
  "parse_bool v =
    (if v \<in> {''1'', ''t'', ''T'', ''TRUE'', ''true'', ''True''} then Some True
     else if v \<in> {''0'', ''f'', ''F'', ''FALSE'', ''false'', ''False''} then Some False
     else None)"

definition show_usage :: string where
  "show_usage = ''Usage of show:'' @ nl @ ''  -all'' @ nl @ ''    '' @ [CHR 0x09] @ ''Show defaults'' @ nl"

fun parse_flags :: "string list \<Rightarrow> bool \<Rightarrow> string list \<times> bool \<times> string" where
  "parse_flags [] all = ([], all, [])"
| "parse_flags (s # rest) all =
    (if length s < 2 \<or> hd s \<noteq> CHR ''-'' then (s # rest, all, [])
     else if s = ''--'' then (rest, all, [])
     else let name = (if HasPrefix s ''--'' then drop 2 s else tl s);
              flag = hd name # takeWhile (\<lambda>c. c \<noteq> CHR ''='') (tl name);
              given = dropWhile (\<lambda>c. c \<noteq> CHR ''='') (tl name)
       in if hd name = CHR ''-'' \<or> hd name = CHR ''='' then (s # rest, all, ''bad flag syntax: '' @ s @ nl @ show_usage)
          else if flag = ''help'' \<or> flag = ''h'' then (rest, all, show_usage)
          else if flag \<noteq> ''all'' then (rest, all, ''flag provided but not defined: -'' @ flag @ nl @ show_usage)
          else if given = [] then parse_flags rest True
          else case parse_bool (tl given) of
            Some b \<Rightarrow> parse_flags rest b
          | None \<Rightarrow> (rest, all, ''invalid boolean value '' @ quot @ tl given @ quot @ '' for -all: parse error'' @ nl @ show_usage))"

definition parseShowAll :: "Ctx \<Rightarrow> ('w cst, Ctx) state" where
  "parseShowAll ctx = do {
     let (args, all, msg) = parse_flags (tl (cx_Args ctx)) False;
     put_err msg;
     ret (ctx\<lparr>cx_Args := hd (cx_Args ctx) # args, cx_All := all\<rparr>) }"

subsection \<open>Running and completing a command line\<close>

record cmdLineParams =
  p_action :: string
  p_pfx :: string
  p_cword :: string
  p_cidx :: int
  p_lastcomp :: string
  p_dohelp :: bool
  p_printcmd :: bool

definition with_features :: "'w cli \<Rightarrow> Ctx \<Rightarrow> ('w cst, Ctx) state" where
  "with_features X ctx = do {
     lk \<leftarrow> checkLoadKey X;
     cm \<leftarrow> checkConfigMgmt X;
     ri \<leftarrow> checkRoutingInstance X;
     ret (ctx\<lparr>cx_HasLoadKey := lk, cx_HasConfigMgmt := cm, cx_HasRoutingInstance := ri\<rparr>) }"

definition noncomp :: string where "noncomp = ''__noncomp__''"

definition run_ctx :: "string list \<Rightarrow> cmdLineParams \<Rightarrow> Ctx" where
  "run_ctx args params = \<lparr>cx_Args = args, cx_CompCurIdx = 0, cx_CompCurWord = [], cx_Prefix = noncomp, cx_LastComp = [],
     cx_DoHelp = False, cx_Print = p_printcmd params, cx_All = False, cx_HasLoadKey = False, cx_HasConfigMgmt = False,
     cx_HasRoutingInstance = False\<rparr>"

definition checked_command :: "'w command \<Rightarrow> Ctx \<Rightarrow> (error option \<Rightarrow> 'w cmd) \<Rightarrow> 'w cmd" where
  "checked_command c ctx k = (case cmd_ValidFn c of None \<Rightarrow> k None | Some f \<Rightarrow> f ctx k)"

definition run_command :: "'w cli \<Rightarrow> 'w command \<Rightarrow> Ctx \<Rightarrow> 'w cmd" where
  "run_command X c ctx = checked_command c ctx (\<lambda>err. handleError X err (cmd_RunFn c ctx))"

definition run_handler :: "'w cli \<Rightarrow> 'w commands \<Rightarrow> string list \<Rightarrow> cmdLineParams \<Rightarrow> 'w cmd" where
  "run_handler X cmds args params =
    (if args = [] then handleError X (Some (ExternalError ''Must supply command to run'')) gopanic
     else do {
       ctx \<leftarrow> with_features X (run_ctx args params);
       (case GetCommand X cmds (hd args) of
          Inl e \<Rightarrow> handleError X (Some e) (os_Exit 0)
        | Inr c \<Rightarrow> do {
            let named = ctx\<lparr>cx_Args := cmd_Name c # tl args\<rparr>;
            full \<leftarrow> (if cmd_Name c = ''show'' then parseShowAll named else ret named);
            run_command X c full }) })"

definition createCompleteCtx :: "'w cli \<Rightarrow> string list \<Rightarrow> cmdLineParams \<Rightarrow> ('w cst, Ctx) state" where
  "createCompleteCtx X args params = with_features X \<lparr>cx_Args = args, cx_CompCurIdx = p_cidx params, cx_CompCurWord = p_cword params,
     cx_Prefix = p_pfx params, cx_LastComp = p_lastcomp params, cx_DoHelp = p_dohelp params, cx_Print = p_printcmd params,
     cx_All = False, cx_HasLoadKey = False, cx_HasConfigMgmt = False, cx_HasRoutingInstance = False\<rparr>"

definition firstWordComp :: "'w cli \<Rightarrow> 'w commands \<Rightarrow> Ctx \<Rightarrow> (string \<Rightarrow> 'w cmd) \<Rightarrow> 'w cmd" where
  "firstWordComp X cmds ctx = doComplete X ctx True (CommandHelps cmds) (printHelp X)"

definition complete_handler :: "'w cli \<Rightarrow> 'w commands \<Rightarrow> string list \<Rightarrow> cmdLineParams \<Rightarrow> 'w cmd" where
  "complete_handler X cmds args params = do {
     ctx \<leftarrow> createCompleteCtx X args params;
     let done = (\<lambda>t. do { put_out t; os_Exit 0 });
     if cx_CompCurIdx ctx = 0 \<or> args = [] then firstWordComp X cmds ctx done
     else (case GetCommand X cmds (hd args) of
        Inl e \<Rightarrow> handleCompError X (Some e) (by_printError X) (os_Exit 0)
      | Inr c \<Rightarrow> do {
          let named = ctx\<lparr>cx_Args := cmd_Name c # tl args\<rparr>;
          full \<leftarrow> (if cmd_Name c = ''show'' then do {
             shown \<leftarrow> parseShowAll named;
             ret (if cx_All shown \<and> cx_CompCurIdx shown > 1 then shown\<lparr>cx_CompCurIdx := cx_CompCurIdx shown - 1\<rparr> else shown) }
           else ret named);
          checked_command c full (\<lambda>err. handleCompError X err (by_printError X) (cmd_CompFn c full done)) }) }"

definition expand :: "'w cli \<Rightarrow> path \<Rightarrow> 'w cmd" where
  "expand X p = do {
     (pstr, err) \<leftarrow> remote (api_Expand (api X) (x_Pathstr X p));
     handleError X err (do { put_out (Join '' '' (Makepath (x_mg X) pstr) @ nl); os_Exit 0 }) }"

subsection \<open>Typing a secret\<close>

text \<open>
  \<open>GetPass\<close> reads a line in pieces of 16 bytes; in canonical mode the terminal
  hands out one line at a time, of which \<open>buf\<close> is what is left.
\<close>

function getpass_read :: "string \<Rightarrow> string \<Rightarrow> string option" where
  "getpass_read buf got =
    (let piece = take 16 buf
     in if piece = [] then (if got = [] then None else Some got)
        else let clean = (if last piece = CHR 0x0A then butlast piece else piece)
          in if length clean < 16 then Some (got @ clean) else getpass_read (drop 16 buf) (got @ clean))"
  by pat_completeness auto
termination by (relation "measure (\<lambda>(buf, got). length buf)") (auto split: if_splits)

declare getpass_read.simps [simp del]

text \<open>The lines that the terminal still has to deliver; at the end of input \<open>GetPass\<close> returns \<open>io.EOF\<close>.\<close>

definition GetPass :: "string \<Rightarrow> string list \<Rightarrow> ('w cst, string option) state" where
  "GetPass prompt input = do {
     put_out (prompt @ nl);
     ret (case input of [] \<Rightarrow> None | l # _ \<Rightarrow> getpass_read l []) }"

definition io_EOF :: error where "io_EOF = ExternalError ''EOF''"

definition eof_if :: "'a option \<Rightarrow> error option" where
  "eof_if p = (case p of None \<Rightarrow> Some io_EOF | Some _ \<Rightarrow> None)"

text \<open>The loop in \<open>setSecret\<close>, which repeats until both entries agree.\<close>

fun read_secret :: "'w cli \<Rightarrow> string list \<Rightarrow> (string \<Rightarrow> 'w cmd) \<Rightarrow> 'w cmd" where
  "read_secret X input k = do {
     p \<leftarrow> GetPass ''Secret: '' input;
     handleError X (eof_if p) (do {
       p2 \<leftarrow> GetPass ''Retype secret: '' (tl input);
       handleError X (eof_if p2) (
         if p = p2 then k (the p)
         else do {
           put_err (''Secrets do not match'' @ nl);
           (case input of l # l2 # rest \<Rightarrow> read_secret X rest k | _ \<Rightarrow> gopanic) }) }) }"

declare read_secret.simps [simp del]

definition setSecret :: "'w cli \<Rightarrow> string list \<Rightarrow> string list \<Rightarrow> 'w cmd" where
  "setSecret X args input =
    (if args = [] then handleError X (Some (ExternalError ''Must supply path to set'')) gopanic
     else isSecret X (hd args) (\<lambda>secret.
       handleError X (if secret then None else Some (ExternalError (''Path doesn'' @ apos @ ''t require a secret'')))
         (read_secret X input (\<lambda>passwd. do {
            (out, err) \<leftarrow> remote (api_Set (api X) (x_Pathstr X (Makepath (x_mg X) (hd args) @ [passwd])));
            handleError X err (do { (if out \<noteq> [] then printOutput out else ret ()); os_Exit 0 }) }))))"

subsection \<open>Shell set-up\<close>

definition shell_words :: "string list" where
  "shell_words = [[], ''for'', ''do'', ''done'', ''if'', ''fi'', ''case'', ''while'', ''tr'']"

definition command_prefixes :: "'w cli \<Rightarrow> 'w commands \<Rightarrow> string list" where
  "command_prefixes X cmds = remdups (concat (map (\<lambda>cmd.
     filter (\<lambda>p. p \<notin> set shell_words) (map (\<lambda>n. take n cmd) [0..<length cmd]) @ [cmd]) (range_keys X (CommandHelps cmds))))"

definition initShell :: "'w cli \<Rightarrow> 'w commands \<Rightarrow> 'w cmd" where
  "initShell X cmds = do {
     put_out (''complete -E -F vyatta_config_complete'' @ nl @ ''complete -I -F vyatta_config_default_complete'' @ nl
       @ concat (map (\<lambda>k. ''complete -F '' @ (if HasPrefix ''run'' k then ''vyatta_run_complete '' else ''vyatta_config_complete '') @ k @ nl
            @ ''alias '' @ k @ ''='' @ apos @ ''vyatta_cfg_run '' @ k @ apos @ nl) (x_range X (command_prefixes X cmds)))
       @ ''shopt -s histverify'' @ nl);
     os_Exit 0 }"

definition cli_main :: "'w cli \<Rightarrow> string list \<Rightarrow> cmdLineParams \<Rightarrow> string list \<Rightarrow> 'w cmd" where
  "cli_main X args params input = do {
     cmds \<leftarrow> updateDynamicCommands X;
     (if p_action params = ''complete'' then complete_handler X cmds args params
      else if p_action params = ''expand'' then expand X args
      else if p_action params = ''run'' then run_handler X cmds args params
      else if p_action params = ''setSecret'' then setSecret X args input
      else if p_action params = ''init'' then initShell X cmds
      else os_Exit 0) }"

end
