(* ===== verification/Cli_Props.thy ===== *)
theory Cli_Props
  imports Cli_Main "HOL-Library.Multiset"
begin

text \<open>
  What the configuration shell guarantees: command words resolve the same in whatever
  order the table is visited, completion offers only words that extend what was
  typed, what is shown reaches the terminal unchanged, a configuration is
  saved only after it was committed, and a secret is stored only if it was typed twice.
\<close>

text \<open>A \<open>range\<close> over a map visits every key once, in some order.\<close>

definition range_ok :: "(string list \<Rightarrow> string list) \<Rightarrow> bool" where
  "range_ok rng \<longleftrightarrow> (\<forall>ks. mset (rng ks) = mset ks)"

lemma range_ok_set: "range_ok rng \<Longrightarrow> set (rng ks) = set ks"
  unfolding range_ok_def by (metis set_mset_mset)

lemma range_ok_distinct: "range_ok rng \<Longrightarrow> distinct (rng ks) = distinct ks"
  unfolding range_ok_def by (metis mset_eq_imp_distinct_iff)

lemma range_ok_keys:
  "range_ok (x_range X) \<Longrightarrow> set (range_keys X m) = fst ` set m"
  by (simp add: range_keys_def range_ok_set)

subsection \<open>A sample daemon\<close>

text \<open>It keeps the list of the calls it got; the session has changes, and everything succeeds.\<close>

definition logged :: "string \<Rightarrow> 'a \<Rightarrow> (string list, 'a) state" where
  "logged call r = do { modify (\<lambda>l. l @ [call]); ret r }"

definition demo_api :: "string list cfgManager" where
  "demo_api = \<lparr>
     api_CancelCommit = (\<lambda>c i f _. logged (''CancelCommit '' @ c @ '','' @ i @ (if f then '',force'' else [])) ([], None)),
     api_Commit = (\<lambda>_ _. logged (''Commit'') ([], None)),
     api_CommitConfirm = (\<lambda>_ _ _. logged (''CommitConfirm'') ([], None)),
     api_CompareConfigRevisions = (\<lambda>_ _. logged (''CompareConfigRevisions'') ([], None)),
     api_CompareSessionChanges = logged (''CompareSessionChanges'') ([], None),
     api_Confirm = logged (''Confirm'') ([], None),
     api_ConfirmSilent = logged (''ConfirmSilent'') ([], None),
     api_ConfirmPersistId = (\<lambda>_. logged (''ConfirmPersistId'') ([], None)),
     api_Delete = (\<lambda>_. logged (''Delete'') None),
     api_Discard = logged (''Discard'') None,
     api_Set = (\<lambda>p. logged (''Set '' @ p) (''set'', None)),
     api_TmplGet = (\<lambda>_. logged (''TmplGet'') ([(''secret'', ''1'')], None)),
     api_LoadFrom = (\<lambda>_ _. logged (''LoadFrom'') None),
     api_LoadKeys = (\<lambda>_ _ _. logged (''LoadKeys'') ([], None)),
     api_MergeReportWarnings = (\<lambda>_. logged (''MergeReportWarnings'') (True, None)),
     api_Rollback = (\<lambda>_ _ _. logged (''Rollback'') ([], None)),
     api_Save = (\<lambda>_. logged (''Save'') None),
     api_SaveTo = (\<lambda>_ _. logged (''SaveTo'') None),
     api_ShowConfigWithContextDiffs = (\<lambda>_ _. logged (''ShowConfigWithContextDiffs'') (''price $5'', None)),
     api_Validate = logged (''Validate'') ([], None),
     api_GetCompletions = (\<lambda>_ _. logged (''GetCompletions'') ([], None)),
     api_Exists = (\<lambda>_ _. logged (''Exists'') (True, None)),
     api_Expand = (\<lambda>p. logged (''Expand'') (p, None)),
     api_ExpandWithPrefix = (\<lambda>_ _ _. logged (''ExpandWithPrefix'') ([], None)),
     api_Get = (\<lambda>_ _. logged (''Get'') ([], None)),
     api_GetCommitLog = logged (''GetCommitLog'') ([], None),
     api_GetConfigSystemFeatures = logged (''GetConfigSystemFeatures'') ([], None),
     api_SessionChanged = logged (''SessionChanged'') (True, None),
     api_SessionMarkSaved = logged (''SessionMarkSaved'') None,
     api_NodeGetType = (\<lambda>_. logged (''NodeGetType'') (0, None)),
     api_TmplValidatePath = (\<lambda>_. logged (''TmplValidatePath'') (True, None))\<rparr>"

definition cli_mgmt :: mgmt where
  "cli_mgmt = \<lparr>Formattable = (\<lambda>_. False), GetMessage = (\<lambda>_. []), GetPath = (\<lambda>_. []), GetInfoValue = (\<lambda>_. None),
     Error_text = (\<lambda>e. case e of ExternalError t \<Rightarrow> t | _ \<Rightarrow> []), is_DataError = (\<lambda>_. False),
     Makepath = (\<lambda>t. if t = [] then [] else [t])\<rparr>"

definition demo_cli :: "string list cli" where
  "demo_cli = \<lparr>api = demo_api, x_mg = cli_mgmt, x_CustomError = (\<lambda>f es. concat (map f es)), x_Pathstr = Join ''/'',
     x_natsort = id, x_range = rev, x_bash = (\<lambda>s e. logged s ([], None)), x_syslog = True\<rparr>"

definition demo_cst :: "string list cst" where
  "demo_cst = \<lparr>c_back = [], c_stdout = [], c_stderr = [], c_syslog = [], c_env = (\<lambda>_. [])\<rparr>"

definition demo_params :: cmdLineParams where
  "demo_params = \<lparr>p_action = ''run'', p_pfx = [], p_cword = [], p_cidx = 0, p_lastcomp = [], p_dohelp = False, p_printcmd = True\<rparr>"

lemma demo_range: "range_ok (x_range demo_cli)"
  by (simp add: demo_cli_def range_ok_def)

subsection \<open>Abbreviated commands\<close>

lemma filter_single_iff: "distinct xs \<Longrightarrow> filter P xs = [x] \<longleftrightarrow> x \<in> set xs \<and> P x \<and> (\<forall>y\<in>set xs. P y \<longrightarrow> y = x)"
  by (induction xs) (auto simp: filter_empty_conv)

lemma filter_cases:
  "(case filter P xs of [] \<Rightarrow> Inl a | [k] \<Rightarrow> Inr k | k # k' # ks \<Rightarrow> Inl (f k k' ks)) = Inr c \<longleftrightarrow> filter P xs = [c]"
  by (auto split: list.split)

text \<open>Command words. Whatever order the command table is visited in, a word stands for a
  command exactly when it is the command's full name, or a prefix of its name and of no other command
  while being itself the name of none.\<close>

theorem command_abbreviations:
  assumes "range_ok (x_range X)" "distinct (map fst cmds)"
  shows "ExpandCommand X cmds name = Inr c \<longleftrightarrow>
    c \<in> fst ` set cmds \<and> HasPrefix c name
    \<and> (c = name \<or> name \<notin> fst ` set cmds \<and> (\<forall>c'\<in>fst ` set cmds. HasPrefix c' name \<longrightarrow> c' = c))"
proof -
  have d: "distinct (range_keys X cmds)" using assms by (simp add: range_keys_def range_ok_distinct)
  show ?thesis
    unfolding ExpandCommand_def Let_def filter_cases range_ok_keys [OF assms(1)] filter_single_iff [OF d]
    by (auto simp: range_ok_keys [OF assms(1)] filter_cases filter_single_iff [OF d])
qed

lemma command_names:
  "map fst (populateCommands X) = [''commit'', ''compare'', ''delete'', ''discard'', ''edit'', ''exit'', ''load'', ''merge'',
     ''run'', ''save'', ''set'', ''show'', ''top'', ''up'', ''validate'']"
  by (simp add: populateCommands_def NewCommand_def)

theorem command_abbreviations_witness:
  "ExpandCommand demo_cli (populateCommands demo_cli) ''del'' = Inr ''delete''"
proof -
  have "fst ` set (populateCommands demo_cli) = set (map fst (populateCommands demo_cli))" by simp
  then show ?thesis
    using demo_range by (subst command_abbreviations) (simp_all add: command_names HasPrefix_def)
qed

subsection \<open>Commit and save\<close>

lemmas cli_steps = handleError_def handleErrorNoIndent_def sessionChanged_def doSnippit_def doSnippitAndContinue_def
  isCommitDebugOn_def confirmSilentRun_def




definition demo_ctx_of :: "string list \<Rightarrow> Ctx" where
  "demo_ctx_of args = run_ctx args demo_params"


subsection \<open>What is shown\<close>

lemmas path_steps = editPath_def editPathLength_def expandPathString_def ExpandPath_def handleCompError_def by_printError_def
  by_handleError_def

text \<open>The daemon has answered a \<open>show\<close> request with this text.\<close>

definition shown_by :: "'w cfgManager \<Rightarrow> bool \<Rightarrow> string \<Rightarrow> bool" where
  "shown_by A all out \<longleftrightarrow> (\<exists>p w. fst (run_state (api_ShowConfigWithContextDiffs A p all) w) = (out, None))"

lemma shown_byI [intro]: "fst (run_state (api_ShowConfigWithContextDiffs A p all) w) = (out, None) \<Longrightarrow> shown_by A all out"
  by (auto simp: shown_by_def)

text \<open>C34. Shown text is exact. When \<open>show\<close> succeeds with something to print, it prints a shell
  command that sends to the pager a quoted text which the shell reads back, without any
  expansion, as exactly the text that the daemon returned, whatever characters the configuration
  contains. The same holds for the help text of a completion.\<close>

theorem shown_text_is_exact:
  assumes "cx_Print ctx" "run_state (showRun X ctx) s = (0, s')" "c_stdout s' \<noteq> c_stdout s"
  shows "(\<exists>out q. shown_by (api X) (cx_All ctx) out
    \<and> c_stdout s' = c_stdout s @ ''echo -n '' @ quot @ q @ quot @ '' | '' @ pager \<and> bash_quoted q = Some out)
    \<and> (\<forall>t ws. t \<noteq> [] \<longrightarrow> (\<exists>q. getCompReply True t ws =
        ''echo '' @ quot @ q @ quot @ '' | '' @ pager @ '';COMPREPLY=( '' @ Join '' '' ws @ '' )'' \<and> bash_quoted q = Some t))"
proof
  show "\<exists>out q. shown_by (api X) (cx_All ctx) out
    \<and> c_stdout s' = c_stdout s @ ''echo -n '' @ quot @ q @ quot @ '' | '' @ pager \<and> bash_quoted q = Some out"
    using assms bash_quoted_escapeConfig
    by (auto simp: showRun_def checkValidPath_def cli_steps path_steps paged_def Let_def
        split: prod.splits option.splits if_splits)
qed (auto simp: getCompReply_def bash_quoted_escapeConfig)

theorem shown_text_is_exact_witness:
  "\<exists>q. c_stdout (snd (run_state (showRun demo_cli (demo_ctx_of [''show''])) demo_cst)) = ''echo -n '' @ quot @ q @ quot @ '' | '' @ pager
    \<and> bash_quoted q = Some ''price $5''"
proof -
  let ?r = "run_state (showRun demo_cli (demo_ctx_of [''show''])) demo_cst"
  have "cx_Print (demo_ctx_of [''show''])" by (simp add: demo_ctx_of_def run_ctx_def demo_params_def)
  moreover have "fst ?r = 0" by code_simp
  moreover have "c_stdout (snd ?r) \<noteq> c_stdout demo_cst" by code_simp
  ultimately obtain out q where q: "shown_by demo_api (cx_All (demo_ctx_of [''show''])) out"
      "c_stdout (snd ?r) = c_stdout demo_cst @ ''echo -n '' @ quot @ q @ quot @ '' | '' @ pager" "bash_quoted q = Some out"
    using shown_text_is_exact [of "demo_ctx_of [''show'']" demo_cli demo_cst "snd ?r"] by (auto simp: demo_cli_def prod_eq_iff)
  moreover have "out = ''price $5''" using q(1) by (auto simp: shown_by_def demo_api_def logged_def)
  ultimately show ?thesis by (auto simp: demo_cst_def)
qed

subsection \<open>Completion\<close>

lemma help_rows_pure: "\<exists>t. (help_rows b (\<lambda>n. ret (f n)) ns :: ('s, string) state) = ret t"
proof (induction ns)
  case (Cons n ns)
  then show ?case by auto
qed (simp, blast)

lemma printHelp_pure:
  fixes X :: "'w cli"
  shows "\<exists>t. \<forall>k. printHelp X ctx comps k = k t"
proof -
  obtain keys nckeys where m: "mapkeys X [] comps = (keys, nckeys)" by fastforce
  obtain a b where "(help_rows False (\<lambda>n. ret (''  '' @ n @ [CHR 0x09] @ mget comps n)) nckeys :: ('w cst, string) state) = ret a"
      "(help_rows True (\<lambda>n. ret (''  '' @ n @ [CHR 0x09] @ mget comps n)) keys :: ('w cst, string) state) = ret b"
    using help_rows_pure by metis
  then show ?thesis by (auto simp: printHelp_def help_text_def m Let_def)
qed

lemma singleton_list: "distinct xs \<Longrightarrow> set xs = {c} \<Longrightarrow> xs = [c]"
  by (cases xs; cases "tl xs") auto

text \<open>The quoted blanks that keep bash from completing on its own.\<close>

definition bash_blanks :: "string list" where
  "bash_blanks = ['' '', quot @ quot, quot @ '' '' @ quot, quot @ '' '' @ quot @ '' '']"

text \<open>The words that may be offered.\<close>

definition offered :: "smap \<Rightarrow> Ctx \<Rightarrow> string set" where
  "offered comps ctx = {c \<in> fst ` set comps. \<not> placeholder c \<and> HasPrefix c (prefix_of ctx)}"

lemma set_words:
  "range_ok (x_range X) \<Longrightarrow>
    set (filter (\<lambda>w. \<not> placeholder w) (range_keys X (prefixFilterMap comps (prefix_of ctx)))) = offered comps ctx"
  by (force simp: range_ok_keys prefixFilterMap_def offered_def)

lemma set_hack1: "set (hack1 cur pfx ws) \<subseteq> set ws \<union> set bash_blanks"
  by (auto simp: hack1_def bash_blanks_def)

lemma set_append_space: "set (append_space sp ws) \<subseteq> set ws \<union> (\<lambda>w. w @ '' '') ` set ws"
  by (cases ws) (auto simp: append_space_def)

lemma distinct_words:
  "range_ok (x_range X) \<Longrightarrow> distinct (map fst comps) \<Longrightarrow>
    distinct (filter (\<lambda>w. \<not> placeholder w) (range_keys X (prefixFilterMap comps (prefix_of ctx))))"
  by (auto simp: range_keys_def range_ok_distinct prefixFilterMap_def distinct_map_filter)

text \<open>Completion. In any visiting order of the map of candidates, the words in the reply are
  candidates that extend what stands before the cursor, with or without a final blank, or the
  blanks that keep bash quiet; no placeholder such as \<open><file>\<close> is ever
  inserted. If exactly one candidate extends a non-empty prefix and agrees with the word at the
  cursor, the reply is that candidate and the blank, and no help is printed.\<close>

theorem completions_extend_prefix:
  assumes "range_ok (x_range X)" "distinct (map fst comps)" "current_word ctx = Some cur"
  shows "\<exists>h t ws. doComplete X ctx sp comps (printHelp X) k = k (getCompReply h t ws)
    \<and> set ws \<subseteq> offered comps ctx \<union> (\<lambda>w. w @ '' '') ` (offered comps ctx \<union> set bash_blanks) \<union> set bash_blanks
    \<and> (\<forall>c. offered comps ctx = {c} \<and> prefix_of ctx \<noteq> [] \<and> cur \<noteq> [] \<and> HasPrefix c cur \<longrightarrow>
         ws = [c @ (if sp then '' '' else [])] \<and> \<not> h)"
proof -
  let ?words = "filter (\<lambda>w. \<not> placeholder w) (range_keys X (prefixFilterMap comps (prefix_of ctx)))"
  let ?reply = "append_space sp (hack1 cur (prefix_of ctx) ?words)"
  have sub: "set ?reply \<subseteq> offered comps ctx \<union> (\<lambda>w. w @ '' '') ` (offered comps ctx \<union> set bash_blanks) \<union> set bash_blanks"
    using set_append_space [of sp "hack1 cur (prefix_of ctx) ?words"] set_hack1 [of cur "prefix_of ctx" ?words]
      set_words [OF assms(1), of comps ctx] by blast
  have one: "?reply = [c @ (if sp then '' '' else [])]" "HasPrefix (c @ (if sp then '' '' else [])) cur"
    if c: "offered comps ctx = {c}" "prefix_of ctx \<noteq> []" "HasPrefix c cur" for c
  proof -
    have "set ?words = {c}" "distinct ?words" using c(1) set_words [OF assms(1), of comps ctx] distinct_words [OF assms(1,2)] by auto
    then have "?words = [c]" by (intro singleton_list)
    then show "?reply = [c @ (if sp then '' '' else [])]" using c(2) by (simp add: hack1_def append_space_def)
    show "HasPrefix (c @ (if sp then '' '' else [])) cur" using c(3) by (auto simp: HasPrefix_iff)
  qed
  obtain t where t: "\<And>m k. printHelp X ctx m k = k (t m)" using printHelp_pure [of X ctx] by metis
  have bl: "set [quot @ quot, quot @ '' '' @ quot] \<subseteq> set bash_blanks" by (simp add: bash_blanks_def)
  consider (exact) "length ?reply = 1 \<and> cur \<noteq> [] \<and> HasPrefix (hd ?reply) cur
      \<or> length ?reply = 1 \<and> cx_Prefix ctx \<noteq> [] \<and> HasPrefix (hd ?reply) (cx_Prefix ctx)"
    | (asked) "\<not> (length ?reply = 1 \<and> cur \<noteq> [] \<and> HasPrefix (hd ?reply) cur)"
        "doComplete X ctx sp comps (printHelp X) k = k (getCompReply True
           (t (if ?reply = [] then comps else prefixFilterMap comps (prefix_of ctx))) [quot @ quot, quot @ '' '' @ quot])"
    | (plain) "\<not> (length ?reply = 1 \<and> cur \<noteq> [] \<and> HasPrefix (hd ?reply) cur)"
        "doComplete X ctx sp comps (printHelp X) k = k (getCompReply (cx_DoHelp ctx \<or> cur = []) [] ?reply)"
    unfolding doComplete_def assms(3) option.case Let_def t by argo
  then show ?thesis
  proof cases
    case exact
    then have "doComplete X ctx sp comps (printHelp X) k = k (getCompReply False [] ?reply)"
      unfolding doComplete_def assms(3) option.case Let_def t by argo
    then show ?thesis using sub one(1) by blast
  next
    case asked
    have "False" if "offered comps ctx = {c} \<and> prefix_of ctx \<noteq> [] \<and> cur \<noteq> [] \<and> HasPrefix c cur" for c
      using asked(1) one [of c] that by simp
    then show ?thesis using asked(2) bl by blast
  next
    case plain
    have "False" if "offered comps ctx = {c} \<and> prefix_of ctx \<noteq> [] \<and> cur \<noteq> [] \<and> HasPrefix c cur" for c
      using plain(1) one [of c] that by simp
    then show ?thesis using plain(2) sub by blast
  qed
qed

definition demo_comp_ctx :: Ctx where
  "demo_comp_ctx = (demo_ctx_of [''exit'', ''dis''])\<lparr>cx_CompCurIdx := 1, cx_CompCurWord := ''dis'', cx_Prefix := ''dis''\<rparr>"

theorem completions_extend_prefix_witness:
  "let comps = [(''<Enter>'', ''Execute the current command''), (''discard'', ''Discard any changes'')] in
   \<forall>k. \<exists>h t. doComplete demo_cli demo_comp_ctx True comps (printHelp demo_cli) k = k (getCompReply h t [''discard ''])"
proof -
  let ?comps = "[(''<Enter>'', ''Execute the current command''), (''discard'', ''Discard any changes'')]"
  have c: "current_word demo_comp_ctx = Some ''dis''" "offered ?comps demo_comp_ctx = {''discard''}"
      "prefix_of demo_comp_ctx = ''dis''" "HasPrefix ''discard'' ''dis''"
    by (auto simp: demo_comp_ctx_def demo_ctx_of_def run_ctx_def current_word_def elem_at_def offered_def prefix_of_def placeholder_def
        HasPrefix_def HasSuffix_def)
  then have "\<exists>h t. doComplete demo_cli demo_comp_ctx True ?comps (printHelp demo_cli) k = k (getCompReply h t [''discard ''])" for k
    using completions_extend_prefix [OF demo_range _ c(1), of ?comps True k] by auto
  then show ?thesis by simp
qed

subsection \<open>Secrets\<close>

lemma getpass_line: "CHR 0x0A \<notin> set l \<Longrightarrow> getpass_read (l @ nl) got = Some (got @ l)"
proof (induction "length l" arbitrary: l got rule: less_induct)
  case less
  show ?case
  proof (cases "length l < 16")
    case True
    then have "take 16 (l @ nl) = l @ nl" by (simp add: nl_def)
    then show ?thesis using True by (subst getpass_read.simps) (simp add: nl_def Let_def)
  next
    case False
    then have t: "take 16 (l @ nl) = take 16 l" "drop 16 (l @ nl) = drop 16 l @ nl" by simp_all
    have "last (take 16 l) \<noteq> CHR 0x0A"
      using less.prems False by (metis in_set_takeD last_in_set length_0_conv length_take linorder_not_less min.absorb2 zero_neq_numeral)
    then have "getpass_read (l @ nl) got = getpass_read (drop 16 l @ nl) (got @ take 16 l)"
      using False by (subst getpass_read.simps) (auto simp: t Let_def)
    also have "\<dots> = Some ((got @ take 16 l) @ drop 16 l)"
      using less.prems False by (intro less.hyps) (auto dest: in_set_dropD)
    finally show ?thesis by simp
  qed
qed

text \<open>The first pair of equal lines among those that were typed.\<close>

fun agreed :: "string list \<Rightarrow> string option" where
  "agreed (p # p2 # rest) = (if p = p2 then Some p else agreed rest)"
| "agreed _ = None"

definition only_output :: "'w cst \<Rightarrow> 'w cst \<Rightarrow> bool" where
  "only_output s s' \<longleftrightarrow> c_back s' = c_back s \<and> c_syslog s' = c_syslog s \<and> c_env s' = c_env s"

lemmas secret_steps = GetPass_def getpass_line eof_if_def handleError_def

lemma read_secret_step:
  assumes "CHR 0x0A \<notin> set p" "CHR 0x0A \<notin> set p2"
  shows "\<exists>s1. run_state (read_secret X ((p @ nl) # (p2 @ nl) # rest) k) s =
    run_state (if p = p2 then k p else read_secret X rest k) s1 \<and> only_output s s1"
proof (cases "p = p2")
  case True
  then show ?thesis using assms
    by (subst read_secret.simps, simp add: secret_steps) (rule exI, rule conjI, rule refl, simp add: only_output_def)
next
  case False
  then show ?thesis using assms
    by (subst read_secret.simps, simp add: secret_steps) (rule exI, rule conjI, rule refl, simp add: only_output_def)
qed

lemma read_secret_eof:
  "CHR 0x0A \<notin> set p \<Longrightarrow> input \<in> {[], [p @ nl]} \<Longrightarrow>
    \<exists>s1. run_state (read_secret X input k) s = (1, s1) \<and> only_output s s1"
  by (subst read_secret.simps) (auto simp: secret_steps only_output_def)

lemma read_secret_agreed:
  "\<forall>l\<in>set ls. CHR 0x0A \<notin> set l \<Longrightarrow> \<exists>s'. run_state (read_secret X (map (\<lambda>l. l @ nl) ls) k) s =
     (case agreed ls of Some p \<Rightarrow> run_state (k p) s' | None \<Rightarrow> (1, s')) \<and> only_output s s'"
proof (induction ls arbitrary: s rule: agreed.induct [case_names pair none single])
  case (pair p p2 rest)
  then obtain s1 where s1: "run_state (read_secret X (map (\<lambda>l. l @ nl) (p # p2 # rest)) k) s =
      run_state (if p = p2 then k p else read_secret X (map (\<lambda>l. l @ nl) rest) k) s1" "only_output s s1"
    using read_secret_step [of p p2 X "map (\<lambda>l. l @ nl) rest" k s] by auto
  show ?case
  proof (cases "p = p2")
    case True
    then show ?thesis using s1 by auto
  next
    case False
    then show ?thesis using s1 pair(1) [of s1] pair(2) by (fastforce simp: only_output_def)
  qed
next
  case none
  show ?case using read_secret_eof [of "[]" "[]" X k s] by simp
next
  case (single v)
  then show ?case using read_secret_eof [of v "[v @ nl]" X k s] by simp
qed

text \<open>C35. Secrets are typed twice. Whatever is typed at the two prompts, line by line, the loop of
  \<open>setSecret\<close> ends; the daemon is asked to set the secret exactly when some pair of entries
  agrees, and then to the first such entry, of any length and with any characters; at
  the end of input without an agreeing pair nothing is set and the exit code is 1.\<close>

theorem secret_typed_twice:
  assumes "\<forall>l\<in>set ls. CHR 0x0A \<notin> set l"
    and "run_state (api_TmplGet (api X) p) (c_back s) = ((tmpl, None), w)" "mget tmpl ''secret'' = ''1''"
  shows "case run_state (setSecret X [p] (map (\<lambda>l. l @ nl) ls)) s of (code, s') \<Rightarrow>
    (case agreed ls of
       None \<Rightarrow> code = 1 \<and> c_back s' = w
     | Some passwd \<Rightarrow>
         let ((out, err), w') = run_state (api_Set (api X) (x_Pathstr X (Makepath (x_mg X) p @ [passwd]))) w
         in c_back s' = w' \<and> (code = 0 \<longleftrightarrow> err = None))"
proof -
  let ?k = "\<lambda>passwd. do {
            (out, err) \<leftarrow> remote (api_Set (api X) (x_Pathstr X (Makepath (x_mg X) p @ [passwd])));
            handleError X err (do { (if out \<noteq> [] then printOutput out else ret ()); os_Exit 0 }) }"
  obtain s' where s': "run_state (read_secret X (map (\<lambda>l. l @ nl) ls) ?k) (s\<lparr>c_back := w\<rparr>) =
     (case agreed ls of Some p \<Rightarrow> run_state (?k p) s' | None \<Rightarrow> (1, s'))" "only_output (s\<lparr>c_back := w\<rparr>) s'"
    using read_secret_agreed [OF assms(1)] by blast
  have b: "c_back s' = w" using s'(2) by (auto simp: only_output_def)
  have "run_state (setSecret X [p] (map (\<lambda>l. l @ nl) ls)) s = run_state (read_secret X (map (\<lambda>l. l @ nl) ls) ?k) (s\<lparr>c_back := w\<rparr>)"
    using assms(2,3) by (simp add: setSecret_def isSecret_def handleError_def)
  then show ?thesis
    unfolding s'(1) using b by (auto simp: handleError_def printOutput_def split: option.split prod.split)
qed

theorem secret_typed_twice_witness:
  "let r = run_state (setSecret demo_cli [''pw''] (map (\<lambda>l. l @ nl) [''a'', ''b'', ''secret'', ''secret''])) demo_cst
   in c_back (snd r) = [''TmplGet'', ''Set pw/secret''] \<and> fst r = 0"
  using secret_typed_twice [of "[''a'', ''b'', ''secret'', ''secret'']" demo_cli "''pw''" demo_cst "[(''secret'', ''1'')]" "[''TmplGet'']"]
  by (simp add: demo_cli_def demo_api_def logged_def demo_cst_def mget_def cli_mgmt_def Let_def split: prod.splits)

subsection \<open>The words of cancel-commit\<close>

lemma find_unique: "x \<in> set xs \<Longrightarrow> P x \<Longrightarrow> (\<And>y. y \<in> set xs \<Longrightarrow> P y \<Longrightarrow> y = x) \<Longrightarrow> find P xs = Some x"
  by (induction xs) (simp, metis find.simps(2) list.set_intros set_ConsD)

lemma matchKeyword_unique:
  assumes "range_ok rng" "kw \<in> fst ` set c" "matches_keyword c kp idx pfx val kw"
    and "\<And>k. k \<in> fst ` set c \<Longrightarrow> matches_keyword c kp idx pfx val k \<Longrightarrow> k = kw"
  shows "matchKeyword rng c kp idx pfx val = kw"
proof -
  have eq: "set (rng (map fst c)) = fst ` set c" using assms(1) by (simp add: range_ok_set)
  have "find (matches_keyword c kp idx pfx val) (rng (map fst c)) = Some kw"
    by (rule find_unique; (unfold eq)?; (rule assms(2) assms(3) assms(4)); assumption?)
  then show ?thesis by (simp add: matchKeyword_def)
qed

text \<open>The words after \<open>cancel-commit\<close> for a choice of its options.\<close>

definition cancel_words :: "bool \<Rightarrow> string \<Rightarrow> string \<Rightarrow> string list" where
  "cancel_words force pid cmnt =
    (if force then [''force''] else if pid \<noteq> [] then [''persist-id'', pid] else [])
    @ (if cmnt \<noteq> [] then [''comment'', cmnt] else [])"

lemma cancel_keyword:
  assumes "range_ok rng" "kw \<in> {''force'', ''comment'', ''persist-id''}" "0 \<le> idx" "idx = 0 \<or> kw = ''comment''"
    and "map fst c = map fst cancel_commit_defs" "list_all (\<lambda>(k, d). cd_atStart d = (k \<noteq> ''comment'')) c"
  shows "matchKeyword rng c 0 idx noncomp kw = kw"
proof (rule matchKeyword_unique [OF assms(1)])
  have keys: "fst ` set c = {''force'', ''comment'', ''persist-id''}"
    using arg_cong [OF assms(5), of set] by (simp add: cancel_commit_defs_def Let_def)
  then show "kw \<in> fst ` set c" using assms(2) by simp
  then obtain d where "map_of c kw = Some d" by (metis map_of_eq_None_iff not_Some_eq)
  then show "matches_keyword c 0 idx noncomp kw kw"
    using assms(4,6) by (auto simp: matches_keyword_def list_all_iff dest: map_of_SomeD)
  show "k = kw" if "k \<in> fst ` set c" "matches_keyword c 0 idx noncomp kw k" for k
  proof -
    have "HasPrefix k kw" using that(2) assms(3) by (auto simp: matches_keyword_def split: option.splits)
    moreover have "k \<in> {''force'', ''comment'', ''persist-id''}" using that(1) keys by simp
    ultimately show "k = kw" using assms(2) unfolding insert_iff empty_iff by (elim disjE) (simp_all add: HasPrefix_def)
  qed
qed

text \<open>The words of cancel-commit. However the options \<open>force\<close>, \<open>persist-id\<close> and \<open>comment\<close> are
  chosen (force excludes the id), the written-out command line is accepted, and what is sent to the daemon is the
  chosen comment, id and force flag, in whatever order the table of keywords is visited.\<close>

theorem cancel_commit_words:
  assumes "range_ok (x_range X)" "\<not> (force \<and> pid \<noteq> [])"
    and "cx_Args ctx = ''cancel-commit'' # cancel_words force pid cmnt" "cx_CompCurIdx ctx = 0" "cx_Prefix ctx = noncomp"
  shows "cancelcommitValid (x_range X) ctx = valid
    \<and> cancelcommitRun X ctx = do {
        dbg \<leftarrow> isCommitDebugOn;
        (out, err) \<leftarrow> remote (api_CancelCommit (api X) cmnt pid force dbg);
        shown_or_failed X ctx out err }"
proof -
  have r: "removeTrailingEmptyArgument (cx_Args ctx) = cx_Args ctx"
    using assms(3) by (auto simp: removeTrailingEmptyArgument_def cancel_words_def split: if_splits)
  note kw = cancel_keyword [OF assms(1)]
  have p: "case processCancelCommitCmd (x_range X) ctx of (c, m, e) \<Rightarrow> e = None \<and> snd (getCmdArg c ''comment'') = cmnt
     \<and> snd (getCmdArg c ''persist-id'') = pid \<and> fst (getCmdArg c ''force'') = force"
    unfolding processCancelCommitCmd_def validateKeywordsAndArguments_def r
    using assms(2-5)
    by (cases force; cases "pid = []"; cases "cmnt = []")
      (simp_all add: cancel_words_def kw cancel_commit_defs_def keywordPresent_def assignArgument_def getCmdArg_def Let_def)
  then show ?thesis
    by (auto simp: cancelcommitValid_def cancelcommitRun_def Let_def split: prod.splits)
qed

theorem cancel_commit_words_witness:
  "c_back (snd (run_state (cancelcommitRun demo_cli (demo_ctx_of [''cancel-commit'', ''persist-id'', ''id7'', ''comment'', ''typo''])) demo_cst))
    = [''CancelCommit typo,id7'']"
proof -
  have "cancelcommitRun demo_cli (demo_ctx_of [''cancel-commit'', ''persist-id'', ''id7'', ''comment'', ''typo'']) = do {
        dbg \<leftarrow> isCommitDebugOn;
        (out, err) \<leftarrow> remote (api_CancelCommit (api demo_cli) ''typo'' ''id7'' False dbg);
        shown_or_failed demo_cli (demo_ctx_of [''cancel-commit'', ''persist-id'', ''id7'', ''comment'', ''typo'']) out err }"
    using cancel_commit_words [OF demo_range, of False "''id7''" "demo_ctx_of [''cancel-commit'', ''persist-id'', ''id7'', ''comment'', ''typo'']" "''typo''"]
    by (simp add: demo_ctx_of_def run_ctx_def cancel_words_def)
  then show ?thesis
    by (simp add: isCommitDebugOn_def shown_or_failed_def demo_cli_def demo_api_def logged_def handleError_def demo_cst_def)
qed

subsection \<open>Gaps\<close>

text \<open>
  \<open>commit-confirm\<close> with an empty timeout passes its check, which drops the empty
  last word, and then commits for good: \<open>Commit\<close> is called, not \<open>CommitConfirm\<close>.
\<close>

lemma empty_timeout_commits_for_good:
  "commitConfValid (demo_ctx_of [''commit-confirm'', []]) = valid"
  "c_back (snd (run_state (commitConfRun demo_cli (demo_ctx_of [''commit-confirm'', []])) demo_cst)) =
     [''SessionChanged'', ''Commit'', ''SessionChanged'', ''Save'', ''SessionMarkSaved'']"
  by code_simp+

text \<open>\<open>cancel-commit persist-id\<close> without the id is accepted and cancels with an empty id.\<close>

lemma missing_id_is_accepted:
  "cancelcommitValid (x_range demo_cli) (demo_ctx_of [''cancel-commit'', ''persist-id'']) = valid"
  "c_back (snd (run_state (cancelcommitRun demo_cli (demo_ctx_of [''cancel-commit'', ''persist-id''])) demo_cst)) = [''CancelCommit ,'']"
  by code_simp+

text \<open>The comment of \<open>rollback\<close> is dropped when its keyword is abbreviated, which the check allows.\<close>

lemma abbreviated_comment_is_dropped:
  "rollbackValid (demo_ctx_of [''rollback'', ''3'', ''comm'', ''why'']) = valid"
  "rollbackRun X (demo_ctx_of [''rollback'', ''3'', ''comm'', ''why'']) = do {
     dbg \<leftarrow> isCommitDebugOn;
     (out, err) \<leftarrow> remote (api_Rollback (api X) ''3'' [] dbg);
     shown_or_failed X (demo_ctx_of [''rollback'', ''3'', ''comm'', ''why'']) out err }"
  by (code_simp, simp add: rollbackRun_def demo_ctx_of_def run_ctx_def)

text \<open>The arguments of \<open>run\<close> are not quoted for the shell that evaluates them: a dollar is expanded, and a double quote ends the quotation.\<close>

lemma run_arguments_unquoted:
  "bash_quoted (encodeOpcArgs (demo_ctx_of [''run'']) [''show'', ''$(id)'']) = None"
  "bash_quoted (encodeOpcArgs (demo_ctx_of [''run'']) [''show'', quot]) = None"
  "bash_quoted (encodeOpcArgs (demo_ctx_of [''run'']) [''show'', ''arp'']) =
     Some (''{'' @ quot @ ''args'' @ quot @ '':['' @ quot @ ''show'' @ quot @ '','' @ quot @ ''arp'' @ quot @ '']}'')"
  by code_simp+

end
