(* ===== verification/Disp_Rpc.thy ===== *)
theory Disp_Rpc
  imports Disp_Query
begin

text \<open>
  The schema listing and the RPC calls of \<open>server/dispatcher.go\<close>: a call names a
  module (by its name, or by its namespace in the XML encodings) and an RPC, is
  authorised for that pair, has its input converted to RFC 7951 JSON, is handed
  to the component that owns the module, and has its output converted back.
\<close>

subsection \<open>The packages\<close>

record yang_module =
  mod_Identifier :: string
  mod_Namespace :: string
  mod_Data :: string
  mod_Deviations :: "string list"
  mod_Features :: "string list"
  mod_XML :: string

record schema_rpc =
  rpc_Input :: "snode option"
  rpc_Output :: snode

text \<open>A data node as the encoders see it: name, children and values.\<close>

datatype dnode = DNode (dn_name: string) (dn_children: "dnode list") (dn_values: "string list")

text \<open>
  \<open>Modules\<close> and \<open>Submodules\<close> are Go maps in the order an iteration visits them;
  \<open>Rpcs\<close> is keyed by namespace; \<open>GetModelNameForNamespace\<close> tells whether a
  component owns a namespace; \<open>vci_Dial\<close> and \<open>vci_Call\<close> reach the component over the
  bus with the identity of the caller.
\<close>

record 'd rlibs =
  Modules :: "(string \<times> yang_module) list"
  Submodules :: "(string \<times> yang_module) list"
  Rpcs :: "string \<Rightarrow> (string \<Rightarrow> schema_rpc option) option"
  GetModelNameForNamespace :: "string \<Rightarrow> string option"
  AuthorizeRPC :: "uid \<Rightarrow> string list \<Rightarrow> string \<Rightarrow> string \<Rightarrow> bool"
  UnmarshalJSON :: "snode \<Rightarrow> string \<Rightarrow> dnode result"
  UnmarshalRFC7951 :: "snode \<Rightarrow> string \<Rightarrow> dnode result"
  UnmarshalXML :: "snode \<Rightarrow> string \<Rightarrow> dnode result"
  UnmarshalUnvalidated :: "snode \<Rightarrow> string \<Rightarrow> dnode result"
  ToJSON :: "snode \<Rightarrow> dnode \<Rightarrow> string"
  ToRFC7951 :: "snode \<Rightarrow> dnode \<Rightarrow> string"
  ToXML :: "snode \<Rightarrow> dnode \<Rightarrow> string"
  vci_Dial :: "'d dworld \<Rightarrow> error option"
  vci_Call :: "'d dworld \<Rightarrow> Context \<Rightarrow> string \<Rightarrow> string \<Rightarrow> string \<Rightarrow> string result"

subsection \<open>Schemas\<close>

text \<open>\<open>xml.EscapeText\<close> on ASCII text; a control character becomes the replacement character.\<close>

definition escape_char :: "char \<Rightarrow> string" where
  "escape_char c =
    (if c = CHR 0x22 then ''&#34;'' else if c = CHR 0x27 then ''&#39;''
     else if c = CHR ''&'' then ''&amp;'' else if c = CHR ''<'' then ''&lt;'' else if c = CHR ''>'' then ''&gt;''
     else if c = CHR 0x09 then ''&#x9;'' else if c = CHR 0x0A then ''&#xA;'' else if c = CHR 0x0D then ''&#xD;''
     else if of_char c < (0x20 :: nat) then [CHR 0xEF, CHR 0xBF, CHR 0xBD]
     else [c])"

definition EscapeText :: "string \<Rightarrow> string" where
  "EscapeText s = concat (map escape_char s)"

definition getModuleOrSubmoduleSchema :: "'d rlibs \<Rightarrow> string \<Rightarrow> string result" where
  "getModuleOrSubmoduleSchema R name =
    (case map_of (Modules R) name of
       Some m \<Rightarrow> Inr (mod_Data m)
     | None \<Rightarrow> (case map_of (Submodules R) name of
         Some m \<Rightarrow> Inr (mod_Data m)
       | None \<Rightarrow> Inl (failed_with (''unknown (sub)module '' @ name))))"

definition SchemaGet :: "'d rlibs \<Rightarrow> string \<Rightarrow> string \<Rightarrow> string \<times> error option" where
  "SchemaGet R name format =
    (case getModuleOrSubmoduleSchema R name of
       Inl e \<Rightarrow> ([], Some e)
     | Inr sch \<Rightarrow> (EscapeText sch, None))"

definition getSchemasInternal :: "'d rlibs \<Rightarrow> bool \<Rightarrow> string \<times> error option" where
  "getSchemasInternal R incSubmods =
    (''<schemas>'' @ concat (map (mod_XML \<circ> snd) (Modules R))
       @ (if incSubmods then concat (map (mod_XML \<circ> snd) (Submodules R)) else [])
       @ ''</schemas>'', None)"

definition GetSchemas :: "'d rlibs \<Rightarrow> string \<times> error option" where
  "GetSchemas R = getSchemasInternal R True"

definition GetModuleSchemas :: "'d rlibs \<Rightarrow> string \<times> error option" where
  "GetModuleSchemas R = getSchemasInternal R False"

text \<open>Modules that share an identifier would overwrite each other in the answer.\<close>

fun put :: "string \<Rightarrow> 'a \<Rightarrow> (string \<times> 'a) list \<Rightarrow> (string \<times> 'a) list" where
  "put k v [] = [(k, v)]"
| "put k v ((k', v') # m) = (if k = k' then (k, v) # m else (k', v') # put k v m)"

definition GetDeviations :: "'d rlibs \<Rightarrow> (string \<times> string) list \<times> error option" where
  "GetDeviations R =
    (fold (\<lambda>(_, m). put (mod_Identifier m) (Join '','' (mod_Deviations m))) (Modules R) [], None)"

definition GetFeatures :: "'d rlibs \<Rightarrow> (string \<times> string) list \<times> error option" where
  "GetFeatures R =
    (fold (\<lambda>(_, m). put (mod_Identifier m) (Join '','' (mod_Features m))) (Modules R) [], None)"

subsection \<open>Encodings\<close>

definition unknown_encoding :: "string \<Rightarrow> error" where
  "unknown_encoding encoding = failed_with (''Unknown RPC encoding '' @ [CHR 0x27] @ encoding @ [CHR 0x27])"

definition decodeTree :: "'d rlibs \<Rightarrow> string \<Rightarrow> snode \<Rightarrow> string \<Rightarrow> dnode result" where
  "decodeTree R encoding sch input =
    (if encoding = ''json'' then UnmarshalJSON R sch input
     else if encoding = ''rfc7951'' then UnmarshalRFC7951 R sch input
     else if encoding = ''xml'' \<or> encoding = ''netconf'' then UnmarshalXML R sch input
     else Inl (unknown_encoding encoding))"

definition encodeTree :: "'d rlibs \<Rightarrow> string \<Rightarrow> snode \<Rightarrow> dnode \<Rightarrow> string result" where
  "encodeTree R encoding sch input =
    (if encoding = ''json'' then Inr (ToJSON R sch input)
     else if encoding = ''rfc7951'' then Inr (ToRFC7951 R sch input)
     else if encoding = ''xml'' \<or> encoding = ''netconf'' then Inr (ToXML R sch input)
     else Inl (unknown_encoding encoding))"

definition convertEncoding :: "'d rlibs \<Rightarrow> snode \<Rightarrow> string \<Rightarrow> string \<Rightarrow> string \<Rightarrow> string result" where
  "convertEncoding R sch inputTree fromEncoding toEncoding =
    (if fromEncoding = toEncoding then Inr inputTree
     else case decodeTree R fromEncoding sch inputTree of
       Inl e \<Rightarrow> Inl e
     | Inr t \<Rightarrow> encodeTree R toEncoding sch t)"

definition convertJsonOutputToRpcReply :: "'d rlibs \<Rightarrow> mgmt \<Rightarrow> schema_rpc \<Rightarrow> string \<Rightarrow> string \<Rightarrow> string result" where
  "convertJsonOutputToRpcReply R M rpc out encoding =
    (case UnmarshalUnvalidated R (rpc_Output rpc) (if out = [] then ''{}'' else out) of
       Inl e \<Rightarrow> Inl (failed_with (''Failed to process returned data: '' @ Error_text M e))
     | Inr t \<Rightarrow> encodeTree R encoding (rpc_Output rpc) (DNode ''rpc-reply'' (dn_children t) (dn_values t)))"

subsection \<open>Finding an RPC\<close>

fun module_with_ns :: "string \<Rightarrow> (string \<times> yang_module) list \<Rightarrow> string option" where
  "module_with_ns ns [] = None"
| "module_with_ns ns ((name, m) # ms) = (if ns = mod_Namespace m then Some name else module_with_ns ns ms)"

definition getModuleId :: "'d rlibs \<Rightarrow> string \<Rightarrow> string \<Rightarrow> string option" where
  "getModuleId R idOrNs encoding =
    (if encoding = ''xml'' \<or> encoding = ''netconf'' then module_with_ns idOrNs (Modules R)
     else if encoding = ''rfc7951'' \<or> encoding = ''json'' then
       (if map_of (Modules R) idOrNs = None then None else Some idOrNs)
     else None)"

definition findRpc :: "'d rlibs \<Rightarrow> string \<Rightarrow> string \<Rightarrow> string \<Rightarrow> (schema_rpc \<times> string) option" where
  "findRpc R idOrNs name encoding =
    (case getModuleId R idOrNs encoding of
       None \<Rightarrow> None
     | Some mod_id \<Rightarrow> (case map_of (Modules R) mod_id of
         None \<Rightarrow> None
       | Some m \<Rightarrow> (case Rpcs R (mod_Namespace m) of
           None \<Rightarrow> None
         | Some mod_rpcs \<Rightarrow> (case mod_rpcs name of
             None \<Rightarrow> None
           | Some rpc \<Rightarrow> if rpc_Input rpc = None then None else Some (rpc, mod_Namespace m)))))"

subsection \<open>Calling an RPC\<close>

definition vci_CallRpc :: "'d rlibs \<Rightarrow> Context \<Rightarrow> string \<Rightarrow> string \<Rightarrow> string \<Rightarrow> ('d, string result) dop" where
  "vci_CallRpc R c moduleName rpcName input = do {
     e \<leftarrow> dgets (vci_Dial R);
     (case e of
        Some err \<Rightarrow> ret (Inl err)
      | None \<Rightarrow> do {
          r \<leftarrow> dgets (\<lambda>d. vci_Call R d c moduleName rpcName input);
          demit (EvCallRpc moduleName rpcName input);
          ret r }) }"

definition handleVciRpc ::
  "'d sys \<Rightarrow> 'd rlibs \<Rightarrow> Context \<Rightarrow> string \<Rightarrow> string \<Rightarrow> schema_rpc \<Rightarrow> string \<Rightarrow> string \<Rightarrow> ('d, string result) dop" where
  "handleVciRpc S R c moduleName encoding rpc rpcName args =
    (case rpc_Input rpc of
       None \<Rightarrow> ret (Inl (RuntimePanic ''nil schema node''))
     | Some sch \<Rightarrow> (case convertEncoding R sch args encoding ''rfc7951'' of
         Inl e \<Rightarrow> ret (Inl e)
       | Inr input \<Rightarrow> do {
           r \<leftarrow> vci_CallRpc R c moduleName rpcName input;
           ret (case r of
                  Inl e \<Rightarrow> Inl e
                | Inr out \<Rightarrow> convertJsonOutputToRpcReply R (mg S) rpc out encoding) }))"

definition callRpcInternal ::
  "'d sys \<Rightarrow> 'd rlibs \<Rightarrow> disp \<Rightarrow> string \<Rightarrow> string \<Rightarrow> string \<Rightarrow> string \<Rightarrow> ('d, string \<times> error option) dop" where
  "callRpcInternal S R D idOrNs rpcName args encoding =
    (case findRpc R idOrNs rpcName encoding of
       None \<Rightarrow> ret ([], Some (failed_with
         (''Unknown RPC ('' @ encoding @ '') '' @ idOrNs @ '':'' @ rpcName)))
     | Some (rpc, moduleNs) \<Rightarrow>
         if GetModelNameForNamespace R moduleNs \<noteq> None then
           (let moduleId = (case getModuleId R idOrNs encoding of None \<Rightarrow> [] | Some i \<Rightarrow> i)
            in if \<not> AuthorizeRPC R (Uid (d_ctx D)) (Groups (d_ctx D)) moduleId rpcName
               then ret ([], Some access_denied)
               else do {
                 r \<leftarrow> handleVciRpc S R (d_ctx D) moduleId encoding rpc rpcName args;
                 ret (case r of
                        Inl e \<Rightarrow> ([], FormatRpcPathError (mg S) (Some e))
                      | Inr out \<Rightarrow> (out, None)) })
         else ret ([], Some (failed_with (''Unknown model for RPC '' @ idOrNs @ '':'' @ rpcName))))"

definition CallRpc ::
  "'d sys \<Rightarrow> 'd rlibs \<Rightarrow> disp \<Rightarrow> string \<Rightarrow> string \<Rightarrow> string \<Rightarrow> string \<Rightarrow> ('d, string \<times> error option) dop" where
  "CallRpc S R D idOrNs rpcName args encoding = callRpcInternal S R D idOrNs rpcName args encoding"

definition CallRpcXml ::
  "'d sys \<Rightarrow> 'd rlibs \<Rightarrow> disp \<Rightarrow> string \<Rightarrow> string \<Rightarrow> string \<Rightarrow> ('d, string \<times> error option) dop" where
  "CallRpcXml S R D moduleNamespace name args = CallRpc S R D moduleNamespace name args ''xml''"

subsection \<open>What reaches a component\<close>

lemma module_with_ns_sound:
  "module_with_ns ns ms = Some name \<Longrightarrow> \<exists>m. (name, m) \<in> set ms \<and> mod_Namespace m = ns"
  by (induction ms) (auto split: if_splits)

lemma findRpc_sound:
  assumes "findRpc R idOrNs name enc = Some (rpc, ns)"
  obtains i m f where "getModuleId R idOrNs enc = Some i" "map_of (Modules R) i = Some m"
    "mod_Namespace m = ns" "Rpcs R ns = Some f" "f name = Some rpc" "rpc_Input rpc \<noteq> None"
  using assms by (auto simp: findRpc_def split: option.splits if_splits)

lemma getModuleId_ns:
  assumes "getModuleId R idOrNs enc = Some i" "enc = ''xml'' \<or> enc = ''netconf''"
    and "map_of (Modules R) i = Some m" "distinct (map fst (Modules R))"
  shows "mod_Namespace m = idOrNs"
  using assms module_with_ns_sound [of idOrNs "Modules R" i]
  by (auto simp: getModuleId_def map_of_eq_Some_iff dest: eq_key_imp_eq_value)

lemma run_vci_CallRpc:
  "run_state (vci_CallRpc R c m n input) (d, es) =
    (case vci_Dial R d of
       Some e \<Rightarrow> (Inl e, d, es)
     | None \<Rightarrow> (vci_Call R d c m n input, d\<lparr>dw_log := dw_log d @ [EvCallRpc m n input]\<rparr>, es))"
  by (simp add: vci_CallRpc_def split: option.split)

definition rpc_permitted ::
  "'d rlibs \<Rightarrow> disp \<Rightarrow> string \<Rightarrow> string \<Rightarrow> string \<Rightarrow> string \<Rightarrow> string \<Rightarrow> string \<Rightarrow> bool" where
  "rpc_permitted R D idOrNs name args enc i input \<longleftrightarrow>
    (\<exists>m f rpc sch. getModuleId R idOrNs enc = Some i \<and> map_of (Modules R) i = Some m
      \<and> Rpcs R (mod_Namespace m) = Some f \<and> f name = Some rpc
      \<and> GetModelNameForNamespace R (mod_Namespace m) \<noteq> None
      \<and> AuthorizeRPC R (Uid (d_ctx D)) (Groups (d_ctx D)) i name
      \<and> rpc_Input rpc = Some sch \<and> convertEncoding R sch args enc ''rfc7951'' = Inr input)"

lemma callRpc_effect:
  "\<exists>r evs. run_state (callRpcInternal S R D idOrNs name args enc) (d, es) = (r, d\<lparr>dw_log := dw_log d @ evs\<rparr>, es)
    \<and> (evs = [] \<or> (\<exists>i input. evs = [EvCallRpc i name input] \<and> rpc_permitted R D idOrNs name args enc i input))"
proof (cases "findRpc R idOrNs name enc")
  case (Some a)
  obtain rpc ns where a: "a = (rpc, ns)" by (cases a)
  obtain i m f where f: "getModuleId R idOrNs enc = Some i" "map_of (Modules R) i = Some m"
    "mod_Namespace m = ns" "Rpcs R ns = Some f" "f name = Some rpc"
    using findRpc_sound Some a by metis
  show ?thesis
    using Some a f
    by (auto simp: callRpcInternal_def handleVciRpc_def run_vci_CallRpc rpc_permitted_def Let_def
        split: option.splits sum.splits)
      (rule exI [of _ "[]"], simp)
next
  case None
  then show ?thesis by (simp add: callRpcInternal_def) (rule exI [of _ "[]"], simp)
qed

text \<open>C31. An RPC reaches a component only with authority for it. For every request,
  whatever the answer: the state of the dispatcher is untouched, at most one call goes out over the
  bus, and one goes out only when the module exists and defines the RPC, a component
  owns the module's namespace, the caller is authorised for exactly that module and
  that RPC, and the input handed over is the caller's input converted to RFC 7951;
  the module is the one asked for, by name in the JSON encodings and by namespace in
  the XML ones.\<close>

theorem rpc_needs_authority:
  assumes "distinct (map fst (Modules R))"
  shows "\<exists>r evs. run_state (CallRpc S R D idOrNs name args enc) (d, es) = (r, d\<lparr>dw_log := dw_log d @ evs\<rparr>, es)
    \<and> (evs = [] \<or> (\<exists>i m input. evs = [EvCallRpc i name input]
        \<and> rpc_permitted R D idOrNs name args enc i input \<and> map_of (Modules R) i = Some m
        \<and> (if enc = ''xml'' \<or> enc = ''netconf'' then mod_Namespace m = idOrNs else i = idOrNs)))"
proof -
  have who: "\<exists>m. map_of (Modules R) i = Some m
      \<and> (if enc = ''xml'' \<or> enc = ''netconf'' then mod_Namespace m = idOrNs else i = idOrNs)"
    if p: "rpc_permitted R D idOrNs name args enc i input" for i input
  proof -
    obtain m where m: "getModuleId R idOrNs enc = Some i" "map_of (Modules R) i = Some m"
      using p by (auto simp: rpc_permitted_def)
    show ?thesis
      using m getModuleId_ns [OF m(1) _ m(2) assms]
      by (auto simp: getModuleId_def split: if_splits)
  qed
  show ?thesis
    using callRpc_effect [of S R D idOrNs name args enc d es] who unfolding CallRpc_def by metis
qed

definition demo_module :: yang_module where
  "demo_module = \<lparr>mod_Identifier = ''toaster'', mod_Namespace = ''urn:toaster'', mod_Data = ''module toaster'',
     mod_Deviations = [], mod_Features = [], mod_XML = ''<schema/>''\<rparr>"

definition demo_rlibs :: "bool \<Rightarrow> dtree rlibs" where
  "demo_rlibs b = \<lparr>Modules = [(''toaster'', demo_module)], Submodules = [],
     Rpcs = (\<lambda>ns. if ns = ''urn:toaster'' then
       Some (\<lambda>n. if n = ''toast'' then Some \<lparr>rpc_Input = Some root_node, rpc_Output = root_node\<rparr> else None) else None),
     GetModelNameForNamespace = (\<lambda>ns. Some ''net.vyatta.toaster''), AuthorizeRPC = (\<lambda>u g m n. b),
     UnmarshalJSON = (\<lambda>sch t. Inr (DNode ''j'' [] [t])), UnmarshalRFC7951 = (\<lambda>sch t. Inr (DNode ''r'' [] [t])),
     UnmarshalXML = (\<lambda>sch t. Inr (DNode ''x'' [] [t])), UnmarshalUnvalidated = (\<lambda>sch t. Inr (DNode ''o'' [] [t])),
     ToJSON = (\<lambda>sch t. concat (dn_values t)), ToRFC7951 = (\<lambda>sch t. ''7951:'' @ concat (dn_values t)),
     ToXML = (\<lambda>sch t. concat (dn_values t)), vci_Dial = (\<lambda>d. None), vci_Call = (\<lambda>d c m n t. Inr ''done'')\<rparr>"

theorem rpc_needs_authority_witness:
  "let run = (\<lambda>b. run_state (CallRpc demo_sys (demo_rlibs b) (demo_disp True) ''urn:toaster'' ''toast'' ''<in/>'' ''xml'')
       (demo_dworld, []))
   in fst (run True) = (''done'', None)
      \<and> dw_log (fst (snd (run True))) = dw_log demo_dworld @ [EvCallRpc ''toaster'' ''toast'' ''7951:<in/>'']
      \<and> rpc_permitted (demo_rlibs True) (demo_disp True) ''urn:toaster'' ''toast'' ''<in/>'' ''xml'' ''toaster'' ''7951:<in/>''
      \<and> dw_log (fst (snd (run False))) = dw_log demo_dworld"
proof -
  let ?run = "\<lambda>b. run_state (CallRpc demo_sys (demo_rlibs b) (demo_disp True) ''urn:toaster'' ''toast'' ''<in/>'' ''xml'') (demo_dworld, [])"
  have run: "fst (?run True) = (''done'', None)"
      "dw_log (fst (snd (?run True))) = dw_log demo_dworld @ [EvCallRpc ''toaster'' ''toast'' ''7951:<in/>'']"
      "dw_log (fst (snd (?run False))) = dw_log demo_dworld"
    by code_simp+
  have "distinct (map fst (Modules (demo_rlibs True)))" by (simp add: demo_rlibs_def)
  from rpc_needs_authority [OF this, of demo_sys "demo_disp True" "''urn:toaster''" "''toast''" "''<in/>''" "''xml''" demo_dworld "[]"]
  have "rpc_permitted (demo_rlibs True) (demo_disp True) ''urn:toaster'' ''toast'' ''<in/>'' ''xml'' ''toaster'' ''7951:<in/>''"
    using run(2) by auto
  then show ?thesis using run by (simp add: Let_def)
qed

end
