(* ===== verification/Server_Conn.thy ===== *)
theory Server_Conn
  imports Load_Keys Disp_Rpc
begin

text \<open>
  \<open>server/server.go\<close> and \<open>server/conn.go\<close>: the method table that \<open>NewSrv\<close> builds by
  reflection, the dispatch of one request (\<open>Call\<close>), the response, and the life of
  a connection (\<open>Handle\<close>) from the credentials of the peer to the release of its locks.
\<close>

subsection \<open>Everything the handlers depend on\<close>

text \<open>
  \<open>x_order\<close> is the order in which a Go map iteration visits the session table;
  \<open>x_Sprint\<close> is \<open>fmt\<close>'s \<open>%v\<close> of a decoded value; \<open>x_isMgmtErrorRef\<close> tells the management
  errors from others; the remaining fields are the lookups of a new connection.
\<close>

record 'd deps =
  x_L :: "'d libs"
  x_S :: "'d sys"
  x_Q :: "'d qlibs"
  x_R :: "'d rlibs"
  x_parse :: key_parser
  x_logorder :: "LogType list"
  x_order :: "'d mgr \<Rightarrow> string list"
  x_Sprint :: "jval \<Rightarrow> string"
  x_isMgmtErrorRef :: "error \<Rightarrow> bool"
  x_GetPidLoginuid :: "'d dworld \<Rightarrow> pid \<Rightarrow> uid result"
  x_groups :: "'d dworld \<Rightarrow> string \<Rightarrow> string list \<times> error option"
  x_tty :: "'d dworld \<Rightarrow> pid \<Rightarrow> string \<times> error option"
  x_NewAuthForUser :: "uid \<Rightarrow> string list \<Rightarrow> string \<Rightarrow> auth"
  x_LookupId :: "'d dworld \<Rightarrow> string \<Rightarrow> (string \<times> string) result"
  x_isNotExist :: "error \<Rightarrow> bool"

record srv =
  sv_ms :: snode
  sv_msFull :: snode
  sv_uid :: uid
  sv_Config :: config

subsection \<open>Arguments\<close>

datatype gotype = TString | TBool | TInt | TDB | TFlags

datatype arg = AStr string | ABool bool | AInt int | AFlags "(string \<times> jval) list"

text \<open>
  \<open>reflect.Value.Convert\<close> from a \<open>float64\<close> to an integer drops the fraction; a
  value outside the range of \<open>int64\<close> gives the smallest one, as the machine does.
\<close>

definition float_to_int :: "rat \<Rightarrow> int" where
  "float_to_int r =
    (let n = (if r < 0 then \<lceil>r\<rceil> else \<lfloor>r\<rfloor>)
     in if - (2 ^ 63) \<le> n \<and> n < 2 ^ 63 then n else - (2 ^ 63))"

fun convert_arg :: "gotype \<Rightarrow> jval \<Rightarrow> arg option" where
  "convert_arg TString (JStr s) = Some (AStr s)"
| "convert_arg TBool (JBool b) = Some (ABool b)"
| "convert_arg TInt (JNum r) = Some (AInt (float_to_int r))"
| "convert_arg TDB (JNum r) = Some (AInt (float_to_int r))"
| "convert_arg TFlags (JObj fs) = Some (AFlags fs)"
| "convert_arg _ _ = None"

datatype conn_error =
    MethErr string
  | ArgN ArgNErr
  | ArgErr string jval gotype
  | Handler error

fun jtype_name :: "jval \<Rightarrow> string" where
  "jtype_name JNull = ''<nil>''"
| "jtype_name (JBool _) = ''bool''"
| "jtype_name (JNum _) = ''float64''"
| "jtype_name (JStr _) = ''string''"
| "jtype_name (JArr _) = ''[]interface {}''"
| "jtype_name (JObj _) = ''map[string]interface {}''"

fun gotype_name :: "gotype \<Rightarrow> string" where
  "gotype_name TString = ''string''"
| "gotype_name TBool = ''bool''"
| "gotype_name TInt = ''int''"
| "gotype_name TDB = ''DB''"
| "gotype_name TFlags = ''''"

definition ArgErr_Error :: "(jval \<Rightarrow> string) \<Rightarrow> string \<Rightarrow> jval \<Rightarrow> gotype \<Rightarrow> string" where
  "ArgErr_Error sprint mth v t =
    ''cannot use '' @ sprint v @ '' (type '' @ jtype_name v @ '') as type '' @ gotype_name t @ '' in call to '' @ mth"

fun conn_error_text :: "'d deps \<Rightarrow> conn_error \<Rightarrow> string" where
  "conn_error_text E (MethErr n) = MethErr_Error n"
| "conn_error_text E (ArgN a) = ArgNErr_Error a"
| "conn_error_text E (ArgErr m v t) = ArgErr_Error (x_Sprint E) m v t"
| "conn_error_text E (Handler e) = Error_text (mg (x_S E)) e"

subsection \<open>Replies\<close>

datatype reply = RNone | RBool bool | RInt int | RStr string | RStrs "string list"
  | RSet "string list" | RMap "(string \<times> string) list" | RInts "(string \<times> int) list" | RHelp "string \<rightharpoonup> string"

definition wrap :: "('a \<Rightarrow> reply) \<Rightarrow> ('d, 'a \<times> error option) dop \<Rightarrow> ('d, reply \<times> error option) dop" where
  "wrap f m = do { (a, e) \<leftarrow> m; ret (f a, e) }"

definition wrap_res :: "('a \<Rightarrow> reply) \<Rightarrow> ('d, 'a result) dop \<Rightarrow> ('d, reply \<times> error option) dop" where
  "wrap_res f m = do { r \<leftarrow> m; ret (case r of Inl e \<Rightarrow> (RNone, Some e) | Inr a \<Rightarrow> (f a, None)) }"

definition sarg :: "nat \<Rightarrow> arg list \<Rightarrow> string" where
  "sarg i as = (case as ! i of AStr s \<Rightarrow> s | _ \<Rightarrow> [])"

definition barg :: "nat \<Rightarrow> arg list \<Rightarrow> bool" where
  "barg i as = (case as ! i of ABool b \<Rightarrow> b | _ \<Rightarrow> False)"

definition iarg :: "nat \<Rightarrow> arg list \<Rightarrow> int" where
  "iarg i as = (case as ! i of AInt n \<Rightarrow> n | _ \<Rightarrow> 0)"

definition farg :: "nat \<Rightarrow> arg list \<Rightarrow> (string \<times> jval) list" where
  "farg i as = (case as ! i of AFlags fs \<Rightarrow> fs | _ \<Rightarrow> [])"

record 'd meth =
  m_name :: string
  m_in :: "gotype list"
  m_func :: "disp \<Rightarrow> arg list \<Rightarrow> ('d, reply \<times> error option) dop"

definition meth :: "string \<Rightarrow> gotype list \<Rightarrow> (disp \<Rightarrow> arg list \<Rightarrow> ('d, reply \<times> error option) dop) \<Rightarrow> 'd meth" where
  "meth n ts f = \<lparr>m_name = n, m_in = ts, m_func = f\<rparr>"

subsection \<open>The method table\<close>

text \<open>
  \<open>NewSrv\<close> publishes every exported method of \<open>Disp\<close> with two results of which
  the second is an error; \<open>TreeGetFullWithWarnings\<close> has three. The table is in four parts: the session
  handlers, the handlers that change a configuration, the confirmations, and the queries.
\<close>

abbreviation S1 :: "gotype list" where "S1 \<equiv> [TString]"
abbreviation S2 :: "gotype list" where "S2 \<equiv> [TString, TString]"
abbreviation S3 :: "gotype list" where "S3 \<equiv> [TString, TString, TString]"
abbreviation S4 :: "gotype list" where "S4 \<equiv> [TString, TString, TString, TString]"

definition session_methods :: "'d deps \<Rightarrow> 'd meth list" where
  "session_methods E = (let L = x_L E; S = x_S E in [
     meth ''SessionExists'' S1 (\<lambda>D a. wrap RBool (SessionExists D (sarg 0 a))),
     meth ''SessionSetup'' S1 (\<lambda>D a. wrap RBool (SessionSetup L D (sarg 0 a))),
     meth ''SessionSetupShared'' S1 (\<lambda>D a. wrap RBool (SessionSetupShared L D (sarg 0 a))),
     meth ''SessionTeardown'' S1 (\<lambda>D a. wrap RBool (SessionTeardown D (sarg 0 a))),
     meth ''SessionChanged'' S1 (\<lambda>D a. wrap RBool (SessionChanged L D (sarg 0 a))),
     meth ''SessionSaved'' S1 (\<lambda>D a. wrap RBool (SessionSaved L D (sarg 0 a))),
     meth ''SessionMarkSaved'' S1 (\<lambda>D a. wrap RBool (SessionMarkSaved L D (sarg 0 a))),
     meth ''SessionMarkUnsaved'' S1 (\<lambda>D a. wrap RBool (SessionMarkUnsaved L D (sarg 0 a))),
     meth ''SessionGetEnv'' S1 (\<lambda>D a. wrap RMap (SessionGetEnv (sarg 0 a))),
     meth ''SessionLock'' S1 (\<lambda>D a. wrap RInt (SessionLock L D (sarg 0 a))),
     meth ''SessionUnlock'' S1 (\<lambda>D a. wrap RInt (SessionUnlock L D (sarg 0 a))),
     meth ''SessionLocked'' S1 (\<lambda>D a. wrap RInt (SessionLocked L D (sarg 0 a)))])"

definition edit_methods :: "'d deps \<Rightarrow> 'd meth list" where
  "edit_methods E = (let L = x_L E; S = x_S E; Q = x_Q E in [
     meth ''Set'' S2 (\<lambda>D a. wrap RStr (Set L S D (sarg 0 a) (sarg 1 a))),
     meth ''Delete'' S2 (\<lambda>D a. wrap RBool (Delete L S D (sarg 0 a) (sarg 1 a))),
     meth ''Rename'' S3 (\<lambda>D a. wrap RBool (Rename (sarg 0 a) (sarg 1 a) (sarg 2 a))),
     meth ''Copy'' S3 (\<lambda>D a. wrap RBool (Copy (sarg 0 a) (sarg 1 a) (sarg 2 a))),
     meth ''Comment'' S2 (\<lambda>D a. wrap RBool (Comment (sarg 0 a) (sarg 1 a))),
     meth ''Discard'' S1 (\<lambda>D a. wrap RBool (Discard L S D (sarg 0 a))),
     meth ''Merge'' S2 (\<lambda>D a. wrap RBool (Merge L S D (sarg 0 a) (sarg 1 a))),
     meth ''MergeReportWarnings'' S2 (\<lambda>D a. wrap RBool (MergeReportWarnings L S D (sarg 0 a) (sarg 1 a))),
     meth ''Validate'' S1 (\<lambda>D a. wrap RStr (Validate L S D (sarg 0 a))),
     meth ''EditConfigXML'' [TString, TString, TString, TString, TString, TString] (\<lambda>D a. wrap RStr
       (EditConfigXML L D (sarg 0 a) (sarg 1 a) (sarg 2 a) (sarg 3 a) (sarg 4 a) (sarg 5 a))),
     meth ''LoadKeys'' S4 (\<lambda>D a. wrap RStr
       (LoadKeys L S Q (x_parse E) D (sarg 0 a) (sarg 1 a) (sarg 2 a) (sarg 3 a))),
     meth ''SaveTo'' S2 (\<lambda>D a. wrap RBool (SaveTo L S D (sarg 0 a) (sarg 1 a))),
     meth ''Save'' S1 (\<lambda>D a. wrap RBool (Save L S D)),
     meth ''ExtractArchive'' S3 (\<lambda>D a. wrap RStr (ExtractArchive S (sarg 1 a) (sarg 2 a))),
     meth ''SetConfigDebug'' S3 (\<lambda>D a. wrap RStr (disp_SetConfigDebug (x_logorder E) (sarg 1 a) (sarg 2 a)))])"

definition load_methods :: "'d deps \<Rightarrow> 'd meth list" where
  "load_methods E = (let L = x_L E; S = x_S E in [
     meth ''Load'' S2 (\<lambda>D a. wrap RBool (Load L S D (sarg 0 a) (sarg 1 a))),
     meth ''LoadReportWarnings'' S2 (\<lambda>D a. wrap RBool (LoadReportWarnings L S D (sarg 0 a) (sarg 1 a))),
     meth ''LoadFrom'' S3 (\<lambda>D a. wrap RBool (LoadFrom L S D (sarg 0 a) (sarg 1 a) (sarg 2 a))),
     meth ''CopyConfig'' [TString, TString, TString, TString, TString, TString, TString] (\<lambda>D a. wrap RStr
       (CopyConfig L S D (sarg 0 a) (sarg 1 a) (sarg 2 a) (sarg 3 a) (sarg 4 a) (sarg 5 a) (sarg 6 a))),
     meth ''ValidateConfig'' S3 (\<lambda>D a. wrap RStr (ValidateConfig L S D (sarg 1 a) (sarg 2 a))),
     meth ''Rollback'' [TString, TString, TString, TBool] (\<lambda>D a. wrap RStr
       (Rollback L S D (sarg 0 a) (sarg 1 a) (sarg 2 a) (barg 3 a))),
     meth ''CancelCommit'' [TString, TString, TString, TBool, TBool] (\<lambda>D a. wrap RStr
       (CancelCommit L S D (sarg 0 a) (sarg 1 a) (sarg 2 a) (barg 3 a) (barg 4 a)))])"

definition commit_methods :: "'d deps \<Rightarrow> 'd meth list" where
  "commit_methods E = (let L = x_L E; S = x_S E in [
     meth ''Commit'' [TString, TString, TBool] (\<lambda>D a. wrap RStr (Commit L S D (sarg 0 a) (sarg 1 a) (barg 2 a))),
     meth ''CommitConfirm'' [TString, TString, TBool, TInt] (\<lambda>D a. wrap RStr
       (CommitConfirm L S D (sarg 0 a) (sarg 1 a) (barg 2 a) (iarg 3 a))),
     meth ''ConfirmedCommit'' [TString, TString, TBool, TString, TString, TString, TBool] (\<lambda>D a. wrap RStr
       (ConfirmedCommit L S D (sarg 0 a) (sarg 1 a) (barg 2 a) (sarg 3 a) (sarg 4 a) (sarg 5 a) (barg 6 a))),
     meth ''Confirm'' S1 (\<lambda>D a. wrap RStr (Confirm L S D)),
     meth ''ConfirmPersistId'' S1 (\<lambda>D a. wrap RStr (ConfirmPersistId L S D (sarg 0 a))),
     meth ''ConfirmingCommit'' [] (\<lambda>D a. wrap RStr (ConfirmingCommit S)),
     meth ''ConfirmSilent'' S1 (\<lambda>D a. wrap RStr (ConfirmSilent S))])"

definition node_methods :: "'d deps \<Rightarrow> 'd meth list" where
  "node_methods E = (let L = x_L E; S = x_S E; Q = x_Q E in [
     meth ''TmplGet'' S1 (\<lambda>D a. wrap_res RMap (ret (TmplGet L S Q D (sarg 0 a)))),
     meth ''TmplGetChildren'' S1 (\<lambda>D a. wrap_res RStrs (ret (TmplGetChildren L S Q D (sarg 0 a)))),
     meth ''TmplValidatePath'' S1 (\<lambda>D a. wrap RBool (ret (TmplValidatePath L S Q D (sarg 0 a)))),
     meth ''TmplValidateValues'' S1 (\<lambda>D a. wrap RBool (TmplValidateValues L S Q D (sarg 0 a))),
     meth ''EditGetEnv'' S1 (\<lambda>D a. wrap RMap (EditGetEnv (sarg 0 a))),
     meth ''Get'' [TDB, TString, TString] (\<lambda>D a. wrap_res RStrs (Get L S D (iarg 0 a) (sarg 1 a) (sarg 2 a))),
     meth ''GetCommitLog'' [] (\<lambda>D a. wrap RMap (GetCommitLog S)),
     meth ''Exists'' [TDB, TString, TString] (\<lambda>D a. wrap RBool (Exists L S D (iarg 0 a) (sarg 1 a) (sarg 2 a))),
     meth ''NodeGetStatus'' [TDB, TString, TString] (\<lambda>D a. wrap RInt
       (NodeGetStatus L S D (iarg 0 a) (sarg 1 a) (sarg 2 a))),
     meth ''NodeIsDefault'' [TDB, TString, TString] (\<lambda>D a. wrap RBool
       (NodeIsDefault L S D (iarg 0 a) (sarg 1 a) (sarg 2 a))),
     meth ''NodeGetType'' S2 (\<lambda>D a. wrap RInt (NodeGetType L S D (sarg 0 a) (sarg 1 a))),
     meth ''NodeGetCompleteEnv'' S2 (\<lambda>D a. wrap RInts (NodeGetCompleteEnv (sarg 0 a) (sarg 1 a))),
     meth ''NodeGetComment'' S2 (\<lambda>D a. wrap RInts (NodeGetComment (sarg 0 a) (sarg 1 a))),
     meth ''ValidatePath'' S2 (\<lambda>D a. wrap RStr (ValidatePath L S D (sarg 0 a) (sarg 1 a))),
     meth ''AuthAuthorize'' [TString, TInt] (\<lambda>D a. wrap RBool (ret (AuthAuthorize L S Q D (sarg 0 a) (iarg 1 a)))),
     meth ''AuthGetPerms'' [] (\<lambda>D a. wrap RMap (ret (AuthGetPerms Q D))),
     meth ''GetHelp'' [TString, TBool, TString] (\<lambda>D a. wrap_res RHelp (GetHelp L S D (sarg 0 a) (barg 1 a) (sarg 2 a))),
     meth ''Expand'' S1 (\<lambda>D a. wrap RStr (ret (Expand S D (sarg 0 a)))),
     meth ''ExpandWithPrefix'' [TString, TString, TInt] (\<lambda>D a. wrap RStr
       (ret (ExpandWithPrefix S D (sarg 0 a) (sarg 1 a) (iarg 2 a)))),
     meth ''GetConfigSystemFeatures'' [] (\<lambda>D a. wrap RSet (GetConfigSystemFeatures L S Q D))])"

definition show_methods :: "'d deps \<Rightarrow> 'd meth list" where
  "show_methods E = (let L = x_L E; S = x_S E; Q = x_Q E; R = x_R E in [
     meth ''Compare'' [TString, TString, TString, TBool] (\<lambda>D a. wrap RStr
       (ret (Compare S Q D (sarg 0 a) (sarg 1 a) (sarg 2 a) (barg 3 a)))),
     meth ''CompareConfigRevisions'' S3 (\<lambda>D a. wrap RStr
       (CompareConfigRevisions L S Q D (sarg 0 a) (sarg 1 a) (sarg 2 a))),
     meth ''CompareSessionChanges'' S1 (\<lambda>D a. wrap RStr (CompareSessionChanges L S Q D (sarg 0 a))),
     meth ''Show'' [TDB, TString, TString, TBool] (\<lambda>D a. wrap RStr
       (Show L S D (iarg 0 a) (sarg 1 a) (sarg 2 a) (barg 3 a))),
     meth ''ShowDefaults'' [TDB, TString, TString, TBool] (\<lambda>D a. wrap RStr
       (ShowDefaults L S D (iarg 0 a) (sarg 1 a) (sarg 2 a) (barg 3 a))),
     meth ''ShowConfigWithContextDiffs'' [TString, TString, TBool] (\<lambda>D a. wrap RStr
       (ShowConfigWithContextDiffs L S Q D (sarg 0 a) (sarg 1 a) (barg 2 a))),
     meth ''TreeGet'' [TDB, TString, TString, TString, TFlags] (\<lambda>D a. wrap RStr
       (TreeGet L S Q D (iarg 0 a) (sarg 1 a) (sarg 2 a) (sarg 3 a) (farg 4 a))),
     meth ''TreeGetFull'' [TDB, TString, TString, TString, TFlags] (\<lambda>D a. wrap RStr
       (TreeGetFull L S Q D (iarg 0 a) (sarg 1 a) (sarg 2 a) (sarg 3 a) (farg 4 a))),
     meth ''ReadConfigFileRaw'' S1 (\<lambda>D a. wrap RStr (ReadConfigFileRaw L S D (sarg 0 a))),
     meth ''ReadConfigFile'' S1 (\<lambda>D a. wrap RStr (ReadConfigFile L S D (sarg 0 a))),
     meth ''MigrateConfigFile'' S1 (\<lambda>D a. wrap RStr (ret (MigrateConfigFile (sarg 0 a)))),
     meth ''SchemaGet'' S2 (\<lambda>D a. wrap RStr (ret (SchemaGet R (sarg 0 a) (sarg 1 a)))),
     meth ''GetSchemas'' [] (\<lambda>D a. wrap RStr (ret (GetSchemas R))),
     meth ''GetModuleSchemas'' [] (\<lambda>D a. wrap RStr (ret (GetModuleSchemas R))),
     meth ''GetDeviations'' [] (\<lambda>D a. wrap RMap (ret (GetDeviations R))),
     meth ''GetFeatures'' [] (\<lambda>D a. wrap RMap (ret (GetFeatures R)))])"

definition other_methods :: "'d deps \<Rightarrow> 'd meth list" where
  "other_methods E = (let L = x_L E; S = x_S E; Q = x_Q E; R = x_R E in [
     meth ''TmplGetAllowed'' S2 (\<lambda>D a. wrap_res RStrs (TmplGetAllowed L S Q D (sarg 0 a) (sarg 1 a))),
     meth ''GetCompletions'' [TString, TBool, TString] (\<lambda>D a. wrap RHelp
       (GetCompletions L S Q D (sarg 0 a) (barg 1 a) (sarg 2 a))),
     meth ''CallRpc'' S4 (\<lambda>D a. wrap RStr (CallRpc S R D (sarg 0 a) (sarg 1 a) (sarg 2 a) (sarg 3 a))),
     meth ''CallRpcXml'' S3 (\<lambda>D a. wrap RStr (CallRpcXml S R D (sarg 0 a) (sarg 1 a) (sarg 2 a)))])"

definition methods :: "'d deps \<Rightarrow> 'd meth list" where
  "methods E = session_methods E @ edit_methods E @ load_methods E @ commit_methods E
     @ node_methods E @ show_methods E @ other_methods E"

definition find_method :: "'d deps \<Rightarrow> string \<Rightarrow> 'd meth option" where
  "find_method E n = find (\<lambda>m. m_name m = n) (methods E)"

subsection \<open>Dispatching a request\<close>

text \<open>
  The arguments are converted from left to right; a JSON \<open>null\<close> has no type, and
  asking it for its conversions is a nil dereference.
\<close>

fun convert_args :: "string \<Rightarrow> gotype list \<Rightarrow> jval list \<Rightarrow> conn_error + arg list" where
  "convert_args m (t # ts) (v # vs) =
    (if v = JNull then Inl (Handler (RuntimePanic ''nil pointer dereference''))
     else case convert_arg t v of
       None \<Rightarrow> Inl (ArgErr m v t)
     | Some a \<Rightarrow> (case convert_args m ts vs of Inl e \<Rightarrow> Inl e | Inr as \<Rightarrow> Inr (a # as)))"
| "convert_args m _ _ = Inr []"

definition Call :: "'d deps \<Rightarrow> disp \<Rightarrow> string \<Rightarrow> jval list \<Rightarrow> ('d, reply \<times> conn_error option) dop" where
  "Call E D mth args =
    (case find_method E mth of
       None \<Rightarrow> ret (RNone, Some (MethErr mth))
     | Some m \<Rightarrow>
         if \<not> AuthorizeFn (Auth (d_ctx D)) (Uid (d_ctx D)) (Groups (d_ctx D)) mth
         then ret (RNone, Some (Handler access_denied))
         else if length args \<noteq> length (m_in m)
         then ret (RNone, Some (ArgN \<lparr>Method = mth, Len = int (length args), Elen = int (length (m_in m))\<rparr>))
         else (case convert_args mth (m_in m) args of
            Inl e \<Rightarrow> ret (RNone, Some e)
          | Inr as \<Rightarrow> do {
              (r, err) \<leftarrow> m_func m D as;
              ret (r, map_option Handler err) }))"

record rpc_response =
  r_Result :: "reply option"
  r_Error :: "string option"
  r_MgmtErrList :: "error list"
  r_Id :: int

definition newResponse :: "'d deps \<Rightarrow> reply \<Rightarrow> conn_error option \<Rightarrow> int \<Rightarrow> rpc_response" where
  "newResponse E result err i =
    (case err of
       None \<Rightarrow> \<lparr>r_Result = Some result, r_Error = None, r_MgmtErrList = [], r_Id = i\<rparr>
     | Some (Handler (MgmtErrorList es)) \<Rightarrow> \<lparr>r_Result = None, r_Error = None, r_MgmtErrList = es, r_Id = i\<rparr>
     | Some (Handler e) \<Rightarrow>
         if x_isMgmtErrorRef E e
         then \<lparr>r_Result = None, r_Error = None, r_MgmtErrList = [e], r_Id = i\<rparr>
         else \<lparr>r_Result = None, r_Error = Some (conn_error_text E (Handler e)), r_MgmtErrList = [], r_Id = i\<rparr>
     | Some e \<Rightarrow> \<lparr>r_Result = None, r_Error = Some (conn_error_text E e), r_MgmtErrList = [], r_Id = i\<rparr>)"

subsection \<open>A connection\<close>

definition NoLoginUid :: uid where "NoLoginUid = - 1"

text \<open>
  The login user of a process: an error, no login user (a daemon, whose user id is
  then 0), or the user. \<open>getCreds\<close> has the process id from the socket.
\<close>

datatype login = LoginErr error | NoLogin | LoginUser uid

definition getLoginUid :: "'d deps \<Rightarrow> 'd dworld \<Rightarrow> pid \<Rightarrow> login" where
  "getLoginUid E d p =
    (case x_GetPidLoginuid E d p of
       Inl e \<Rightarrow> LoginErr e
     | Inr u \<Rightarrow> if u = NoLoginUid then NoLogin else LoginUser u)"

definition dlog_error :: "'d deps \<Rightarrow> error option \<Rightarrow> ('d, unit) dop" where
  "dlog_error E e = (case e of None \<Rightarrow> ret () | Some err \<Rightarrow> demit (EvElog (Error_text (mg (x_S E)) err)))"

text \<open>The dispatcher of a connection: the caller's identity, groups and privileges.\<close>

definition conn_ctx :: "'d deps \<Rightarrow> srv \<Rightarrow> uid \<Rightarrow> pid \<Rightarrow> 'd dworld \<Rightarrow> Context \<times> error option" where
  "conn_ctx E V u p d =
    (let same = (u = sv_uid V);
         (grs, gerr) = (if same then ([], None) else x_groups E d (Itoa (uint u)));
         super = (u = 0 \<or> (\<not> same \<and> SuperGroup (sv_Config V) \<noteq> [] \<and> SuperGroup (sv_Config V) \<in> set grs))
     in (\<lparr>Configd = same, Auth = x_NewAuthForUser E u grs (fst (x_tty E d p)), Pid = p, Uid = u, User = [], UserHome = [],
          Groups = grs, Superuser = super, Config = sv_Config V, Noexec = False\<rparr>, gerr))"

definition newDisp :: "'d deps \<Rightarrow> srv \<Rightarrow> uid \<Rightarrow> pid \<Rightarrow> ('d, disp option) dop" where
  "newDisp E V u p = do {
     (c, gerr) \<leftarrow> dgets (conn_ctx E V u p);
     dlog_error E gerr;
     (_, terr) \<leftarrow> dgets (\<lambda>d. x_tty E d p);
     (case terr of Some e \<Rightarrow> (if x_isNotExist E e then ret () else dlog_error E (Some e)) | None \<Rightarrow> ret ());
     who \<leftarrow> dgets (\<lambda>d. x_LookupId E d (Itoa (uint u)));
     (case who of
        Inl e \<Rightarrow> do { dlog_error E (Some e); ret None }
      | Inr (name, home) \<Rightarrow>
          ret (Some \<lparr>d_ms = sv_ms V, d_msFull = sv_msFull V, d_ctx = c\<lparr>User := name, UserHome := home\<rparr>\<rparr>)) }"

text \<open>
  What arrives on the connection: a request, with whether its response could be
  sent, an undecodable message, or the end of the stream.
\<close>

datatype incoming = Req string "jval list" int bool | Garbage error

fun serve_requests :: "'d deps \<Rightarrow> disp \<Rightarrow> incoming list \<Rightarrow> ('d, rpc_response list) dop" where
  "serve_requests E D [] = ret []"
| "serve_requests E D (Garbage e # _) = do { dlog_error E (Some e); ret [] }"
| "serve_requests E D (Req mth args i sent # rs) = do {
     (r, err) \<leftarrow> Call E D mth args;
     let resp = newResponse E r err i;
     if \<not> sent then ret [resp]
     else do { resps \<leftarrow> serve_requests E D rs; ret (resp # resps) } }"

definition unlock_all_pid :: "'d deps \<Rightarrow> disp \<Rightarrow> ('d, unit) dop" where
  "unlock_all_pid E D = do {
     order \<leftarrow> dgets (x_order E \<circ> dw_mgr);
     _ \<leftarrow> on_mgr (UnlockAllPid order (d_ctx D));
     dmodify (\<lambda>d. case mg_sessions (dw_mgr d) ''EFFECTIVE'' of
        None \<Rightarrow> d
      | Some s \<Rightarrow> d\<lparr>dw_cmgr := (dw_cmgr d)\<lparr>cm_effective := s\<rparr>\<rparr>) }"

definition serve_conn :: "'d deps \<Rightarrow> disp \<Rightarrow> incoming list \<Rightarrow> ('d, rpc_response list) dop" where
  "serve_conn E D reqs = do {
     resps \<leftarrow> serve_requests E D reqs;
     e \<leftarrow> sessionTermination (x_S E) D;
     dlog_error E e;
     unlock_all_pid E D;
     ret resps }"

definition Handle :: "'d deps \<Rightarrow> srv \<Rightarrow> pid \<Rightarrow> incoming list \<Rightarrow> ('d, rpc_response list) dop" where
  "Handle E V p reqs = do {
     l \<leftarrow> dgets (\<lambda>d. getLoginUid E d p);
     (case l of
        LoginErr e \<Rightarrow> do { (if x_isNotExist E e then ret () else dlog_error E (Some e)); ret [] }
      | _ \<Rightarrow> do {
          dopt \<leftarrow> newDisp E V (case l of LoginUser u \<Rightarrow> u | _ \<Rightarrow> 0) p;
          (case dopt of None \<Rightarrow> ret [] | Some D \<Rightarrow> serve_conn E D reqs) }) }"

subsection \<open>Starting the server\<close>

text \<open>The sessions \<open>RUNNING\<close> and \<open>EFFECTIVE\<close> are created and locked by the system itself.\<close>

definition system_ctx :: "config \<Rightarrow> auth \<Rightarrow> Context" where
  "system_ctx cfg au = \<lparr>Configd = False, Auth = au, Pid = SYSTEM, Uid = 0, User = [], UserHome = [], Groups = [],
     Superuser = False, Config = cfg, Noexec = False\<rparr>"

definition create_locked :: "'d libs \<Rightarrow> Context \<Rightarrow> snode \<Rightarrow> snode \<Rightarrow> string \<Rightarrow> 'd mgr option \<Rightarrow> 'd mgr option" where
  "create_locked L c ms msFull sd m = snd (mgr_Lock c sd (snd (mgr_Create L c sd ms msFull True m)))"

definition NewSrv :: "'d libs \<Rightarrow> config \<Rightarrow> auth \<Rightarrow> snode \<Rightarrow> snode \<Rightarrow> 'd option \<Rightarrow> dbg_settings \<Rightarrow> bool \<Rightarrow> 'd dworld" where
  "NewSrv L cfg au ms msFull running dbg rofs =
    (let c = system_ctx cfg au;
         m1 = create_locked L c ms msFull ''RUNNING'' (Some \<lparr>mg_sessions = Map.empty, mg_killed = []\<rparr>);
         m2 = create_locked L c ms msFull ''EFFECTIVE'' m1
     in case m2 of
          Some m \<Rightarrow> (case mg_sessions m ''EFFECTIVE'' of
            Some eff \<Rightarrow> \<lparr>dw_mgr = m,
              dw_cmgr = \<lparr>cm_running = running, cm_effective = eff, cm_schema = ms, cm_hadcommit = False, cm_inCommit = False\<rparr>,
              dw_dbg = dbg, dw_rofs = rofs, dw_log = []\<rparr>))"

end
