(* ===== verification/Server_Guard.thy ===== *)
theory Server_Guard
  imports Disp_Guard Server_Conn
begin

text \<open>
  The properties of the server seen from its socket: what a request must pass
  before a handler runs, that the query methods change nothing, that no
  connection reaches a session another process has locked, and that the locks of
  a client are released when it goes away.
\<close>

subsection \<open>Wrappers\<close>

lemma snd_run_wrap [simp]:
  "snd (run_state (wrap f m) s) = snd (run_state m s)"
  "snd (run_state (wrap_res f n) s) = snd (run_state n s)"
  "snd (run_state (quietly q) s) = snd (run_state q s)"
  by (simp_all add: wrap_def wrap_res_def quietly_def split: prod.split)

lemma keeps_wrap [simp]:
  "keeps R (wrap f m) = keeps R m" "keeps R (wrap_res f n) = keeps R n" "keeps R (quietly q) = keeps R q"
  by (simp_all add: keeps_def)

subsection \<open>Queries and the session lock\<close>

lemma guarded_queries:
  assumes "Pid c \<noteq> K" "K \<noteq> 0" "commit_via_callbacks L"
  shows "keeps (framed (lock_guard K)) (Session_Exists L c p)"
    "keeps (framed (lock_guard K)) (Session_Get L c p)"
    "keeps (framed (lock_guard K)) (Session_GetType L c p)"
    "keeps (framed (lock_guard K)) (Session_GetStatus L c p)"
    "keeps (framed (lock_guard K)) (Session_IsDefault L c p)"
    "keeps (framed (lock_guard K)) (Session_GetTree L c p opts)"
    "keeps (framed (lock_guard K)) (Session_GetFullTree L c p opts)"
    "keeps (framed (lock_guard K)) (Session_ValidateSet L c p)"
    "keeps (framed (lock_guard K)) (Session_GetHelp L c sch p)"
    "keeps (framed (lock_guard K)) (Session_ShowForceSecrets L c p hs sdf)"
  unfolding Session_Exists_def Session_Get_def Session_GetType_def Session_GetStatus_def Session_IsDefault_def
    Session_GetTree_def Session_GetFullTree_def Session_ValidateSet_def Session_GetHelp_def
    Session_ShowForceSecrets_def Session_showInternal_def
  by (intro guarded_send; use assms in simp)+

lemma guarded_missing_tail:
  assumes "Pid c \<noteq> K" "K \<noteq> 0" "commit_via_callbacks L"
  shows "keeps (framed (lock_guard K)) (missing_tail L c r k)"
  by (induction r arbitrary: k) (auto intro!: quiet_intros guarded_queries assms)

lemma guarded_leafref_op:
  assumes "Pid c \<noteq> K" "K \<noteq> 0" "commit_via_callbacks L"
  shows "keeps (framed (lock_guard K)) (leafref_op L Q c ps lr)"
  unfolding leafref_op_def leafref_eval_def
  by (intro quiet_intros guarded_queries guarded_calls guarded_missing_tail assms)

lemma dguard_queries:
  assumes "sd \<noteq> ''EFFECTIVE''" "Pid (d_ctx D) \<noteq> K" "K \<noteq> 0" "commit_via_callbacks L"
  shows "keeps (dguard K sd) (TmplGetAllowed L S Q D sd' p)"
    "keeps (dguard K sd) (GetHelp L S D sd' b p)"
    "keeps (dguard K sd) (NodeGetType L S D sd' p)"
    "keeps (dguard K sd) (Exists L S D db sd' p)"
  unfolding TmplGetAllowed_def getLeafrefVals_def run_allowed_def GetHelp_def NodeGetType_def Exists_def
  by (intro dguard_intros quiet_intros guarded_queries guarded_leafref_op assms)+

lemma dguard_files [dguard_intros]:
  assumes "sd \<noteq> ''EFFECTIVE''" "Pid (d_ctx D) \<noteq> K" "K \<noteq> 0" "commit_via_callbacks L"
  shows "keeps (dguard K sd) (readCfgFile L S D file raw force)"
    "keeps (dguard K sd) (show_force L D db sd' sdf)"
  unfolding readCfgFile_def show_force_def
  by (intro dguard_intros quiet_intros guarded_queries assms)+

lemma dguard_GetCommitLog [dguard_intros]: "keeps (dguard K sd) (GetCommitLog S)"
  unfolding GetCommitLog_def by (intro dguard_intros)

lemma dguard_compare_texts [dguard_intros]:
  "keeps (dguard K sd) a \<Longrightarrow> keeps (dguard K sd) b \<Longrightarrow> keeps (dguard K sd) (compare_texts a b f)"
  unfolding compare_texts_def by (intro dguard_intros)

lemma guarded_tree_ops:
  assumes "Pid c \<noteq> K" "K \<noteq> 0" "commit_via_callbacks L"
  shows "keeps (framed (lock_guard K)) (tree_get_op L Q c ps enc opts)"
    "keeps (framed (lock_guard K)) (full_get_op L S Q c ps enc opts)"
  unfolding tree_get_op_def full_get_op_def printWarnings_def
  by (intro quiet_intros guarded_queries assms)+

lemma dguard_load_keys:
  assumes "sd \<noteq> ''EFFECTIVE''" "Pid (d_ctx D) \<noteq> K" "K \<noteq> 0" "commit_via_callbacks L"
  shows "keeps (dguard K sd) (LoadKeys L S Q parse D sd' user src ri)"
proof -
  note hyps = assms
  have set: "keeps (dguard K sd) (setPublicKeyForUser L S D sd' user k)" for k
    unfolding setPublicKeyForUser_def set_command_def setInternal_def
    by (intro dguard_intros quiet_intros guarded_calls hyps)
  have parse: "keeps (dguard K sd) (loadKeysParse S parse (setPublicKeyForUser L S D sd' user) n ls e)" for n ls e
    by (induction ls arbitrary: n) (auto intro!: dguard_intros set split: sum.split)
  have commit: "keeps (dguard K sd) (load_keys_commit L S D sd' src' args)" for src' args
    unfolding load_keys_commit_def SessionChanged_def ConfirmSilent_def commitInternal_def
    by (intro dguard_intros quiet_intros guarded_calls dguard_confirmedCommit hyps)
  show ?thesis
    unfolding LoadKeys_def loadKeysInternal_def userIsConfigured_def process_stream_def not_supported_def
    by (intro dguard_intros parse commit dguard_queries hyps)
qed

lemma dguard_rpc: "keeps (dguard K sd) (CallRpc S R D m n a e)"
  unfolding CallRpc_def callRpcInternal_def handleVciRpc_def vci_CallRpc_def
  by (intro dguard_intros)

subsection \<open>The method table and the session lock\<close>

lemma dguard_handlers:
  fixes L :: "'d libs" and S :: "'d sys"
  assumes "sd \<noteq> ''EFFECTIVE''" "Pid (d_ctx D) \<noteq> K" "K \<noteq> 0" "commit_via_callbacks L"
  shows "keeps (dguard K sd) (SessionExists D x :: ('d, bool \<times> error option) dop)"
    "keeps (dguard K sd) (SessionSetup L D x)"
    "keeps (dguard K sd) (SessionSetupShared L D x)"
    "keeps (dguard K sd) (SessionTeardown D x :: ('d, bool \<times> error option) dop)"
    "keeps (dguard K sd) (SessionChanged L D x)"
    "keeps (dguard K sd) (SessionSaved L D x)"
    "keeps (dguard K sd) (SessionMarkSaved L D x)"
    "keeps (dguard K sd) (SessionMarkUnsaved L D x)"
    "keeps (dguard K sd) (SessionLock L D x)"
    "keeps (dguard K sd) (SessionUnlock L D x)"
    "keeps (dguard K sd) (SessionLocked L D x)"
    "keeps (dguard K sd) (Discard L S D x)"
    "keeps (dguard K sd) (Set L S D x p)"
    "keeps (dguard K sd) (Delete L S D x p)"
    "keeps (dguard K sd) (Merge L S D x p)"
    "keeps (dguard K sd) (Validate L S D x)"
    "keeps (dguard K sd) (EditConfigXML L D x a b c d e)"
    "keeps (dguard K sd) (SaveTo L S D x p)"
    "keeps (dguard K sd) (Save L S D)"
    "keeps (dguard K sd) (ExtractArchive S x p)"
    "keeps (dguard K sd) (disp_SetConfigDebug ord x p :: ('d, string \<times> error option) dop)"
    "keeps (dguard K sd) (Commit L S D x p b1)"
    "keeps (dguard K sd) (CommitConfirm L S D x p b1 n)"
    "keeps (dguard K sd) (ConfirmedCommit L S D x p b1 a b c b2)"
    "keeps (dguard K sd) (Confirm L S D)"
    "keeps (dguard K sd) (ConfirmPersistId L S D x)"
proof -
  have call: "keeps (dguard K sd) (call_run L S D c)" if "\<not> loads c" for c
    by (rule dguard_call [OF that assms])
  show "keeps (dguard K sd) (SessionExists D x :: ('d, bool \<times> error option) dop)"
    "keeps (dguard K sd) (SessionSetup L D x)"
    "keeps (dguard K sd) (SessionSetupShared L D x)"
    "keeps (dguard K sd) (SessionTeardown D x :: ('d, bool \<times> error option) dop)"
    "keeps (dguard K sd) (SessionChanged L D x)"
    "keeps (dguard K sd) (SessionSaved L D x)"
    "keeps (dguard K sd) (SessionMarkSaved L D x)"
    "keeps (dguard K sd) (SessionMarkUnsaved L D x)"
    "keeps (dguard K sd) (SessionLock L D x)"
    "keeps (dguard K sd) (SessionUnlock L D x)"
    "keeps (dguard K sd) (SessionLocked L D x)"
    "keeps (dguard K sd) (Discard L S D x)"
    "keeps (dguard K sd) (Set L S D x p)"
    "keeps (dguard K sd) (Delete L S D x p)"
    "keeps (dguard K sd) (Merge L S D x p)"
    "keeps (dguard K sd) (Validate L S D x)"
    "keeps (dguard K sd) (EditConfigXML L D x a b c d e)"
    "keeps (dguard K sd) (SaveTo L S D x p)"
    "keeps (dguard K sd) (Save L S D)"
    "keeps (dguard K sd) (ExtractArchive S x p)"
    "keeps (dguard K sd) (disp_SetConfigDebug ord x p :: ('d, string \<times> error option) dop)"
    "keeps (dguard K sd) (Commit L S D x p b1)"
    "keeps (dguard K sd) (CommitConfirm L S D x p b1 n)"
    "keeps (dguard K sd) (ConfirmedCommit L S D x p b1 a b c b2)"
    "keeps (dguard K sd) (Confirm L S D)"
    "keeps (dguard K sd) (ConfirmPersistId L S D x)"
    using call [of "CSessionExists x"]
      call [of "CSessionSetup x"]
      call [of "CSessionSetupShared x"]
      call [of "CSessionTeardown x"]
      call [of "CSessionChanged x"]
      call [of "CSessionSaved x"]
      call [of "CSessionMarkSaved x"]
      call [of "CSessionMarkUnsaved x"]
      call [of "CSessionLock x"]
      call [of "CSessionUnlock x"]
      call [of "CSessionLocked x"]
      call [of "CDiscard x"]
      call [of "CSet x p"]
      call [of "CDelete x p"]
      call [of "CMerge x p"]
      call [of "CValidate x"]
      call [of "CEditConfigXML x a b c d e"]
      call [of "CSaveTo x p"]
      call [of "CSave"]
      call [of "CExtractArchive x p"]
      call [of "CSetConfigDebug ord x p"]
      call [of "CCommit x p b1"]
      call [of "CCommitConfirm x p b1 n"]
      call [of "CConfirmedCommit x p b1 a b c b2"]
      call [of "CConfirm"]
      call [of "CConfirmPersistId x"]
    by (simp_all only: call_run.simps loads.simps keeps_wrap not_False_eq_True simp_thms)
qed

lemma dguard_session_methods:
  assumes "m \<in> set (session_methods E)"
    and hyps: "sd \<noteq> ''EFFECTIVE''" "Pid (d_ctx D) \<noteq> K" "K \<noteq> 0" "commit_via_callbacks (x_L E)"
  shows "keeps (dguard K sd) (m_func m D as)"
  using assms(1) dguard_handlers [OF hyps]
  by (auto simp: session_methods_def meth_def Let_def SessionGetEnv_def not_supported_def intro: dguard.ret_ok)

lemma dguard_edit_methods:
  assumes "m \<in> set (edit_methods E)"
    and hyps: "sd \<noteq> ''EFFECTIVE''" "Pid (d_ctx D) \<noteq> K" "K \<noteq> 0" "commit_via_callbacks (x_L E)"
  shows "keeps (dguard K sd) (m_func m D as)"
proof -
  have merge: "keeps (dguard K sd) (MergeReportWarnings (x_L E) (x_S E) D x p)" for x p
    unfolding MergeReportWarnings_def mergeReportWarningsInternal_def
    by (intro dguard_intros quiet_intros guarded_calls hyps)
  show ?thesis
    using assms(1) dguard_handlers [OF hyps] dguard_load_keys [OF hyps] merge
    by (auto simp: edit_methods_def meth_def Let_def Rename_def Copy_def Comment_def not_supported_def
        intro: dguard.ret_ok)
qed

lemma dguard_commit_methods:
  assumes "m \<in> set (commit_methods E)"
    and hyps: "sd \<noteq> ''EFFECTIVE''" "Pid (d_ctx D) \<noteq> K" "K \<noteq> 0" "commit_via_callbacks (x_L E)"
  shows "keeps (dguard K sd) (m_func m D as)"
  using assms(1) dguard_handlers [OF hyps] dguard_logs(1)
  by (auto simp: commit_methods_def meth_def Let_def ConfirmingCommit_def ConfirmSilent_def)

lemma dguard_node_methods:
  assumes "m \<in> set (node_methods E)"
    and hyps: "sd \<noteq> ''EFFECTIVE''" "Pid (d_ctx D) \<noteq> K" "K \<noteq> 0" "commit_via_callbacks (x_L E)"
  shows "keeps (dguard K sd) (m_func m D as)"
proof -
  have q: "keeps (dguard K sd) (Get (x_L E) S D db x p)" "keeps (dguard K sd) (NodeGetStatus (x_L E) S D db x p)"
    "keeps (dguard K sd) (NodeIsDefault (x_L E) S D db x p)" "keeps (dguard K sd) (ValidatePath (x_L E) S D x p)"
    "keeps (dguard K sd) (TmplValidateValues (x_L E) S Q D p)"
    "keeps (dguard K sd) (GetConfigSystemFeatures (x_L E) S Q D)" for S Q db x p
    unfolding Get_def NodeGetStatus_def NodeIsDefault_def ValidatePath_def TmplValidateValues_def
      GetConfigSystemFeatures_def
    by (intro dguard_intros quiet_intros guarded_queries hyps)+
  show ?thesis
    using assms(1) q dguard_queries [OF hyps] dguard_GetCommitLog
    by (auto simp: node_methods_def meth_def Let_def EditGetEnv_def NodeGetCompleteEnv_def NodeGetComment_def
        not_supported_def intro: dguard.ret_ok)
qed

lemma dguard_show_methods:
  assumes "m \<in> set (show_methods E)"
    and hyps: "sd \<noteq> ''EFFECTIVE''" "Pid (d_ctx D) \<noteq> K" "K \<noteq> 0" "commit_via_callbacks (x_L E)"
  shows "keeps (dguard K sd) (m_func m D as)"
proof -
  have q: "keeps (dguard K sd) (CompareConfigRevisions (x_L E) S Q D x r1 r2)"
    "keeps (dguard K sd) (CompareSessionChanges (x_L E) S Q D x)"
    "keeps (dguard K sd) (Show (x_L E) S D db x p b)" "keeps (dguard K sd) (ShowDefaults (x_L E) S D db x p b)"
    "keeps (dguard K sd) (ShowConfigWithContextDiffs (x_L E) S Q D x p b)"
    "keeps (dguard K sd) (TreeGet (x_L E) S Q D db x p enc fl)"
    "keeps (dguard K sd) (TreeGetFull (x_L E) S Q D db x p enc fl)"
    "keeps (dguard K sd) (ReadConfigFile (x_L E) S D x)" "keeps (dguard K sd) (ReadConfigFileRaw (x_L E) S D x)"
    for S Q db x p b enc fl r1 r2
    unfolding CompareConfigRevisions_def compareConfigRevisionsInternal_def validCompareConfigRevision_def
      readConfigFileForceShowSecrets_def CompareSessionChanges_def compareSessionChangesInternal_def
      Show_def ShowDefaults_def show_db_def ShowConfigWithContextDiffs_def showConfigWithContextDiffsInternal_def
      TreeGet_def TreeGetFull_def TreeGetFullWithWarnings_def ReadConfigFile_def ReadConfigFileRaw_def
    by (intro dguard_intros quiet_intros guarded_calls guarded_tree_ops hyps)+
  show ?thesis
    using assms(1) q by (auto simp: show_methods_def meth_def Let_def intro: dguard.ret_ok)
qed

lemma dguard_other_methods:
  assumes "m \<in> set (other_methods E)"
    and hyps: "sd \<noteq> ''EFFECTIVE''" "Pid (d_ctx D) \<noteq> K" "K \<noteq> 0" "commit_via_callbacks (x_L E)"
  shows "keeps (dguard K sd) (m_func m D as)"
proof -
  have "keeps (dguard K sd) (GetCompletions (x_L E) S Q D x b p)" for S Q x b p
    unfolding GetCompletions_def by (intro dguard_intros dguard_queries hyps)
  then show ?thesis
    using assms(1) dguard_queries(1) [OF hyps]
    by (auto simp: other_methods_def meth_def Let_def CallRpcXml_def intro: dguard_rpc)
qed

lemma dguard_method:
  assumes "find_method E n = Some m" "n \<notin> m_name ` set (load_methods E)"
    and hyps: "sd \<noteq> ''EFFECTIVE''" "Pid (d_ctx D) \<noteq> K" "K \<noteq> 0" "commit_via_callbacks (x_L E)"
  shows "keeps (dguard K sd) (m_func m D as)"
proof -
  have "m \<in> set (methods E)" "m_name m = n"
    using assms(1) by (auto simp: find_method_def find_Some_iff)
  then show ?thesis
    using assms(2) dguard_session_methods [OF _ hyps] dguard_edit_methods [OF _ hyps]
      dguard_commit_methods [OF _ hyps] dguard_node_methods [OF _ hyps] dguard_show_methods [OF _ hyps]
      dguard_other_methods [OF _ hyps]
    by (auto simp: methods_def)
qed

lemma dguard_Call:
  assumes "mth \<notin> m_name ` set (load_methods E)"
    and "sd \<noteq> ''EFFECTIVE''" "Pid (d_ctx D) \<noteq> K" "K \<noteq> 0" "commit_via_callbacks (x_L E)"
  shows "keeps (dguard K sd) (Call E D mth args)"
  unfolding Call_def
  by (cases "find_method E mth") (auto intro!: dguard_intros dguard_method [OF _ assms])

subsection \<open>Connections\<close>

fun avoids :: "string set \<Rightarrow> incoming \<Rightarrow> bool" where
  "avoids N (Req mth _ _ _) \<longleftrightarrow> mth \<notin> N"
| "avoids N (Garbage _) \<longleftrightarrow> True"

lemma dguard_dlog_error [dguard_intros]: "keeps (dguard K sd) (dlog_error E e)"
  unfolding dlog_error_def by (intro dguard_intros)

lemma dguard_serve_requests:
  assumes "\<forall>r\<in>set reqs. avoids (m_name ` set (load_methods E)) r"
    and hyps: "sd \<noteq> ''EFFECTIVE''" "Pid (d_ctx D) \<noteq> K" "K \<noteq> 0" "commit_via_callbacks (x_L E)"
  shows "keeps (dguard K sd) (serve_requests E D reqs)"
  using assms(1)
proof (induction reqs)
  case (Cons r reqs)
  then show ?case
    by (cases r) (auto intro!: dguard_intros dguard_Call hyps)
qed (simp add: dguard.ret_ok)

lemma dguard_unlock_all_pid:
  assumes "Pid (d_ctx D) \<noteq> K"
  shows "keeps (dguard K sd) (unlock_all_pid (E :: 'a deps) D)"
proof -
  have keep: "mg_sessions (snd (unlock_all (Pid (d_ctx D)) order None m)) sd = Some x"
    if "mg_sessions m sd = Some x" "lpid x = K" "\<not> terminated x" for m :: "'a mgr" and x order
    using that assms by (simp add: unlock_all_sessions released_def api_locked_def locked_def)
  have "keeps (dguard K sd) (on_mgr (UnlockAllPid order (d_ctx D)) :: ('a, error option) dop)" for order
  proof (rule dguard_on_mgr)
    fix m :: "'a mgr" and x
    assume "mg_sessions m sd = Some x" "lpid x = K" "\<not> terminated x"
    from keep [OF this, of order]
    show "case UnlockAllPid order (d_ctx D) (Some m) of (_, Some m') \<Rightarrow> mg_sessions m' sd = Some x | (_, None) \<Rightarrow> True"
      by (auto simp: UnlockAllPid_def split: prod.split)
  qed
  then show ?thesis
    unfolding unlock_all_pid_def by (intro dguard_intros dguard_dmodify) (auto split: option.split)
qed

lemma conn_ctx_pid: "conn_ctx E V u p d = (c, e) \<Longrightarrow> Pid c = p"
  by (auto simp: conn_ctx_def Let_def split: prod.splits)

lemma newDisp_pid: "fst (run_state (newDisp E V u p) (d, es)) = Some D \<Longrightarrow> Pid (d_ctx D) = p"
  by (auto simp: newDisp_def dlog_error_def dest: conn_ctx_pid split: prod.splits option.splits sum.splits if_splits)

lemma dguard_Handle:
  assumes "\<forall>r\<in>set reqs. avoids (m_name ` set (load_methods E)) r"
    and hyps: "sd \<noteq> ''EFFECTIVE''" "p \<noteq> K" "K \<noteq> 0" "commit_via_callbacks (x_L E)"
  shows "keeps (dguard K sd) (Handle E V p reqs)"
proof -
  have conn: "keeps (dguard K sd) (serve_conn E D reqs)" if "Pid (d_ctx D) = p" for D
    unfolding serve_conn_def sessionTermination_def
    by (intro dguard_intros dguard_serve_requests dguard_unlock_all_pid assms; use that hyps in simp)
  have new: "keeps (dguard K sd) (newDisp E V u p)" for u
    unfolding newDisp_def by (intro dguard_intros)
  have rest: "keeps (dguard K sd) (do { dopt \<leftarrow> newDisp E V u p;
      case dopt of None \<Rightarrow> ret [] | Some D \<Rightarrow> serve_conn E D reqs })" for u
  proof (rule keepsI)
    fix s :: "'a dst"
    obtain d es where s: "s = (d, es)" by (cases s)
    obtain a t where r: "run_state (newDisp E V u p) s = (a, t)" by (metis prod.exhaust)
    have "dguard K sd s t" by (rule keepsE [OF new r])
    moreover have "dguard K sd t (snd (run_state (serve_conn E D reqs) t))" if "a = Some D" for D
      by (rule keepsD [OF conn]) (use newDisp_pid [of E V u p d es D] r s that in simp)
    ultimately show "dguard K sd s (snd (run_state (do { dopt \<leftarrow> newDisp E V u p;
        case dopt of None \<Rightarrow> ret [] | Some D \<Rightarrow> serve_conn E D reqs }) s))"
      using r dguard.trans [of K sd s t] by (cases a) auto
  qed
  show ?thesis
    unfolding Handle_def
  proof (rule dguard.bind_ok [OF dguard_prims(1)])
    fix l :: login
    show "keeps (dguard K sd) (case l of
        LoginErr e \<Rightarrow> do { (if x_isNotExist E e then ret () else dlog_error E (Some e)); ret [] }
      | _ \<Rightarrow> do { dopt \<leftarrow> newDisp E V (case l of LoginUser u \<Rightarrow> u | _ \<Rightarrow> 0) p;
          case dopt of None \<Rightarrow> ret [] | Some D \<Rightarrow> serve_conn E D reqs })"
      by (cases l; simp only: login.case) (intro dguard_intros rest)+
  qed
qed

subsection \<open>What a request must pass\<close>

fun of_type :: "gotype \<Rightarrow> arg \<Rightarrow> bool" where
  "of_type TString (AStr _) = True"
| "of_type TBool (ABool _) = True"
| "of_type TInt (AInt n) = (- (2 ^ 63) \<le> n \<and> n < 2 ^ 63)"
| "of_type TDB (AInt n) = (- (2 ^ 63) \<le> n \<and> n < 2 ^ 63)"
| "of_type TFlags (AFlags _) = True"
| "of_type _ _ = False"

lemma float_to_int_range: "- (2 ^ 63) \<le> float_to_int r \<and> float_to_int r < 2 ^ 63"
  by (simp add: float_to_int_def Let_def)

lemma convert_arg_type: "convert_arg t v = Some a \<Longrightarrow> of_type t a"
  using float_to_int_range by (induction t v rule: convert_arg.induct) auto

lemma convert_args_type:
  "convert_args m ts vs = Inr as \<Longrightarrow> length vs = length ts \<Longrightarrow>
    list_all2 of_type ts as \<and> map2 convert_arg ts vs = map Some as \<and> JNull \<notin> set vs"
  by (induction m ts vs arbitrary: as rule: convert_args.induct)
    (auto split: option.splits sum.splits if_splits dest: convert_arg_type)

text \<open>C27. Nothing runs unchecked. If a request has any effect, or is answered with a
  result, then its method is one of the published ones, the caller is authorised to
  call it, it has exactly the declared number of arguments, each of them converts to
  its declared type (integers within 64 bits), and what happened is what the handler does on the converted
  arguments. In particular an unknown method, a method the caller may not call, a wrong number
  of arguments or an argument of a wrong type have no effect at all.\<close>

theorem requests_are_checked:
  assumes run: "run_state (Call E D mth args) s = ((r, err), s')" and eff: "s' \<noteq> s \<or> err = None"
  shows "\<exists>m as e. m \<in> set (methods E) \<and> m_name m = mth
    \<and> AuthorizeFn (Auth (d_ctx D)) (Uid (d_ctx D)) (Groups (d_ctx D)) mth
    \<and> list_all2 of_type (m_in m) as \<and> map2 convert_arg (m_in m) args = map Some as
    \<and> run_state (m_func m D as) s = ((r, e), s') \<and> err = map_option Handler e"
proof (cases "find_method E mth")
  case None
  then show ?thesis using assms by (auto simp: Call_def)
next
  case (Some m)
  then have m: "m \<in> set (methods E)" "m_name m = mth"
    by (auto simp: find_method_def find_Some_iff)
  show ?thesis
    using assms Some m convert_args_type [of mth "m_in m" args]
    by (auto simp: Call_def split: if_splits sum.splits prod.splits)
qed

subsection \<open>A small server\<close>

definition demo_qlibs :: "dtree qlibs" where
  "demo_qlibs = \<lparr>PathDescendant = (\<lambda>sn p. if p = [''ref''] then Some (leaf_node ''ref'' [], False) else None),
     n_type = (\<lambda>n. if sn_name n = ''ref'' then YLeafref else YOther), n_desc = (\<lambda>n. []), n_secret = (\<lambda>n. False),
     n_default = (\<lambda>n. []), n_allowed = (\<lambda>n. []), AuthorizePathPerm = (\<lambda>u g p a n. True), GetPerms = (\<lambda>g. []),
     ms_Validate = (\<lambda>d sn v p. None), ExecNoErr = (\<lambda>d x p sc. Inr None),
     leafref_AllowedValues = (\<lambda>u r n. Inr [''x'']), LoadStringNoValidate = (\<lambda>n t. Inr [[t]]),
     diff_Serialize = (\<lambda>a b sn p c h. []), union_Marshal = (\<lambda>u n enc opts. (''{}'', None))\<rparr>"

definition demo_deps :: "dtree deps" where
  "demo_deps = \<lparr>x_L = sample, x_S = demo_sys, x_Q = demo_qlibs, x_R = demo_rlibs True,
     x_parse = (\<lambda>l. Inl (ExternalError ''ssh: no key found'')), x_logorder = [],
     x_order = (\<lambda>m. [''RUNNING'', ''EFFECTIVE'', ''s1'']), x_Sprint = (\<lambda>v. []), x_isMgmtErrorRef = (\<lambda>e. True),
     x_GetPidLoginuid = (\<lambda>d p. Inr 1000), x_groups = (\<lambda>d u. ([''users''], None)), x_tty = (\<lambda>d p. ([], None)),
     x_NewAuthForUser = (\<lambda>u g t. auth_of True), x_LookupId = (\<lambda>d u. Inr (''alice'', ''/home/alice'')),
     x_isNotExist = (\<lambda>e. False)\<rparr>"

definition demo_srv :: srv where
  "demo_srv = \<lparr>sv_ms = root_node, sv_msFull = root_node, sv_uid = 110, sv_Config = Config (caller 1 True)\<rparr>"

fun answered :: "reply \<times> conn_error option \<Rightarrow> bool" where
  "answered (RBool b, None) = b"
| "answered _ = False"

theorem requests_are_checked_witness:
  "let run = (\<lambda>b args. run_state (Call demo_deps (demo_disp b) ''SessionSetup'' args) (demo_dworld, []))
   in answered (fst (run True [JStr ''new'']))
      \<and> (\<exists>m as. m \<in> set (methods demo_deps) \<and> m_name m = ''SessionSetup'' \<and> list_all2 of_type (m_in m) as)
      \<and> snd (fst (run False [JStr ''new''])) = Some (Handler access_denied)
      \<and> snd (fst (run True [JBool True])) = Some (ArgErr ''SessionSetup'' (JBool True) TString)"
proof -
  let ?run = "\<lambda>b args. run_state (Call demo_deps (demo_disp b) ''SessionSetup'' args) (demo_dworld, [])"
  have r: "answered (fst (?run True [JStr ''new'']))"
    "snd (fst (?run False [JStr ''new''])) = Some (Handler access_denied)"
    "snd (fst (?run True [JBool True])) = Some (ArgErr ''SessionSetup'' (JBool True) TString)"
    by code_simp+
  obtain a s' where "?run True [JStr ''new''] = ((a, None), s')"
    using r(1) by (cases "?run True [JStr ''new'']") (auto elim: answered.elims)
  from requests_are_checked [OF this] show ?thesis using r by (auto simp: Let_def)
qed

text \<open>A \<open>null\<close> argument reaches \<open>ConvertibleTo\<close> with no type: any caller of any method with
  arguments can make the daemon dereference nil.\<close>

lemma null_argument_panics:
  assumes "find_method E mth = Some m" "AuthorizeFn (Auth (d_ctx D)) (Uid (d_ctx D)) (Groups (d_ctx D)) mth"
    and "length args = length (m_in m)" "args \<noteq> []" "hd args = JNull"
  shows "run_state (Call E D mth args) s = ((RNone, Some (Handler (RuntimePanic ''nil pointer dereference''))), s)"
  using assms by (cases args; cases "m_in m") (auto simp: Call_def)

text \<open>\<open>ConfirmingCommit\<close> is one of the published methods: it confirms whatever
  confirmed commit is pending, without the check of session and persist-id
  that a confirming commit makes.\<close>

lemma confirming_commit_is_published:
  "\<exists>m \<in> set (methods E). m_name m = ''ConfirmingCommit'' \<and> m_in m = []
    \<and> (\<forall>D as. m_func m D as = wrap RStr (ConfirmingCommit (x_S E)))"
  by (simp add: methods_def commit_methods_def meth_def Let_def)

subsection \<open>Other clients' locks, and one's own\<close>

text \<open>C7. No connection reaches a session that another process has locked. Process \<open>K\<close> holds the
  lock of session \<open>sd\<close> (any but \<open>EFFECTIVE\<close>). Other processes connect one after the other, each sends any sequence of requests
  (any method names, any arguments of any types, malformed messages), with any login,
  groups and authority, interrupted by any requests of others, and goes away: the entry of \<open>sd\<close>
  is the very same session, with its lock, candidate, owner and saved mark. Only the methods
  that load a configuration are excluded.\<close>

theorem connections_respect_locks:
  assumes "\<forall>(p, reqs)\<in>set conns. p \<noteq> K \<and> (\<forall>r\<in>set reqs. avoids (m_name ` set (load_methods E)) r)" "K \<noteq> 0"
    and "commit_via_callbacks (x_L E)" "\<forall>e\<in>set es. serves (x_L E) K e"
    and "sd \<noteq> ''EFFECTIVE''" "mg_sessions (dw_mgr d) sd = Some x" "lpid x = K" "\<not> terminated x"
  shows "mg_sessions (dw_mgr (fst (snd (run_state (for_each (\<lambda>(p, reqs). quietly (Handle E V p reqs)) conns) (d, es))))) sd = Some x"
proof -
  have "keeps (dguard K sd) (for_each (\<lambda>(p, reqs). quietly (Handle E V p reqs)) conns)"
    using assms(1)
  proof (induction conns)
    case (Cons c conns)
    then show ?case
      by (cases c) (auto intro!: dguard.bind_ok dguard_Handle [OF _ assms(5) _ assms(2,3)])
  qed (simp add: dguard.ret_ok)
  then have "dguard K sd (d, es) (snd (run_state (for_each (\<lambda>(p, reqs). quietly (Handle E V p reqs)) conns) (d, es)))"
    by (rule keepsD)
  then show ?thesis
    using serves_effs_ok [OF assms(4,2,3)] assms(6-8) by (simp add: dguard_def)
qed

definition intrusion :: "incoming list" where
  "intrusion = [Req ''Set'' [JStr ''s1'', JStr ''/a/2''] 1 True, Req ''Discard'' [JStr ''s1''] 2 True,
     Req ''Nonsense'' [] 3 True, Req ''SessionUnlock'' [JStr ''s1''] 4 True, Req ''Commit'' [JStr ''s1'', JStr [], JBool False] 5 True,
     Req ''SessionTeardown'' [JStr ''s1''] 6 True, Garbage (ExternalError ''bad'')]"

theorem connections_respect_locks_witness:
  "let run = (\<lambda>conns d. fst (snd (run_state (for_each (\<lambda>(p, reqs). quietly (Handle demo_deps demo_srv p reqs)) conns) (d, []))))
   in map_option candidate (mg_sessions (dw_mgr (run [(42, intrusion), (43, intrusion)] (locked_dworld 7))) ''s1'') = Some [[''a'', ''1'']]
      \<and> mg_sessions (dw_mgr (run [(42, [Req ''SessionTeardown'' [JStr ''s1''] 6 True])] (locked_dworld 0))) ''s1'' = None"
proof -
  let ?run = "\<lambda>conns d. fst (snd (run_state (for_each (\<lambda>(p, reqs). quietly (Handle demo_deps demo_srv p reqs)) conns) (d, [])))"
  let ?x = "sample_session ''s1'' 7 [[''a'', ''1'']]"
  let ?conns = "[(42 :: pid, intrusion), (43, intrusion)]"
  have "\<forall>r\<in>set intrusion. avoids (m_name ` set (load_methods demo_deps)) r"
    by (simp add: intrusion_def load_methods_def meth_def Let_def)
  then have a: "\<forall>(p, reqs)\<in>set ?conns. p \<noteq> 7 \<and> (\<forall>r\<in>set reqs. avoids (m_name ` set (load_methods demo_deps)) r)"
    by simp
  have m: "mg_sessions (dw_mgr (locked_dworld 7)) ''s1'' = Some ?x" by (simp add: locked_dworld_def)
  have c: "commit_via_callbacks (x_L demo_deps)" by (simp add: demo_deps_def sample_commit_via)
  have "mg_sessions (dw_mgr (?run ?conns (locked_dworld 7))) ''s1'' = Some ?x"
    by (rule connections_respect_locks [OF a _ c _ _ m]) (simp_all add: sample_session_def)
  moreover have "mg_sessions (dw_mgr (?run [(42, [Req ''SessionTeardown'' [JStr ''s1''] 6 True])] (locked_dworld 0))) ''s1'' = None"
    by code_simp
  ultimately show ?thesis by (simp add: sample_session_def Let_def)
qed

lemma released_unlocks: "\<not> terminated s \<Longrightarrow> p \<noteq> 0 \<Longrightarrow> lpid (released p s) \<noteq> p"
  by (auto simp: released_def api_locked_def locked_def api_unlock_def unlock_def)

lemma run_unlock_all_pid:
  "mg_sessions (dw_mgr (fst (snd (run_state (unlock_all_pid E D) (d, es))))) sd =
    (if sd \<in> set (x_order E (dw_mgr d)) then map_option (released (Pid (d_ctx D))) (mg_sessions (dw_mgr d) sd)
     else mg_sessions (dw_mgr d) sd)"
  using unlock_all_sessions [of "Pid (d_ctx D)" "x_order E (dw_mgr d)" None "dw_mgr d" sd]
  by (auto simp: unlock_all_pid_def on_mgr_def UnlockAllPid_def split: prod.splits option.splits)

text \<open>C28. A client that goes away leaves no lock behind. Whatever requests a connection made and
  however it ended, afterwards no living session of the table is locked by its
  process, provided the iteration over the session table visits the sessions that are in it.\<close>

theorem disconnect_releases_locks:
  assumes "\<forall>m. mg_sessions m sd \<noteq> None \<longrightarrow> sd \<in> set (x_order E m)" and "Pid (d_ctx D) \<noteq> 0"
    and run: "snd (run_state (serve_conn E D reqs) (d, es)) = (d', es')"
    and "mg_sessions (dw_mgr d') sd = Some s" "\<not> terminated s"
  shows "lpid s \<noteq> Pid (d_ctx D)"
proof -
  let ?before = "do { resps \<leftarrow> serve_requests E D reqs; e \<leftarrow> sessionTermination (x_S E) D; dlog_error E e; ret resps }"
  obtain r d0 es0 where b: "run_state ?before (d, es) = (r, d0, es0)" by (metis prod.exhaust)
  have "serve_conn E D reqs = do { resps \<leftarrow> ?before; unlock_all_pid E D; ret resps }"
    by (simp add: serve_conn_def)
  then have "d' = fst (snd (run_state (unlock_all_pid E D) (d0, es0)))"
    using run b by (simp split: prod.splits)
  then have e: "mg_sessions (dw_mgr d') sd =
      (if sd \<in> set (x_order E (dw_mgr d0)) then map_option (released (Pid (d_ctx D))) (mg_sessions (dw_mgr d0) sd)
       else mg_sessions (dw_mgr d0) sd)"
    by (simp add: run_unlock_all_pid)
  then obtain s0 where "s = released (Pid (d_ctx D)) s0"
    using assms(1,4) by (cases "mg_sessions (dw_mgr d0) sd") (auto split: if_splits)
  then show ?thesis using assms(2,5) released_unlocks [of s0] by simp
qed

theorem disconnect_releases_locks_witness:
  "let run = (\<lambda>m. fst (snd (run_state m (demo_dworld, []))));
       lock = [Req ''SessionLock'' [JStr ''s1''] 1 True]
   in map_option lpid (mg_sessions (dw_mgr (run (serve_requests demo_deps (demo_disp True) lock))) ''s1'') = Some 42
      \<and> (\<exists>s. mg_sessions (dw_mgr (run (serve_conn demo_deps (demo_disp True) lock))) ''s1'' = Some s \<and> lpid s \<noteq> 42)"
proof -
  let ?lock = "[Req ''SessionLock'' [JStr ''s1''] 1 True]"
  let ?d = "fst (snd (run_state (serve_conn demo_deps (demo_disp True) ?lock) (demo_dworld, [])))"
  have one: "map_option lpid (mg_sessions (dw_mgr (fst (snd (run_state (serve_requests demo_deps (demo_disp True) ?lock)
      (demo_dworld, []))))) ''s1'') = Some 42"
    by code_simp
  have "map_option terminated (mg_sessions (dw_mgr ?d) ''s1'') = Some False" by code_simp
  then obtain s where s: "mg_sessions (dw_mgr ?d) ''s1'' = Some s" "\<not> terminated s" by auto
  have "lpid s \<noteq> Pid (d_ctx (demo_disp True))"
    by (rule disconnect_releases_locks [of "''s1''" demo_deps _ ?lock demo_dworld "[]" ?d, OF _ _ surjective_pairing s])
      (simp_all add: demo_deps_def demo_disp_def demo_ctx_def caller_def)
  then show ?thesis using one s by (simp add: Let_def demo_disp_def demo_ctx_def caller_def)
qed

end
