(* ===== verification/Server_Reads.thy ===== *)
theory Server_Reads
  imports Server_Guard
begin

text \<open>
  The query methods only look: between two interruptions by other requests they
  leave the session table, every session, the running and the effective tree and
  all settings as they are, and at most add to the trace of log lines, accounting
  records and programs run.
\<close>

subsection \<open>The relations\<close>

definition wreads :: "'d st \<Rightarrow> 'd st \<Rightarrow> bool" where
  "wreads s s' \<longleftrightarrow> (snd s = [] \<longrightarrow> (\<exists>evs. s' = ((fst s)\<lparr>w_log := w_log (fst s) @ evs\<rparr>, [])))"

definition dreads :: "'d dst \<Rightarrow> 'd dst \<Rightarrow> bool" where
  "dreads s s' \<longleftrightarrow> (dw_ok (fst s) \<and> snd s = [] \<longrightarrow>
    (\<exists>evs. s' = ((fst s)\<lparr>dw_log := dw_log (fst s) @ evs\<rparr>, [])))"

interpretation wread: frame_rel wreads
proof
  show "wreads s s" for s :: "'d st"
    unfolding wreads_def by (rule impI, rule exI [of _ "[]"]) (cases s; simp)
  show "wreads s u" if "wreads s t" "wreads t u" for s t u :: "'d st"
    using that unfolding wreads_def by (cases s; cases t; cases u) fastforce
qed

interpretation dread: frame_rel dreads
proof
  show "dreads s s" for s :: "'d dst"
    unfolding dreads_def by (rule impI, rule exI [of _ "[]"]) (cases s; simp)
  show "dreads s u" if "dreads s t" "dreads t u" for s t u :: "'d dst"
    using that unfolding dreads_def by (cases s; cases t; cases u) fastforce
qed

lemma traces_wreads: "keeps (traces (\<lambda>_. True)) m \<Longrightarrow> keeps wreads m"
  by (auto simp: keeps_def traces_def wreads_def)

lemma wread_wait: "keeps wreads wait_async"
  by (rule keepsI) (auto simp: wreads_def split: prod.split intro: exI [of _ "[]"])

lemmas wread_prims = trace_prims(1-2) [THEN traces_wreads] trace_prims(3) [OF TrueI, THEN traces_wreads] wread_wait

lemma wread_query: "keeps wreads (query f)"
  unfolding query_def by (intro wread.steps_ok wread_prims)

lemma wread_api_call: "keeps wreads m \<Longrightarrow> keeps wreads (api_call z m)"
  unfolding api_call_def by (intro wread.steps_ok wread_prims)

lemma wread_respond: "keeps wreads m \<Longrightarrow> keeps wreads (respond f m)"
  unfolding respond_def by (intro wread.steps_ok)

lemmas wread_intros = wread.steps_ok wread_prims wread_query wread_respond

lemma dread_prims:
  "keeps dreads (dgets f)" "keeps dreads (demit ev)" "keeps dreads (spawn S cmd)"
  using dtrace_prims [of "\<lambda>_. True"] by (auto simp: keeps_def dtraces_def dreads_def)

lemma dread_with_sess:
  fixes m :: "('d, 'a) op"
  assumes m: "keeps wreads m"
  shows "keeps dreads (with_sess c sd h m)"
proof (rule keepsI)
  fix s :: "'d dst"
  obtain d es where s: "s = (d, es)" by (cases s)
  show "dreads s (snd (run_state (with_sess c sd h m) s))"
  proof (cases "mgr_get c sd (dw_mgr d)")
    case (Inl e)
    then show ?thesis using dread.refl by (simp add: s)
  next
    case (Inr x)
    obtain a w es' where r: "run_state m (focus d x, es) = (a, w, es')" by (metis prod.exhaust)
    have "wreads (focus d x, es) (w, es')" using keepsE [OF m r] .
    then have "es = [] \<Longrightarrow> \<exists>evs. w = (focus d x)\<lparr>w_log := dw_log d @ evs\<rparr> \<and> es' = []"
      by (auto simp: wreads_def focus_def)
    moreover have "mg_sessions (dw_mgr d) sd = Some x" using Inr by (simp add: mgr_get_Inr)
    ultimately show ?thesis using unfocus_log [of d sd x] Inr r
      by (fastforce simp: s dreads_def)
  qed
qed

lemma dread_with_ro: "keeps wreads m \<Longrightarrow> keeps dreads (with_ro D db sd h m)"
  unfolding with_ro_def by (intro dread.steps_ok dread_prims dread_with_sess)

lemmas dread_intros = dread.steps_ok dread_prims dread_with_sess dread_with_ro

subsection \<open>Session queries\<close>

fun reading :: "request \<Rightarrow> bool" where
  "reading (existsreq _ _) = True" | "reading (typereq _ _) = True" | "reading (statusreq _ _) = True"
| "reading (defaultreq _ _) = True" | "reading (getreq _ _) = True" | "reading (gettreereq _ _ _) = True"
| "reading (getfulltreereq _ _ _) = True" | "reading (validatesetreq _ _) = True"
| "reading (showreq _ _ _ _ _) = True" | "reading (gethelpreq _ _ _) = True" | "reading _ = False"

lemma wread_trees:
  "keeps wreads (validateSetPath L c p inc full)" "keeps wreads (gettree L c p opts)"
  "keeps wreads (logStateTime b msg)" "keeps wreads (logStateEvent b msg)"
  "keeps wreads (full_filter L c p opts b ws ut)" "keeps wreads (full_convert L c p opts b ws ut)"
  "keeps wreads (getfulltree L c p opts)"
proof -
  show v: "keeps wreads (validateSetPath L c p inc full)" for inc full
    unfolding validateSetPath_def by (intro wread_intros)
  show "keeps wreads (gettree L c p opts)"
    unfolding gettree_def by (intro wread_intros v)
  show l: "keeps wreads (logStateTime b msg)" "keeps wreads (logStateEvent b msg)" for b msg
    unfolding logStateTime_def logStateEvent_def by (intro wread_intros)+
  show f: "keeps wreads (full_filter L c p opts b ws ut)" for b ws ut
    unfolding full_filter_def by (intro wread_intros l)
  show g: "keeps wreads (full_convert L c p opts b ws ut)" for b ws ut
    unfolding full_convert_def by (intro wread_intros l f)
  show "keeps wreads (getfulltree L c p opts)"
    unfolding getfulltree_def by (intro wread_intros l v g)
qed

lemma wread_send: "reading r \<Longrightarrow> keeps wreads (send L r z)"
  unfolding send_def
  by (rule wread_api_call, cases r) (auto simp only: processreq.simps reading.simps intro!: wread_intros wread_trees)

lemmas reading_calls = Session_Exists_def Session_Get_def Session_GetType_def Session_GetStatus_def
  Session_IsDefault_def Session_GetTree_def Session_GetFullTree_def Session_ValidateSet_def Session_GetHelp_def
  Session_ShowForceSecrets_def Session_showInternal_def

lemma wread_calls:
  "keeps wreads (Session_Exists L c p)" "keeps wreads (Session_Get L c p)" "keeps wreads (Session_GetType L c p)"
  "keeps wreads (Session_GetStatus L c p)" "keeps wreads (Session_IsDefault L c p)"
  "keeps wreads (Session_GetTree L c p opts)" "keeps wreads (Session_GetFullTree L c p opts)"
  "keeps wreads (Session_ValidateSet L c p)" "keeps wreads (Session_GetHelp L c b p)"
  "keeps wreads (Session_ShowForceSecrets L c p hs sdf)" "keeps wreads (Session_Show L c p hs sdf)"
  unfolding reading_calls Session_Show_def
  by (simp_all add: wread_send wread_api_call wread_intros)

lemma wread_tree_ops:
  "keeps wreads (tree_get_op L Q c ps enc opts)" "keeps wreads (full_get_op L S Q c ps enc opts)"
  unfolding tree_get_op_def full_get_op_def printWarnings_def
  by (intro wread_intros wread_calls)+

subsection \<open>Query methods\<close>

lemma dread_accountCmdWrap: "keeps dreads fn \<Longrightarrow> keeps dreads (accountCmdWrap S D args fn)"
  unfolding accountCmdWrap_def by (intro dread_intros)

lemma dread_authorised: "keeps dreads fn \<Longrightarrow> keeps dreads (authorised S D args z fn)"
  unfolding authorised_def by (intro dread_intros dread_accountCmdWrap)

lemma dread_texts:
  "keeps dreads (readCfgFile L S D file raw force)" "keeps dreads (show_force L D db sd sdf)"
  "keeps dreads (GetCommitLog S)"
  unfolding readCfgFile_def show_force_def GetCommitLog_def
  by (intro dread_intros wread_intros wread_calls)+

lemma dread_compare_texts: "keeps dreads a \<Longrightarrow> keeps dreads b \<Longrightarrow> keeps dreads (compare_texts a b f)"
  unfolding compare_texts_def by (intro dread_intros)

lemma dread_node_methods:
  assumes "m \<in> set (node_methods E)"
  shows "keeps dreads (m_func m D as)"
proof -
  have q: "keeps dreads (TmplValidateValues L S Q D p)" "keeps dreads (Get L S D db x p)"
    "keeps dreads (Exists L S D db x p)" "keeps dreads (NodeGetStatus L S D db x p)"
    "keeps dreads (NodeIsDefault L S D db x p)" "keeps dreads (NodeGetType L S D x p)"
    "keeps dreads (ValidatePath L S D x p)" "keeps dreads (GetHelp L S D x b p)"
    "keeps dreads (GetConfigSystemFeatures L S Q D)" for L S Q db x p b
    unfolding TmplValidateValues_def Get_def Exists_def NodeGetStatus_def NodeIsDefault_def NodeGetType_def
      ValidatePath_def GetHelp_def GetConfigSystemFeatures_def
    by (intro dread_intros wread_intros wread_calls)+
  show ?thesis
    using assms q dread_texts(3)
    by (auto simp: node_methods_def meth_def Let_def EditGetEnv_def NodeGetCompleteEnv_def NodeGetComment_def
        not_supported_def intro: dread.ret_ok)
qed

lemma dread_show_methods:
  assumes "m \<in> set (show_methods E)"
  shows "keeps dreads (m_func m D as)"
proof -
  have q: "keeps dreads (CompareConfigRevisions L S Q D x r1 r2)" "keeps dreads (CompareSessionChanges L S Q D x)"
    "keeps dreads (Show L S D db x p b)" "keeps dreads (ShowDefaults L S D db x p b)"
    "keeps dreads (ShowConfigWithContextDiffs L S Q D x p b)" "keeps dreads (TreeGet L S Q D db x p enc fl)"
    "keeps dreads (TreeGetFull L S Q D db x p enc fl)" "keeps dreads (ReadConfigFile L S D x)"
    "keeps dreads (ReadConfigFileRaw L S D x)" for L S Q db x p b enc fl r1 r2
    unfolding CompareConfigRevisions_def compareConfigRevisionsInternal_def validCompareConfigRevision_def
      readConfigFileForceShowSecrets_def CompareSessionChanges_def compareSessionChangesInternal_def
      Show_def ShowDefaults_def show_db_def ShowConfigWithContextDiffs_def showConfigWithContextDiffsInternal_def
      TreeGet_def TreeGetFull_def TreeGetFullWithWarnings_def ReadConfigFile_def ReadConfigFileRaw_def
    by (intro dread_intros dread_authorised dread_compare_texts dread_texts wread_calls wread_tree_ops)+
  show ?thesis
    using assms q by (auto simp: show_methods_def meth_def Let_def intro: dread.ret_ok)
qed

lemma methods_distinct: "distinct (map m_name (methods E))"
  by (simp add: methods_def session_methods_def edit_methods_def load_methods_def commit_methods_def
      node_methods_def show_methods_def other_methods_def meth_def Let_def)

lemma find_method_unique: "m \<in> set (methods E) \<Longrightarrow> find_method E (m_name m) = Some m"
  using methods_distinct [of E] unfolding find_method_def
  by (auto simp: find_Some_iff in_set_conv_nth distinct_conv_nth)

lemma dread_Call:
  assumes "m \<in> set (node_methods E @ show_methods E)"
  shows "keeps dreads (Call E D (m_name m) args)"
proof -
  have f: "find_method E (m_name m) = Some m"
    by (rule find_method_unique) (use assms in \<open>auto simp: methods_def\<close>)
  have "keeps dreads (m_func m D as)" for as
    using assms dread_node_methods dread_show_methods by auto
  then show ?thesis unfolding Call_def by (auto simp: f intro!: dread.steps_ok)
qed

text \<open>C29. Queries only look. For each of the 36 query methods (templates, nodes, help,
  expansion, show, compare, tree retrieval in both forms, configuration files, schemas), any
  caller and any arguments: if no other request is served in between, the session table,
  every session in it, the running and the effective tree and all settings are the same afterwards; the
  trace may have got longer.\<close>

theorem queries_only_look:
  assumes "m \<in> set (node_methods E @ show_methods E)" and "dw_ok d"
  shows "\<exists>r evs. run_state (Call E D (m_name m) args) (d, []) = (r, d\<lparr>dw_log := dw_log d @ evs\<rparr>, [])"
  using keepsD [OF dread_Call [OF assms(1)], of "(d, [])" D args] assms(2)
  by (cases "run_state (Call E D (m_name m) args) (d, [])") (auto simp: dreads_def)

theorem queries_only_look_witness:
  "\<exists>r evs. run_state (Call demo_deps (demo_disp True) ''TreeGetFull'' [JNum 2, JStr ''s1'', JStr ''/a'', JStr ''json'', JObj []])
     (demo_dworld, []) = (r, demo_dworld\<lparr>dw_log := dw_log demo_dworld @ evs\<rparr>, [])"
proof -
  let ?m = "show_methods demo_deps ! 7"
  have m: "?m \<in> set (node_methods demo_deps @ show_methods demo_deps)" "m_name ?m = ''TreeGetFull''"
    by (simp_all add: show_methods_def meth_def Let_def)
  show ?thesis using queries_only_look [OF m(1) demo_dworld_ok, of "demo_disp True"] m(2) by simp
qed

subsection \<open>Paths the caller may not read\<close>

text \<open>The node queries, with the position of their path argument.\<close>

definition path_queries :: "(string \<times> nat) list" where
  "path_queries = [(''Get'', 2), (''Exists'', 2), (''NodeGetStatus'', 2), (''NodeIsDefault'', 2), (''NodeGetType'', 1),
     (''TmplGetChildren'', 0), (''TmplGetAllowed'', 1), (''TmplValidateValues'', 0), (''GetCompletions'', 2)]"

lemma wrap_ret [simp]:
  "wrap f (ret (a, e)) = ret (f a, e)"
  "wrap_res f (ret r) = ret (case r of Inl e \<Rightarrow> (RNone, Some e) | Inr a \<Rightarrow> (f a, None))"
  by (simp_all add: wrap_def wrap_res_def)

definition is_const :: "('d, 'a) dop \<Rightarrow> bool" where
  "is_const m \<longleftrightarrow> (\<exists>c. m = ret c)"

lemma is_const_ret [simp]: "is_const (ret c)"
  by (auto simp: is_const_def)

lemma is_const_wrap [simp]: "is_const m \<Longrightarrow> is_const (wrap f m)"
  unfolding is_const_def by (metis surj_pair wrap_ret(1))

lemma is_const_run: "is_const m \<Longrightarrow> run_state m s = (fst (run_state m t), s)"
  by (auto simp: is_const_def)

lemma unreadable_handlers:
  assumes "\<not> authRead L D (Makepath (mg S) p)"
  shows "Get L S D db sd p = ret (Inl access_denied)"
    "is_const (Exists L S D db sd p)"
    "NodeGetStatus L S D db sd p = ret (UNCHANGED, Some access_denied)"
    "NodeIsDefault L S D db sd p = ret (False, Some access_denied)"
    "NodeGetType L S D sd p = ret (CONTAINER, Some access_denied)"
    "TmplGetAllowed L S Q D sd p = ret (Inl access_denied)"
    "TmplValidateValues L S Q D p = ret (False, Some access_denied)"
    "GetCompletions L S Q D sd b p = ret (Map.empty, Some access_denied)"
  using assms
  by (auto simp: Get_def Exists_def NodeGetStatus_def NodeIsDefault_def NodeGetType_def TmplGetAllowed_def
      TmplValidateValues_def GetCompletions_def Let_def split: option.split)

lemma unreadable_method:
  assumes "(n, i) \<in> set path_queries"
  obtains m where "m \<in> set (methods E)" "m_name m = n" "i < length (m_in m)"
    "\<And>D as. \<not> authRead (x_L E) D (Makepath (mg (x_S E)) (sarg i as)) \<Longrightarrow> is_const (m_func m D as)"
proof -
  have "\<exists>m \<in> set (node_methods E @ other_methods E). m_name m = n \<and> i < length (m_in m) \<and>
    (\<forall>D as. \<not> authRead (x_L E) D (Makepath (mg (x_S E)) (sarg i as)) \<longrightarrow> is_const (m_func m D as))"
    using assms unfolding path_queries_def list.set insert_iff empty_iff prod.inject
    by (elim disjE conjE FalseE; hypsubst; simp add: node_methods_def other_methods_def meth_def Let_def
        unreadable_handlers)
  then have "\<exists>m \<in> set (methods E). m_name m = n \<and> i < length (m_in m) \<and>
    (\<forall>D as. \<not> authRead (x_L E) D (Makepath (mg (x_S E)) (sarg i as)) \<longrightarrow> is_const (m_func m D as))"
    by (auto simp: methods_def)
  then show thesis using that by auto
qed

lemma convert_args_path:
  assumes "convert_args n ts args = Inr as" "length args = length ts" "i < length ts" "args ! i = JStr p"
  shows "sarg i as = p"
proof -
  have "convert_arg (ts ! i) (args ! i) = Some (as ! i)"
    using convert_args_type [OF assms(1,2)] assms(2,3)
    by (metis length_map length_zip map_nth min.idem nth_map nth_zip prod.case)
  then show ?thesis using assms(4) by (cases "ts ! i") (auto simp: sarg_def split: arg.split)
qed

text \<open>C30. A path that may not be read tells nothing. If the caller is not authorised to read the
  path argument of a node query (children, existence, status, default, kind, template children,
  allowed values, value validation, completions), then the request changes nothing, and its answer is the
  same in any two states of the system: no configuration, session or file influences it.\<close>

theorem unreadable_paths_tell_nothing:
  assumes "(n, i) \<in> set path_queries" "i < length args" "args ! i = JStr p"
    and "\<not> authRead (x_L E) D (Makepath (mg (x_S E)) p)"
  shows "run_state (Call E D n args) s = (fst (run_state (Call E D n args) t), s)"
proof -
  obtain m where m: "m \<in> set (methods E)" "m_name m = n" "i < length (m_in m)"
    "\<And>D as. \<not> authRead (x_L E) D (Makepath (mg (x_S E)) (sarg i as)) \<Longrightarrow> is_const (m_func m D as)"
    using unreadable_method [OF assms(1)] by blast
  have f: "find_method E n = Some m" using find_method_unique [OF m(1)] m(2) by simp
  have c: "is_const (m_func m D as)" if "convert_args n (m_in m) args = Inr as" "length args = length (m_in m)" for as
    using m(4) [of D as] convert_args_path [OF that m(3) assms(3)] assms(4) by simp
  have "is_const (do { (r, err) \<leftarrow> m_func m D as; ret (r, map_option Handler err) })"
    if "is_const (m_func m D as)" for as
    using that unfolding is_const_def by (fastforce split: prod.split)
  then have "is_const (Call E D n args)"
    using c by (auto simp: Call_def f split: sum.split)
  then show ?thesis by (rule is_const_run)
qed

theorem unreadable_paths_tell_nothing_witness:
  "\<forall>s t. run_state (Call demo_deps (demo_disp False) ''Exists'' [JNum 1, JStr ''s1'', JStr ''/a'']) s =
     (fst (run_state (Call demo_deps (demo_disp False) ''Exists'' [JNum 1, JStr ''s1'', JStr ''/a'']) t), s)"
proof -
  have "(''Exists'', 2) \<in> set path_queries" by (simp add: path_queries_def)
  moreover have "\<not> authRead (x_L demo_deps) (demo_disp False) (Makepath (mg (x_S demo_deps)) ''/a'')"
    by (simp add: authRead_def demo_disp_def demo_ctx_def caller_def auth_of_def)
  ultimately show ?thesis
    using unreadable_paths_tell_nothing [of "''Exists''" 2 "[JNum 1, JStr ''s1'', JStr ''/a'']" "''/a''" demo_deps "demo_disp False"]
    by simp
qed

end
