(* ===== verification/Go_Utf8.thy ===== *)
theory Go_Utf8
  imports Go_Lib
begin

text \<open>
  Text on the wire: \<open>encoding/json\<close> writes a string as UTF-8 and puts U+FFFD for every byte that is not part of a
  valid encoding; what it writes is read back unchanged. \<open>rune_len\<close> is the decoder of \<open>unicode/utf8\<close>, which
  rejects overlong encodings, surrogates and values above U+10FFFF.
\<close>

definition byte_in :: "nat \<Rightarrow> nat \<Rightarrow> string \<Rightarrow> nat \<Rightarrow> bool" where
  "byte_in lo hi s i = (i < length s \<and> lo \<le> of_char (s ! i) \<and> of_char (s ! i) \<le> hi)"

text \<open>The length of the encoding that a text starts with, 0 if there is none.\<close>

definition rune_len :: "string \<Rightarrow> nat" where
  "rune_len s =
    (let tail = byte_in 0x80 0xBF s in
     if byte_in 0 0x7F s 0 then 1
     else if byte_in 0xC2 0xDF s 0 then (if tail 1 then 2 else 0)
     else if byte_in 0xE0 0xE0 s 0 then (if byte_in 0xA0 0xBF s 1 \<and> tail 2 then 3 else 0)
     else if byte_in 0xED 0xED s 0 then (if byte_in 0x80 0x9F s 1 \<and> tail 2 then 3 else 0)
     else if byte_in 0xE1 0xEF s 0 then (if tail 1 \<and> tail 2 then 3 else 0)
     else if byte_in 0xF0 0xF0 s 0 then (if byte_in 0x90 0xBF s 1 \<and> tail 2 \<and> tail 3 then 4 else 0)
     else if byte_in 0xF1 0xF3 s 0 then (if tail 1 \<and> tail 2 \<and> tail 3 then 4 else 0)
     else if byte_in 0xF4 0xF4 s 0 then (if byte_in 0x80 0x8F s 1 \<and> tail 2 \<and> tail 3 then 4 else 0)
     else 0)"

definition RuneError :: string where
  "RuneError = [CHR 0xEF, CHR 0xBF, CHR 0xBD]"

function json_text :: "string \<Rightarrow> string" where
  "json_text s =
    (if s = [] then []
     else if rune_len s = 0 then RuneError @ json_text (tl s)
     else take (rune_len s) s @ json_text (drop (rune_len s) s))"
  by auto
termination by (relation "measure length") auto

declare json_text.simps [simp del]

function valid_utf8 :: "string \<Rightarrow> bool" where
  "valid_utf8 s = (if s = [] then True else if rune_len s = 0 then False else valid_utf8 (drop (rune_len s) s))"
  by pat_completeness auto
termination by (relation "measure length") auto

declare valid_utf8.simps [simp del]

lemma byte_in_length: "byte_in lo hi s i \<Longrightarrow> Suc i \<le> length s"
  by (simp add: byte_in_def)

lemma rune_len_cases:
  "rune_len s = 0 \<or> rune_len s = 1 \<and> byte_in 0 0x7F s 0 \<or> rune_len s = 2 \<and> byte_in 0x80 0xBF s 1 \<or>
   rune_len s = 3 \<and> byte_in 0x80 0xBF s 2 \<or> rune_len s = 4 \<and> byte_in 0x80 0xBF s 3"
  by (simp add: rune_len_def Let_def)

lemma rune_len_bound: "rune_len s \<le> length s"
  using rune_len_cases [of s] by (elim disjE conjE) (auto dest: byte_in_length)

text \<open>An encoding is recognised whatever follows it.\<close>

lemma byte_in_take: "i < n \<Longrightarrow> n \<le> length s \<Longrightarrow> byte_in lo hi (take n s @ t) i = byte_in lo hi s i"
  by (auto simp: byte_in_def nth_append)

lemma rune_len_take:
  assumes "rune_len s = n" "n \<noteq> 0"
  shows "rune_len (take n s @ t) = n"
proof -
  have "n \<le> length s" using assms rune_len_bound [of s] by simp
  then show ?thesis
    using assms rune_len_cases [of s]
    by (elim disjE conjE) (simp_all add: rune_len_def Let_def byte_in_take split: if_split_asm)
qed

lemma valid_text_kept: "valid_utf8 s \<Longrightarrow> json_text s = s"
proof (induction s rule: valid_utf8.induct)
  case (1 s)
  then show ?case by (subst json_text.simps) (auto simp: valid_utf8.simps [of s])
qed

lemma RuneError_valid: "valid_utf8 t \<Longrightarrow> valid_utf8 (RuneError @ t)"
proof -
  assume t: "valid_utf8 t"
  have "rune_len (RuneError @ t) = 3"
    by (simp add: rune_len_def Let_def byte_in_def RuneError_def)
  then show ?thesis using t by (subst valid_utf8.simps) (simp add: RuneError_def)
qed

text \<open>What arrives is valid, so sending it on changes nothing more.\<close>

lemma json_text_valid: "valid_utf8 (json_text s)"
proof (induction s rule: json_text.induct)
  case (1 s)
  show ?case
  proof (cases "s = [] \<or> rune_len s = 0")
    case True
    then show ?thesis
      using 1 by (subst json_text.simps) (auto intro: RuneError_valid simp: valid_utf8.simps [of "[]"])
  next
    case False
    have "rune_len (take (rune_len s) s @ json_text (drop (rune_len s) s)) = rune_len s"
      using False by (intro rune_len_take) auto
    then have "valid_utf8 (take (rune_len s) s @ json_text (drop (rune_len s) s))"
      using 1 False rune_len_bound [of s] by (subst valid_utf8.simps) simp
    then show ?thesis using False by (simp add: json_text.simps [of s])
  qed
qed

lemma json_text_idem [simp]: "json_text (json_text s) = json_text s"
  by (rule valid_text_kept) (rule json_text_valid)

lemma ascii_valid: "\<forall>c\<in>set s. (of_char c :: nat) < 0x80 \<Longrightarrow> valid_utf8 s"
proof (induction s)
  case (Cons c s)
  then have "rune_len (c # s) = 1" by (simp add: rune_len_def Let_def byte_in_def)
  then show ?case using Cons by (subst valid_utf8.simps) simp
qed (simp add: valid_utf8.simps)

lemma ascii_kept: "\<forall>c\<in>set s. (of_char c :: nat) < 0x80 \<Longrightarrow> json_text s = s"
  by (intro valid_text_kept ascii_valid)

lemma invalid_byte_replaced: "json_text [CHR 0xFF, CHR ''a''] = RuneError @ ''a''"
  by (simp add: json_text.simps rune_len_def Let_def byte_in_def RuneError_def)

end
