(* ===== verification/Client_Lib.thy ===== *)
theory Client_Lib
  imports Server_Reads Go_Utf8
begin

text \<open>
  \<open>client/client.go\<close>: the client side of the protocol. Every exported method of the
  client sends the request of its own name and decodes the result; here a
  method is the request it builds together with the kind of result it expects, and
  \<open>invoke\<close> runs it against the server. The socket delivers what was sent. The JSON
  codec is modelled in what it can change: text that is not UTF-8 (\<open>Go_Utf8\<close>), and a Go integer, which is
  exact as a JSON number up to \<open>2 ^ 53\<close>.
\<close>

subsection \<open>Connecting\<close>

record connectOptions =
  co_sid :: string
  co_addr :: string
  co_networkType :: string

definition SessionID :: "string \<Rightarrow> connectOptions \<Rightarrow> connectOptions" where
  "SessionID s opts = opts\<lparr>co_sid := s\<rparr>"

definition Address :: "string \<Rightarrow> connectOptions \<Rightarrow> connectOptions" where
  "Address a opts = opts\<lparr>co_addr := a\<rparr>"

definition Network :: "string \<Rightarrow> connectOptions \<Rightarrow> connectOptions" where
  "Network n opts = opts\<lparr>co_networkType := n\<rparr>"

definition DEFAULT_CONFIG_SOCKET :: string where
  "DEFAULT_CONFIG_SOCKET = ''/var/run/vyatta/configd/main.sock''"

text \<open>The options with which \<open>Connect\<close> calls \<open>Dial\<close>; \<open>env\<close> is the value of \<open>VYATTA_CONFIG_SOCKET\<close>.\<close>

definition Connect :: "string \<Rightarrow> (connectOptions \<Rightarrow> connectOptions) list \<Rightarrow> connectOptions" where
  "Connect env opts =
    (let co = fold (\<lambda>f o'. f o') opts \<lparr>co_sid = [], co_addr = [], co_networkType = ''unix''\<rparr>
     in if co_addr co = [] then co\<lparr>co_addr := (if env = [] then DEFAULT_CONFIG_SOCKET else env)\<rparr> else co)"

record client =
  cl_sid :: string
  cl_id :: int

subsection \<open>Calls\<close>

datatype rkind = KBoolIgnore | KBool | KInt | KString | KMap | KMapString | KMapStruct | KSliceString

datatype cvalue = VNil | VBool bool | VInt int | VString string | VStrings "string list" | VMap "(string \<times> string) list"
  | VHelp "string \<rightharpoonup> string" | VInts "(string \<times> int) list"

datatype cerr = Plain string | Mgmt "error list" | WrongType string "reply option" string

text \<open>
  A value as \<open>encoding/json\<close> delivers it. The keys of a map of the help texts are names of the schema, and two
  keys of a map that differ in invalid bytes only are left out. A list of management errors is taken as it is sent.
\<close>

fun wire :: "jval \<Rightarrow> jval" where
  "wire (JStr s) = JStr (json_text s)"
| "wire (JArr vs) = JArr (map wire vs)"
| "wire (JObj fs) = JObj (map (\<lambda>(k, v). (json_text k, wire v)) fs)"
| "wire v = v"

fun wire_reply :: "reply \<Rightarrow> reply" where
  "wire_reply (RStr s) = RStr (json_text s)"
| "wire_reply (RStrs xs) = RStrs (map json_text xs)"
| "wire_reply (RSet xs) = RSet (map json_text xs)"
| "wire_reply (RMap m) = RMap (map (\<lambda>(k, v). (json_text k, json_text v)) m)"
| "wire_reply (RInts m) = RInts (map (\<lambda>(k, n). (json_text k, n)) m)"
| "wire_reply (RHelp m) = RHelp (\<lambda>k. map_option json_text (m k))"
| "wire_reply r = r"

definition client_call ::
  "'d deps \<Rightarrow> disp \<Rightarrow> client \<Rightarrow> string \<Rightarrow> jval list \<Rightarrow> ('d, reply option \<times> cerr option \<times> client) dop" where
  "client_call E D c mth args = do {
     let c' = c\<lparr>cl_id := cl_id c + 1\<rparr>;
     (r, err) \<leftarrow> Call E D mth (map wire args);
     let rep = newResponse E r err (cl_id c');
     ret (map_option wire_reply (r_Result rep),
          (case r_Error rep of
             Some t \<Rightarrow> Some (Plain (json_text t))
           | None \<Rightarrow> if r_MgmtErrList rep \<noteq> [] then Some (Mgmt (r_MgmtErrList rep)) else None),
          c') }"

text \<open>The eight \<open>call\<close> variants, by the kind of result; the zero value accompanies an error.\<close>

fun zero_of :: "rkind \<Rightarrow> cvalue" where
  "zero_of KBool = VBool False"
| "zero_of KInt = VInt (- 1)"
| "zero_of KString = VString []"
| "zero_of _ = VNil"

text \<open>The type named in the error text: that of the result, or of an entry of a map of strings.\<close>

fun expecting :: "rkind \<Rightarrow> reply option \<Rightarrow> string" where
  "expecting KMapString (Some (RInts _)) = ''string''"
| "expecting KMapString (Some (RSet _)) = ''string''"
| "expecting KBoolIgnore _ = ''bool''"
| "expecting KBool _ = ''bool''"
| "expecting KInt _ = ''float64''"
| "expecting KString _ = ''string''"
| "expecting KSliceString _ = ''[]string''"
| "expecting _ _ = ''map[string]interface{}''"

fun decode :: "rkind \<Rightarrow> reply option \<Rightarrow> cvalue option" where
  "decode KBoolIgnore (Some (RBool b)) = Some VNil"
| "decode KBool (Some (RBool b)) = Some (VBool b)"
| "decode KInt (Some (RInt n)) = Some (VInt n)"
| "decode KString (Some (RStr s)) = Some (VString s)"
| "decode KMap (Some (RMap m)) = Some (VMap m)"
| "decode KMap (Some (RInts m)) = Some (VInts m)"
| "decode KMap (Some (RHelp m)) = Some (VHelp m)"
| "decode KMap (Some (RSet xs)) = Some (VStrings xs)"
| "decode KMapString (Some (RMap m)) = Some (VMap m)"
| "decode KMapString (Some (RHelp m)) = Some (VHelp m)"
| "decode KMapString (Some (RInts [])) = Some (VMap [])"
| "decode KMapString (Some (RSet [])) = Some (VMap [])"
| "decode KMapStruct (Some (RSet xs)) = Some (VStrings xs)"
| "decode KMapStruct (Some (RMap m)) = Some (VStrings (map fst m))"
| "decode KMapStruct (Some (RInts m)) = Some (VStrings (map fst m))"
| "decode KMapStruct (Some (RHelp m)) = Some (VHelp m)"
| "decode KSliceString (Some (RStrs xs)) = Some (VStrings xs)"
| "decode _ _ = None"

record creq =
  rq_method :: string
  rq_args :: "jval list"
  rq_kind :: rkind

definition creq :: "string \<Rightarrow> jval list \<Rightarrow> rkind \<Rightarrow> creq" where
  "creq mth args k = \<lparr>rq_method = mth, rq_args = args, rq_kind = k\<rparr>"

definition invoke :: "'d deps \<Rightarrow> disp \<Rightarrow> client \<Rightarrow> creq \<Rightarrow> ('d, (cvalue \<times> cerr option) \<times> client) dop" where
  "invoke E D c q = do {
     (r, err, c') \<leftarrow> client_call E D c (rq_method q) (rq_args q);
     ret ((case err of
             Some e \<Rightarrow> (zero_of (rq_kind q), Some e)
           | None \<Rightarrow> (case decode (rq_kind q) r of
               Some v \<Rightarrow> (v, None)
             | None \<Rightarrow> (zero_of (rq_kind q), Some (WrongType (rq_method q) r (expecting (rq_kind q) r))))), c') }"

subsection \<open>The client methods\<close>

definition defaultOpts :: "(string \<times> jval) list" where
  "defaultOpts = [(''Defaults'', JBool True), (''Secrets'', JBool True)]"

definition cl_SessionExists :: "client \<Rightarrow> creq" where
  "cl_SessionExists c = creq ''SessionExists'' [JStr (cl_sid c)] KBool"

definition cl_SessionSetup :: "client \<Rightarrow> creq" where
  "cl_SessionSetup c = creq ''SessionSetup'' [JStr (cl_sid c)] KBoolIgnore"

definition cl_SessionSetupShared :: "client \<Rightarrow> creq" where
  "cl_SessionSetupShared c = creq ''SessionSetupShared'' [JStr (cl_sid c)] KBoolIgnore"

definition cl_SessionTeardown :: "client \<Rightarrow> creq" where
  "cl_SessionTeardown c = creq ''SessionTeardown'' [JStr (cl_sid c)] KBoolIgnore"

definition cl_SessionChanged :: "client \<Rightarrow> creq" where
  "cl_SessionChanged c = creq ''SessionChanged'' [JStr (cl_sid c)] KBool"

definition cl_SessionSaved :: "client \<Rightarrow> creq" where
  "cl_SessionSaved c = creq ''SessionSaved'' [JStr (cl_sid c)] KBool"

definition cl_SessionMarkSaved :: "client \<Rightarrow> creq" where
  "cl_SessionMarkSaved c = creq ''SessionMarkSaved'' [JStr (cl_sid c)] KBoolIgnore"

definition cl_SessionMarkUnsaved :: "client \<Rightarrow> creq" where
  "cl_SessionMarkUnsaved c = creq ''SessionMarkUnsaved'' [JStr (cl_sid c)] KBoolIgnore"

definition cl_TmplGet :: "client \<Rightarrow> string \<Rightarrow> creq" where
  "cl_TmplGet c p = creq ''TmplGet'' [JStr p] KMapString"

definition cl_TmplGetChildren :: "client \<Rightarrow> string \<Rightarrow> creq" where
  "cl_TmplGetChildren c p = creq ''TmplGetChildren'' [JStr p] KSliceString"

definition cl_TmplGetAllowed :: "client \<Rightarrow> string \<Rightarrow> creq" where
  "cl_TmplGetAllowed c p = creq ''TmplGetAllowed'' [JStr (cl_sid c), JStr p] KSliceString"

definition cl_TmplValidatePath :: "client \<Rightarrow> string \<Rightarrow> creq" where
  "cl_TmplValidatePath c p = creq ''TmplValidatePath'' [JStr p] KBool"

definition cl_TmplValidateValues :: "client \<Rightarrow> string \<Rightarrow> creq" where
  "cl_TmplValidateValues c p = creq ''TmplValidateValues'' [JStr p] KBool"

definition cl_Get :: "client \<Rightarrow> DB \<Rightarrow> string \<Rightarrow> creq" where
  "cl_Get c db p = creq ''Get'' [JNum (of_int db), JStr (cl_sid c), JStr p] KSliceString"

definition cl_TreeGet :: "client \<Rightarrow> DB \<Rightarrow> string \<Rightarrow> string \<Rightarrow> creq" where
  "cl_TreeGet c db p encoding = creq ''TreeGet'' [JNum (of_int db), JStr (cl_sid c), JStr p, JStr encoding, JObj defaultOpts] KString"

definition cl_TreeGetFull :: "client \<Rightarrow> DB \<Rightarrow> string \<Rightarrow> string \<Rightarrow> creq" where
  "cl_TreeGetFull c db p encoding = creq ''TreeGetFull'' [JNum (of_int db), JStr (cl_sid c), JStr p, JStr encoding, JObj defaultOpts] KString"

definition cl_Exists :: "client \<Rightarrow> DB \<Rightarrow> string \<Rightarrow> creq" where
  "cl_Exists c db p = creq ''Exists'' [JNum (of_int db), JStr (cl_sid c), JStr p] KBool"

definition cl_NodeGetStatus :: "client \<Rightarrow> DB \<Rightarrow> string \<Rightarrow> creq" where
  "cl_NodeGetStatus c db p = creq ''NodeGetStatus'' [JNum (of_int db), JStr (cl_sid c), JStr p] KInt"

definition cl_NodeGetType :: "client \<Rightarrow> string \<Rightarrow> creq" where
  "cl_NodeGetType c p = creq ''NodeGetType'' [JStr (cl_sid c), JStr p] KInt"

definition cl_Set :: "client \<Rightarrow> string \<Rightarrow> creq" where
  "cl_Set c p = creq ''Set'' [JStr (cl_sid c), JStr p] KString"

definition cl_ValidatePath :: "client \<Rightarrow> string \<Rightarrow> creq" where
  "cl_ValidatePath c p = creq ''ValidatePath'' [JStr (cl_sid c), JStr p] KString"

definition cl_Delete :: "client \<Rightarrow> string \<Rightarrow> creq" where
  "cl_Delete c p = creq ''Delete'' [JStr (cl_sid c), JStr p] KBoolIgnore"

definition cl_Rename :: "client \<Rightarrow> string \<Rightarrow> string \<Rightarrow> creq" where
  "cl_Rename c fpath tpath = creq ''Rename'' [JStr (cl_sid c), JStr fpath, JStr tpath] KBoolIgnore"

definition cl_Copy :: "client \<Rightarrow> string \<Rightarrow> string \<Rightarrow> creq" where
  "cl_Copy c fpath tpath = creq ''Copy'' [JStr (cl_sid c), JStr fpath, JStr tpath] KBoolIgnore"

definition cl_Comment :: "client \<Rightarrow> string \<Rightarrow> creq" where
  "cl_Comment c p = creq ''Comment'' [JStr (cl_sid c), JStr p] KBoolIgnore"

definition cl_CancelCommit :: "client \<Rightarrow> string \<Rightarrow> string \<Rightarrow> bool \<Rightarrow> bool \<Rightarrow> creq" where
  "cl_CancelCommit c cmnt persistid force dbg = creq ''CancelCommit'' [JStr (cl_sid c), JStr cmnt, JStr persistid, JBool force, JBool dbg] KString"

definition cl_Rollback :: "client \<Rightarrow> string \<Rightarrow> string \<Rightarrow> bool \<Rightarrow> creq" where
  "cl_Rollback c revision cmnt dbg = creq ''Rollback'' [JStr (cl_sid c), JStr revision, JStr cmnt, JBool dbg] KString"

definition cl_Confirm :: "client \<Rightarrow> creq" where
  "cl_Confirm c = creq ''Confirm'' [JStr (cl_sid c)] KString"

definition cl_ConfirmPersistId :: "client \<Rightarrow> string \<Rightarrow> creq" where
  "cl_ConfirmPersistId c persistid = creq ''ConfirmPersistId'' [JStr persistid] KString"

definition cl_ConfirmSilent :: "client \<Rightarrow> creq" where
  "cl_ConfirmSilent c = creq ''ConfirmSilent'' [JStr (cl_sid c)] KString"

definition cl_CommitConfirm :: "client \<Rightarrow> string \<Rightarrow> bool \<Rightarrow> int \<Rightarrow> creq" where
  "cl_CommitConfirm c message dbg mins = creq ''CommitConfirm'' [JStr (cl_sid c), JStr message, JBool dbg, JNum (of_int mins)] KString"

definition cl_Commit :: "client \<Rightarrow> string \<Rightarrow> bool \<Rightarrow> creq" where
  "cl_Commit c message dbg = creq ''Commit'' [JStr (cl_sid c), JStr message, JBool dbg] KString"

definition cl_Discard :: "client \<Rightarrow> creq" where
  "cl_Discard c = creq ''Discard'' [JStr (cl_sid c)] KBoolIgnore"

definition cl_Save :: "client \<Rightarrow> string \<Rightarrow> creq" where
  "cl_Save c fil = creq ''Save'' [JStr fil] KBoolIgnore"

definition cl_SaveTo :: "client \<Rightarrow> string \<Rightarrow> string \<Rightarrow> creq" where
  "cl_SaveTo c dest routingInstance = creq ''SaveTo'' [JStr dest, JStr routingInstance] KBoolIgnore"

definition cl_ExtractArchive :: "client \<Rightarrow> string \<Rightarrow> string \<Rightarrow> creq" where
  "cl_ExtractArchive c fil destination = creq ''ExtractArchive'' [JStr (cl_sid c), JStr fil, JStr destination] KString"

definition cl_Load :: "client \<Rightarrow> string \<Rightarrow> creq" where
  "cl_Load c fil = creq ''Load'' [JStr (cl_sid c), JStr fil] KBoolIgnore"

definition cl_LoadFrom :: "client \<Rightarrow> string \<Rightarrow> string \<Rightarrow> creq" where
  "cl_LoadFrom c source routingInstance = creq ''LoadFrom'' [JStr (cl_sid c), JStr source, JStr routingInstance] KBoolIgnore"

definition cl_LoadKeys :: "client \<Rightarrow> string \<Rightarrow> string \<Rightarrow> string \<Rightarrow> creq" where
  "cl_LoadKeys c user source routingInstance = creq ''LoadKeys'' [JStr (cl_sid c), JStr user, JStr source, JStr routingInstance] KString"

definition cl_Merge :: "client \<Rightarrow> string \<Rightarrow> creq" where
  "cl_Merge c fil = creq ''Merge'' [JStr (cl_sid c), JStr fil] KBoolIgnore"

definition cl_LoadReportWarnings :: "client \<Rightarrow> string \<Rightarrow> creq" where
  "cl_LoadReportWarnings c fil = creq ''LoadReportWarnings'' [JStr (cl_sid c), JStr fil] KBool"

definition cl_MergeReportWarnings :: "client \<Rightarrow> string \<Rightarrow> creq" where
  "cl_MergeReportWarnings c fil = creq ''MergeReportWarnings'' [JStr (cl_sid c), JStr fil] KBool"

definition cl_Validate :: "client \<Rightarrow> creq" where
  "cl_Validate c = creq ''Validate'' [JStr (cl_sid c)] KString"

definition cl_Show :: "client \<Rightarrow> DB \<Rightarrow> string \<Rightarrow> creq" where
  "cl_Show c db p = creq ''Show'' [JNum (of_int db), JStr (cl_sid c), JStr p] KString"

definition cl_ShowConfigWithContextDiffs :: "client \<Rightarrow> string \<Rightarrow> bool \<Rightarrow> creq" where
  "cl_ShowConfigWithContextDiffs c p showDefaults = creq ''ShowConfigWithContextDiffs'' [JStr (cl_sid c), JStr p, JBool showDefaults] KString"

definition cl_SchemaGet :: "client \<Rightarrow> string \<Rightarrow> string \<Rightarrow> creq" where
  "cl_SchemaGet c md fmt = creq ''SchemaGet'' [JStr md, JStr fmt] KString"

definition cl_GetSchemas :: "client \<Rightarrow> creq" where
  "cl_GetSchemas c = creq ''GetSchemas'' [] KString"

definition cl_GetModuleSchemas :: "client \<Rightarrow> creq" where
  "cl_GetModuleSchemas c = creq ''GetModuleSchemas'' [] KString"

definition cl_GetFeatures :: "client \<Rightarrow> creq" where
  "cl_GetFeatures c = creq ''GetFeatures'' [] KMapString"

definition cl_GetDeviations :: "client \<Rightarrow> creq" where
  "cl_GetDeviations c = creq ''GetDeviations'' [] KMapString"

definition cl_GetCommitLog :: "client \<Rightarrow> creq" where
  "cl_GetCommitLog c = creq ''GetCommitLog'' [] KMapString"

definition cl_AuthAuthorize :: "client \<Rightarrow> string \<Rightarrow> int \<Rightarrow> creq" where
  "cl_AuthAuthorize c p perm = creq ''AuthAuthorize'' [JStr p, JNum (of_int perm)] KBool"

definition cl_AuthGetPerms :: "client \<Rightarrow> creq" where
  "cl_AuthGetPerms c = creq ''AuthGetPerms'' [] KMapString"

definition cl_GetCompletions :: "client \<Rightarrow> bool \<Rightarrow> string \<Rightarrow> creq" where
  "cl_GetCompletions c sch p = creq ''GetCompletions'' [JStr (cl_sid c), JBool sch, JStr p] KMapString"

definition cl_GetHelp :: "client \<Rightarrow> bool \<Rightarrow> string \<Rightarrow> creq" where
  "cl_GetHelp c sch p = creq ''GetHelp'' [JStr (cl_sid c), JBool sch, JStr p] KMapString"

definition cl_ReadConfigFile :: "client \<Rightarrow> string \<Rightarrow> creq" where
  "cl_ReadConfigFile c filename = creq ''ReadConfigFile'' [JStr filename] KString"

definition cl_ReadConfigFileRaw :: "client \<Rightarrow> string \<Rightarrow> creq" where
  "cl_ReadConfigFileRaw c filename = creq ''ReadConfigFileRaw'' [JStr filename] KString"

definition cl_CallRpc :: "client \<Rightarrow> string \<Rightarrow> string \<Rightarrow> string \<Rightarrow> string \<Rightarrow> creq" where
  "cl_CallRpc c namespace nm ar encoding = creq ''CallRpc'' [JStr namespace, JStr nm, JStr ar, JStr encoding] KString"

definition cl_CallRpcXml :: "client \<Rightarrow> string \<Rightarrow> string \<Rightarrow> string \<Rightarrow> creq" where
  "cl_CallRpcXml c namespace nm ar = creq ''CallRpcXml'' [JStr namespace, JStr nm, JStr ar] KString"

definition cl_MigrateConfigFile :: "client \<Rightarrow> string \<Rightarrow> creq" where
  "cl_MigrateConfigFile c filename = creq ''MigrateConfigFile'' [JStr filename] KString"

definition cl_Expand :: "client \<Rightarrow> string \<Rightarrow> creq" where
  "cl_Expand c p = creq ''Expand'' [JStr p] KString"

definition cl_ExpandWithPrefix :: "client \<Rightarrow> string \<Rightarrow> string \<Rightarrow> int \<Rightarrow> creq" where
  "cl_ExpandWithPrefix c p prefix pos = creq ''ExpandWithPrefix'' [JStr p, JStr prefix, JNum (of_int pos)] KString"

definition cl_Compare :: "client \<Rightarrow> string \<Rightarrow> string \<Rightarrow> string \<Rightarrow> bool \<Rightarrow> creq" where
  "cl_Compare c old new spath ctxdiff = creq ''Compare'' [JStr old, JStr new, JStr spath, JBool ctxdiff] KString"

definition cl_CompareConfigRevisions :: "client \<Rightarrow> string \<Rightarrow> string \<Rightarrow> creq" where
  "cl_CompareConfigRevisions c revOne revTwo = creq ''CompareConfigRevisions'' [JStr (cl_sid c), JStr revOne, JStr revTwo] KString"

definition cl_CompareSessionChanges :: "client \<Rightarrow> creq" where
  "cl_CompareSessionChanges c = creq ''CompareSessionChanges'' [JStr (cl_sid c)] KString"

definition cl_SetConfigDebug :: "client \<Rightarrow> string \<Rightarrow> string \<Rightarrow> creq" where
  "cl_SetConfigDebug c dbgType lvl = creq ''SetConfigDebug'' [JStr (cl_sid c), JStr dbgType, JStr lvl] KString"

definition cl_SessionGetEnv :: "client \<Rightarrow> creq" where
  "cl_SessionGetEnv c = creq ''SessionGetEnv'' [JStr (cl_sid c)] KMap"

definition cl_GetConfigSystemFeatures :: "client \<Rightarrow> creq" where
  "cl_GetConfigSystemFeatures c = creq ''GetConfigSystemFeatures'' [] KMapStruct"

text \<open>
  All of them with arguments of the declared types, but \<open>Show\<close> and the three whose
  result comes from a library that may return a nil map (\<open>AuthGetPerms\<close>, \<open>GetHelp\<close> and
  \<open>GetCompletions\<close>): a nil map is sent as \<open>null\<close>.
\<close>

definition client_requests ::
  "client \<Rightarrow> string \<Rightarrow> string \<Rightarrow> string \<Rightarrow> string \<Rightarrow> bool \<Rightarrow> bool \<Rightarrow> int \<Rightarrow> DB \<Rightarrow> creq list" where
  "client_requests c x1 x2 x3 x4 b1 b2 n db = [cl_SessionExists c,
     cl_SessionSetup c,
     cl_SessionSetupShared c,
     cl_SessionTeardown c,
     cl_SessionChanged c,
     cl_SessionSaved c,
     cl_SessionMarkSaved c,
     cl_SessionMarkUnsaved c,
     cl_TmplGet c x1,
     cl_TmplGetChildren c x1,
     cl_TmplGetAllowed c x1,
     cl_TmplValidatePath c x1,
     cl_TmplValidateValues c x1,
     cl_Get c db x1,
     cl_TreeGet c db x1 x2,
     cl_TreeGetFull c db x1 x2,
     cl_Exists c db x1,
     cl_NodeGetStatus c db x1,
     cl_NodeGetType c x1,
     cl_Set c x1,
     cl_ValidatePath c x1,
     cl_Delete c x1,
     cl_Rename c x1 x2,
     cl_Copy c x1 x2,
     cl_Comment c x1,
     cl_CancelCommit c x1 x2 b1 b2,
     cl_Rollback c x1 x2 b1,
     cl_Confirm c,
     cl_ConfirmPersistId c x1,
     cl_ConfirmSilent c,
     cl_CommitConfirm c x1 b1 n,
     cl_Commit c x1 b1,
     cl_Discard c,
     cl_Save c x1,
     cl_SaveTo c x1 x2,
     cl_ExtractArchive c x1 x2,
     cl_Load c x1,
     cl_LoadFrom c x1 x2,
     cl_LoadKeys c x1 x2 x3,
     cl_Merge c x1,
     cl_LoadReportWarnings c x1,
     cl_MergeReportWarnings c x1,
     cl_Validate c,
     cl_ShowConfigWithContextDiffs c x1 b1,
     cl_SchemaGet c x1 x2,
     cl_GetSchemas c,
     cl_GetModuleSchemas c,
     cl_GetFeatures c,
     cl_GetDeviations c,
     cl_GetCommitLog c,
     cl_AuthAuthorize c x1 n,
     cl_ReadConfigFile c x1,
     cl_ReadConfigFileRaw c x1,
     cl_CallRpc c x1 x2 x3 x4,
     cl_CallRpcXml c x1 x2 x3,
     cl_MigrateConfigFile c x1,
     cl_Expand c x1,
     cl_ExpandWithPrefix c x1 x2 n,
     cl_Compare c x1 x2 x3 b1,
     cl_CompareConfigRevisions c x1 x2,
     cl_CompareSessionChanges c,
     cl_SetConfigDebug c x1 x2,
     cl_SessionGetEnv c,
     cl_GetConfigSystemFeatures c]"

lemmas client_defs = cl_SessionExists_def cl_SessionSetup_def cl_SessionSetupShared_def cl_SessionTeardown_def
  cl_SessionChanged_def cl_SessionSaved_def cl_SessionMarkSaved_def cl_SessionMarkUnsaved_def cl_TmplGet_def
  cl_TmplGetChildren_def cl_TmplGetAllowed_def cl_TmplValidatePath_def cl_TmplValidateValues_def cl_Get_def
  cl_TreeGet_def cl_TreeGetFull_def cl_Exists_def cl_NodeGetStatus_def cl_NodeGetType_def cl_Set_def
  cl_ValidatePath_def cl_Delete_def cl_Rename_def cl_Copy_def cl_Comment_def cl_CancelCommit_def
  cl_Rollback_def cl_Confirm_def cl_ConfirmPersistId_def cl_ConfirmSilent_def cl_CommitConfirm_def
  cl_Commit_def cl_Discard_def cl_Save_def cl_SaveTo_def cl_ExtractArchive_def cl_Load_def cl_LoadFrom_def
  cl_LoadKeys_def cl_Merge_def cl_LoadReportWarnings_def cl_MergeReportWarnings_def cl_Validate_def cl_Show_def
  cl_ShowConfigWithContextDiffs_def cl_SchemaGet_def cl_GetSchemas_def cl_GetModuleSchemas_def
  cl_GetFeatures_def cl_GetDeviations_def cl_GetCommitLog_def cl_AuthAuthorize_def cl_AuthGetPerms_def
  cl_GetCompletions_def cl_GetHelp_def cl_ReadConfigFile_def cl_ReadConfigFileRaw_def cl_CallRpc_def
  cl_CallRpcXml_def cl_MigrateConfigFile_def cl_Expand_def cl_ExpandWithPrefix_def cl_Compare_def
  cl_CompareConfigRevisions_def cl_CompareSessionChanges_def cl_SetConfigDebug_def cl_SessionGetEnv_def
  cl_GetConfigSystemFeatures_def

lemmas table_defs = methods_def session_methods_def edit_methods_def load_methods_def commit_methods_def
  node_methods_def show_methods_def other_methods_def meth_def Let_def

subsection \<open>The signatures of the server\<close>

text \<open>Name, parameter types and kind of result of every published method, in the order of the table.\<close>

definition signatures :: "(string \<times> gotype list \<times> rkind) list" where
  "signatures = [
     (''SessionExists'', S1, KBool),
     (''SessionSetup'', S1, KBool),
     (''SessionSetupShared'', S1, KBool),
     (''SessionTeardown'', S1, KBool),
     (''SessionChanged'', S1, KBool),
     (''SessionSaved'', S1, KBool),
     (''SessionMarkSaved'', S1, KBool),
     (''SessionMarkUnsaved'', S1, KBool),
     (''SessionGetEnv'', S1, KMapString),
     (''SessionLock'', S1, KInt),
     (''SessionUnlock'', S1, KInt),
     (''SessionLocked'', S1, KInt),
     (''Set'', S2, KString),
     (''Delete'', S2, KBool),
     (''Rename'', S3, KBool),
     (''Copy'', S3, KBool),
     (''Comment'', S2, KBool),
     (''Discard'', S1, KBool),
     (''Merge'', S2, KBool),
     (''MergeReportWarnings'', S2, KBool),
     (''Validate'', S1, KString),
     (''EditConfigXML'', [TString, TString, TString, TString, TString, TString], KString),
     (''LoadKeys'', S4, KString),
     (''SaveTo'', S2, KBool),
     (''Save'', S1, KBool),
     (''ExtractArchive'', S3, KString),
     (''SetConfigDebug'', S3, KString),
     (''Load'', S2, KBool),
     (''LoadReportWarnings'', S2, KBool),
     (''LoadFrom'', S3, KBool),
     (''CopyConfig'', [TString, TString, TString, TString, TString, TString, TString], KString),
     (''ValidateConfig'', S3, KString),
     (''Rollback'', [TString, TString, TString, TBool], KString),
     (''CancelCommit'', [TString, TString, TString, TBool, TBool], KString),
     (''Commit'', [TString, TString, TBool], KString),
     (''CommitConfirm'', [TString, TString, TBool, TInt], KString),
     (''ConfirmedCommit'', [TString, TString, TBool, TString, TString, TString, TBool], KString),
     (''Confirm'', S1, KString),
     (''ConfirmPersistId'', S1, KString),
     (''ConfirmingCommit'', [], KString),
     (''ConfirmSilent'', S1, KString),
     (''TmplGet'', S1, KMapString),
     (''TmplGetChildren'', S1, KSliceString),
     (''TmplValidatePath'', S1, KBool),
     (''TmplValidateValues'', S1, KBool),
     (''EditGetEnv'', S1, KMapString),
     (''Get'', [TDB, TString, TString], KSliceString),
     (''GetCommitLog'', [], KMapString),
     (''Exists'', [TDB, TString, TString], KBool),
     (''NodeGetStatus'', [TDB, TString, TString], KInt),
     (''NodeIsDefault'', [TDB, TString, TString], KBool),
     (''NodeGetType'', S2, KInt),
     (''NodeGetCompleteEnv'', S2, KMap),
     (''NodeGetComment'', S2, KMap),
     (''ValidatePath'', S2, KString),
     (''AuthAuthorize'', [TString, TInt], KBool),
     (''AuthGetPerms'', [], KMapString),
     (''GetHelp'', [TString, TBool, TString], KMapString),
     (''Expand'', S1, KString),
     (''ExpandWithPrefix'', [TString, TString, TInt], KString),
     (''GetConfigSystemFeatures'', [], KMapStruct),
     (''Compare'', [TString, TString, TString, TBool], KString),
     (''CompareConfigRevisions'', S3, KString),
     (''CompareSessionChanges'', S1, KString),
     (''Show'', [TDB, TString, TString, TBool], KString),
     (''ShowDefaults'', [TDB, TString, TString, TBool], KString),
     (''ShowConfigWithContextDiffs'', [TString, TString, TBool], KString),
     (''TreeGet'', [TDB, TString, TString, TString, TFlags], KString),
     (''TreeGetFull'', [TDB, TString, TString, TString, TFlags], KString),
     (''ReadConfigFileRaw'', S1, KString),
     (''ReadConfigFile'', S1, KString),
     (''MigrateConfigFile'', S1, KString),
     (''SchemaGet'', S2, KString),
     (''GetSchemas'', [], KString),
     (''GetModuleSchemas'', [], KString),
     (''GetDeviations'', [], KMapString),
     (''GetFeatures'', [], KMapString),
     (''TmplGetAllowed'', S2, KSliceString),
     (''GetCompletions'', [TString, TBool, TString], KMapString),
     (''CallRpc'', S4, KString),
     (''CallRpcXml'', S3, KString)]"

definition replies :: "rkind \<Rightarrow> ('d, reply \<times> error option) dop \<Rightarrow> bool" where
  "replies k m \<longleftrightarrow> (\<forall>s a s'. run_state m s = ((a, None), s') \<longrightarrow> decode k (Some a) \<noteq> None)"

lemma replies_wrap [simp]:
  "(\<And>x. decode k (Some (f x)) \<noteq> None) \<Longrightarrow> replies k (wrap f m)"
  "(\<And>x. decode k (Some (f x)) \<noteq> None) \<Longrightarrow> replies k (wrap_res f n)"
  by (auto simp: replies_def wrap_def wrap_res_def split: prod.splits sum.splits)

lemma replies_ret [simp]:
  "(\<And>x. decode k (Some (f x)) \<noteq> None) \<Longrightarrow>
   replies k (ret (case r of Inl e \<Rightarrow> (RNone, Some e) | Inr a \<Rightarrow> (f a, None)))"
  by (auto simp: replies_def split: sum.splits)

lemma signatures_names: "map (\<lambda>m. (m_name m, m_in m)) (methods E) = map (\<lambda>(n, ts, k). (n, ts)) signatures"
  by (simp add: table_defs signatures_def)

lemma signatures_replies: "list_all2 (\<lambda>m (n, ts, k). \<forall>D as. replies k (m_func m D as)) (methods E) signatures"
  by (simp add: table_defs signatures_def)

lemma signature_method:
  assumes "map_of signatures n = Some (ts, k)"
  shows "\<exists>m. find_method E n = Some m \<and> m_in m = ts \<and> (\<forall>D as. replies k (m_func m D as))"
proof -
  obtain i where i: "i < length signatures" "signatures ! i = (n, ts, k)"
    using assms by (metis in_set_conv_nth map_of_SomeD)
  have len: "length (methods E) = length signatures" using signatures_names [of E] using map_eq_imp_length_eq by blast
  have "(m_name (methods E ! i), m_in (methods E ! i)) = (n, ts)"
    using arg_cong [OF signatures_names [of E], of "\<lambda>xs. xs ! i"] i len by simp
  moreover have "\<forall>D as. replies k (m_func (methods E ! i) D as)"
    using list_all2_nthD [OF signatures_replies [of E], of i] i len by simp
  ultimately show ?thesis using find_method_unique [of "methods E ! i" E] i len by force
qed

subsection \<open>Client and server agree\<close>

text \<open>A result of kind \<open>k\<close> serves a client that expects kind \<open>k'\<close>.\<close>

fun kind_serves :: "rkind \<Rightarrow> rkind \<Rightarrow> bool" where
  "kind_serves KBool KBoolIgnore = True"
| "kind_serves KMapString KMap = True"
| "kind_serves KMapStruct KMap = True"
| "kind_serves k k' = (k = k')"

lemma decode_serves: "kind_serves k k' \<Longrightarrow> decode k r \<noteq> None \<Longrightarrow> decode k' r \<noteq> None"
  by (cases "(k, r)" rule: decode.cases; cases k') auto

lemma replies_serves: "replies k m \<Longrightarrow> kind_serves k k' \<Longrightarrow> replies k' m"
  unfolding replies_def using decode_serves by blast

text \<open>
  A JSON value of the right form for a parameter type, and a number that is an integer
  a \<open>float64\<close> represents exactly.
\<close>

fun shape :: "gotype \<Rightarrow> jval \<Rightarrow> bool" where
  "shape TString (JStr _) = True"
| "shape TBool (JBool _) = True"
| "shape TInt (JNum r) = True"
| "shape TDB (JNum r) = True"
| "shape TFlags (JObj _) = True"
| "shape _ _ = False"

fun exact :: "jval \<Rightarrow> bool" where
  "exact (JNum r) = (r \<in> \<int> \<and> \<bar>r\<bar> \<le> 2 ^ 53)"
| "exact _ = True"

abbreviation fits :: "gotype \<Rightarrow> jval \<Rightarrow> bool" where
  "fits t v \<equiv> shape t v \<and> exact v"

text \<open>The argument a handler gets for a value the client sent.\<close>

fun to_arg :: "jval \<Rightarrow> arg" where
  "to_arg (JStr s) = AStr s"
| "to_arg (JBool b) = ABool b"
| "to_arg (JNum r) = AInt \<lfloor>r\<rfloor>"
| "to_arg (JObj fs) = AFlags fs"
| "to_arg _ = AFlags []"

lemma float_to_int_exact: "exact (JNum r) \<Longrightarrow> float_to_int r = \<lfloor>r\<rfloor>"
  by (auto simp: float_to_int_def Let_def elim!: Ints_cases)

lemma of_int_abs_bound: "\<bar>n\<bar> \<le> 2 ^ 53 \<Longrightarrow> \<bar>of_int n\<bar> \<le> (2 ^ 53 :: rat)"
  by (metis of_int_abs of_int_le_iff of_int_numeral of_int_power)

lemma convert_fits: "fits t v \<Longrightarrow> v \<noteq> JNull \<and> convert_arg t v = Some (to_arg v) \<and> of_type t (to_arg v)"
  using float_to_int_range by (cases "(t, v)" rule: shape.cases) (auto simp: float_to_int_exact simp flip: float_to_int_exact)

lemma convert_args_fit: "list_all2 fits ts vs \<Longrightarrow> convert_args m ts vs = Inr (map to_arg vs)"
  by (induction rule: list_all2_induct) (use convert_fits in auto)

lemma fits_of_type: "list_all2 fits ts vs \<Longrightarrow> list_all2 of_type ts (map to_arg vs)"
  by (induction rule: list_all2_induct) (use convert_fits in auto)

definition agrees :: "creq \<Rightarrow> bool" where
  "agrees q \<longleftrightarrow> (case map_of signatures (rq_method q) of
       None \<Rightarrow> False
     | Some (ts, k) \<Rightarrow> list_all2 shape ts (rq_args q) \<and> kind_serves k (rq_kind q))"

lemma requests_agree: "list_all agrees (client_requests c x1 x2 x3 x4 b1 b2 n db)"
  by code_simp

lemma requests_exact:
  "\<bar>n\<bar> \<le> 2 ^ 53 \<Longrightarrow> \<bar>db\<bar> \<le> 2 ^ 53 \<Longrightarrow>
    list_all (\<lambda>q. list_all exact (rq_args q)) (client_requests c x1 x2 x3 x4 b1 b2 n db)"
  using of_int_abs_bound [of n] of_int_abs_bound [of db] by (simp add: client_requests_def client_defs creq_def)

lemma list_all2_both: "list_all2 P xs ys \<Longrightarrow> list_all Q ys \<Longrightarrow> list_all2 (\<lambda>x y. P x y \<and> Q y) xs ys"
  by (induction rule: list_all2_induct) auto

lemma newResponse_error [simp]: "r_Result (newResponse E r (Some e) i) = None"
  by (cases e) (auto simp: newResponse_def split: error.split)

lemma decode_None [simp]: "decode k None = None"
  by (cases k) auto

text \<open>The codec keeps the form of a value and the kind of a result.\<close>

lemma wire_fits [simp]: "shape t (wire v) = shape t v" "exact (wire v) = exact v"
  by (cases "(t, v)" rule: shape.cases; simp) (cases v; simp)

lemma decode_wire: "decode k (Some r) \<noteq> None \<Longrightarrow> decode k (Some (wire_reply r)) \<noteq> None"
  by (cases "(k, Some r)" rule: decode.cases) auto

lemma list_all2_wire: "list_all2 fits ts vs \<Longrightarrow> list_all2 fits ts (map wire vs)"
  by (simp add: list_all2_conv_all_nth)

text \<open>Values that arrive as they are.\<close>

fun utf8_value :: "jval \<Rightarrow> bool" where
  "utf8_value (JStr s) = valid_utf8 s"
| "utf8_value (JArr vs) = list_all utf8_value vs"
| "utf8_value (JObj fs) = list_all (\<lambda>(k, v). valid_utf8 k \<and> utf8_value v) fs"
| "utf8_value v = True"

lemma wire_kept: "utf8_value v \<Longrightarrow> wire v = v"
  by (induction v rule: utf8_value.induct) (auto simp: valid_text_kept list_all_iff intro!: map_idI)

lemma wires_kept: "list_all utf8_value vs \<Longrightarrow> map wire vs = vs"
  by (auto simp: list_all_iff wire_kept intro!: map_idI)

lemma run_invoke:
  assumes f: "find_method E (rq_method q) = Some m"
    and au: "AuthorizeFn (Auth (d_ctx D)) (Uid (d_ctx D)) (Groups (d_ctx D)) (rq_method q)"
    and a: "list_all2 fits (m_in m) (rq_args q)"
    and r: "run_state (m_func m D (map (to_arg \<circ> wire) (rq_args q))) s = ((r, e), s')"
  shows "e = None \<Longrightarrow> decode (rq_kind q) (Some (wire_reply r)) = Some v \<Longrightarrow>
           run_state (invoke E D c q) s = (((v, None), c\<lparr>cl_id := cl_id c + 1\<rparr>), s')"
    and "e = Some er \<Longrightarrow> \<exists>x. run_state (invoke E D c q) s =
           (((zero_of (rq_kind q), Some x), c\<lparr>cl_id := cl_id c + 1\<rparr>), s')"
proof -
  have call: "run_state (Call E D (rq_method q) (map wire (rq_args q))) s = ((r, map_option Handler e), s')"
    using convert_args_fit [OF list_all2_wire [OF a]] list_all2_lengthD [OF a] r by (simp add: Call_def f au)
  show "run_state (invoke E D c q) s = (((v, None), c\<lparr>cl_id := cl_id c + 1\<rparr>), s')"
    if "e = None" "decode (rq_kind q) (Some (wire_reply r)) = Some v"
    using that by (simp add: invoke_def client_call_def call newResponse_def Let_def)
  show "\<exists>x. run_state (invoke E D c q) s = (((zero_of (rq_kind q), Some x), c\<lparr>cl_id := cl_id c + 1\<rparr>), s')"
    if "e = Some er"
    using that by (simp add: invoke_def client_call_def call Let_def split: option.split)
qed

text \<open>C32. The client library and the server agree. For every client method but \<open>Show\<close> (which always fails,
  see below), \<open>AuthGetPerms\<close>, \<open>GetHelp\<close> and \<open>GetCompletions\<close> (whose result may be a nil map), for all strings and
  flags and for integers up to \<open>2 ^ 53\<close>, and for a caller who is authorised to use the method:
  the server publishes a handler of that name, which runs with
  the values the client was given as JSON delivers them, of its parameter types (text that is UTF-8 arrives
  unchanged, in other text each invalid byte is replaced); when
  it succeeds the client returns its result, as JSON delivers it and decoded, without an error, and when it fails the
  client returns the zero value with an error. No such call ends in an argument error
  or in a wrong result type.\<close>

theorem client_server_agreement:
  assumes "q \<in> set (client_requests c x1 x2 x3 x4 b1 b2 n db)" "\<bar>n\<bar> \<le> 2 ^ 53" "\<bar>db\<bar> \<le> 2 ^ 53"
    and "AuthorizeFn (Auth (d_ctx D)) (Uid (d_ctx D)) (Groups (d_ctx D)) (rq_method q)"
  shows "\<exists>m. find_method E (rq_method q) = Some m \<and> list_all2 of_type (m_in m) (map (to_arg \<circ> wire) (rq_args q))
    \<and> (list_all utf8_value (rq_args q) \<longrightarrow> map (to_arg \<circ> wire) (rq_args q) = map to_arg (rq_args q))
    \<and> (\<forall>s r e s'. run_state (m_func m D (map (to_arg \<circ> wire) (rq_args q))) s = ((r, e), s') \<longrightarrow>
        (case e of
           None \<Rightarrow> (\<exists>v. decode (rq_kind q) (Some (wire_reply r)) = Some v
             \<and> run_state (invoke E D c q) s = (((v, None), c\<lparr>cl_id := cl_id c + 1\<rparr>), s'))
         | Some _ \<Rightarrow> (\<exists>x. run_state (invoke E D c q) s =
             (((zero_of (rq_kind q), Some x), c\<lparr>cl_id := cl_id c + 1\<rparr>), s'))))"
proof -
  obtain ts k where q: "map_of signatures (rq_method q) = Some (ts, k)" "list_all2 fits ts (rq_args q)" "kind_serves k (rq_kind q)"
    using requests_agree [of c x1 x2 x3 x4 b1 b2 n db] requests_exact [OF assms(2,3), of c x1 x2 x3 x4 b1 b2] assms(1)
    by (fastforce simp: list_all_iff agrees_def split: option.splits intro!: list_all2_both)
  obtain m where m: "find_method E (rq_method q) = Some m" "m_in m = ts" "\<And>as. replies k (m_func m D as)"
    using signature_method [OF q(1), of E] by blast
  have fit: "list_all2 fits (m_in m) (rq_args q)" using q m by simp
  have dec: "\<exists>v. decode (rq_kind q) (Some (wire_reply r)) = Some v"
    if "run_state (m_func m D (map (to_arg \<circ> wire) (rq_args q))) s = ((r, None), s')" for s r s'
    using replies_serves [OF m(3) q(3)] that decode_wire unfolding replies_def by blast
  have "list_all2 of_type (m_in m) (map (to_arg \<circ> wire) (rq_args q))"
    using fits_of_type [OF list_all2_wire [OF fit]] by simp
  moreover have "list_all utf8_value (rq_args q) \<Longrightarrow> map (to_arg \<circ> wire) (rq_args q) = map to_arg (rq_args q)"
    using wires_kept [of "rq_args q"] by (metis map_map)
  moreover have "case e of
        None \<Rightarrow> (\<exists>v. decode (rq_kind q) (Some (wire_reply r)) = Some v
          \<and> run_state (invoke E D c q) s = (((v, None), c\<lparr>cl_id := cl_id c + 1\<rparr>), s'))
      | Some _ \<Rightarrow> (\<exists>x. run_state (invoke E D c q) s = (((zero_of (rq_kind q), Some x), c\<lparr>cl_id := cl_id c + 1\<rparr>), s'))"
    if run: "run_state (m_func m D (map (to_arg \<circ> wire) (rq_args q))) s = ((r, e), s')" for s r e s'
  proof (cases e)
    case None
    obtain v where "decode (rq_kind q) (Some (wire_reply r)) = Some v" using dec run None by blast
    then show ?thesis using run_invoke(1) [OF m(1) assms(4) fit run None] None by simp
  next
    case (Some er)
    then show ?thesis using run_invoke(2) [OF m(1) assms(4) fit run] by simp
  qed
  ultimately show ?thesis using m(1) by blast
qed

lemma client_demo_request:
  "cl_CommitConfirm c x1 b1 n \<in> set (client_requests c x1 x2 x3 x4 b1 b2 n db)"
  by (simp add: client_requests_def)

lemma demo_authorised:
  "AuthorizeFn (Auth (d_ctx (demo_disp True))) (Uid (d_ctx (demo_disp True))) (Groups (d_ctx (demo_disp True))) f"
  by (simp add: demo_disp_def demo_ctx_def caller_def auth_of_def)

theorem client_server_agreement_witness:
  "let q = cl_CommitConfirm \<lparr>cl_sid = ''s1'', cl_id = 0\<rparr> ''msg'' False 5 in
   \<exists>m. find_method demo_deps ''CommitConfirm'' = Some m
    \<and> (\<forall>s r s'. run_state (m_func m (demo_disp True) [AStr ''s1'', AStr ''msg'', ABool False, AInt 5]) s = ((r, None), s') \<longrightarrow>
        (\<exists>v. run_state (invoke demo_deps (demo_disp True) \<lparr>cl_sid = ''s1'', cl_id = 0\<rparr> q) s =
          (((v, None), \<lparr>cl_sid = ''s1'', cl_id = 1\<rparr>), s')))"
  using client_server_agreement [of "cl_CommitConfirm \<lparr>cl_sid = ''s1'', cl_id = 0\<rparr> ''msg'' False 5" "\<lparr>cl_sid = ''s1'', cl_id = 0\<rparr>"
      "''msg''" "[]" "[]" "[]" False False 5 0 "demo_disp True" demo_deps]
    client_demo_request demo_authorised ascii_kept [of "''s1''"] ascii_kept [of "''msg''"]
  unfolding Let_def by (fastforce simp: cl_CommitConfirm_def creq_def)

text \<open>
  The client's \<open>Show\<close> sends three arguments where the server's takes four (\<open>hideSecrets\<close> is
  missing): it never returns a configuration.
\<close>

lemma client_show_always_fails:
  "\<exists>x. fst (fst (run_state (invoke E D c (cl_Show c db p)) s)) = (VString [], Some x)"
proof -
  obtain m where m: "find_method E ''Show'' = Some m" "length (m_in m) = 4"
    using signature_method [of "''Show''" "[TDB, TString, TString, TBool]" KString E] by (auto simp: signatures_def)
  obtain e where "run_state (Call E D ''Show'' (map wire [JNum (of_int db), JStr (cl_sid c), JStr p])) s = ((RNone, Some e), s)"
    using m by (cases "AuthorizeFn (Auth (d_ctx D)) (Uid (d_ctx D)) (Groups (d_ctx D)) ''Show''") (simp_all add: Call_def)
  then show ?thesis by (simp add: invoke_def client_call_def cl_Show_def creq_def Let_def split: option.split)
qed

end
