(* ===== verification/Cli_Server.thy ===== *)
theory Cli_Server
  imports Cli_Props Client_Lib
begin

text \<open>
  The shell, the client library and the server put together: the shell's \<open>cfgManager\<close> is the client, whose calls are
  dispatched by the server. Two interfaces say what the shell relies on: a relation between states of the daemon is kept by a
  whole run of the shell when it is kept by the calls the run may make.
\<close>

subsection \<open>Runs that keep a relation on the daemon\<close>

definition daemon_rel :: "('w \<Rightarrow> 'w \<Rightarrow> bool) \<Rightarrow> 'w cst \<Rightarrow> 'w cst \<Rightarrow> bool" where
  "daemon_rel R s s' \<longleftrightarrow> R (c_back s) (c_back s')"

named_theorems shell_intros \<open>parts of the shell that keep a relation on the daemon\<close>

locale cli_asks =
  fixes X :: "'w cli" and R :: "'w \<Rightarrow> 'w \<Rightarrow> bool"
  assumes R_refl: "R w w" and R_trans: "R w w' \<Longrightarrow> R w' w'' \<Longrightarrow> R w w''"
    and bash_keeps: "keeps R (x_bash X snippit env)"
    and asks_keep: "keeps R (api_CompareConfigRevisions (api X) aCompareConfigRevisions bCompareConfigRevisions)"
      "keeps R (api_CompareSessionChanges (api X))"
      "keeps R (api_TmplGet (api X) aTmplGet)"
      "keeps R (api_ShowConfigWithContextDiffs (api X) aShowConfigWithContextDiffs bShowConfigWithContextDiffs)"
      "keeps R (api_GetCompletions (api X) aGetCompletions bGetCompletions)"
      "keeps R (api_Exists (api X) aExists bExists)"
      "keeps R (api_Expand (api X) aExpand)"
      "keeps R (api_ExpandWithPrefix (api X) aExpandWithPrefix bExpandWithPrefix cExpandWithPrefix)"
      "keeps R (api_Get (api X) aGet bGet)"
      "keeps R (api_GetCommitLog (api X))"
      "keeps R (api_GetConfigSystemFeatures (api X))"
      "keeps R (api_SessionChanged (api X))"
      "keeps R (api_NodeGetType (api X) aNodeGetType)"
      "keeps R (api_TmplValidatePath (api X) aTmplValidatePath)"

sublocale cli_asks \<subseteq> shell: frame_rel "daemon_rel R"
  by unfold_locales (auto simp: daemon_rel_def R_refl intro: R_trans)

context cli_asks
begin

lemmas steps [shell_intros] = shell.ret_ok shell.bind_ok shell.if_ok shell.option_ok shell.sum_ok shell.prod_ok shell.let_ok

lemma remote_keeps [shell_intros]: "keeps R m \<Longrightarrow> keeps (daemon_rel R) (remote m)"
  by (simp add: keeps_def daemon_rel_def)

lemma outputs_keep [shell_intros]:
  "keeps (daemon_rel R) (put_out t)" "keeps (daemon_rel R) (put_err t)" "keeps (daemon_rel R) (Getenv n)" "keeps (daemon_rel R) gopanic"
  "keeps (daemon_rel R) (printOutput t)" "keeps (daemon_rel R) (printError X e)" "keeps (daemon_rel R) (handleNoError t)"
  "keeps (daemon_rel R) (cli_logRollbackEvent X t)"
  by (auto simp: keeps_def daemon_rel_def R_refl gopanic_def printOutput_def printError_def handleNoError_def cli_logRollbackEvent_def
      split: list.split)

lemma checks_keep [shell_intros]:
  "(\<And>x. keeps (daemon_rel R) (k x)) \<Longrightarrow> keeps (daemon_rel R) (with_at xs i k)"
  "(\<And>x. keeps (daemon_rel R) (k' x)) \<Longrightarrow> keeps (daemon_rel R) (with_slice xs i j k')"
  "(\<And>e. keeps (daemon_rel R) (k'' e)) \<Longrightarrow> keeps (daemon_rel R) (checked f ctx k'')"
  unfolding with_at_def with_slice_def checked_def by (intro shell_intros; assumption)+

lemma errors_keep [shell_intros]:
  "keeps (daemon_rel R) k \<Longrightarrow> keeps (daemon_rel R) (handleError X err k)"
  "keeps (daemon_rel R) k \<Longrightarrow> keeps (daemon_rel R) (by_printError X e k)"
  "keeps (daemon_rel R) k \<Longrightarrow> keeps (daemon_rel R) (by_handleError X e k)"
  "(\<And>x. keeps (daemon_rel R) (k' x)) \<Longrightarrow> keeps (daemon_rel R) (sessionChanged X k')"
  unfolding handleError_def by_printError_def by_handleError_def sessionChanged_def
  by (auto intro!: shell_intros asks_keep split: option.split)

lemma errors_no_indent_keep [shell_intros]:
  "keeps (daemon_rel R) k \<Longrightarrow> keeps (daemon_rel R) (handleErrorNoIndent X op err k)"
  unfolding handleErrorNoIndent_def by (auto intro!: shell_intros split: option.split error.split)

lemma comp_errors_keep [shell_intros]:
  assumes "\<And>e k'. keeps (daemon_rel R) k' \<Longrightarrow> keeps (daemon_rel R) (h e k')" "keeps (daemon_rel R) k"
  shows "keeps (daemon_rel R) (handleCompError X err h k)"
  unfolding handleCompError_def by (cases err) (auto intro!: assms shell_intros)

lemma snippits_keep [shell_intros]:
  "keeps (daemon_rel R) k \<Longrightarrow> keeps (daemon_rel R) (doSnippitAndContinue X ctx t env k)"
  "keeps (daemon_rel R) (doSnippit X ctx t env)"
  unfolding doSnippit_def doSnippitAndContinue_def shellOutExecute_def
  by (auto intro!: shell_intros bash_keeps split: option.split)

lemma paths_keep [shell_intros]:
  "keeps (daemon_rel R) (editPathLength X args)" "keeps (daemon_rel R) (editPath X args)"
  "(\<And>e k'. keeps (daemon_rel R) k' \<Longrightarrow> keeps (daemon_rel R) (h e k')) \<Longrightarrow> (\<And>t. keeps (daemon_rel R) (k t)) \<Longrightarrow>
    keeps (daemon_rel R) (expandPathString X p h k)"
  "(\<And>q. keeps (daemon_rel R) (k' q)) \<Longrightarrow> keeps (daemon_rel R) (ExpandPath X p k')"
  unfolding ExpandPath_def editPath_def editPathLength_def expandPathString_def
  by (auto intro!: shell_intros asks_keep)

lemma valid_path_keeps [shell_intros]:
  "(\<And>e. keeps (daemon_rel R) (k e)) \<Longrightarrow> keeps (daemon_rel R) (checkValidPath X ctx k)"
  unfolding checkValidPath_def by (auto intro!: shell_intros asks_keep simp: Let_def)

lemma rows_keep [shell_intros]: "(\<And>n. keeps (daemon_rel R) (row n)) \<Longrightarrow> keeps (daemon_rel R) (help_rows b row ns)"
  by (induction ns) (auto intro!: shell_intros)

lemma help_keeps [shell_intros]:
  "(\<And>t. keeps (daemon_rel R) (k t)) \<Longrightarrow> keeps (daemon_rel R) (printHelp X ctx m k)"
  "(\<And>t. keeps (daemon_rel R) (k t)) \<Longrightarrow> keeps (daemon_rel R) (printPathHelp X ctx m k)"
  unfolding printHelp_def printPathHelp_def help_text_def gettypeprefix_def
  by (auto intro!: shell_intros asks_keep simp: Let_def split: prod.split)

lemma doComplete_keeps [shell_intros]:
  "(\<And>ctx m k'. (\<And>t. keeps (daemon_rel R) (k' t)) \<Longrightarrow> keeps (daemon_rel R) (pf ctx m k')) \<Longrightarrow> (\<And>t. keeps (daemon_rel R) (k t)) \<Longrightarrow>
    keeps (daemon_rel R) (doComplete X ctx sp m pf k)"
  unfolding doComplete_def by (auto intro!: shell_intros simp: Let_def split: option.split)

lemma riComp_keeps [shell_intros]:
  "(\<And>m. keeps (daemon_rel R) (k m)) \<Longrightarrow> keeps (daemon_rel R) (riComp X ctx k)"
  unfolding riComp_def addRINames_def by (auto intro!: shell_intros asks_keep)

lemma transferComp_keeps [shell_intros]:
  "(\<And>t. keeps (daemon_rel R) (k t)) \<Longrightarrow> keeps (daemon_rel R) (transferComp X ctx i op prep m k)"
  unfolding transferComp_def by (auto intro!: shell_intros)

lemma getcompletions_keeps [shell_intros]:
  "(\<And>m. keeps (daemon_rel R) (k m)) \<Longrightarrow> keeps (daemon_rel R) (getcompletions X args k)"
  unfolding getcompletions_def by (auto intro!: shell_intros asks_keep)

lemma comps_keep:
  assumes "\<And>t. keeps (daemon_rel R) (k t)"
  shows "keeps (daemon_rel R) (singleCommandComp X ctx k)" "keeps (daemon_rel R) (loadComp X ctx k)"
    "keeps (daemon_rel R) (saveComp X ctx k)" "keeps (daemon_rel R) (loadkeyComp X ctx k)" "keeps (daemon_rel R) (rollbackComp X ctx k)"
    "keeps (daemon_rel R) (confirmComp X ctx k)" "keeps (daemon_rel R) (commitConfComp X ctx k)" "keeps (daemon_rel R) (commitComp X ctx k)"
    "keeps (daemon_rel R) (compareComp X ctx k)" "keeps (daemon_rel R) (exitComp X ctx k)" "keeps (daemon_rel R) (mergeComp X ctx k)"
    "keeps (daemon_rel R) (runComp X ctx k)" "keeps (daemon_rel R) (pathComp X ctx k)" "keeps (daemon_rel R) (cancelcommitComp X ctx k)"
  using assms
  by (auto simp: singleCommandComp_def loadComp_def saveComp_def loadkeyComp_def rollbackComp_def confirmComp_def commitConfComp_def
      commitComp_def compareComp_def exitComp_def mergeComp_def runComp_def pathComp_def cancelcommitComp_def Let_def
      intro!: shell_intros asks_keep split: prod.split)

lemma features_keep [shell_intros]:
  "keeps (daemon_rel R) (has_feature X f)" "keeps (daemon_rel R) (updateDynamicCommands X)" "keeps (daemon_rel R) (with_features X ctx)"
  "keeps (daemon_rel R) (parseShowAll ctx)"
  unfolding updateDynamicCommands_def with_features_def checkLoadKey_def checkConfigMgmt_def checkRoutingInstance_def has_feature_def
    parseShowAll_def
  by (auto intro!: shell_intros asks_keep simp: Let_def split: prod.split)

lemma completion_keeps:
  assumes "\<And>c ctx k. c \<in> snd ` set cmds \<Longrightarrow> (\<And>t. keeps (daemon_rel R) (k t)) \<Longrightarrow> keeps (daemon_rel R) (cmd_CompFn c ctx k)"
    and "\<And>c ctx k f. c \<in> snd ` set cmds \<Longrightarrow> cmd_ValidFn c = Some f \<Longrightarrow> (\<And>e. keeps (daemon_rel R) (k e)) \<Longrightarrow> keeps (daemon_rel R) (f ctx k)"
  shows "keeps (daemon_rel R) (complete_handler X cmds args params)"
proof -
  have c: "c \<in> snd ` set cmds" if "GetCommand X cmds n = Inr c" for c n
    using that by (force simp: GetCommand_def split: sum.splits option.splits dest: map_of_SomeD)
  have v: "keeps (daemon_rel R) (checked_command c ctx k)"
    if "c \<in> snd ` set cmds" "\<And>e. keeps (daemon_rel R) (k e)" for c ctx k
    unfolding checked_command_def using that(2) assms(2) [OF that(1)] by (cases "cmd_ValidFn c") simp_all
  show ?thesis
  proof (cases "GetCommand X cmds (hd args)")
    case (Inl e)
    then show ?thesis
      unfolding complete_handler_def createCompleteCtx_def firstWordComp_def Let_def Inl sum.case by (auto intro!: shell_intros)
  next
    case (Inr cm)
    note cm = c [OF Inr]
    show ?thesis
      unfolding complete_handler_def createCompleteCtx_def firstWordComp_def Let_def Inr sum.case
      by (intro shell_intros v [OF cm] assms(1) [OF cm]) (auto intro!: shell_intros)
  qed
qed

lemma table_keeps:
  assumes "c \<in> snd ` set (populateCommands X @ mgmt_commands X @ loadkey_command X)"
  shows "(\<And>t. keeps (daemon_rel R) (k t)) \<Longrightarrow> keeps (daemon_rel R) (cmd_CompFn c ctx k)"
    and "cmd_ValidFn c = Some f \<Longrightarrow> (\<And>e. keeps (daemon_rel R) (k' e)) \<Longrightarrow> keeps (daemon_rel R) (f ctx k')"
  using assms comps_keep
  by (auto simp: populateCommands_def mgmt_commands_def loadkey_command_def NewCommand_def intro!: shell_intros)

end

subsection \<open>Commands that edit and commit\<close>

locale cli_edits = cli_asks X R for X :: "'w cli" and R +
  assumes edits_keep: "keeps R (api_Commit (api X) aCommit bCommit)"
      "keeps R (api_CommitConfirm (api X) aCommitConfirm bCommitConfirm cCommitConfirm)"
      "keeps R (api_Confirm (api X))"
      "keeps R (api_ConfirmSilent (api X))"
      "keeps R (api_ConfirmPersistId (api X) aConfirmPersistId)"
      "keeps R (api_Delete (api X) aDelete)"
      "keeps R (api_Discard (api X))"
      "keeps R (api_Set (api X) aSet)"
      "keeps R (api_LoadKeys (api X) aLoadKeys bLoadKeys cLoadKeys)"
      "keeps R (api_MergeReportWarnings (api X) aMergeReportWarnings)"
      "keeps R (api_Save (api X) aSave)"
      "keeps R (api_SaveTo (api X) aSaveTo bSaveTo)"
      "keeps R (api_Validate (api X))"
      "keeps R (api_SessionMarkSaved (api X))"
begin

lemma save_keeps [shell_intros]:
  "(\<And>u r. keeps (daemon_rel R) (k u r)) \<Longrightarrow> keeps (daemon_rel R) (parseCfgMgmtCmdArgs X args usage k)"
  "keeps (daemon_rel R) k' \<Longrightarrow> keeps (daemon_rel R) (saveRunInternal X ctx args' k')"
proof -
  show p: "(\<And>u r. keeps (daemon_rel R) (k u r)) \<Longrightarrow> keeps (daemon_rel R) (parseCfgMgmtCmdArgs X args usage k)" for k args usage
    unfolding parseCfgMgmtCmdArgs_def by (auto simp: Let_def intro!: shell_intros)
  show "keeps (daemon_rel R) k' \<Longrightarrow> keeps (daemon_rel R) (saveRunInternal X ctx args' k')"
    unfolding saveRunInternal_def by (auto simp: Let_def intro!: shell_intros p edits_keep)
qed

lemma commit_keeps [shell_intros]:
  "keeps (daemon_rel R) isCommitDebugOn" "keeps (daemon_rel R) (confirmSilentRun X)" "keeps (daemon_rel R) (shown_or_failed X ctx out err)"
  "keeps (daemon_rel R) k \<Longrightarrow> keeps (daemon_rel R) (commitRunInternal X ctx cmnt n k)"
  unfolding commitRunInternal_def isCommitDebugOn_def confirmSilentRun_def shown_or_failed_def
  by (auto simp: Let_def intro!: shell_intros edits_keep)

lemma edit_runs_keep:
  "keeps (daemon_rel R) (commitRun X ctx)" "keeps (daemon_rel R) (commitConfRun X ctx)" "keeps (daemon_rel R) (confirmRun X ctx)"
  "keeps (daemon_rel R) (deleteRun X ctx)" "keeps (daemon_rel R) (discardRun X ctx)" "keeps (daemon_rel R) (mergeRun X ctx)"
  "keeps (daemon_rel R) (saveRun X ctx)" "keeps (daemon_rel R) (setRun X ctx)" "keeps (daemon_rel R) (validateRun X ctx)"
  "keeps (daemon_rel R) (editRun X ctx)" "keeps (daemon_rel R) (loadkeyRun X ctx)"
  unfolding commitRun_def commitConfRun_def confirmRun_def deleteRun_def discardRun_def mergeRun_def saveRun_def setRun_def validateRun_def
    editRun_def loadkeyRun_def validateCommitCommentIfAny_def validateConfirmPersistIdIfAny_def isSecret_def doEditSnippit_def
  by (auto simp: Let_def daemon_rel_def R_refl intro!: shell_intros edits_keep asks_keep shell.modify_ok split: num_error.split)

lemma other_runs_keep:
  "keeps (daemon_rel R) (compareRun X ctx)" "keeps (daemon_rel R) (exitRun X ctx)" "keeps (daemon_rel R) (runRun X ctx)"
  "keeps (daemon_rel R) (showRun X ctx)" "keeps (daemon_rel R) (topRun X ctx)" "keeps (daemon_rel R) (upRun X ctx)"
  unfolding compareRun_def exitRun_def runRun_def showRun_def topRun_def upRun_def doEditSnippit_def
  by (auto simp: Let_def intro!: shell_intros edits_keep asks_keep split: list.split)

lemma run_keeps:
  assumes "\<And>c. GetCommand X cmds (hd args) = Inr c \<Longrightarrow>
      c \<in> snd ` set (populateCommands X @ mgmt_commands X @ loadkey_command X) \<and> cmd_Name c \<notin> {''load'', ''rollback'', ''cancel-commit''}"
  shows "keeps (daemon_rel R) (run_handler X cmds args params)"
proof -
  have "keeps (daemon_rel R) (run_command X c ctx)"
    if "c \<in> snd ` set (populateCommands X @ mgmt_commands X @ loadkey_command X)" "cmd_Name c \<notin> {''load'', ''rollback'', ''cancel-commit''}" for c ctx
  proof -
    have "keeps (daemon_rel R) (cmd_RunFn c ctx)"
      using that edit_runs_keep other_runs_keep
      by (auto simp: populateCommands_def mgmt_commands_def loadkey_command_def NewCommand_def)
    then have k: "keeps (daemon_rel R) (handleError X err (cmd_RunFn c ctx))" for err by (intro shell_intros)
    show ?thesis
    proof (cases "cmd_ValidFn c")
      case None
      then show ?thesis using k by (simp add: run_command_def checked_command_def)
    next
      case (Some f)
      then show ?thesis using table_keeps(2) [OF that(1) Some k] by (simp add: run_command_def checked_command_def)
    qed
  qed
  then have r: "keeps (daemon_rel R) (run_command X c ctx)" if "GetCommand X cmds (hd args) = Inr c" for c ctx
    using assms [OF that] by blast
  show ?thesis
  proof (cases "GetCommand X cmds (hd args)")
    case (Inl e)
    then show ?thesis unfolding run_handler_def Let_def Inl sum.case by (intro shell_intros)
  next
    case (Inr c)
    then show ?thesis unfolding run_handler_def Let_def Inr sum.case by (intro shell_intros r [OF Inr])
  qed
qed

lemma GetPass_keeps [shell_intros]: "keeps (daemon_rel R) (GetPass t input)"
  unfolding GetPass_def by (intro shell_intros)

lemma read_secret_keeps [shell_intros]:
  assumes "\<And>t. keeps (daemon_rel R) (k t)"
  shows "keeps (daemon_rel R) (read_secret X input k)"
proof (induction "length input" arbitrary: input rule: less_induct)
  case less
  have "keeps (daemon_rel R) (case input of l # l2 # rest \<Rightarrow> read_secret X rest k | _ \<Rightarrow> gopanic)"
    using less by (auto split: list.split intro: outputs_keep)
  then show ?case
    by (subst read_secret.simps) (intro shell_intros assms)
qed

lemma found_command:
  assumes "GetCommand X cmds name = Inr c" "set cmds \<subseteq> set (populateCommands X @ mgmt_commands X @ loadkey_command X)"
  shows "c \<in> snd ` set (populateCommands X @ mgmt_commands X @ loadkey_command X)" "HasPrefix (cmd_Name c) name"
proof -
  obtain n where n: "ExpandCommand X cmds name = Inr n" "(n, c) \<in> set cmds"
    using assms(1) by (auto simp: GetCommand_def split: sum.splits option.splits dest: map_of_SomeD)
  then have t: "(n, c) \<in> set (populateCommands X @ mgmt_commands X @ loadkey_command X)" using assms(2) by blast
  then show "c \<in> snd ` set (populateCommands X @ mgmt_commands X @ loadkey_command X)" by force
  have "HasPrefix n name"
    using n(1) by (auto simp: ExpandCommand_def Let_def filter_eq_Cons_iff split: list.splits if_splits)
  moreover have "cmd_Name c = n"
    using t by (auto simp: populateCommands_def mgmt_commands_def loadkey_command_def NewCommand_def)
  ultimately show "HasPrefix (cmd_Name c) name" by simp
qed

lemma main_keeps:
  assumes "p_action params = ''run'' \<Longrightarrow> args \<noteq> [] \<Longrightarrow> \<forall>c\<in>{''load'', ''rollback'', ''cancel-commit''}. \<not> HasPrefix c (hd args)"
  shows "keeps (daemon_rel R) (cli_main X args params input)"
proof -
  have act: "keeps (daemon_rel R) (if p_action params = ''complete'' then complete_handler X cmds args params
      else if p_action params = ''expand'' then expand X args
      else if p_action params = ''run'' then run_handler X cmds args params
      else if p_action params = ''setSecret'' then setSecret X args input
      else if p_action params = ''init'' then initShell X cmds else os_Exit 0)"
    if t: "set cmds \<subseteq> set (populateCommands X @ mgmt_commands X @ loadkey_command X)" for cmds
  proof -
    have sub: "snd ` set cmds \<subseteq> snd ` set (populateCommands X @ mgmt_commands X @ loadkey_command X)" using t by blast
    have "keeps (daemon_rel R) (complete_handler X cmds args params)"
    proof (rule completion_keeps)
      show "keeps (daemon_rel R) (cmd_CompFn c ctx k)" if "c \<in> snd ` set cmds" "\<And>t. keeps (daemon_rel R) (k t)" for c ctx k
        by (rule table_keeps(1) [OF subsetD [OF sub that(1)] that(2)])
      show "keeps (daemon_rel R) (f ctx k)"
        if "c \<in> snd ` set cmds" "cmd_ValidFn c = Some f" "\<And>e. keeps (daemon_rel R) (k e)" for c f ctx k
        by (rule table_keeps(2) [OF subsetD [OF sub that(1)] that(2,3)])
    qed
    moreover have "keeps (daemon_rel R) (run_handler X cmds args params)" if "p_action params = ''run''"
    proof (cases "args = []")
      case True
      then show ?thesis unfolding run_handler_def by (simp add: errors_keep(1) outputs_keep(4))
    next
      case False
      show ?thesis
      proof (rule run_keeps)
        fix c
        assume "GetCommand X cmds (hd args) = Inr c"
        note f = found_command [OF this t]
        then have "cmd_Name c \<notin> {''load'', ''rollback'', ''cancel-commit''}" using assms [OF that False] by metis
        with f(1) show "c \<in> snd ` set (populateCommands X @ mgmt_commands X @ loadkey_command X)
            \<and> cmd_Name c \<notin> {''load'', ''rollback'', ''cancel-commit''}" ..
      qed
    qed
    moreover have "keeps (daemon_rel R) (expand X args)" "keeps (daemon_rel R) (initShell X cmds)" "keeps (daemon_rel R) (setSecret X args input)"
      unfolding expand_def initShell_def setSecret_def isSecret_def by (auto intro!: shell_intros asks_keep edits_keep)
    ultimately show ?thesis using shell.ret_ok by (auto split: if_split)
  qed
  show ?thesis
    unfolding cli_main_def updateDynamicCommands_def checkConfigMgmt_def checkLoadKey_def
    by (auto intro!: shell.bind_ok features_keep act)
qed

end

subsection \<open>The shell on the real client and server\<close>

text \<open>An error as the client returns it.\<close>

fun reply_type :: "reply option \<Rightarrow> string" where
  "reply_type (Some (RBool _)) = ''bool''"
| "reply_type (Some (RInt _)) = ''float64''"
| "reply_type (Some (RStr _)) = ''string''"
| "reply_type (Some (RStrs _)) = ''[]interface {}''"
| "reply_type (Some (RInts (_ # _))) = ''float64''"
| "reply_type None = ''<nil>''"
| "reply_type (Some RNone) = ''<nil>''"
| "reply_type _ = ''map[string]interface {}''"

fun client_error :: "cerr \<Rightarrow> error" where
  "client_error (Plain t) = ExternalError t"
| "client_error (Mgmt es) = MgmtErrorList es"
| "client_error (WrongType m r t) = ExternalError (''wrong return type for '' @ m @ '' got '' @ reply_type r @ '' expecting '' @ t)"

definition via :: "'d deps \<Rightarrow> disp \<Rightarrow> (client \<Rightarrow> creq) \<Rightarrow> ('d dst \<times> client, cvalue \<times> error option) state" where
  "via E D q = State (\<lambda>(s, c).
     let (((v, e), c'), s') = run_state (invoke E D c (q c)) s in ((v, map_option client_error e), (s', c')))"

definition as_string :: "('w, cvalue \<times> error option) state \<Rightarrow> ('w, string \<times> error option) state" where
  "as_string m = do { (v, e) \<leftarrow> m; ret (case v of VString t \<Rightarrow> t | _ \<Rightarrow> [], e) }"

definition as_bool :: "('w, cvalue \<times> error option) state \<Rightarrow> ('w, bool \<times> error option) state" where
  "as_bool m = do { (v, e) \<leftarrow> m; ret (case v of VBool b \<Rightarrow> b | _ \<Rightarrow> False, e) }"

definition as_int :: "('w, cvalue \<times> error option) state \<Rightarrow> ('w, int \<times> error option) state" where
  "as_int m = do { (v, e) \<leftarrow> m; ret (case v of VInt n \<Rightarrow> n | _ \<Rightarrow> - 1, e) }"

definition as_strings :: "('w, cvalue \<times> error option) state \<Rightarrow> ('w, string list \<times> error option) state" where
  "as_strings m = do { (v, e) \<leftarrow> m; ret (case v of VStrings xs \<Rightarrow> xs | _ \<Rightarrow> [], e) }"

definition as_map :: "((string \<rightharpoonup> string) \<Rightarrow> smap) \<Rightarrow> ('w, cvalue \<times> error option) state \<Rightarrow> ('w, smap \<times> error option) state" where
  "as_map lst m = do { (v, e) \<leftarrow> m; ret (case v of VMap xs \<Rightarrow> xs | VHelp f \<Rightarrow> lst f | _ \<Rightarrow> [], e) }"

definition as_error :: "('w, cvalue \<times> error option) state \<Rightarrow> ('w, error option) state" where
  "as_error m = do { (v, e) \<leftarrow> m; ret e }"

text \<open>\<open>lst\<close> lists the entries of a map that the model keeps as a function.\<close>

definition client_api :: "((string \<rightharpoonup> string) \<Rightarrow> smap) \<Rightarrow> 'd deps \<Rightarrow> disp \<Rightarrow> ('d dst \<times> client) cfgManager" where
  "client_api lst E D = \<lparr>
     api_CancelCommit = (\<lambda>a b d e. as_string (via E D (\<lambda>c. cl_CancelCommit c a b d e))),
     api_Commit = (\<lambda>a b. as_string (via E D (\<lambda>c. cl_Commit c a b))),
     api_CommitConfirm = (\<lambda>a b d. as_string (via E D (\<lambda>c. cl_CommitConfirm c a b d))),
     api_CompareConfigRevisions = (\<lambda>a b. as_string (via E D (\<lambda>c. cl_CompareConfigRevisions c a b))),
     api_CompareSessionChanges = as_string (via E D (\<lambda>c. cl_CompareSessionChanges c)),
     api_Confirm = as_string (via E D (\<lambda>c. cl_Confirm c)),
     api_ConfirmSilent = as_string (via E D (\<lambda>c. cl_ConfirmSilent c)),
     api_ConfirmPersistId = (\<lambda>a. as_string (via E D (\<lambda>c. cl_ConfirmPersistId c a))),
     api_Delete = (\<lambda>a. as_error (via E D (\<lambda>c. cl_Delete c a))),
     api_Discard = as_error (via E D (\<lambda>c. cl_Discard c)),
     api_Set = (\<lambda>a. as_string (via E D (\<lambda>c. cl_Set c a))),
     api_TmplGet = (\<lambda>a. as_map lst (via E D (\<lambda>c. cl_TmplGet c a))),
     api_LoadFrom = (\<lambda>a b. as_error (via E D (\<lambda>c. cl_LoadFrom c a b))),
     api_LoadKeys = (\<lambda>a b d. as_string (via E D (\<lambda>c. cl_LoadKeys c a b d))),
     api_MergeReportWarnings = (\<lambda>a. as_bool (via E D (\<lambda>c. cl_MergeReportWarnings c a))),
     api_Rollback = (\<lambda>a b d. as_string (via E D (\<lambda>c. cl_Rollback c a b d))),
     api_Save = (\<lambda>a. as_error (via E D (\<lambda>c. cl_Save c a))),
     api_SaveTo = (\<lambda>a b. as_error (via E D (\<lambda>c. cl_SaveTo c a b))),
     api_ShowConfigWithContextDiffs = (\<lambda>a b. as_string (via E D (\<lambda>c. cl_ShowConfigWithContextDiffs c a b))),
     api_Validate = as_string (via E D (\<lambda>c. cl_Validate c)),
     api_GetCompletions = (\<lambda>a b. as_map lst (via E D (\<lambda>c. cl_GetCompletions c a b))),
     api_Exists = (\<lambda>a b. as_bool (via E D (\<lambda>c. cl_Exists c a b))),
     api_Expand = (\<lambda>a. as_string (via E D (\<lambda>c. cl_Expand c a))),
     api_ExpandWithPrefix = (\<lambda>a b d. as_string (via E D (\<lambda>c. cl_ExpandWithPrefix c a b d))),
     api_Get = (\<lambda>a b. as_strings (via E D (\<lambda>c. cl_Get c a b))),
     api_GetCommitLog = as_map lst (via E D (\<lambda>c. cl_GetCommitLog c)),
     api_GetConfigSystemFeatures = as_strings (via E D (\<lambda>c. cl_GetConfigSystemFeatures c)),
     api_SessionChanged = as_bool (via E D (\<lambda>c. cl_SessionChanged c)),
     api_SessionMarkSaved = as_error (via E D (\<lambda>c. cl_SessionMarkSaved c)),
     api_NodeGetType = (\<lambda>a. as_int (via E D (\<lambda>c. cl_NodeGetType c a))),
     api_TmplValidatePath = (\<lambda>a. as_bool (via E D (\<lambda>c. cl_TmplValidatePath c a)))\<rparr>"

text \<open>The shell of a user: the packages it uses (\<open>B\<close>), with the client as its daemon; what bash does is not done to the daemon.\<close>

definition shell_cli ::
  "((string \<rightharpoonup> string) \<Rightarrow> smap) \<Rightarrow> (string \<Rightarrow> smap \<Rightarrow> string \<times> error option) \<Rightarrow> unit cli \<Rightarrow> 'd deps \<Rightarrow> disp \<Rightarrow> ('d dst \<times> client) cli" where
  "shell_cli lst bash B E D = \<lparr>api = client_api lst E D, x_mg = x_mg B, x_CustomError = x_CustomError B, x_Pathstr = x_Pathstr B,
     x_natsort = x_natsort B, x_range = x_range B, x_bash = (\<lambda>t env. ret (bash t env)), x_syslog = x_syslog B\<rparr>"

definition shell_guard :: "'d deps \<Rightarrow> disp \<Rightarrow> pid \<Rightarrow> string \<Rightarrow> 'd dst \<times> client \<Rightarrow> 'd dst \<times> client \<Rightarrow> bool" where
  "shell_guard E D K sd w w' \<longleftrightarrow>
    (sd \<noteq> ''EFFECTIVE'' \<and> Pid (d_ctx D) \<noteq> K \<and> K \<noteq> 0 \<and> commit_via_callbacks (x_L E) \<longrightarrow> dguard K sd (fst w) (fst w'))"

interpretation sguard: frame_rel "shell_guard E D K sd" for E :: "'d deps" and D K sd
  by unfold_locales (auto simp: shell_guard_def dguard.refl intro: dguard.trans)

lemma keeps_invoke:
  assumes "rq_method q \<notin> m_name ` set (load_methods E)" "sd \<noteq> ''EFFECTIVE''" "Pid (d_ctx D) \<noteq> K" "K \<noteq> 0" "commit_via_callbacks (x_L E)"
  shows "keeps (dguard K sd) (invoke E D c q)"
  unfolding invoke_def client_call_def Let_def by (auto intro!: dguard.steps_ok dguard_Call [OF assms])

lemma keeps_via:
  assumes "\<And>c. rq_method (q c) \<notin> {''Load'', ''LoadReportWarnings'', ''LoadFrom'', ''CopyConfig'', ''ValidateConfig'', ''Rollback'', ''CancelCommit''}"
  shows "keeps (shell_guard E D K sd) (via E D q)"
proof (rule keepsI)
  fix w :: "'a dst \<times> client"
  have n: "m_name ` set (load_methods E) =
      {''Load'', ''LoadReportWarnings'', ''LoadFrom'', ''CopyConfig'', ''ValidateConfig'', ''Rollback'', ''CancelCommit''}"
    by (auto simp: load_methods_def Let_def meth_def)
  have f: "fst (snd (run_state (via E D q) w)) = snd (run_state (invoke E D (snd w) (q (snd w))) (fst w))"
    by (cases w) (simp add: via_def split: prod.split)
  show "shell_guard E D K sd w (snd (run_state (via E D q) w))"
    unfolding shell_guard_def f using keeps_invoke [of "q (snd w)" E sd D K "snd w"] assms [of "snd w"] n
    by (auto dest: keepsD)
qed

lemma keeps_as:
  "keeps (shell_guard E D K sd) m \<Longrightarrow> keeps (shell_guard E D K sd) (as_string m)"
  "keeps (shell_guard E D K sd) m \<Longrightarrow> keeps (shell_guard E D K sd) (as_bool m)"
  "keeps (shell_guard E D K sd) m \<Longrightarrow> keeps (shell_guard E D K sd) (as_int m)"
  "keeps (shell_guard E D K sd) m \<Longrightarrow> keeps (shell_guard E D K sd) (as_strings m)"
  "keeps (shell_guard E D K sd) m \<Longrightarrow> keeps (shell_guard E D K sd) (as_map lst m)"
  "keeps (shell_guard E D K sd) m \<Longrightarrow> keeps (shell_guard E D K sd) (as_error m)"
  unfolding as_string_def as_bool_def as_int_def as_strings_def as_map_def as_error_def by (auto intro!: sguard.steps_ok)

interpretation user_shell: cli_edits "shell_cli lst bash B E D" "shell_guard E D K sd" for lst bash B and E :: "'d deps" and D K sd
  by unfold_locales
    (auto simp: shell_cli_def client_api_def client_defs creq_def sguard.refl intro: sguard.trans intro!: keeps_as keeps_via sguard.ret_ok)

text \<open>C8. The shell respects locks. A user of the shell types any command line (or asks for completions, or
  enters secrets); the commands go through the client library to the server. If the
  session \<open>sd\<close> is locked by another process, then afterwards it is exactly as before, whatever the command does, unless
  its first word is short for \<open>load\<close>, \<open>rollback\<close> or \<open>cancel-commit\<close>, which load a configuration without regard for the lock.\<close>

theorem shell_respects_locks:
  assumes "p_action params = ''run'' \<and> args \<noteq> [] \<longrightarrow> (\<forall>c\<in>{''load'', ''rollback'', ''cancel-commit''}. \<not> HasPrefix c (hd args))"
    and "c_back st = ((d, es), cl)" "Pid (d_ctx D) \<noteq> K" "K \<noteq> 0" "commit_via_callbacks (x_L E)" "\<forall>e\<in>set es. serves (x_L E) K e"
    and "sd \<noteq> ''EFFECTIVE''" "mg_sessions (dw_mgr d) sd = Some x" "lpid x = K" "\<not> terminated x"
  shows "mg_sessions (dw_mgr (fst (fst (c_back (snd (run_state (cli_main (shell_cli lst bash B E D) args params input) st)))))) sd = Some x"
proof -
  have "keeps (daemon_rel (shell_guard E D K sd)) (cli_main (shell_cli lst bash B E D) args params input)"
    by (rule user_shell.main_keeps) (use assms(1) in blast)
  then have "shell_guard E D K sd ((d, es), cl) (c_back (snd (run_state (cli_main (shell_cli lst bash B E D) args params input) st)))"
    using assms(2) by (auto simp: daemon_rel_def dest: keepsD [where s = st])
  then show ?thesis
    using assms(3-5,7-10) serves_effs_ok [OF assms(6,4,5)] by (auto simp: shell_guard_def dguard_def)
qed

definition demo_shell_state :: "string \<Rightarrow> pid \<Rightarrow> (dtree dst \<times> client) cst" where
  "demo_shell_state sname k = \<lparr>c_back = ((locked_dworld k, []), \<lparr>cl_sid = sname, cl_id = 0\<rparr>), c_stdout = [], c_stderr = [], c_syslog = [],
     c_env = (\<lambda>_. [])\<rparr>"

definition demo_packages :: "unit cli" where
  "demo_packages = \<lparr>api = undefined, x_mg = cli_mgmt, x_CustomError = (\<lambda>f es. concat (map f es)), x_Pathstr = Join ''/'',
     x_natsort = id, x_range = rev, x_bash = (\<lambda>s e. ret ([], None)), x_syslog = True\<rparr>"

theorem shell_respects_locks_witness:
  "mg_sessions (dw_mgr (fst (fst (c_back (snd (run_state
     (cli_main (shell_cli (\<lambda>_. []) (\<lambda>t e. ([], None)) demo_packages demo_deps (demo_disp True)) [''discard''] demo_params [])
     (demo_shell_state ''s1'' 7))))))) ''s1'' = Some (sample_session ''s1'' 7 [[''a'', ''1'']])"
proof -
  have c: "commit_via_callbacks (x_L demo_deps)" by (simp add: demo_deps_def sample_commit_via)
  have m: "mg_sessions (dw_mgr (locked_dworld 7)) ''s1'' = Some (sample_session ''s1'' 7 [[''a'', ''1'']])" by (simp add: locked_dworld_def)
  show ?thesis
    by (rule shell_respects_locks [OF _ _ _ _ c _ _ m, of demo_params "[''discard'']" "demo_shell_state ''s1'' 7" "[]" "\<lparr>cl_sid = ''s1'', cl_id = 0\<rparr>"])
      (simp_all add: HasPrefix_def demo_shell_state_def demo_disp_def demo_ctx_def caller_def sample_session_def)
qed

end
