(* ===== verification/Go_Net.thy ===== *)
theory Go_Net
  imports Go_Fmt "HOL-Library.Word"
begin

text \<open>
  The part of Go's package \<open>net\<close> that the normalisation tool calls: parsing and printing of
  addresses, hardware addresses and masks, as the library has them before release 1.17 (a decimal
  field may have leading zeros, which the tool's own tests expect). An address is its list of bytes.
  The parsers print back what they read: \<open>parseIPv4_dotted\<close>, \<open>ParseMAC_String\<close>.
\<close>

unbundle bit_operations_syntax

type_synonym byte = "8 word"

subsection \<open>Numbers at the front of a text\<close>

text \<open>\<open>dtoi\<close> and \<open>xtoi\<close> are this loop for bases 10 and 16: number and characters consumed.\<close>

fun scan_num :: "nat \<Rightarrow> string \<Rightarrow> nat \<Rightarrow> nat \<Rightarrow> (nat \<times> nat) option" where
  "scan_num b [] n i = Some (n, i)"
| "scan_num b (c # cs) n i =
    (case digit_val c of
       None \<Rightarrow> Some (n, i)
     | Some d \<Rightarrow>
         if d \<ge> b then Some (n, i)
         else if n * b + d \<ge> 0xFFFFFF then None
         else scan_num b cs (n * b + d) (Suc i))"

definition ntoi :: "nat \<Rightarrow> string \<Rightarrow> (nat \<times> nat) option" where
  "ntoi b s = (case scan_num b s 0 0 of None \<Rightarrow> None | Some (n, i) \<Rightarrow> if i = 0 then None else Some (n, i))"

definition ends_number :: "nat \<Rightarrow> string \<Rightarrow> bool" where
  "ends_number b s \<longleftrightarrow> (case s of [] \<Rightarrow> True | c # _ \<Rightarrow> (case digit_val c of None \<Rightarrow> True | Some d \<Rightarrow> b \<le> d))"

lemma scan_num_append:
  "parse_loop b m xs n = Inr k \<Longrightarrow> m < 0xFFFFFF \<Longrightarrow> scan_num b (xs @ ys) n i = scan_num b ys k (i + length xs)"
  by (induction xs arbitrary: n i) (auto split: option.splits if_splits)

lemma scan_num_ends: "ends_number b s \<Longrightarrow> scan_num b s n i = Some (n, i)"
  by (auto simp: ends_number_def split: list.splits option.splits)

lemma ntoi_format:
  assumes "2 \<le> b" "b \<le> 36" "n < 0xFFFFFF" "ends_number b rest"
  shows "ntoi b (format_uint b n @ rest) = Some (n, length (format_uint b n))"
proof -
  have "parse_loop b 0xFFFFFE (format_uint b n) 0 = Inr n"
    using assms(1-3) parse_format_uint [of b n "0xFFFFFE"] by simp
  then show ?thesis
    using assms(4) by (simp add: ntoi_def scan_num_append scan_num_ends)
qed

lemma ends_number_char: "digit_val c = None \<Longrightarrow> ends_number b (c # s)"
  by (simp add: ends_number_def)

lemma ends_number_Nil [simp]: "ends_number b []"
  by (simp add: ends_number_def)

lemma not_digits [simp]:
  "digit_val CHR ''.'' = None" "digit_val CHR '':'' = None" "digit_val CHR ''/'' = None" "digit_val CHR ''-'' = None"
  by (simp_all add: digit_val_def)

lemma digit_chars_ne:
  "2 \<le> b \<Longrightarrow> b \<le> 36 \<Longrightarrow> digit_val c = None \<Longrightarrow> c \<notin> set (format_uint b n)"
  using format_uint_digits digit_val_char by fastforce

subsection \<open>Addresses\<close>

definition IPv4len :: nat where "IPv4len = 4"
definition IPv6len :: nat where "IPv6len = 16"

definition v4InV6Prefix :: "byte list" where
  "v4InV6Prefix = replicate 10 0 @ [0xFF, 0xFF]"

fun parse4 :: "nat \<Rightarrow> string \<Rightarrow> byte list \<Rightarrow> byte list option" where
  "parse4 0 s p = (if s = [] then Some p else None)"
| "parse4 (Suc k) s p =
    (if s = [] then None
     else if p \<noteq> [] \<and> hd s \<noteq> CHR ''.'' then None
     else
       let s' = (if p \<noteq> [] then tl s else s) in
       case ntoi 10 s' of
         None \<Rightarrow> None
       | Some (n, c) \<Rightarrow> if n > 0xFF then None else parse4 k (drop c s') (p @ [of_nat n]))"

text \<open>An IPv4 address is kept in its sixteen-byte form.\<close>

definition parseIPv4 :: "string \<Rightarrow> byte list option" where
  "parseIPv4 s = map_option ((@) v4InV6Prefix) (parse4 IPv4len s [])"

text \<open>
  The loop of \<open>parseIPv6\<close>: \<open>k\<close> is the number of 16-bit groups still free, \<open>ip\<close> the bytes stored so
  far, \<open>ell\<close> the position of the ellipsis.
\<close>

fun parse6 :: "nat \<Rightarrow> string \<Rightarrow> byte list \<Rightarrow> nat option \<Rightarrow> (string \<times> byte list \<times> nat option) option" where
  "parse6 0 s ip ell = Some (s, ip, ell)"
| "parse6 (Suc k) s ip ell =
    (case ntoi 16 s of
       None \<Rightarrow> None
     | Some (n, c) \<Rightarrow>
         if n > 0xFFFF then None
         else if c < length s \<and> s ! c = CHR ''.'' then
           (if ell = None \<and> length ip \<noteq> IPv6len - IPv4len then None
            else if length ip + IPv4len > IPv6len then None
            else case parseIPv4 s of None \<Rightarrow> None | Some ip4 \<Rightarrow> Some ([], ip @ drop 12 ip4, ell))
         else
           let ip' = ip @ [of_nat (n div 256), of_nat n]; s1 = drop c s in
           if s1 = [] then Some ([], ip', ell)
           else if hd s1 \<noteq> CHR '':'' \<or> length s1 = 1 then None
           else
             let s2 = tl s1 in
             if hd s2 = CHR '':'' then
               (if ell \<noteq> None then None
                else if tl s2 = [] then Some ([], ip', Some (length ip'))
                else parse6 k (tl s2) ip' (Some (length ip')))
             else parse6 k s2 ip' ell)"

definition expand6 :: "string \<times> byte list \<times> nat option \<Rightarrow> byte list option" where
  "expand6 r = (case r of (s, ip, ell) \<Rightarrow>
     if s \<noteq> [] then None
     else if length ip < IPv6len then
       (case ell of None \<Rightarrow> None
        | Some e \<Rightarrow> Some (take e ip @ replicate (IPv6len - length ip) 0 @ drop e ip))
     else if ell \<noteq> None then None else Some ip)"

definition parseIPv6 :: "string \<Rightarrow> byte list option" where
  "parseIPv6 s =
    (if HasPrefix s ''::'' then
       (if drop 2 s = [] then Some (replicate IPv6len 0)
        else Option.bind (parse6 8 (drop 2 s) [] (Some 0)) expand6)
     else Option.bind (parse6 8 s [] None) expand6)"

text \<open>The first dot or colon decides.\<close>

definition ParseIP :: "string \<Rightarrow> byte list option" where
  "ParseIP s = (case dropWhile (\<lambda>c. c \<noteq> CHR ''.'' \<and> c \<noteq> CHR '':'') s of
      [] \<Rightarrow> None
    | c # _ \<Rightarrow> if c = CHR ''.'' then parseIPv4 s else parseIPv6 s)"

definition To4 :: "byte list \<Rightarrow> byte list option" where
  "To4 ip = (if length ip = IPv4len then Some ip
     else if length ip = IPv6len \<and> take 12 ip = v4InV6Prefix then Some (drop 12 ip) else None)"

definition dotted :: "byte list \<Rightarrow> string" where
  "dotted p = Join ''.'' (map (\<lambda>b. format_uint 10 (unat b)) p)"

subsection \<open>Masks\<close>

fun mask_bytes :: "nat \<Rightarrow> nat \<Rightarrow> byte list" where
  "mask_bytes 0 n = []"
| "mask_bytes (Suc l) n = (if n \<ge> 8 then 0xFF # mask_bytes l (n - 8) else NOT (drop_bit n 0xFF) # mask_bytes l 0)"

definition CIDRMask :: "nat \<Rightarrow> nat \<Rightarrow> byte list option" where
  "CIDRMask ones bits =
    (if bits \<noteq> 8 * IPv4len \<and> bits \<noteq> 8 * IPv6len then None
     else if ones > bits then None
     else Some (mask_bytes (bits div 8) ones))"

text \<open>\<open>IP.Mask\<close>; a nil mask or a mask of another length gives nil, the empty list here.\<close>

definition Mask :: "byte list \<Rightarrow> byte list option \<Rightarrow> byte list" where
  "Mask ip msk =
    (let m = (case msk of None \<Rightarrow> [] | Some m \<Rightarrow> m);
         m' = (if length m = IPv6len \<and> length ip = IPv4len \<and> take 12 m = replicate 12 0xFF then drop 12 m else m);
         ip' = (if length m' = IPv4len \<and> length ip = IPv6len \<and> take 12 ip = v4InV6Prefix then drop 12 ip else ip)
     in if length ip' \<noteq> length m' then [] else map2 (AND) ip' m')"

subsection \<open>Hardware addresses\<close>

definition xtoi2 :: "string \<Rightarrow> char \<Rightarrow> byte option" where
  "xtoi2 s e =
    (if length s > 2 \<and> s ! 2 \<noteq> e then None
     else case ntoi 16 (take 2 s) of None \<Rightarrow> None | Some (n, ei) \<Rightarrow> if ei = 2 then Some (of_nat n) else None)"

fun mac_pairs :: "nat \<Rightarrow> string \<Rightarrow> char \<Rightarrow> byte list option" where
  "mac_pairs 0 s e = Some []"
| "mac_pairs (Suc n) s e =
    (case xtoi2 s e of None \<Rightarrow> None | Some b \<Rightarrow> map_option ((#) b) (mac_pairs n (drop 3 s) e))"

fun mac_quads :: "nat \<Rightarrow> string \<Rightarrow> char \<Rightarrow> byte list option" where
  "mac_quads 0 s e = Some []"
| "mac_quads (Suc n) s e =
    (case (xtoi2 (take 2 s) (CHR 0x00), xtoi2 (drop 2 s) e) of
       (Some a, Some b) \<Rightarrow> map_option (\<lambda>r. a # b # r) (mac_quads n (drop 5 s) e)
     | _ \<Rightarrow> None)"

definition ParseMAC :: "string \<Rightarrow> byte list option" where
  "ParseMAC s =
    (if length s < 14 then None
     else if s ! 2 = CHR '':'' \<or> s ! 2 = CHR ''-'' then
       (let n = (length s + 1) div 3 in
        if (length s + 1) mod 3 \<noteq> 0 \<or> n \<notin> {6, 8, 20} then None else mac_pairs n s (s ! 2))
     else if s ! 4 = CHR ''.'' then
       (let n = 2 * (length s + 1) div 5 in
        if (length s + 1) mod 5 \<noteq> 0 \<or> n \<notin> {6, 8, 20} then None else mac_quads (n div 2) s (s ! 4))
     else None)"

definition hex2 :: "byte \<Rightarrow> string" where
  "hex2 b = [digit_char (unat b div 16), digit_char (unat b mod 16)]"

definition HardwareAddr_String :: "byte list \<Rightarrow> string" where
  "HardwareAddr_String a = Join '':'' (map hex2 a)"

subsection \<open>Printed addresses are read back\<close>

lemma Join_Cons: "Join [sep] (w # ws) = w @ concat (map ((#) sep) ws)"
  by (induction ws arbitrary: w) simp_all

lemma unat_byte_less: "unat (b :: byte) < 256"
  using unsigned_less [of b, where ?'a = nat] by simp

lemma byte_of_unat [simp]: "of_nat (unat (b :: byte)) = b"
  by simp

lemma ends_number_concat:
  "digit_val sep = None \<Longrightarrow> ends_number n (concat (map (\<lambda>x. sep # f x) xs))"
  by (cases xs) (simp_all add: ends_number_char)

lemma parse4_tail:
  "p \<noteq> [] \<Longrightarrow> parse4 (length bs) (concat (map (\<lambda>b. CHR ''.'' # format_uint 10 (unat b)) bs)) p = Some (p @ bs)"
proof (induction bs arbitrary: p)
  case (Cons b bs)
  let ?rest = "concat (map (\<lambda>b. CHR ''.'' # format_uint 10 (unat b)) bs)"
  have b: "unat b < 256" by (rule unat_byte_less)
  have "ntoi 10 (format_uint 10 (unat b) @ ?rest) = Some (unat b, length (format_uint 10 (unat b)))"
    using less_trans [OF b] by (intro ntoi_format) (simp_all add: ends_number_concat)
  then show ?case using Cons b by simp
qed simp

lemma dotted_Cons: "dotted (b # bs) = format_uint 10 (unat b) @ concat (map (\<lambda>b. CHR ''.'' # format_uint 10 (unat b)) bs)"
  by (simp add: dotted_def Join_Cons comp_def del: Join.simps)

lemma parse4_dotted: "bs \<noteq> [] \<Longrightarrow> parse4 (length bs) (dotted bs) [] = Some bs"
proof (cases bs)
  case (Cons b rest)
  have b: "unat b < 256" by (rule unat_byte_less)
  have "ntoi 10 (dotted bs) = Some (unat b, length (format_uint 10 (unat b)))"
    unfolding Cons dotted_Cons using less_trans [OF b] by (intro ntoi_format) (simp_all add: ends_number_concat)
  then show ?thesis using b parse4_tail [of "[b]" rest] by (simp add: Cons dotted_Cons)
qed simp

lemma parseIPv4_dotted: "length p = IPv4len \<Longrightarrow> parseIPv4 (dotted p) = Some (v4InV6Prefix @ p)"
  using parse4_dotted [of p] by (cases p) (simp_all add: parseIPv4_def IPv4len_def)

lemma parse4_length: "parse4 k s p = Some r \<Longrightarrow> length r = length p + k"
  by (induction k s p rule: parse4.induct) (auto simp: Let_def split: if_splits option.splits)

lemma parseIPv4_form: "parseIPv4 s = Some ip \<Longrightarrow> \<exists>p. length p = IPv4len \<and> ip = v4InV6Prefix @ p"
  by (auto simp: parseIPv4_def dest: parse4_length)

lemma dotted_chars: "c \<in> set (dotted p) \<Longrightarrow> c = CHR ''.'' \<or> digit_val c \<noteq> None"
proof (cases p)
  case (Cons b bs)
  assume "c \<in> set (dotted p)"
  then show ?thesis
    using digit_chars_ne [of 10 c] by (auto simp: Cons dotted_Cons split: if_splits)
qed (simp add: dotted_def)

lemma ParseIP_dotted: "length p = IPv4len \<Longrightarrow> ParseIP (dotted p) = Some (v4InV6Prefix @ p)"
proof -
  assume p: "length p = IPv4len"
  then obtain a b bs where "p = a # b # bs" by (auto simp: IPv4len_def numeral_eq_Suc length_Suc_conv)
  then have "CHR ''.'' \<in> set (dotted p)" by (simp add: dotted_Cons)
  then obtain c r where d: "dropWhile (\<lambda>c. c \<noteq> CHR ''.'' \<and> c \<noteq> CHR '':'') (dotted p) = c # r"
    by (cases "dropWhile (\<lambda>c. c \<noteq> CHR ''.'' \<and> c \<noteq> CHR '':'') (dotted p)") (auto simp: dropWhile_eq_Nil_conv)
  then have "c = CHR ''.'' \<or> c = CHR '':''" "c \<in> set (dotted p)"
    using hd_dropWhile [of "\<lambda>c. c \<noteq> CHR ''.'' \<and> c \<noteq> CHR '':''" "dotted p"] set_dropWhileD [of c "\<lambda>c. c \<noteq> CHR ''.'' \<and> c \<noteq> CHR '':''" "dotted p"] by auto
  then have "c = CHR ''.''" using dotted_chars by fastforce
  then show ?thesis using d p by (simp add: ParseIP_def parseIPv4_dotted)
qed

subsection \<open>Hardware addresses are read back\<close>

lemma ntoi_hex2: "ntoi 16 (hex2 b) = Some (unat b, 2)"
proof -
  have "unat b < 256" by (rule unat_byte_less)
  moreover have "unat b mod 16 < 16" by (rule mod_less_divisor) simp
  ultimately have "unat b div 16 < 16" "unat b mod 16 < 16" "unat b < 256" by (simp_all add: div_less_iff_less_mult)
  then show ?thesis by (simp add: ntoi_def hex2_def)
qed

lemma xtoi2_hex2: "xtoi2 (hex2 b @ (if r = [] then [] else e # r)) e = Some b"
proof -
  have t: "take 2 (hex2 b @ x) = hex2 b" for x by (simp add: hex2_def)
  show ?thesis by (simp only: xtoi2_def t ntoi_hex2) (simp add: hex2_def)
qed

lemma mac_pairs_String: "mac_pairs (length a) (HardwareAddr_String a) CHR '':'' = Some a"
proof (induction a)
  case (Cons b bs)
  have s: "HardwareAddr_String (b # bs) = hex2 b @ (if HardwareAddr_String bs = [] then [] else CHR '':'' # HardwareAddr_String bs)"
    by (cases bs) (simp_all add: HardwareAddr_String_def hex2_def Join_Cons del: Join.simps(2-))
  have "drop 3 (HardwareAddr_String (b # bs)) = HardwareAddr_String bs"
    by (simp add: s hex2_def)
  then show ?case using Cons xtoi2_hex2 [of b "HardwareAddr_String bs" "CHR '':''"] by (simp add: s)
qed simp

lemma length_HardwareAddr_String: "a \<noteq> [] \<Longrightarrow> length (HardwareAddr_String a) + 1 = 3 * length a"
proof (cases a)
  case (Cons b bs)
  have "length (concat (map ((#) CHR '':'') (map hex2 bs))) = 3 * length bs"
    by (induction bs) (simp_all add: hex2_def)
  then show ?thesis by (simp add: HardwareAddr_String_def Join_Cons Cons hex2_def del: Join.simps)
qed simp

lemma ParseMAC_String:
  assumes "length a \<in> {6, 8, 20}"
  shows "ParseMAC (HardwareAddr_String a) = Some a"
proof -
  obtain b c bs where a: "a = b # c # bs" using assms by (cases a; cases "tl a") auto
  have l: "length (HardwareAddr_String a) + 1 = 3 * length a" using a by (intro length_HardwareAddr_String) simp
  have "HardwareAddr_String a ! 2 = CHR '':''" by (simp add: a HardwareAddr_String_def Join_Cons hex2_def del: Join.simps)
  moreover have "\<not> length (HardwareAddr_String a) < 14" using l assms by auto
  moreover have "(length (HardwareAddr_String a) + 1) mod 3 = 0" "(length (HardwareAddr_String a) + 1) div 3 = length a"
    unfolding l by simp_all
  ultimately show ?thesis using assms mac_pairs_String [of a] by (auto simp: ParseMAC_def Let_def)
qed

lemma mac_pairs_length: "mac_pairs n s e = Some a \<Longrightarrow> length a = n"
  by (induction n s e arbitrary: a rule: mac_pairs.induct) (auto split: option.splits)

lemma mac_quads_length: "mac_quads n s e = Some a \<Longrightarrow> length a = 2 * n"
  by (induction n s e arbitrary: a rule: mac_quads.induct) (auto split: option.splits)

lemma ParseMAC_length: "ParseMAC s = Some a \<Longrightarrow> length a \<in> {6, 8, 20}"
  by (auto simp: ParseMAC_def Let_def dest: mac_pairs_length mac_quads_length split: if_splits)

subsection \<open>Masks\<close>

lemma length_mask_bytes [simp]: "length (mask_bytes l n) = l"
  by (induction l n rule: mask_bytes.induct) simp_all

lemma map2_and_idem: "length a = length m \<Longrightarrow> map2 (AND) (map2 (AND) a m) m = map2 (AND) a (m :: byte list)"
  by (induction a m rule: list_induct2) (simp_all add: and.assoc)

end
