(* ===== verification/Normalize_Props.thy ===== *)
theory Normalize_Props
  imports Normalize
begin

text \<open>
  Correctness of the value normalisation tool: the printed form of an IPv6 address is read back as
  the same address, with the double colon in place of the longest run of zeros; normal forms decide
  equality; normalising is idempotent for every type of the table but \<open>legacy\<close>.
\<close>

subsection \<open>The run of zeros\<close>

definition zeros :: "byte list \<Rightarrow> nat \<Rightarrow> nat \<Rightarrow> bool" where
  "zeros p a b \<longleftrightarrow> (\<forall>k. a \<le> k \<and> k < b \<longrightarrow> p ! k = 0)"

text \<open>A run of zero groups: even positions, at least one group, within the address.\<close>

definition zero_run :: "byte list \<Rightarrow> nat \<Rightarrow> nat \<Rightarrow> bool" where
  "zero_run p a b \<longleftrightarrow> even a \<and> even b \<and> a < b \<and> b \<le> IPv6len \<and> zeros p a b"

lemma zero_end_props:
  "even i \<Longrightarrow> i \<le> IPv6len \<Longrightarrow> even (zero_end p i) \<and> zero_end p i \<le> IPv6len \<and> zeros p i (zero_end p i)
    \<and> (zero_end p i < IPv6len \<longrightarrow> p ! zero_end p i \<noteq> 0 \<or> p ! (zero_end p i + 1) \<noteq> 0)"
proof (induction p i rule: zero_end.induct)
  case (1 p j)
  show ?case
  proof (cases "j < IPv6len \<and> p ! j = 0 \<and> p ! (j + 1) = 0")
    case True
    then have j: "j + 2 \<le> IPv6len" using 1(2) by (auto simp: IPv6len_def elim!: evenE)
    have e: "zero_end p j = zero_end p (j + 2)" using True by (subst zero_end.simps) simp
    have "k = j \<or> k = j + 1 \<or> j + 2 \<le> k" if "j \<le> k" for k using that by linarith
    then show ?thesis using 1(1) [OF True] 1(2) j True unfolding e zeros_def by fastforce
  next
    case False
    then have "zero_end p j = j" by (subst zero_end.simps) argo
    then show ?thesis using False 1(2,3) by (auto simp: zeros_def)
  qed
qed

lemma zero_run_within:
  assumes "zero_run p a b" "even i" "i \<le> a" "a \<le> zero_end p i"
  shows "b \<le> zero_end p i"
proof (rule ccontr)
  let ?j = "zero_end p i"
  assume "\<not> b \<le> ?j"
  moreover have "i \<le> IPv6len" using assms by (simp add: zero_run_def)
  ultimately have "even ?j" "?j < b" "?j < IPv6len" "p ! ?j \<noteq> 0 \<or> p ! (?j + 1) \<noteq> 0"
    using zero_end_props [OF assms(2), of p] assms(1) by (auto simp: zero_run_def)
  moreover have "?j + 1 < b" using \<open>even ?j\<close> \<open>?j < b\<close> assms(1) by (auto simp: zero_run_def elim!: evenE)
  ultimately show False using assms(1,4) by (auto simp: zero_run_def zeros_def)
qed

text \<open>The best run found among those that start before \<open>i\<close>.\<close>

definition best_run :: "byte list \<Rightarrow> nat \<Rightarrow> int \<Rightarrow> int \<Rightarrow> bool" where
  "best_run p i e0 e1 \<longleftrightarrow>
    (e0 = -1 \<and> e1 = -1 \<or> (\<exists>a b. e0 = int a \<and> e1 = int b \<and> zero_run p a b))
    \<and> (\<forall>a b. zero_run p a b \<and> a < i \<longrightarrow> int b - int a \<le> e1 - e0)"

lemma best_run_step:
  assumes "best_run p i e0 e1" "even i" "i < IPv6len"
  shows "zero_end p i > i \<and> int (zero_end p i) - int i > e1 - e0 \<Longrightarrow> best_run p (zero_end p i + 2) (int i) (int (zero_end p i))"
    and "\<not> (zero_end p i > i \<and> int (zero_end p i) - int i > e1 - e0) \<Longrightarrow> best_run p (i + 2) e0 e1"
proof -
  let ?j = "zero_end p i"
  have j: "even ?j" "?j \<le> IPv6len" "zeros p i ?j" "i \<le> ?j"
    using zero_end_props [OF assms(2), of p] assms(3) zero_end_ge by auto
  have old: "int b - int a \<le> e1 - e0" if "zero_run p a b" "a < i" for a b
    using assms(1) that by (auto simp: best_run_def)
  have new: "b \<le> ?j \<and> a < ?j" if "zero_run p a b" "i \<le> a" "a < ?j + 2" for a b
  proof -
    have "a \<le> ?j" using that j(1) by (auto simp: zero_run_def elim!: evenE)
    then have "b \<le> ?j" using zero_run_within that assms(2) by blast
    then show ?thesis using that(1) by (auto simp: zero_run_def)
  qed
  show "best_run p (?j + 2) (int i) (int ?j)" if l: "?j > i \<and> int ?j - int i > e1 - e0"
  proof -
    have "zero_run p i ?j" using l j assms(2) by (simp add: zero_run_def)
    moreover have "int b - int a \<le> int ?j - int i" if "zero_run p a b" "a < ?j + 2" for a b
      using old [OF that(1)] new [OF that(1) _ that(2)] l by (cases "a < i") auto
    ultimately show ?thesis by (auto simp: best_run_def)
  qed
  show "best_run p (i + 2) e0 e1" if l: "\<not> (?j > i \<and> int ?j - int i > e1 - e0)"
  proof -
    have "int b - int a \<le> e1 - e0" if r: "zero_run p a b" "a < i + 2" for a b
    proof (cases "a < i")
      case False
      then have "a = i" using r assms(2) by (auto simp: zero_run_def elim!: evenE)
      then show ?thesis using new [OF r(1)] r(1) l j(4) by (auto simp: zero_run_def)
    qed (use old [OF r(1)] in simp)
    then show ?thesis using assms(1) by (auto simp: best_run_def)
  qed
qed

lemma longest_zeros_best:
  "best_run p i e0 e1 \<Longrightarrow> even i \<Longrightarrow> longest_zeros p i e0 e1 = (f0, f1) \<Longrightarrow> best_run p IPv6len f0 f1"
proof (induction p i e0 e1 rule: longest_zeros.induct)
  case (1 p i e0 e1)
  show ?case
  proof (cases "i < IPv6len")
    case True
    have e: "even (zero_end p i)" using zero_end_props [OF 1(4), of p] True by simp
    show ?thesis
      using 1(1,2) [OF True refl] best_run_step [OF 1(3,4) True] 1(4,5) e True
      by (subst (asm) longest_zeros.simps) (auto simp: Let_def split: if_splits)
  next
    case False
    then have "f0 = e0" "f1 = e1" using 1(5) by (subst (asm) longest_zeros.simps, simp)+
    moreover have "a < i" if "zero_run p a b" for a b using that False by (simp add: zero_run_def)
    ultimately show ?thesis using 1(3) unfolding best_run_def by blast
  qed
qed

lemma longest_zeros_run:
  "longest_zeros p 0 (-1) (-1) = (e0, e1) \<Longrightarrow> best_run p IPv6len e0 e1"
  by (rule longest_zeros_best [of p 0 "-1" "-1"]) (auto simp: best_run_def)

subsection \<open>The printed text\<close>

abbreviation xs16 :: "nat \<Rightarrow> string" where
  "xs16 \<equiv> format_uint 16"

text \<open>The groups from \<open>a\<close> to \<open>b\<close>, and their bytes.\<close>

definition groups :: "byte list \<Rightarrow> nat \<Rightarrow> nat \<Rightarrow> nat list" where
  "groups p a b = map (\<lambda>k. 256 * unat (p ! (2 * k)) + unat (p ! (2 * k + 1))) [a..<b]"

definition bytes2 :: "nat \<Rightarrow> byte list" where
  "bytes2 n = [of_nat (n div 256), of_nat n]"

lemma unat_group16: "unat (group16 p i) = 256 * unat (p ! i) + unat (p ! (i + 1))"
proof -
  let ?a = "p ! i" and ?b = "p ! (i + 1)"
  have "push_bit 8 (ucast ?a) OR ucast ?b = push_bit 8 (ucast ?a) + (ucast ?b :: 32 word)"
    by (rule disjunctive_add [symmetric]) (auto simp: bit_push_bit_iff bit_ucast_iff dest: bit_imp_le_length)
  then have "group16 p i = of_nat (256 * unat ?a + unat ?b)"
    by (simp add: group16_def push_bit_eq_mult)
  then show ?thesis
    using unat_byte_less [of ?a] unat_byte_less [of ?b] by (simp add: unat_of_nat del: of_nat_add of_nat_mult)
qed

lemma hex_group16: "hex (group16 p (2 * k)) = xs16 (256 * unat (p ! (2 * k)) + unat (p ! (2 * k + 1)))"
  by (simp add: hex_def unat_group16)

lemma groups_Nil [simp]: "groups p a a = []"
  by (simp add: groups_def)

lemma groups_Cons: "a < b \<Longrightarrow> groups p a b = (256 * unat (p ! (2 * a)) + unat (p ! (2 * a + 1))) # groups p (Suc a) b"
  by (simp add: groups_def upt_conv_Cons)

lemma Join_groups: "a < b \<Longrightarrow> Join '':'' (map xs16 (groups p a b)) =
    hex (group16 p (2 * a)) @ concat (map (\<lambda>n. CHR '':'' # xs16 n) (groups p (Suc a) b))"
  by (simp add: groups_Cons hex_group16 Join_Cons comp_def del: Join.simps(3))

lemma print6_tail:
  "0 < k \<Longrightarrow> k \<le> 8 \<Longrightarrow> e0 < 2 * int k \<Longrightarrow>
    print6 p e0 e1 (2 * k) = concat (map (\<lambda>n. CHR '':'' # xs16 n) (groups p k 8))"
proof (induction "8 - k" arbitrary: k)
  case 0
  then show ?case by (subst print6.simps) (simp add: IPv6len_def)
next
  case (Suc d)
  then show ?case
    using Suc(1) [of "Suc k"] groups_Cons [of k 8 p] by (subst print6.simps) (simp add: IPv6len_def hex_group16)
qed

lemma print6_jump:
  assumes "a < b" "b \<le> 8"
  shows "print6 p (2 * int a) (2 * int b) (2 * a) = ''::'' @ Join '':'' (map xs16 (groups p b 8))"
proof (cases "b = 8")
  case False
  have n: "nat (2 * int b) = 2 * b" by simp
  have "print6 p (2 * int a) (2 * int b) (2 * Suc b) = concat (map (\<lambda>n. CHR '':'' # xs16 n) (groups p (Suc b) 8))"
    using assms False by (intro print6_tail) auto
  then show ?thesis
    using False assms by (subst print6.simps) (simp add: IPv6len_def n Join_groups)
qed (use assms in \<open>subst print6.simps, simp add: IPv6len_def\<close>)

lemma print6_head:
  "0 < k \<Longrightarrow> k \<le> a \<Longrightarrow> a < b \<Longrightarrow> b \<le> 8 \<Longrightarrow>
    print6 p (2 * int a) (2 * int b) (2 * k) =
      concat (map (\<lambda>n. CHR '':'' # xs16 n) (groups p k a)) @ ''::'' @ Join '':'' (map xs16 (groups p b 8))"
proof (induction "a - k" arbitrary: k)
  case 0
  then show ?case using print6_jump by simp
next
  case (Suc d)
  then have "k < a" by simp
  then show ?case
    using Suc(1) [of "Suc k"] Suc(2-) groups_Cons [of k a p] by (subst print6.simps) (simp add: IPv6len_def hex_group16)
qed

lemma print6_run:
  assumes "a < b" "b \<le> 8"
  shows "print6 p (2 * int a) (2 * int b) 0 = Join '':'' (map xs16 (groups p 0 a)) @ ''::'' @ Join '':'' (map xs16 (groups p b 8))"
proof (cases "a = 0")
  case True
  then show ?thesis using print6_jump [OF assms, of p] by simp
next
  case False
  then show ?thesis
    using print6_head [of "Suc 0" a b p] Join_groups [of 0 a p] assms
    by (subst print6.simps) (simp add: IPv6len_def numeral_2_eq_2)
qed

lemma print6_all: "print6 p (-1) (-1) 0 = Join '':'' (map xs16 (groups p 0 8))"
  using print6_tail [of "Suc 0" "-1" p "-1"] Join_groups [of 0 8 p]
  by (subst print6.simps) (simp add: IPv6len_def numeral_2_eq_2)

subsection \<open>The parser reads it back\<close>

abbreviation joined :: "nat list \<Rightarrow> string" where
  "joined ns \<equiv> Join '':'' (map xs16 ns)"

lemma xs16_Cons: "\<exists>c cs. xs16 n = c # cs \<and> digit_val c \<noteq> None"
proof -
  obtain c cs where "xs16 n = c # cs" by (cases "xs16 n") auto
  moreover from this have "digit_val c \<noteq> None" using digit_chars_ne [of 16 c n] by force
  ultimately show ?thesis by blast
qed

lemma joined_Cons: "Join '':'' (xs16 n # map xs16 ns) = xs16 n @ (if ns = [] then [] else CHR '':'' # joined ns)"
  by (cases ns) (simp_all add: Join_Cons del: Join.simps(3))

lemma joined_front: "ns \<noteq> [] \<Longrightarrow> \<exists>c cs. joined ns = c # cs \<and> digit_val c \<noteq> None"
  using xs16_Cons [of "hd ns"] by (cases ns) (auto simp: joined_Cons simp del: Join.simps(3))

lemma joined_not_colon: "ns \<noteq> [] \<Longrightarrow> joined ns \<noteq> [] \<and> hd (joined ns) \<noteq> CHR '':''"
  using joined_front [of ns] by auto

lemma ntoi_group:
  "n < 65536 \<Longrightarrow> ntoi 16 (xs16 n @ CHR '':'' # s) = Some (n, length (xs16 n))"
  "n < 65536 \<Longrightarrow> ntoi 16 (xs16 n) = Some (n, length (xs16 n))"
  using ntoi_format [of 16 n "CHR '':'' # s"] ntoi_format [of 16 n "[]"] by (simp_all add: ends_number_char)

lemma parse6_joined:
  "ns \<noteq> [] \<Longrightarrow> length ns \<le> k \<Longrightarrow> \<forall>n\<in>set ns. n < 65536 \<Longrightarrow>
    parse6 k (joined ns) ip ell = Some ([], ip @ concat (map bytes2 ns), ell)"
proof (induction ns arbitrary: k ip)
  case (Cons n ns)
  then obtain k' where k: "k = Suc k'" by (cases k) auto
  show ?case
  proof (cases "ns = []")
    case False
    then show ?thesis
      using Cons k joined_not_colon [of ns] by (simp add: joined_Cons ntoi_group bytes2_def Let_def del: Join.simps(3))
  qed (use Cons.prems k in \<open>simp add: joined_Cons ntoi_group bytes2_def Let_def del: Join.simps(3)\<close>)
qed simp

lemma parse6_before_ellipsis:
  "ns \<noteq> [] \<Longrightarrow> \<forall>n\<in>set ns. n < 65536 \<Longrightarrow> s = [] \<or> hd s \<noteq> CHR '':'' \<Longrightarrow>
    parse6 (length ns + k) (joined ns @ ''::'' @ s) ip None =
     (let ip' = ip @ concat (map bytes2 ns) in
      if s = [] then Some ([], ip', Some (length ip')) else parse6 k s ip' (Some (length ip')))"
proof (induction ns arbitrary: ip)
  case (Cons n ns)
  show ?case
  proof (cases "ns = []")
    case False
    then show ?thesis
      using Cons joined_not_colon [of ns] by (simp add: joined_Cons ntoi_group bytes2_def Let_def del: Join.simps(3))
  qed (use Cons.prems in \<open>auto simp: joined_Cons ntoi_group bytes2_def Let_def simp del: Join.simps(3)\<close>)
qed simp

lemma bytes2_pair [simp]: "bytes2 (256 * unat x + unat y) = [x, y]"
proof -
  have d: "unat y div 256 = 0" using unat_byte_less [of y] by simp
  have z: "(256 :: byte) = 0" by simp
  have "256 * x = 0" unfolding z by simp
  then show ?thesis using d by (simp add: bytes2_def)
qed

lemma groups_less: "n \<in> set (groups p a b) \<Longrightarrow> n < 65536"
proof -
  have "256 * unat x + unat y < 65536" for x y :: byte
    using unat_byte_less [of x] unat_byte_less [of y] by linarith
  then show "n \<in> set (groups p a b) \<Longrightarrow> n < 65536" by (auto simp: groups_def)
qed

lemma bytes_groups:
  "a \<le> b \<Longrightarrow> 2 * b \<le> length p \<Longrightarrow> concat (map bytes2 (groups p a b)) = take (2 * (b - a)) (drop (2 * a) p)"
proof (induction b)
  case (Suc b)
  show ?case
  proof (cases "a \<le> b")
    case True
    have "groups p a (Suc b) = groups p a b @ [256 * unat (p ! (2 * b)) + unat (p ! (2 * b + 1))]"
      using True by (simp add: groups_def)
    moreover have "2 * (Suc b - a) = Suc (Suc (2 * (b - a)))" "2 * a + 2 * (b - a) = 2 * b" using True by simp_all
    ultimately show ?thesis using Suc True by (simp add: take_Suc_conv_app_nth)
  qed (use Suc.prems in \<open>simp add: groups_def le_Suc_eq\<close>)
qed simp

lemma zeros_take: "zeros p (2 * a) (2 * b) \<Longrightarrow> 2 * b \<le> length p \<Longrightarrow> take (2 * (b - a)) (drop (2 * a) p) = replicate (2 * (b - a)) 0"
  by (intro nth_equalityI) (auto simp: zeros_def)

text \<open>How the address is printed: all groups, or the groups around a longest run of zeros.\<close>

lemma Ipv6String_cases:
  assumes "length p = IPv6len"
  obtains (all) "Ipv6String p = joined (groups p 0 8)" "\<forall>a b. zero_run p a b \<longrightarrow> b - a \<le> 2"
    | (run) a b where "Ipv6String p = joined (groups p 0 a) @ ''::'' @ joined (groups p b 8)"
        "zero_run p (2 * a) (2 * b)" "a + 1 < b" "b \<le> 8" "\<forall>x y. zero_run p x y \<longrightarrow> y - x \<le> 2 * (b - a)"
proof -
  obtain e0 e1 where e: "longest_zeros p 0 (-1) (-1) = (e0, e1)" by fastforce
  have best: "best_run p IPv6len e0 e1" using longest_zeros_run [OF e] .
  have lt: "x < IPv6len" if "zero_run p x y" for x y using that by (simp add: zero_run_def)
  show thesis
  proof (cases "e1 - e0 \<le> 2")
    case True
    then have "int y - int x \<le> 2" if "zero_run p x y" for x y
      using best that lt [OF that] by (force simp: best_run_def)
    moreover have "Ipv6String p = joined (groups p 0 8)"
      using True assms by (simp add: Ipv6String_def e print6_all)
    ultimately show thesis by (intro all) fastforce+
  next
    case False
    then obtain x y where xy: "e0 = int x" "e1 = int y" "zero_run p x y"
      using best by (auto simp: best_run_def)
    then obtain a b where ab: "x = 2 * a" "y = 2 * b" by (auto simp: zero_run_def elim!: evenE)
    have l: "a + 1 < b" "b \<le> 8" using False xy by (auto simp: ab zero_run_def IPv6len_def)
    have "v - u \<le> 2 * (b - a)" if "zero_run p u v" for u v
    proof -
      have "int v - int u \<le> e1 - e0" using best that lt [OF that] by (auto simp: best_run_def)
      then show ?thesis using l by (simp add: xy(1,2) ab)
    qed
    moreover have "Ipv6String p = joined (groups p 0 a) @ ''::'' @ joined (groups p b 8)"
      using False assms l print6_run [of a b p] by (simp add: Ipv6String_def e xy(1,2) ab)
    ultimately show thesis using run xy(3) l unfolding ab by blast
  qed
qed

lemma not_ellipsis_first: "ns \<noteq> [] \<Longrightarrow> \<not> HasPrefix (joined ns @ s) ''::''"
  using joined_front [of ns] by (auto simp: HasPrefix_def)

lemma parseIPv6_String:
  assumes p: "length p = IPv6len"
  shows "parseIPv6 (Ipv6String p) = Some p"
  using p
proof (cases rule: Ipv6String_cases [consumes 1, case_names all run])
  case all
  have n: "groups p 0 8 \<noteq> []" "length (groups p 0 8) = 8" by (simp_all add: groups_def)
  then have "parse6 8 (joined (groups p 0 8)) [] None = Some ([], p, None)"
    using parse6_joined [of "groups p 0 8" 8 "[]" None] bytes_groups [of 0 8 p] groups_less p by (simp add: IPv6len_def)
  then show ?thesis
    using not_ellipsis_first [OF n(1), of "[]"] p by (simp add: all parseIPv6_def expand6_def)
next
  case (run a b)
  let ?l = "concat (map bytes2 (groups p 0 a))" and ?r = "concat (map bytes2 (groups p b 8))"
  have len: "length (groups p 0 a) = a" "length (groups p b 8) = 8 - b" by (simp_all add: groups_def)
  have l: "?l = take (2 * a) p" "?r = drop (2 * b) p" "length ?l = 2 * a" "length ?r = 2 * (8 - b)"
    using bytes_groups [of 0 a p] bytes_groups [of b 8 p] run(3,4) p by (simp_all add: IPv6len_def)
  have mid: "take (2 * (b - a)) (drop (2 * a) p) = replicate (2 * (b - a)) 0"
    using run(2,4) p by (intro zeros_take) (auto simp: zero_run_def IPv6len_def)
  have whole: "?l @ replicate (16 - (2 * a + 2 * (8 - b))) 0 @ ?r = p"
  proof -
    have e: "16 - (2 * a + 2 * (8 - b)) = 2 * (b - a)" "2 * a + 2 * (b - a) = 2 * b" using run(3,4) by simp_all
    show ?thesis unfolding l e(1) mid [symmetric] using e(2)
      by (metis append_take_drop_id drop_drop add.commute)
  qed
  have fin: "expand6 ([], ?l @ ?r, Some (2 * a)) = Some p"
    using whole l(3,4) run(3,4) by (simp add: expand6_def IPv6len_def)
  have r: "parse6 k (joined (groups p b 8)) ip (Some e) = Some ([], ip @ ?r, Some e)" if "b < 8" "8 - b \<le> k" for k ip e
    using that len groups_less by (intro parse6_joined) auto
  have r0: "joined (groups p b 8) = [] \<longleftrightarrow> b = 8"
    using joined_not_colon [of "groups p b 8"] run(4) by (cases "b = 8") (auto simp: groups_def)
  show ?thesis
  proof (cases "a = 0")
    case True
    then show ?thesis
      using r [of 8 "[]" 0] r0 fin whole run(4) unfolding parseIPv6_def run(1) by (auto simp: HasPrefix_def IPv6len_def)
  next
    case False
    then have g: "groups p 0 a \<noteq> []" by (simp add: groups_def)
    have h: "joined (groups p b 8) = [] \<or> hd (joined (groups p b 8)) \<noteq> CHR '':''"
      using joined_not_colon [of "groups p b 8"] by (cases "groups p b 8 = []") auto
    have "8 = a + (8 - a)" using run(3,4) by simp
    then have "parse6 8 (joined (groups p 0 a) @ ''::'' @ joined (groups p b 8)) [] None = Some ([], ?l @ ?r, Some (2 * a))"
      using parse6_before_ellipsis [OF g _ h, of "8 - a" "[]"] groups_less r [of "8 - a" ?l "2 * a"] r0 l(3,4) len(1) run(3,4)
      by (cases "b = 8") (simp_all add: Let_def)
    then show ?thesis
      using not_ellipsis_first [OF g] fin unfolding parseIPv6_def run(1) by simp
  qed
qed

subsection \<open>Normal forms\<close>

lemma Ipv6String_chars:
  assumes "length p = IPv6len"
  shows "CHR '':'' \<in> set (Ipv6String p)" "c \<in> set (Ipv6String p) \<Longrightarrow> c = CHR '':'' \<or> digit_val c \<noteq> None"
proof -
  have j: "c = CHR '':'' \<or> digit_val c \<noteq> None" if "c \<in> set (joined ns)" for c ns
    using that digit_chars_ne [of 16 c] by (induction ns) (auto simp: joined_Cons simp del: Join.simps(3) split: if_splits)
  have "CHR '':'' \<in> set (joined (groups p 0 8))"
    by (simp add: groups_def upt_conv_Cons joined_Cons)
  then show "CHR '':'' \<in> set (Ipv6String p)" by (cases rule: Ipv6String_cases [OF assms]) auto
  show "c = CHR '':'' \<or> digit_val c \<noteq> None" if "c \<in> set (Ipv6String p)"
    using that j by (cases rule: Ipv6String_cases [OF assms]) auto
qed

lemma ParseIP_colon: "CHR '':'' \<in> set s \<Longrightarrow> CHR ''.'' \<notin> set s \<Longrightarrow> ParseIP s = parseIPv6 s"
proof -
  assume s: "CHR '':'' \<in> set s" "CHR ''.'' \<notin> set s"
  then obtain a b where ab: "s = a @ CHR '':'' # b" "CHR '':'' \<notin> set a" by (meson split_list_first)
  have "dropWhile (\<lambda>c. c \<noteq> CHR ''.'' \<and> c \<noteq> CHR '':'') s = CHR '':'' # b"
    using s(2) ab by (subst ab(1), subst dropWhile_append2) auto
  then show ?thesis by (simp add: ParseIP_def)
qed

lemma ParseIP_String: "length p = IPv6len \<Longrightarrow> ParseIP (Ipv6String p) = Some p"
  using Ipv6String_chars [of p] Ipv6String_chars(2) [of p "CHR ''.''"] by (subst ParseIP_colon) (auto simp: parseIPv6_String)

text \<open>The position of an ellipsis is within what was read.\<close>

definition ell_ok :: "byte list \<Rightarrow> nat option \<Rightarrow> bool" where
  "ell_ok ip ell \<longleftrightarrow> (case ell of None \<Rightarrow> True | Some e \<Rightarrow> e \<le> length ip)"

lemma parse6_length:
  "parse6 k s ip ell = Some (s', ip', ell') \<Longrightarrow> length ip + 2 * k = IPv6len \<Longrightarrow> ell_ok ip ell \<Longrightarrow> length ip' \<le> IPv6len \<and> ell_ok ip' ell'"
proof (induction k arbitrary: s ip ell)
  case (Suc k)
  then obtain n c where n: "ntoi 16 s = Some (n, c)" by (auto split: option.splits)
  let ?ip = "ip @ [of_nat (n div 256), of_nat n]"
  have len: "length ?ip + 2 * k = IPv6len" using Suc.prems(2) by simp
  have ok: "ell_ok ?ip ell" "ell_ok ?ip (Some (length ?ip))" using Suc.prems(3) by (auto simp: ell_ok_def split: option.splits)
  have l4: "length x = 16" if "parseIPv4 s = Some x" for x
    using parseIPv4_form [OF that] by (auto simp: v4InV6Prefix_def IPv4len_def)
  have ok4: "ell_ok (ip @ y) ell" for y using Suc.prems(3) by (auto simp: ell_ok_def split: option.splits)
  show ?case
  proof (cases "c < length s \<and> s ! c = CHR ''.''")
    case True
    then show ?thesis
      using Suc.prems(1) n ok4 by (auto simp: IPv4len_def dest!: l4 split: option.splits if_splits)
  next
    case False
    have "(ip' = ?ip \<and> (ell' = ell \<or> ell' = Some (length ?ip))) \<or> (\<exists>t e. parse6 k t ?ip e = Some (s', ip', ell') \<and> (e = ell \<or> e = Some (length ?ip)))"
      using Suc.prems(1) n False by (auto simp: Let_def split: if_splits)
    then show ?thesis using Suc.IH [OF _ len] ok len by auto
  qed
qed (auto simp: IPv6len_def)

lemma parseIPv6_length: "parseIPv6 s = Some ip \<Longrightarrow> length ip = IPv6len"
proof -
  have "length ip = IPv6len" if "parse6 8 t [] ell = Some r" "expand6 r = Some ip" "ell_ok [] ell" for t ell r
    using that parse6_length [of 8 t "[]" ell "fst r" "fst (snd r)" "snd (snd r)"]
    by (auto simp: expand6_def ell_ok_def IPv6len_def split: if_splits option.splits prod.splits)
  then show "parseIPv6 s = Some ip \<Longrightarrow> length ip = IPv6len"
    by (auto simp: parseIPv6_def ell_ok_def bind_eq_Some_conv split: if_splits)
qed

lemma ParseIP_length: "ParseIP s = Some ip \<Longrightarrow> length ip = IPv6len"
  using parseIPv4_form [of s ip]
  by (auto simp: ParseIP_def IPv4len_def IPv6len_def v4InV6Prefix_def split: list.splits if_splits dest: parseIPv6_length)

lemma ParseIP_v4: "CHR '':'' \<notin> set s \<Longrightarrow> ParseIP s = Some ip \<Longrightarrow> \<exists>p. length p = IPv4len \<and> ip = v4InV6Prefix @ p"
proof -
  assume s: "CHR '':'' \<notin> set s" "ParseIP s = Some ip"
  then obtain c r where d: "dropWhile (\<lambda>c. c \<noteq> CHR ''.'' \<and> c \<noteq> CHR '':'') s = c # r"
    by (auto simp: ParseIP_def split: list.splits)
  then have "c \<in> set s" using set_dropWhileD [of c _ s] by (metis list.set_intros(1))
  moreover have "c = CHR ''.'' \<or> c = CHR '':''" using hd_dropWhile [of "\<lambda>c. c \<noteq> CHR ''.'' \<and> c \<noteq> CHR '':''" s] d by auto
  ultimately have "parseIPv4 s = Some ip" using s d by (auto simp: ParseIP_def)
  then show ?thesis by (rule parseIPv4_form)
qed

lemma Contains_char [simp]: "Contains s [c] \<longleftrightarrow> c \<in> set s"
  by (auto simp: Contains_iff in_set_conv_decomp)

subsection \<open>An address contains no slash\<close>

lemma scan_num_digits:
  "scan_num b s n i = Some (m, j) \<Longrightarrow> \<exists>ds rest. s = ds @ rest \<and> j = i + length ds \<and> (\<forall>c\<in>set ds. digit_val c \<noteq> None)"
proof (induction s arbitrary: n i)
  case (Cons c cs)
  show ?case
  proof (cases "\<exists>d. digit_val c = Some d \<and> d < b")
    case True
    then obtain n' where "scan_num b cs n' (Suc i) = Some (m, j)" using Cons.prems by (auto split: if_splits)
    then obtain ds rest where "cs = ds @ rest" "j = Suc i + length ds" "\<forall>c\<in>set ds. digit_val c \<noteq> None" using Cons.IH by blast
    then show ?thesis using True by - (rule exI [of _ "c # ds"], rule exI [of _ rest], auto)
  next
    case False
    then have "j = i" using Cons.prems by (auto simp: not_less split: option.splits if_splits)
    then show ?thesis by - (rule exI [of _ "[]"], simp)
  qed
qed simp

lemma ntoi_digits: "ntoi b s = Some (n, k) \<Longrightarrow> c \<in> set s \<Longrightarrow> digit_val c \<noteq> None \<or> c \<in> set (drop k s)"
  using scan_num_digits [of b s 0 0 n k] by (auto simp: ntoi_def split: option.splits if_splits)

definition addr_char :: "char \<Rightarrow> bool" where
  "addr_char c \<longleftrightarrow> c = CHR ''.'' \<or> c = CHR '':'' \<or> digit_val c \<noteq> None"

lemma parse4_chars: "parse4 k s p = Some r \<Longrightarrow> c \<in> set s \<Longrightarrow> addr_char c"
proof (induction k arbitrary: s p)
  case (Suc k)
  let ?t = "if p \<noteq> [] then tl s else s"
  obtain n j where n: "ntoi 10 ?t = Some (n, j)" "parse4 k (drop j ?t) (p @ [of_nat n]) = Some r"
    using Suc.prems(1) by (auto simp: Let_def split: if_splits option.splits)
  have "c = CHR ''.'' \<or> c \<in> set ?t" using Suc.prems by (cases s) (auto simp: Let_def split: if_splits)
  then show ?case using ntoi_digits [OF n(1)] Suc.IH [OF n(2)] by (auto simp: addr_char_def)
qed (simp split: if_splits)

lemma parseIPv4_chars: "parseIPv4 s = Some r \<Longrightarrow> c \<in> set s \<Longrightarrow> addr_char c"
  by (auto simp: parseIPv4_def dest: parse4_chars)

lemma parse6_chars: "parse6 k s ip ell = Some (s', r) \<Longrightarrow> c \<in> set s \<Longrightarrow> addr_char c \<or> c \<in> set s'"
proof (induction k arbitrary: s ip ell)
  case (Suc k)
  then obtain n j where n: "ntoi 16 s = Some (n, j)" by (auto split: option.splits)
  show ?case
  proof (cases "j < length s \<and> s ! j = CHR ''.''")
    case True
    then show ?thesis using Suc.prems n parseIPv4_chars [of s _ c] by (auto split: option.splits if_splits)
  next
    case False
    note step = Suc.prems(1) [unfolded parse6.simps n option.case prod.case if_not_P [OF False] Let_def]
    have d: "digit_val c \<noteq> None \<or> c \<in> set (drop j s)" using ntoi_digits [OF n Suc.prems(2)] .
    show ?thesis
    proof (cases "drop j s")
      case (Cons x v)
      then have v: "x = CHR '':''" "v \<noteq> []" using step by (auto split: if_splits)
      show ?thesis
      proof (cases "hd v = CHR '':''")
        case True
        then obtain w where w: "v = CHR '':'' # w" using v(2) by (cases v) auto
        have "w = [] \<or> (\<exists>ip ell. parse6 k w ip ell = Some (s', r))" using step by (auto simp: Cons v(1) w split: if_splits)
        then show ?thesis using d Suc.IH by (auto simp: Cons v(1) w addr_char_def)
      next
        case False
        then have "\<exists>ip. parse6 k v ip ell = Some (s', r)" using step by (auto simp: Cons v split: if_splits)
        then show ?thesis using d Suc.IH by (auto simp: Cons v(1) addr_char_def)
      qed
    qed (use d in \<open>simp add: addr_char_def\<close>)
  qed
qed auto

lemma ParseIP_chars: "ParseIP s = Some ip \<Longrightarrow> c \<in> set s \<Longrightarrow> addr_char c"
proof -
  have p6: "addr_char c" if "parse6 k t i ell = Some r" "expand6 r = Some ip" "c \<in> set t" for k t i ell r
    using that parse6_chars [of k t i ell "fst r" "snd r" c] by (auto simp: expand6_def split: if_splits prod.splits)
  have "addr_char c" if "parseIPv6 s = Some ip" "c \<in> set s"
  proof (cases "HasPrefix s ''::''")
    case True
    then obtain t where t: "s = ''::'' @ t" by (auto simp: HasPrefix_iff)
    then have "c = CHR '':'' \<or> c \<in> set t" using that(2) by auto
    then show ?thesis
      using that(1) p6 [of 8 t "[]" "Some 0"] True
      by (auto simp: parseIPv6_def t addr_char_def bind_eq_Some_conv split: if_splits)
  next
    case False
    then show ?thesis using that p6 [of 8 s "[]" None] by (auto simp: parseIPv6_def bind_eq_Some_conv)
  qed
  then show "ParseIP s = Some ip \<Longrightarrow> c \<in> set s \<Longrightarrow> addr_char c"
    by (auto simp: ParseIP_def dest: parseIPv4_chars split: list.splits if_splits)
qed

lemma ParseIP_slash [simp]: "ParseIP (a @ CHR ''/'' # m) = None"
  using ParseIP_chars [of "a @ CHR ''/'' # m" _ "CHR ''/''"] by (cases "ParseIP (a @ CHR ''/'' # m)") (auto simp: addr_char_def)

subsection \<open>Idempotence\<close>

lemma NormalizeNumber_cases: "NormalizeNumber t = t \<or> (\<exists>n<2 ^ 64. NormalizeNumber t = format_uint 10 n \<and> ParseUint t 10 64 = Inr n)"
  using ParseUint_bound [of t 10 64] by (auto simp: NormalizeNumber_def split: sum.split)

lemma NormalizeNumber_format: "n < 2 ^ 64 \<Longrightarrow> NormalizeNumber (format_uint 10 n) = format_uint 10 n"
  by (simp add: NormalizeNumber_def ParseUint_format)

lemma NormalizeNumber_idem: "NormalizeNumber (NormalizeNumber t) = NormalizeNumber t"
  using NormalizeNumber_cases [of t] NormalizeNumber_format by auto

lemma parse_loop_digits: "parse_loop b m s n = Inr k \<Longrightarrow> c \<in> set s \<Longrightarrow> digit_val c \<noteq> None"
  by (induction s arbitrary: n) (auto split: option.splits if_splits)

lemma NormalizeNumber_colon: "CHR '':'' \<in> set (NormalizeNumber t) \<longleftrightarrow> CHR '':'' \<in> set t"
  using NormalizeNumber_cases [of t] digit_chars_ne [of 10 "CHR '':''"] parse_loop_digits [of 10 _ t 0 _ "CHR '':''"]
  by (auto simp: ParseUint_def split: if_splits)

lemma IP_String_v4:
  "length q = IPv4len \<Longrightarrow> IP_String (v4InV6Prefix @ q) = dotted q"
  "length q = IPv4len \<Longrightarrow> IP_String q = dotted q"
  by (auto simp: IP_String_def To4_def v4InV6Prefix_def IPv4len_def IPv6len_def)

lemma dotted_free: "CHR '':'' \<notin> set (dotted q)" "CHR ''/'' \<notin> set (dotted q)"
  using dotted_chars [of "CHR '':''" q] dotted_chars [of "CHR ''/''" q] by auto

lemma NormalizeIPv4_cases:
  assumes "CHR '':'' \<notin> set t"
  obtains (same) "NormalizeIPv4 t = t"
    | (address) q where "NormalizeIPv4 t = dotted q" "length q = IPv4len"
    | (cidr) a m where "t = a @ CHR ''/'' # m" "CHR ''/'' \<notin> set a" "NormalizeIPv4 t = NormalizeIPv4 a @ CHR ''/'' # NormalizeNumber m"
proof (cases "ParseIP t")
  case (Some ip)
  then obtain q where "length q = IPv4len" "ip = v4InV6Prefix @ q" using ParseIP_v4 assms by blast
  then show thesis using assms Some by (intro address [of q]) (subst NormalizeIPv4.simps, simp_all add: IP_String_v4)
next
  case None
  show thesis
  proof (cases "cut_slash t")
    case c: None
    then show thesis using None assms by (intro same, subst NormalizeIPv4.simps) simp
  next
    case (Some r)
    then obtain a m where r: "cut_slash t = Some (a, m)" by (cases r) auto
    then show thesis using None assms by (intro cidr [of a m], simp_all add: cut_slash_Some) (subst NormalizeIPv4.simps, simp add: cut_slash_at)
  qed
qed

lemma NormalizeIPv4_dotted: "length q = IPv4len \<Longrightarrow> NormalizeIPv4 (dotted q) = dotted q"
  by (subst NormalizeIPv4.simps) (simp add: dotted_free ParseIP_dotted IP_String_v4)

lemma NormalizeIPv4_whole:
  assumes "CHR '':'' \<notin> set t" "CHR ''/'' \<notin> set t"
  shows "NormalizeIPv4 (NormalizeIPv4 t) = NormalizeIPv4 t \<and> CHR '':'' \<notin> set (NormalizeIPv4 t) \<and> CHR ''/'' \<notin> set (NormalizeIPv4 t)"
  using assms by (cases rule: NormalizeIPv4_cases [OF assms(1)]) (auto simp: NormalizeIPv4_dotted dotted_free)

lemma NormalizeIPv4_idem: "NormalizeIPv4 (NormalizeIPv4 t) = NormalizeIPv4 t"
proof (cases "CHR '':'' \<in> set t")
  case True
  then show ?thesis by (simp add: NormalizeIPv4.simps)
next
  case False
  show ?thesis
  proof (cases rule: NormalizeIPv4_cases [OF False])
    case (3 a m)
    have a: "CHR '':'' \<notin> set a" "CHR '':'' \<notin> set m" using False 3(1) by auto
    note w = NormalizeIPv4_whole [OF a(1) 3(2)]
    have "NormalizeIPv4 (NormalizeIPv4 a @ CHR ''/'' # NormalizeNumber m) = NormalizeIPv4 a @ CHR ''/'' # NormalizeNumber m"
      using w a(2) by (subst NormalizeIPv4.simps) (simp add: cut_slash_at NormalizeNumber_colon NormalizeNumber_idem)
    then show ?thesis by (simp add: 3(3))
  qed (simp_all add: NormalizeIPv4_dotted)
qed

lemma NormalizeIPv4_colon: "CHR '':'' \<in> set (NormalizeIPv4 t) \<longleftrightarrow> CHR '':'' \<in> set t"
proof (cases "CHR '':'' \<in> set t")
  case True
  then show ?thesis by (simp add: NormalizeIPv4.simps)
next
  case False
  then show ?thesis
    using NormalizeIPv4_whole by (cases rule: NormalizeIPv4_cases [OF False]) (auto simp: dotted_free NormalizeNumber_colon)
qed

lemma Ipv6String_free: "length q = IPv6len \<Longrightarrow> CHR ''/'' \<notin> set (Ipv6String q)"
  using Ipv6String_chars(2) [of q "CHR ''/''"] by auto

lemma NormalizeIPv6_cases:
  assumes "CHR '':'' \<in> set t"
  obtains (same) "NormalizeIPv6 t = t"
    | (address) q where "NormalizeIPv6 t = Ipv6String q" "length q = IPv6len"
    | (cidr) a m where "t = a @ CHR ''/'' # m" "CHR ''/'' \<notin> set a" "NormalizeIPv6 t = NormalizeIPv6 a @ CHR ''/'' # NormalizeNumber m"
proof (cases "ParseIP t")
  case (Some ip)
  then show thesis using assms ParseIP_length [OF Some] by (intro address [of ip]) (subst NormalizeIPv6.simps, simp_all)
next
  case None
  show thesis
  proof (cases "cut_slash t")
    case c: None
    then show thesis using None assms by (intro same, subst NormalizeIPv6.simps) simp
  next
    case (Some r)
    then obtain a m where r: "cut_slash t = Some (a, m)" by (cases r) auto
    then show thesis using None assms by (intro cidr [of a m], simp_all add: cut_slash_Some) (subst NormalizeIPv6.simps, simp add: cut_slash_at)
  qed
qed

lemma NormalizeIPv6_no_colon: "CHR '':'' \<notin> set t \<Longrightarrow> NormalizeIPv6 t = t"
  by (subst NormalizeIPv6.simps) simp

lemma NormalizeIPv6_String: "length q = IPv6len \<Longrightarrow> NormalizeIPv6 (Ipv6String q) = Ipv6String q"
  by (subst NormalizeIPv6.simps) (simp add: Ipv6String_chars(1) ParseIP_String)

lemma NormalizeIPv6_whole:
  assumes "CHR ''/'' \<notin> set t"
  shows "NormalizeIPv6 (NormalizeIPv6 t) = NormalizeIPv6 t \<and> (CHR '':'' \<in> set (NormalizeIPv6 t) \<longleftrightarrow> CHR '':'' \<in> set t)
    \<and> CHR ''/'' \<notin> set (NormalizeIPv6 t)"
proof (cases "CHR '':'' \<in> set t")
  case True
  then show ?thesis
    using assms by (cases rule: NormalizeIPv6_cases [OF True])
      (auto simp: NormalizeIPv6_String Ipv6String_free Ipv6String_chars(1))
qed (use assms in \<open>simp add: NormalizeIPv6_no_colon\<close>)

lemma NormalizeIPv6_colon: "CHR '':'' \<in> set (NormalizeIPv6 t) \<longleftrightarrow> CHR '':'' \<in> set t"
proof (cases "CHR '':'' \<in> set t")
  case True
  then show ?thesis
    using NormalizeIPv6_whole
    by (cases rule: NormalizeIPv6_cases [OF True]) (auto simp: Ipv6String_chars(1) NormalizeNumber_colon)
qed (simp add: NormalizeIPv6_no_colon)

lemma NormalizeIPv6_idem: "NormalizeIPv6 (NormalizeIPv6 t) = NormalizeIPv6 t"
proof (cases "CHR '':'' \<in> set t")
  case True
  show ?thesis
  proof (cases rule: NormalizeIPv6_cases [OF True])
    case (3 a m)
    have c: "CHR '':'' \<in> set (NormalizeIPv6 a @ CHR ''/'' # NormalizeNumber m)"
      using True by (auto simp: 3(1) NormalizeIPv6_colon NormalizeNumber_colon)
    then show ?thesis
      unfolding 3(3) using NormalizeIPv6_whole [OF 3(2)]
      by (subst NormalizeIPv6.simps) (simp add: cut_slash_at NormalizeNumber_idem)
  qed (simp_all add: NormalizeIPv6_String)
qed (simp add: NormalizeIPv6_no_colon)

lemma NormalizeIP_idem: "NormalizeIP (NormalizeIP t) = NormalizeIP t"
  by (auto simp: NormalizeIP_def NormalizeIPv6_colon NormalizeIPv4_colon NormalizeIPv6_idem NormalizeIPv4_idem)

subsection \<open>Prefixes\<close>

definition masked :: "nat \<Rightarrow> byte list \<Rightarrow> byte list" where
  "masked n q = (if n > 8 * length q then q else map2 (AND) q (mask_bytes (length q) n))"

lemma length_masked [simp]: "length (masked n q) = length q"
  by (simp add: masked_def)

lemma masked_masked [simp]: "masked n (masked n q) = masked n q"
  by (simp add: masked_def map2_and_idem)

lemma Mask_v4: "length q = IPv4len \<Longrightarrow> n \<le> 32 \<Longrightarrow> Mask (v4InV6Prefix @ q) (CIDRMask n 32) = masked n q"
  by (simp add: CIDRMask_def Mask_def masked_def IPv4len_def IPv6len_def v4InV6Prefix_def)

lemma Mask_v6: "length q = IPv6len \<Longrightarrow> n \<le> 128 \<Longrightarrow> Mask q (CIDRMask n 128) = masked n q"
  by (simp add: CIDRMask_def Mask_def masked_def IPv4len_def IPv6len_def)

lemma v4_tail [simp]: "drop 12 v4InV6Prefix = []" "length v4InV6Prefix = 12"
  by (simp_all add: v4InV6Prefix_def)

text \<open>A token that is an address, a slash and a number.\<close>

definition addr_prefix :: "string \<Rightarrow> (byte list \<times> nat) option" where
  "addr_prefix t = (case cut_slash t of None \<Rightarrow> None
     | Some (a, m) \<Rightarrow> (case (ParseIP a, ParseUint m 10 64) of (Some ip, Inr n) \<Rightarrow> Some (ip, n) | _ \<Rightarrow> None))"

lemma addr_prefix_Some:
  "addr_prefix t = Some (ip, n) \<longleftrightarrow> (\<exists>a m. cut_slash t = Some (a, m) \<and> ParseIP a = Some ip \<and> ParseUint m 10 64 = Inr n)"
  by (auto simp: addr_prefix_def split: option.splits sum.splits prod.splits)

lemma addr_prefix_bound: "addr_prefix t = Some (ip, n) \<Longrightarrow> length ip = IPv6len \<and> n < 2 ^ 64"
  by (auto simp: addr_prefix_Some dest: ParseIP_length ParseUint_bound)

lemma addr_prefix_v4:
  "CHR '':'' \<notin> set t \<Longrightarrow> addr_prefix t = Some (ip, n) \<Longrightarrow> \<exists>q. length q = IPv4len \<and> ip = v4InV6Prefix @ q \<and> n < 2 ^ 64"
  using ParseIP_v4 addr_prefix_bound [of t ip n] by (fastforce simp: addr_prefix_Some cut_slash_Some)

lemma NormalizeIPv6prefix_eq:
  assumes "CHR '':'' \<in> set t"
  shows "NormalizeIPv6prefix t =
    (case addr_prefix t of None \<Rightarrow> t | Some (ip, n) \<Rightarrow> Ipv6String (masked n ip) @ CHR ''/'' # format_uint 10 n)"
proof (cases "addr_prefix t")
  case None
  then show ?thesis
    using assms by (auto simp: NormalizeIPv6prefix_def addr_prefix_def split: option.splits sum.splits prod.splits)
next
  case (Some r)
  obtain ip n where r: "addr_prefix t = Some (ip, n)" using Some by (cases r) auto
  then obtain a m where "cut_slash t = Some (a, m)" "ParseIP a = Some ip" "ParseUint m 10 64 = Inr n" by (auto simp: addr_prefix_Some)
  then show ?thesis
    unfolding r using assms addr_prefix_bound [OF r] Mask_v6 [of ip n]
    by (simp add: NormalizeIPv6prefix_def IPv6len_def masked_def)
qed

lemma NormalizeIPv4prefix_eq:
  assumes "CHR '':'' \<notin> set t"
  shows "NormalizeIPv4prefix t =
    (case addr_prefix t of None \<Rightarrow> t | Some (ip, n) \<Rightarrow> dotted (masked n (drop 12 ip)) @ CHR ''/'' # format_uint 10 n)"
proof (cases "addr_prefix t")
  case None
  then show ?thesis
    using assms by (auto simp: NormalizeIPv4prefix_def addr_prefix_def split: option.splits sum.splits prod.splits)
next
  case (Some r)
  obtain ip n where r: "addr_prefix t = Some (ip, n)" using Some by (cases r) auto
  then obtain q where q: "length q = IPv4len" "ip = v4InV6Prefix @ q" using addr_prefix_v4 [OF assms] by blast
  obtain a m where "cut_slash t = Some (a, m)" "ParseIP a = Some ip" "ParseUint m 10 64 = Inr n" using r by (auto simp: addr_prefix_Some)
  then show ?thesis
    unfolding r using assms q Mask_v4 [of q n]
    by (simp add: NormalizeIPv4prefix_def IPv4len_def masked_def IP_String_v4)
qed

lemma addr_prefix_canonical:
  assumes "n < 2 ^ 64"
  shows "length q = IPv6len \<Longrightarrow> addr_prefix (Ipv6String q @ CHR ''/'' # format_uint 10 n) = Some (q, n)"
    and "length q = IPv4len \<Longrightarrow> addr_prefix (dotted q @ CHR ''/'' # format_uint 10 n) = Some (v4InV6Prefix @ q, n)"
  using assms by (simp_all add: addr_prefix_def cut_slash_at Ipv6String_free dotted_free ParseIP_String ParseIP_dotted ParseUint_format)

lemma NormalizeIPv6prefix_idem: "NormalizeIPv6prefix (NormalizeIPv6prefix t) = NormalizeIPv6prefix t"
proof (cases "CHR '':'' \<in> set t")
  case True
  show ?thesis
  proof (cases "addr_prefix t")
    case (Some r)
    obtain ip n where r: "addr_prefix t = Some (ip, n)" using Some by (cases r) auto
    note b = addr_prefix_bound [OF r]
    have e: "NormalizeIPv6prefix t = Ipv6String (masked n ip) @ CHR ''/'' # format_uint 10 n"
      using True by (simp add: NormalizeIPv6prefix_eq r)
    show ?thesis
      unfolding e using b Ipv6String_chars(1) [of "masked n ip"] by (simp add: NormalizeIPv6prefix_eq addr_prefix_canonical)
  qed (simp add: NormalizeIPv6prefix_eq True)
qed (simp add: NormalizeIPv6prefix_def)

lemma NormalizeIPv6prefix_colon: "CHR '':'' \<in> set t \<Longrightarrow> CHR '':'' \<in> set (NormalizeIPv6prefix t)"
  using addr_prefix_bound by (auto simp: NormalizeIPv6prefix_eq Ipv6String_chars(1) split: option.split)

lemma NormalizeIPv4prefix_colon: "CHR '':'' \<notin> set t \<Longrightarrow> CHR '':'' \<notin> set (NormalizeIPv4prefix t)"
  using digit_chars_ne [of 10 "CHR '':''"] by (auto simp: NormalizeIPv4prefix_eq dotted_free split: option.split)

lemma NormalizeIPv4prefix_idem: "NormalizeIPv4prefix (NormalizeIPv4prefix t) = NormalizeIPv4prefix t"
proof (cases "CHR '':'' \<in> set t")
  case False
  show ?thesis
  proof (cases "addr_prefix t")
    case (Some r)
    obtain ip n where r: "addr_prefix t = Some (ip, n)" using Some by (cases r) auto
    then obtain q where q: "length q = IPv4len" "ip = v4InV6Prefix @ q" "n < 2 ^ 64" using addr_prefix_v4 [OF False] by blast
    have e: "NormalizeIPv4prefix t = dotted (masked n q) @ CHR ''/'' # format_uint 10 n"
      using False by (simp add: NormalizeIPv4prefix_eq r q)
    have "CHR '':'' \<notin> set (dotted (masked n q) @ CHR ''/'' # format_uint 10 n)"
      using NormalizeIPv4prefix_colon [OF False] e by simp
    then show ?thesis
      unfolding e using q(1,3) by (simp add: NormalizeIPv4prefix_eq addr_prefix_canonical)
  qed (simp add: NormalizeIPv4prefix_eq False)
qed (simp add: NormalizeIPv4prefix_def)

lemma NormalizeIPprefix_idem: "NormalizeIPprefix (NormalizeIPprefix t) = NormalizeIPprefix t"
  using NormalizeIPv6prefix_colon [of t] NormalizeIPv4prefix_colon [of t]
  by (auto simp: NormalizeIPprefix_def NormalizeIPv6prefix_idem NormalizeIPv4prefix_idem)

lemma NormalizeMac_idem: "NormalizeMac (NormalizeMac t) = NormalizeMac t"
proof -
  have "length hw = length ws" if "parse_mac_elems ws = Inr hw" for ws hw
    using that by (induction ws arbitrary: hw) (auto split: sum.splits)
  then have "length hw = 6" if "parseMac48 t = Inr hw" for hw
    using that by (auto simp: parseMac48_def MAC_LEN_def Let_def split: if_splits)
  then show ?thesis
    using ParseMAC_String ParseMAC_length [of t] by (auto simp: NormalizeMac_def split: option.split sum.split)
qed

subsection \<open>The types of the tool\<close>

lemma normNeg_idem: "(\<And>t. f (f t) = f t) \<Longrightarrow> normNeg t f = Inr u \<Longrightarrow> normNeg u f = Inr u"
  by (auto simp: normNeg_def split: list.splits if_splits)

lemma normNeg_prefix_colon:
  "normNeg t NormalizeIPv6prefix = Inr u \<Longrightarrow> CHR '':'' \<in> set t \<Longrightarrow> CHR '':'' \<in> set u"
  "normNeg t NormalizeIPv4prefix = Inr u \<Longrightarrow> CHR '':'' \<notin> set t \<Longrightarrow> CHR '':'' \<notin> set u"
  using NormalizeIPv6prefix_colon NormalizeIPv4prefix_colon by (auto simp: normNeg_def split: list.splits if_splits)

lemma NormalizeNegIPprefix_idem: "NormalizeNegIPprefix t = Inr u \<Longrightarrow> NormalizeNegIPprefix u = Inr u"
  using normNeg_prefix_colon [of t u] normNeg_idem [OF NormalizeIPv6prefix_idem, of t u] normNeg_idem [OF NormalizeIPv4prefix_idem, of t u]
  by (auto simp: NormalizeNegIPprefix_def NormalizeNegIPv6prefix_def NormalizeNegIPv4prefix_def split: if_splits)

text \<open>C37. Normalising is idempotent. For every type of the tool but \<open>legacy\<close>, a line that the tool has written is written again
  unchanged: what is normal stays as it is, for addresses with and without masks, prefixes, negations and MAC addresses.\<close>

theorem normalising_is_idempotent:
  assumes "v \<in> set typeTable" "nt_name v \<noteq> ''legacy''" "nt_function v t = Inr u"
  shows "nt_function v u = Inr u"
proof -
  note neg = normNeg_idem [OF NormalizeIPv4_idem] normNeg_idem [OF NormalizeIPv6_idem] normNeg_idem [OF NormalizeIPv4prefix_idem]
    normNeg_idem [OF NormalizeIPv6prefix_idem]
  show ?thesis
    using assms unfolding typeTable_def Let_def
    by (auto simp: NormalizeMac_idem NormalizeIP_idem NormalizeIPv4_idem NormalizeIPv6_idem NormalizeIPv4prefix_idem
        NormalizeIPv6prefix_idem NormalizeIPprefix_idem NormalizeNegIPv4_def NormalizeNegIPv6_def NormalizeNegIPv4prefix_def
        NormalizeNegIPv6prefix_def NormalizeNegIPprefix_idem dest: neg)
qed

theorem normalising_is_idempotent_witness:
  "NormalizeMac ''A:b:c:d:e:f'' = ''0a:0b:0c:0d:0e:0f'' \<and> NormalizeMac ''0a:0b:0c:0d:0e:0f'' = ''0a:0b:0c:0d:0e:0f''"
proof -
  let ?v = "\<lparr>nt_name = ''mac'', nt_help = ''MAC address'', nt_function = (\<lambda>x. Inr (NormalizeMac x))\<rparr>"
  have "?v \<in> set typeTable" by (simp add: typeTable_def)
  moreover have m: "NormalizeMac ''A:b:c:d:e:f'' = ''0a:0b:0c:0d:0e:0f''" by code_simp
  ultimately show ?thesis
    using normalising_is_idempotent [of ?v "''A:b:c:d:e:f''" "''0a:0b:0c:0d:0e:0f''"] by simp
qed

subsection \<open>Normal forms decide equality\<close>

text \<open>The bits of an address, most significant first.\<close>

definition addr_bit :: "byte list \<Rightarrow> nat \<Rightarrow> bool" where
  "addr_bit x k = bit (x ! (k div 8)) (7 - k mod 8)"

lemma full_byte: "(0xFF :: byte) = - 1"
  by simp

lemma full_byte_bits: "j < 8 \<Longrightarrow> bit (0xFF :: byte) j"
  unfolding full_byte by simp

lemma mask_byte_bits: "j < 8 \<Longrightarrow> n < 8 \<Longrightarrow> bit (NOT (drop_bit n 0xFF) :: byte) j \<longleftrightarrow> 7 - j < n"
  unfolding full_byte by (auto simp: bit_not_iff bit_drop_bit_eq bit_mask_iff)

lemma mask_bit: "i < l \<Longrightarrow> j < 8 \<Longrightarrow> bit (mask_bytes l n ! i) j \<longleftrightarrow> 8 * i + (7 - j) < n"
proof (induction l n arbitrary: i rule: mask_bytes.induct)
  case (2 l n)
  then show ?case using mask_byte_bits [of j n] full_byte_bits [of j] by (cases i) auto
qed simp

lemma masked_eq_iff:
  assumes "length x = l" "length y = l"
  shows "masked n x = masked n y \<longleftrightarrow> (\<forall>k<min n (8 * l). addr_bit x k \<longleftrightarrow> addr_bit y k)"
proof -
  have b: "x ! i = y ! i \<longleftrightarrow> (\<forall>j<8. bit (x ! i) j \<longleftrightarrow> bit (y ! i) j)" for x y :: "byte list" and i
    by (auto simp: bit_eq_iff dest: bit_imp_le_length)
  have k: "(\<forall>i<l. \<forall>j<8. 8 * i + (7 - j) < n \<longrightarrow> (bit (x ! i) j \<longleftrightarrow> bit (y ! i) j)) \<longleftrightarrow>
      (\<forall>k<min n (8 * l). addr_bit x k \<longleftrightarrow> addr_bit y k)" (is "?L \<longleftrightarrow> ?R")
  proof
    assume L: ?L
    show ?R
    proof (intro allI impI)
      fix k assume "k < min n (8 * l)"
      then have "k div 8 < l" "7 - k mod 8 < 8" "8 * (k div 8) + (7 - (7 - k mod 8)) < n" by auto
      then show "addr_bit x k \<longleftrightarrow> addr_bit y k" unfolding addr_bit_def using L by blast
    qed
  next
    assume R: ?R
    show ?L
    proof (intro allI impI)
      fix i j :: nat assume "i < l" "j < 8" "8 * i + (7 - j) < n"
      moreover have "(8 * i + d) div 8 = i" "(8 * i + d) mod 8 = d" if "d < 8" for d using that by simp_all
      moreover from this [of "7 - j"] have "(8 * i + (7 - j)) div 8 = i" "7 - (8 * i + (7 - j)) mod 8 = j" using \<open>j < 8\<close> by simp_all
      ultimately show "bit (x ! i) j \<longleftrightarrow> bit (y ! i) j" using R [rule_format, of "8 * i + (7 - j)"] by (simp add: addr_bit_def)
    qed
  qed
  show ?thesis
  proof (cases "n > 8 * l")
    case True
    then have "masked n x = masked n y \<longleftrightarrow> (\<forall>i<l. x ! i = y ! i)" using assms by (auto simp: masked_def list_eq_iff_nth_eq)
    then show ?thesis unfolding k [symmetric] b using True by fastforce
  next
    case False
    then have "masked n x = masked n y \<longleftrightarrow> (\<forall>i<l. masked n x ! i = masked n y ! i)" using assms by (auto simp: list_eq_iff_nth_eq)
    then show ?thesis unfolding k [symmetric] b using False assms mask_bit by (auto simp: masked_def bit_and_iff)
  qed
qed

lemma ParseIP_dot: "CHR '':'' \<notin> set s \<Longrightarrow> ParseIP s = Some ip \<Longrightarrow> CHR ''.'' \<in> set s"
proof (rule ccontr)
  assume "CHR '':'' \<notin> set s" "CHR ''.'' \<notin> set s" "ParseIP s = Some ip"
  moreover from this have "dropWhile (\<lambda>c. c \<noteq> CHR ''.'' \<and> c \<noteq> CHR '':'') s = []" by (auto simp: dropWhile_eq_Nil_conv)
  ultimately show False by (simp add: ParseIP_def)
qed

text \<open>The network of a prefix: its length and the bits that count, of the four-byte form for a token without colons.\<close>

definition same_network :: "bool \<Rightarrow> byte list \<times> nat \<Rightarrow> byte list \<times> nat \<Rightarrow> bool" where
  "same_network v6 p q = (case (p, q) of ((x, n), (y, m)) \<Rightarrow>
     n = m \<and> (if v6 then \<forall>k<min n 128. addr_bit x k = addr_bit y k
              else \<forall>k<min n 32. addr_bit (drop 12 x) k = addr_bit (drop 12 y) k))"

lemma Ipv6String_inj: "length x = IPv6len \<Longrightarrow> length y = IPv6len \<Longrightarrow> Ipv6String x = Ipv6String y \<longleftrightarrow> x = y"
  by (metis ParseIP_String option.inject)

lemma dotted_inj: "length x = IPv4len \<Longrightarrow> length y = IPv4len \<Longrightarrow> dotted x = dotted y \<longleftrightarrow> x = y"
  by (metis ParseIP_dotted append_eq_append_conv option.inject)

lemma format_uint_inj:
  assumes "n < 2 ^ 64" "m < 2 ^ 64"
  shows "format_uint 10 n = format_uint 10 m \<longleftrightarrow> n = m"
proof -
  have "ParseUint (format_uint 10 n) 10 64 = Inr n" "ParseUint (format_uint 10 m) 10 64 = Inr m"
    using assms by (simp_all only: ParseUint_format numeral_le_iff semiring_norm)
  then show ?thesis by (metis sum.inject(2))
qed

lemma slash_inj: "c \<notin> set a \<Longrightarrow> c \<notin> set b \<Longrightarrow> a @ c # x = b @ c # y \<longleftrightarrow> a = b \<and> x = y"
proof (induction a arbitrary: b)
  case (Cons d a)
  then show ?case by (cases b) auto
qed (auto simp: Cons_eq_append_conv)

lemma NormalizeIP_address:
  assumes "ParseIP a = Some x"
  shows "NormalizeIP a = (if CHR '':'' \<in> set a then Ipv6String x else dotted (drop 12 x))"
proof (cases "CHR '':'' \<in> set a")
  case True
  then show ?thesis using assms by (simp add: NormalizeIP_def) (subst NormalizeIPv6.simps, simp)
next
  case False
  then obtain q where "length q = IPv4len" "x = v4InV6Prefix @ q" using ParseIP_v4 assms by blast
  then show ?thesis
    using False assms ParseIP_dot [OF False assms] by (simp add: NormalizeIP_def) (subst NormalizeIPv4.simps, simp add: IP_String_v4)
qed

lemma NormalizeIPprefix_network:
  assumes "addr_prefix a = Some (x, n)"
  shows "NormalizeIPprefix a =
    (if CHR '':'' \<in> set a then Ipv6String (masked n x) else dotted (masked n (drop 12 x))) @ CHR ''/'' # format_uint 10 n"
proof -
  obtain s m where s: "a = s @ CHR ''/'' # m" "ParseIP s = Some x"
    using assms by (auto simp: addr_prefix_Some cut_slash_Some)
  have "CHR ''.'' \<in> set a" if "CHR '':'' \<notin> set a" using ParseIP_dot [of s x] s that by simp
  then show ?thesis
    using assms by (auto simp: NormalizeIPprefix_def NormalizeIPv6prefix_eq NormalizeIPv4prefix_eq)
qed

text \<open>C36. Normal forms decide equality. Two tokens that denote addresses, both with or both without colons, have the same normal
  form exactly when they denote the same address, and the normal form denotes that address; the double colon of a printed address
  stands for a longest run of zero groups, of at least two. Two tokens that denote prefixes have the same normal form
  exactly when they have the same length and agree in that many leading bits.\<close>

theorem normal_forms_decide_equality:
  assumes "CHR '':'' \<in> set a \<longleftrightarrow> CHR '':'' \<in> set b"
  shows "(ParseIP a = Some x \<and> ParseIP b = Some y \<longrightarrow>
      (NormalizeIP a = NormalizeIP b \<longleftrightarrow> x = y) \<and> ParseIP (NormalizeIP a) = Some x)
    \<and> (addr_prefix a = Some p \<and> addr_prefix b = Some q \<longrightarrow>
      (NormalizeIPprefix a = NormalizeIPprefix b \<longleftrightarrow> same_network (CHR '':'' \<in> set a) p q))
    \<and> (length x = IPv6len \<longrightarrow> (\<forall>i j. zero_run x i j \<longrightarrow> j - i \<le> 2) \<and> Ipv6String x = joined (groups x 0 8)
      \<or> (\<exists>k l. zero_run x (2 * k) (2 * l) \<and> k + 1 < l \<and> (\<forall>i j. zero_run x i j \<longrightarrow> j - i \<le> 2 * (l - k))
          \<and> Ipv6String x = joined (groups x 0 k) @ ''::'' @ joined (groups x l 8)))"
proof (intro conjI impI)
  let ?v6 = "CHR '':'' \<in> set a"
  assume p: "ParseIP a = Some x \<and> ParseIP b = Some y"
  have l: "length x = IPv6len" "length y = IPv6len" using p ParseIP_length by blast+
  have v4: "\<exists>r. length r = IPv4len \<and> x = v4InV6Prefix @ r" "\<exists>r. length r = IPv4len \<and> y = v4InV6Prefix @ r" if "\<not> ?v6"
    using that assms p ParseIP_v4 by auto
  show "NormalizeIP a = NormalizeIP b \<longleftrightarrow> x = y"
    using p assms l v4 NormalizeIP_address [of a x] NormalizeIP_address [of b y]
    by (cases ?v6) (auto simp: Ipv6String_inj dotted_inj)
  show "ParseIP (NormalizeIP a) = Some x"
    using p l v4(1) NormalizeIP_address [of a x] by (cases ?v6) (auto simp: ParseIP_String ParseIP_dotted)
next
  let ?v6 = "CHR '':'' \<in> set a"
  assume pq: "addr_prefix a = Some p \<and> addr_prefix b = Some q"
  obtain x n y m where p: "p = (x, n)" "q = (y, m)" by fastforce
  note b = addr_prefix_bound [of a x n] addr_prefix_bound [of b y m]
  have len: "length (drop 12 x) = IPv4len" "length (drop 12 y) = IPv4len" using b pq p by (auto simp: IPv4len_def IPv6len_def)
  show "NormalizeIPprefix a = NormalizeIPprefix b \<longleftrightarrow> same_network ?v6 p q"
    using pq assms b len NormalizeIPprefix_network [of a x n] NormalizeIPprefix_network [of b y m]
    by (auto simp: p same_network_def slash_inj Ipv6String_free dotted_free Ipv6String_inj dotted_inj format_uint_inj
        masked_eq_iff [of x 16 y] masked_eq_iff [of "drop 12 x" 4 "drop 12 y"] IPv4len_def IPv6len_def)
next
  assume l: "length x = IPv6len"
  show "(\<forall>i j. zero_run x i j \<longrightarrow> j - i \<le> 2) \<and> Ipv6String x = joined (groups x 0 8)
      \<or> (\<exists>k l. zero_run x (2 * k) (2 * l) \<and> k + 1 < l \<and> (\<forall>i j. zero_run x i j \<longrightarrow> j - i \<le> 2 * (l - k))
          \<and> Ipv6String x = joined (groups x 0 k) @ ''::'' @ joined (groups x l 8))"
    by (cases rule: Ipv6String_cases [OF l]) blast+
qed

definition loopback :: "byte list" where
  "loopback = replicate 15 0 @ [1]"

lemma parser_rounds:
  "mac_pairs 8 = mac_pairs (Suc (Suc (Suc (Suc (Suc (Suc (Suc (Suc 0))))))))"
  "parse6 8 = parse6 (Suc (Suc (Suc (Suc (Suc (Suc (Suc (Suc 0))))))))" "parse4 4 = parse4 (Suc (Suc (Suc (Suc 0))))"
  by (simp_all add: numeral_eq_Suc)

theorem normal_forms_decide_equality_witness:
  "NormalizeIP ''0:0::01'' = NormalizeIP ''::1'' \<and> ParseIP (NormalizeIP ''0:0::01'') = Some loopback
   \<and> NormalizeIPprefix ''10.1.2.3/8'' = NormalizeIPprefix ''10.9.0.0/08''"
proof -
  have a: "ParseIP ''0:0::01'' = Some loopback" "ParseIP ''::1'' = Some loopback"
    by (simp_all add: ParseIP_def parseIPv6_def HasPrefix_def ntoi_def digit_val_def parser_rounds expand6_def loopback_def
        IPv6len_def) (simp_all add: numeral_eq_Suc)
  have b: "addr_prefix ''10.1.2.3/8'' = Some (v4InV6Prefix @ [10, 1, 2, 3], 8)" "addr_prefix ''10.9.0.0/08'' = Some (v4InV6Prefix @ [10, 9, 0, 0], 8)"
    by (simp_all add: addr_prefix_def cut_slash_def ParseIP_def parseIPv4_def ntoi_def digit_val_def ParseUint_def IPv4len_def parser_rounds)
  have n: "same_network False (v4InV6Prefix @ [10, 1, 2, 3], 8) (v4InV6Prefix @ [10, 9, 0, 0], 8)"
    by (auto simp: same_network_def addr_bit_def)
  have c: "CHR '':'' \<in> set ''0:0::01'' \<longleftrightarrow> CHR '':'' \<in> set ''::1''" "CHR '':'' \<in> set ''10.1.2.3/8'' \<longleftrightarrow> CHR '':'' \<in> set ''10.9.0.0/08''"
    by simp_all
  have "NormalizeIP ''0:0::01'' = NormalizeIP ''::1''" "ParseIP (NormalizeIP ''0:0::01'') = Some loopback"
    using normal_forms_decide_equality [OF c(1), of loopback loopback] a by blast+
  moreover have "NormalizeIPprefix ''10.1.2.3/8'' = NormalizeIPprefix ''10.9.0.0/08''"
    using normal_forms_decide_equality [OF c(2), of loopback loopback
        "(v4InV6Prefix @ [10, 1, 2, 3], 8)" "(v4InV6Prefix @ [10, 9, 0, 0], 8)"] b n by simp
  ultimately show ?thesis by blast
qed

subsection \<open>Gaps\<close>

text \<open>
  The type \<open>legacy\<close> guesses: it writes an EUI-64 address with colons, and when it reads that line again takes it
  for an IPv6 address.
\<close>

lemma legacy_not_idempotent:
  "NormalizeString ''00-11-0a-0b-0c-0d-0e-0f'' = Inr ''00:11:0a:0b:0c:0d:0e:0f''"
  "NormalizeString ''00:11:0a:0b:0c:0d:0e:0f'' = Inr ''0:11:a:b:c:d:e:f''"
proof -
  let ?d = "''00-11-0a-0b-0c-0d-0e-0f''" and ?c = "''00:11:0a:0b:0c:0d:0e:0f''" and ?n = "''0:11:a:b:c:d:e:f''"
  let ?p = "[0, 0, 0, 0x11, 0, 0xa, 0, 0xb, 0, 0xc, 0, 0xd, 0, 0xe, 0, 0xf] :: byte list"
  note chars = digit_val_def digit_char_def ntoi_def
  have "ParseMAC ?d = Some [0, 0x11, 0xa, 0xb, 0xc, 0xd, 0xe, 0xf]"
    by (simp add: ParseMAC_def xtoi2_def chars parser_rounds)
  then show "NormalizeString ?d = Inr ?c"
    by (simp add: NormalizeString_def NormalizeIP_def NormalizeNegIP_def NormalizeMac_def HardwareAddr_String_def hex2_def chars char_of_def bit_0)
  have "ParseIP ?c = Some ?p"
    by (simp add: ParseIP_def parseIPv6_def HasPrefix_def parser_rounds expand6_def IPv6len_def chars)
  moreover have "ParseMAC ?n = None" "\<exists>e. parseMac48 ?n = Inl e"
    by (simp_all add: ParseMAC_def parseMac48_def MAC_LEN_def)
  moreover have "Ipv6String ?p = ?n"
    by code_simp
  ultimately show "NormalizeString ?c = Inr ?n"
    by (auto simp: NormalizeString_def NormalizeIP_def NormalizeNegIP_def NormalizeNegIPv6_def normNeg_def NormalizeMac_def
        NormalizeIPv6.simps [of ?c])
qed

text \<open>An empty line makes the tool panic for the negated types that do not look for a colon first.\<close>

lemma empty_line_panics:
  assumes "ty \<in> {''neg-ipv4'', ''neg-ipv6'', ''neg-ipv4-prefix'', ''neg-ipv6-prefix''}"
  shows "pe_code (normalize_main [arg0, ty] nl None) = 2"
  using assms unfolding insert_iff empty_iff
  by (elim disjE) (simp_all add: normalize_main_def getNormalizeFn_def typeTable_def Let_def raw_lines_def nl_def drop_cr_def MaxScanTokenSize_def
      normNeg_def NormalizeNegIPv4_def NormalizeNegIPv6_def NormalizeNegIPv4prefix_def NormalizeNegIPv6prefix_def)

end
