(* ===== verification/Comp_Check.thy ===== *)
theory Comp_Check
  imports Go_Fmt
begin

text \<open>
  \<open>src/cmd/configd/component_validation.go\<close>: the checks on the configuration of the VCI components that the
  daemon makes when it starts. The theorem compares them with a reference definition: nothing may occur
  twice, in whatever order Go visits the maps.
\<close>

text \<open>
  \<open>conf.ServiceConfig\<close> and \<open>conf.Model\<close>, as far as they are used. A Go map is the list of its entries in
  the order the loop visits them.
\<close>

record Model =
  md_Name :: string
  md_Modules :: "string list"

record ServiceConfig =
  sc_Name :: string
  sc_ConfigFiles :: "string list"
  sc_ModelByName :: "(string \<times> Model) list"
  sc_ModelByModelSet :: "(string \<times> Model) list"

definition tab :: string where "tab = [CHR 0x09]"

fun dup_components :: "ServiceConfig list \<Rightarrow> (string \<rightharpoonup> bool) \<Rightarrow> string \<Rightarrow> string" where
  "dup_components [] nameMap errs = errs"
| "dup_components (svc # cs) nameMap errs =
    dup_components cs (nameMap(sc_Name svc \<mapsto> True))
      (if nameMap (sc_Name svc) \<noteq> None then errs @ tab @ sc_Name svc @ nl else errs)"

definition checkForDuplicateComponentNames :: "ServiceConfig list \<Rightarrow> error option" where
  "checkForDuplicateComponentNames compConfig =
    (let errs = dup_components compConfig Map.empty [] in
     if errs \<noteq> [] then Some (ExternalError (''These components are duplicated:'' @ nl @ errs @ nl)) else None)"

text \<open>One loop over the names (files, models) of one component: the map and the error text.\<close>

fun dup_owned :: "(string \<Rightarrow> string \<Rightarrow> string) \<Rightarrow> string \<Rightarrow> string list \<Rightarrow> (string \<rightharpoonup> string) \<times> string \<Rightarrow> (string \<rightharpoonup> string) \<times> string" where
  "dup_owned msg owner [] st = st"
| "dup_owned msg owner (x # xs) (m, errs) =
    dup_owned msg owner xs (m(x \<mapsto> owner), (case m x of Some entry \<Rightarrow> errs @ msg x entry | None \<Rightarrow> errs))"

text \<open>The loop over the components; the keys are their files, or the names of their models.\<close>

fun dup_all :: "(ServiceConfig \<Rightarrow> string list) \<Rightarrow> (string \<Rightarrow> string \<Rightarrow> string \<Rightarrow> string) \<Rightarrow> ServiceConfig list \<Rightarrow>
    (string \<rightharpoonup> string) \<times> string \<Rightarrow> string" where
  "dup_all keys msg [] st = snd st"
| "dup_all keys msg (svc # cs) st = dup_all keys msg cs (dup_owned (msg (sc_Name svc)) (sc_Name svc) (keys svc) st)"

definition file_msg :: "string \<Rightarrow> string \<Rightarrow> string \<Rightarrow> string" where
  "file_msg name cfgFile entry = tab @ cfgFile @ '': '' @ entry @ '' and '' @ name @ nl"

definition checkForDuplicateConfigFileNames :: "ServiceConfig list \<Rightarrow> error option" where
  "checkForDuplicateConfigFileNames compConfig =
    (let errs = dup_all sc_ConfigFiles file_msg compConfig (Map.empty, []) in
     if errs \<noteq> [] then Some (ExternalError (''These components have duplicate config files:'' @ nl @ errs @ nl)) else None)"

definition quoted :: "string \<Rightarrow> string" where
  "quoted s = [CHR 0x27] @ s @ [CHR 0x27]"

definition model_names :: "ServiceConfig \<Rightarrow> string list" where
  "model_names svc = map (\<lambda>(_, model). md_Name model) (sc_ModelByName svc)"

definition model_msg :: "string \<Rightarrow> string \<Rightarrow> string \<Rightarrow> string" where
  "model_msg name model entry =
    ''Model '' @ quoted model @ '' duplicated in:'' @ nl @ tab @ quoted entry @ nl @ tab @ quoted name @ nl"

definition checkForDuplicateModelNames :: "ServiceConfig list \<Rightarrow> error option" where
  "checkForDuplicateModelNames compConfig =
    (let errs = dup_all model_names model_msg compConfig (Map.empty, []) in
     if errs \<noteq> [] then Some (ExternalError (Errorf errs)) else None)"

text \<open>Here the first owner stays in the map.\<close>

fun dup_module_list :: "string \<Rightarrow> string \<Rightarrow> string list \<Rightarrow> (string \<rightharpoonup> string) \<times> string \<Rightarrow> (string \<rightharpoonup> string) \<times> string" where
  "dup_module_list modelSetName name [] st = st"
| "dup_module_list modelSetName name (module # ms) (m, errs) =
    dup_module_list modelSetName name ms
      (case m module of
         Some other \<Rightarrow> (m, errs @ ''YANG module '' @ module @ '' is in multiple models (m/set '' @ modelSetName @ '')'' @
           nl @ tab @ other @ nl @ tab @ name @ nl)
       | None \<Rightarrow> (m(module \<mapsto> name), errs))"

fun dup_model_sets ::
  "(string \<times> Model) list \<Rightarrow> (string \<rightharpoonup> (string \<rightharpoonup> string)) \<times> string \<Rightarrow> (string \<rightharpoonup> (string \<rightharpoonup> string)) \<times> string" where
  "dup_model_sets [] st = st"
| "dup_model_sets ((modelSetName, model) # ms) (moduleMap, errs) =
    (let moduleMap' = (if moduleMap modelSetName = None then moduleMap(modelSetName \<mapsto> Map.empty) else moduleMap);
         (inner, errs') = dup_module_list modelSetName (md_Name model) (md_Modules model) (the (moduleMap' modelSetName), errs)
     in dup_model_sets ms (moduleMap'(modelSetName \<mapsto> inner), errs'))"

fun dup_modules :: "ServiceConfig list \<Rightarrow> (string \<rightharpoonup> (string \<rightharpoonup> string)) \<times> string \<Rightarrow> string" where
  "dup_modules [] st = snd st"
| "dup_modules (svc # cs) st = dup_modules cs (dup_model_sets (sc_ModelByModelSet svc) st)"

definition checkForDuplicateModuleReferences :: "ServiceConfig list \<Rightarrow> error option" where
  "checkForDuplicateModuleReferences compConfig =
    (let errs = dup_modules compConfig (Map.empty, []) in if errs \<noteq> [] then Some (ExternalError (Errorf errs)) else None)"

definition validateComponents :: "ServiceConfig list \<Rightarrow> error option" where
  "validateComponents compConfig =
    (case checkForDuplicateComponentNames compConfig of
       Some err \<Rightarrow> Some err
     | None \<Rightarrow> (case checkForDuplicateConfigFileNames compConfig of
         Some err \<Rightarrow> Some err
       | None \<Rightarrow> (case checkForDuplicateModelNames compConfig of
           Some err \<Rightarrow> Some err
         | None \<Rightarrow> checkForDuplicateModuleReferences compConfig)))"

subsection \<open>The reference\<close>

definition set_refs :: "(string \<times> Model) list \<Rightarrow> (string \<times> string) list" where
  "set_refs ms = concat (map (\<lambda>(s, m). map (Pair s) (md_Modules m)) ms)"

definition module_refs :: "ServiceConfig \<Rightarrow> (string \<times> string) list" where
  "module_refs c = set_refs (sc_ModelByModelSet c)"

definition nothing_twice :: "ServiceConfig list \<Rightarrow> bool" where
  "nothing_twice cs \<longleftrightarrow> distinct (map sc_Name cs) \<and> distinct (concat (map sc_ConfigFiles cs))
    \<and> distinct (concat (map model_names cs)) \<and> distinct (concat (map module_refs cs))"

lemma dup_components_nil:
  "dup_components cs m errs = [] \<longleftrightarrow> errs = [] \<and> distinct (map sc_Name cs) \<and> sc_Name ` set cs \<inter> dom m = {}"
  by (induction cs arbitrary: m errs) (auto simp: tab_def)

lemma dup_owned_spec:
  assumes "\<And>x e. msg x e \<noteq> []"
  shows "dom (fst (dup_owned msg owner xs (m, errs))) = dom m \<union> set xs"
    and "snd (dup_owned msg owner xs (m, errs)) = [] \<longleftrightarrow> errs = [] \<and> distinct xs \<and> set xs \<inter> dom m = {}"
  using assms by (induction xs arbitrary: m errs) (auto split: option.splits)

lemma dup_all_nil:
  assumes "\<And>n x e. msg n x e \<noteq> []"
  shows "dup_all keys msg cs (m, errs) = [] \<longleftrightarrow> errs = [] \<and> distinct (concat (map keys cs)) \<and> set (concat (map keys cs)) \<inter> dom m = {}"
proof (induction cs arbitrary: m errs)
  case (Cons c cs)
  obtain m' errs' where d: "dup_owned (msg (sc_Name c)) (sc_Name c) (keys c) (m, errs) = (m', errs')" by fastforce
  then show ?case
    using dup_owned_spec [of "msg (sc_Name c)" "sc_Name c" "keys c" m errs] assms by (auto simp: Cons)
qed simp

text \<open>The pairs of model set and module that are in the nested map.\<close>

definition module_dom :: "(string \<rightharpoonup> (string \<rightharpoonup> string)) \<Rightarrow> (string \<times> string) set" where
  "module_dom mm = {(s, m). \<exists>inner. mm s = Some inner \<and> m \<in> dom inner}"

lemma dup_module_list_spec:
  "dom (fst (dup_module_list s n ms (m, errs))) = dom m \<union> set ms"
  "snd (dup_module_list s n ms (m, errs)) = [] \<longleftrightarrow> errs = [] \<and> distinct ms \<and> set ms \<inter> dom m = {}"
  by (induction ms arbitrary: m errs) (auto split: option.splits)

lemma set_refs_simps: "set_refs [] = []" "set_refs ((s, m) # ms) = map (Pair s) (md_Modules m) @ set_refs ms"
  by (simp_all add: set_refs_def)

lemma dup_model_sets_spec:
  "module_dom (fst (dup_model_sets ms (mm, errs))) = module_dom mm \<union> set (set_refs ms)
   \<and> (snd (dup_model_sets ms (mm, errs)) = [] \<longleftrightarrow> errs = [] \<and> distinct (set_refs ms)
      \<and> set (set_refs ms) \<inter> module_dom mm = {})"
proof (induction ms arbitrary: mm errs)
  case (Cons sm ms)
  obtain s m where sm: "sm = (s, m)" by fastforce
  let ?mm = "if mm s = None then mm(s \<mapsto> Map.empty) else mm"
  let ?ps = "Pair s ` set (md_Modules m)"
  obtain inner errs' where d: "dup_module_list s (md_Name m) (md_Modules m) (the (?mm s), errs) = (inner, errs')" by fastforce
  have "(s, x) \<in> module_dom mm \<longleftrightarrow> x \<in> dom (the (?mm s))" for x
    by (auto simp: module_dom_def)
  then have i: "errs' = [] \<longleftrightarrow> errs = [] \<and> distinct (md_Modules m) \<and> ?ps \<inter> module_dom mm = {}"
    using dup_module_list_spec(2) [of s "md_Name m" "md_Modules m" "the (?mm s)" errs] d by auto
  have "inner x \<noteq> None \<longleftrightarrow> the (?mm s) x \<noteq> None \<or> x \<in> set (md_Modules m)" for x
    using dup_module_list_spec(1) [of s "md_Name m" "md_Modules m" "the (?mm s)" errs] d by (simp add: dom_def set_eq_iff)
  then have md: "module_dom (?mm(s \<mapsto> inner)) = module_dom mm \<union> ?ps"
    by (auto simp: module_dom_def dom_def split: if_splits) (metis image_eqI)+
  have st: "dup_model_sets (sm # ms) (mm, errs) = dup_model_sets ms (?mm(s \<mapsto> inner), errs')"
    by (simp add: sm d Let_def)
  have refs: "set (set_refs (sm # ms)) = ?ps \<union> set (set_refs ms)"
    "distinct (set_refs (sm # ms)) \<longleftrightarrow> distinct (md_Modules m) \<and> distinct (set_refs ms) \<and> ?ps \<inter> set (set_refs ms) = {}"
    by (simp_all add: sm set_refs_simps distinct_map inj_on_def)
  show ?case
    unfolding st refs Cons [THEN conjunct1] Cons [THEN conjunct2] i md by blast
qed (simp add: set_refs_simps)

lemma dup_modules_nil:
  "dup_modules cs (mm, errs) = [] \<longleftrightarrow>
    errs = [] \<and> distinct (concat (map module_refs cs)) \<and> set (concat (map module_refs cs)) \<inter> module_dom mm = {}"
proof (induction cs arbitrary: mm errs)
  case (Cons c cs)
  obtain mm' errs' where d: "dup_model_sets (sc_ModelByModelSet c) (mm, errs) = (mm', errs')" by fastforce
  then show ?case
    using dup_model_sets_spec [of "sc_ModelByModelSet c" mm errs] by (auto simp: Cons module_refs_def)
qed simp

text \<open>C38. Components are accepted exactly when nothing occurs twice: no component name, no configuration file, no
  model name, and no YANG module within a model set, over all components and in whatever order the maps are visited.\<close>

theorem components_accepted_iff_unique:
  "validateComponents cs = None \<longleftrightarrow> nothing_twice cs"
proof -
  have "file_msg n x e \<noteq> []" "model_msg n x e \<noteq> []" for n x e by (simp_all add: file_msg_def model_msg_def tab_def)
  then show ?thesis
    by (auto simp: validateComponents_def nothing_twice_def checkForDuplicateComponentNames_def checkForDuplicateConfigFileNames_def
        checkForDuplicateModelNames_def checkForDuplicateModuleReferences_def dup_components_nil dup_all_nil dup_modules_nil
        module_dom_def Let_def split: option.splits)
qed

text \<open>The message about duplicate models is used as a format: a percent sign in a name garbles it.\<close>

lemma model_error_garbled:
  "let m = \<lparr>md_Name = ''50%'', md_Modules = []\<rparr>;
       c = (\<lambda>n. \<lparr>sc_Name = n, sc_ConfigFiles = [], sc_ModelByName = [(''m'', m)], sc_ModelByModelSet = []\<rparr>) in
   validateComponents [c ''a'', c ''b''] = Some (ExternalError
     (''Model '' @ [CHR 0x27] @ ''50%!'' @ [CHR 0x27] @ ''(MISSING) duplicated in:'' @ nl @ tab @ quoted ''a'' @ nl @ tab @ quoted ''b'' @ nl))"
  by code_simp

end
