(* ===== verification/Yangd.thy ===== *)
theory Yangd
  imports Disp_Rpc Comp_Check
begin

text \<open>
  \<open>src/cmd/configd/yangd.go\<close>: the bus service that looks up RPCs and notifications and checks or converts
  their data. The model set is the one the dispatcher uses (\<open>rlibs\<close>); the encoding of the messages
  themselves is a parameter.
\<close>

datatype field = FStr string | FBool bool

text \<open>
  \<open>ym_Unmarshal\<close> decodes a message into its fields (an absent field is the empty string), \<open>ym_Marshal\<close> encodes
  a result and may fail.
\<close>

record 'd yangd =
  y_st :: "'d rlibs"
  y_Notifications :: "string \<Rightarrow> (string \<Rightarrow> snode option) option"
  y_mappings :: "string \<Rightarrow> string option"
  ym_Unmarshal :: "string \<Rightarrow> (string \<Rightarrow> string) result"
  ym_Marshal :: "(string \<times> field) list \<Rightarrow> string result"
  y_text :: "error \<Rightarrow> string"

definition yd_getModuleName :: "'d yangd \<Rightarrow> string \<Rightarrow> string" where
  "yd_getModuleName Y ns =
    (case find (\<lambda>(name, m). ns = mod_Namespace m) (Modules (y_st Y)) of Some (name, _) \<Rightarrow> name | None \<Rightarrow> [])"

definition findRpcByNamespace :: "'d yangd \<Rightarrow> string \<Rightarrow> string \<Rightarrow> schema_rpc result" where
  "findRpcByNamespace Y ns name =
    (case Rpcs (y_st Y) ns of
       None \<Rightarrow> Inl (ExternalError (''Unable to find namespace '' @ quoted ns @ '' for RPC '' @ quoted name))
     | Some mod_rpcs \<Rightarrow>
         (case mod_rpcs name of
            Some rpc \<Rightarrow>
              (if rpc_Input rpc = None
               then Inl (ExternalError (''Unable to find RPC '' @ quoted name @ '' in namespace '' @ quoted ns))
               else Inr rpc)
          | None \<Rightarrow> Inl (ExternalError (''Unable to find RPC '' @ quoted name @ '' in namespace '' @ quoted ns))))"

definition findRpcByModuleName :: "'d yangd \<Rightarrow> string \<Rightarrow> string \<Rightarrow> schema_rpc result" where
  "findRpcByModuleName Y moduleName name =
    (case map_of (Modules (y_st Y)) moduleName of
       None \<Rightarrow> Inl (ExternalError (''Unable to find RPC '' @ quoted name @ '' for module '' @ quoted moduleName))
     | Some m \<Rightarrow> findRpcByNamespace Y (mod_Namespace m) name)"

definition yd_findRpc :: "'d yangd \<Rightarrow> string \<Rightarrow> string \<Rightarrow> string \<Rightarrow> schema_rpc result" where
  "yd_findRpc Y ns moduleName name =
    (if moduleName \<noteq> [] then findRpcByModuleName Y moduleName name else findRpcByNamespace Y ns name)"

definition findNotificationByNamespace :: "'d yangd \<Rightarrow> string \<Rightarrow> string \<Rightarrow> snode result" where
  "findNotificationByNamespace Y ns name =
    (case y_Notifications Y ns of
       None \<Rightarrow> Inl (ExternalError (''Unable to find namespace '' @ quoted ns @ '' for Notification '' @ quoted name))
     | Some mod_nots \<Rightarrow>
         (case mod_nots name of
            None \<Rightarrow> Inl (ExternalError (''Unable to find Notification '' @ quoted name @ '' in namespace '' @ quoted ns))
          | Some notification \<Rightarrow> Inr notification))"

definition findNotificationByModuleName :: "'d yangd \<Rightarrow> string \<Rightarrow> string \<Rightarrow> snode result" where
  "findNotificationByModuleName Y moduleName name =
    (case map_of (Modules (y_st Y)) moduleName of
       None \<Rightarrow> Inl (ExternalError (''Unable to find Notification '' @ quoted name @ '' for module '' @ quoted moduleName))
     | Some m \<Rightarrow> findNotificationByNamespace Y (mod_Namespace m) name)"

definition findNotification :: "'d yangd \<Rightarrow> string \<Rightarrow> string \<Rightarrow> string \<Rightarrow> snode result" where
  "findNotification Y ns moduleName name =
    (if moduleName \<noteq> [] then findNotificationByModuleName Y moduleName name else findNotificationByNamespace Y ns name)"

subsection \<open>Encodings\<close>

definition yd_unmarshal :: "'d yangd \<Rightarrow> snode \<Rightarrow> string \<Rightarrow> string \<Rightarrow> string \<Rightarrow> string \<Rightarrow> string \<Rightarrow> dnode result" where
  "yd_unmarshal Y sch data format md ns name =
    (let modns = (if format = ''xml'' then ns else md);
         r = (if format = ''json'' then Some (UnmarshalJSON (y_st Y) sch data)
              else if format = ''rfc7951'' then Some (UnmarshalRFC7951 (y_st Y) sch data)
              else if format = ''xml'' then Some (UnmarshalXML (y_st Y) sch data)
              else None)
     in case r of
          None \<Rightarrow> Inl (OperationFailedApplicationError
            (Some (''Unknown RPC encoding '' @ quoted format @ '' for RPC '' @ modns @ '':'' @ name)) None)
        | Some (Inl e) \<Rightarrow> Inl (InvalidValueApplicationError
            (''Unable to validate RPC '' @ modns @ '':'' @ name @ '' - '' @ y_text Y e))
        | Some (Inr d) \<Rightarrow> Inr d)"

definition yd_marshal :: "'d yangd \<Rightarrow> snode \<Rightarrow> dnode \<Rightarrow> string \<Rightarrow> string result" where
  "yd_marshal Y sch data format =
    (if format = ''json'' then Inr (ToJSON (y_st Y) sch data)
     else if format = ''rfc7951'' then Inr (ToRFC7951 (y_st Y) sch data)
     else if format = ''xml'' then Inr (ToXML (y_st Y) sch data)
     else Inl (OperationFailedApplicationError (Some (''Unknown RPC encoding '' @ quoted format)) None))"

subsection \<open>The methods\<close>

definition malformed :: "'d yangd \<Rightarrow> error \<Rightarrow> error" where
  "malformed Y e = MalformedMessageError (''Unable to parse request (internal format error): '' @ y_text Y e)"

text \<open>\<open>genOut\<close> of the conversions.\<close>

definition data_out :: "'d yangd \<Rightarrow> string \<Rightarrow> string result" where
  "data_out Y dta =
    (case ym_Marshal Y [(''yangd-v1:data'', FStr dta)] of
       Inl _ \<Rightarrow> Inl (OperationFailedApplicationError None None)
     | Inr out \<Rightarrow> Inr out)"

text \<open>
  \<open>ConvertRpcOutput\<close> and \<open>ConvertRpcInput\<close> differ in the schema. The namespace and the module name are
  passed to \<open>unmarshal\<close> in the wrong order, as in the source.
\<close>

definition convert_with :: "'d yangd \<Rightarrow> (schema_rpc \<Rightarrow> snode) \<Rightarrow> string \<Rightarrow> string result" where
  "convert_with Y schema_of input =
    (case ym_Unmarshal Y input of
       Inl e \<Rightarrow> Inl (malformed Y e)
     | Inr f \<Rightarrow>
         (let ns = f ''yangd-v1:rpc-namespace''; md = f ''yangd-v1:module-name''; name = f ''yangd-v1:rpc-name'' in
          case yd_findRpc Y ns md name of
            Inl e \<Rightarrow> Inl (InvalidValueApplicationError (y_text Y e))
          | Inr sch \<Rightarrow>
              (case yd_unmarshal Y (schema_of sch) (f ''yangd-v1:data'') (f ''yangd-v1:input-format'') ns md name of
                 Inl e \<Rightarrow> Inl e
               | Inr data \<Rightarrow>
                   (case yd_marshal Y (schema_of sch) data (f ''yangd-v1:output-format'') of
                      Inl e \<Rightarrow> Inl e
                    | Inr d \<Rightarrow> data_out Y d))))"

definition ConvertRpcOutput :: "'d yangd \<Rightarrow> string \<Rightarrow> string result" where
  "ConvertRpcOutput Y input = convert_with Y rpc_Output input"

definition ConvertRpcInput :: "'d yangd \<Rightarrow> string \<Rightarrow> string result" where
  "ConvertRpcInput Y input = convert_with Y (\<lambda>rpc. the (rpc_Input rpc)) input"

definition LookupModuleNameByNamespace :: "'d yangd \<Rightarrow> string \<Rightarrow> string result" where
  "LookupModuleNameByNamespace Y input =
    (case ym_Unmarshal Y input of
       Inl e \<Rightarrow> Inl (malformed Y e)
     | Inr f \<Rightarrow> ym_Marshal Y [(''yangd-v1:module-name'', FStr (yd_getModuleName Y (f ''yangd-v1:namespace'')))])"

text \<open>The answer and the error are returned together.\<close>

definition valid_out :: "'d yangd \<Rightarrow> bool \<Rightarrow> error option \<Rightarrow> string \<times> error option" where
  "valid_out Y v err =
    (case ym_Marshal Y [(''yangd-v1:valid'', FBool v)] of
       Inl _ \<Rightarrow> (''{'' @ [CHR 0x22] @ ''yangd-v1:valid'' @ [CHR 0x22] @ '': false}'', Some (OperationFailedApplicationError None None))
     | Inr out \<Rightarrow> (out, err))"

definition module_or_ns :: "string \<Rightarrow> string \<Rightarrow> string" where
  "module_or_ns md ns = (if md = [] then ns else md)"

definition ValidateRpcInput :: "'d yangd \<Rightarrow> string \<Rightarrow> string \<times> error option" where
  "ValidateRpcInput Y input =
    (case ym_Unmarshal Y input of
       Inl e \<Rightarrow> valid_out Y False (Some (malformed Y e))
     | Inr f \<Rightarrow>
         (let ns = f ''yangd-v1:rpc-namespace''; md = f ''yangd-v1:rpc-module-name''; name = f ''yangd-v1:rpc-name'' in
          case yd_findRpc Y ns md name of
            Inl e \<Rightarrow> valid_out Y False (Some (InvalidValueApplicationError (y_text Y e)))
          | Inr sch \<Rightarrow>
              (case UnmarshalRFC7951 (y_st Y) (the (rpc_Input sch)) (f ''yangd-v1:rpc-input'') of
                 Inl e \<Rightarrow> valid_out Y False (Some (InvalidValueApplicationError
                   (''Unable to validate RPC '' @ module_or_ns md ns @ '':'' @ name @ '' - '' @ y_text Y e)))
               | Inr _ \<Rightarrow> valid_out Y True None)))"

definition notification_out :: "'d yangd \<Rightarrow> string \<Rightarrow> error option \<Rightarrow> string \<times> error option" where
  "notification_out Y s err =
    (case ym_Marshal Y [(''yangd-v1:output'', FStr s)] of
       Inl _ \<Rightarrow> ([], Some (OperationFailedApplicationError None None))
     | Inr out \<Rightarrow> (out, err))"

definition ValidateNotification :: "'d yangd \<Rightarrow> string \<Rightarrow> string \<times> error option" where
  "ValidateNotification Y input =
    (case ym_Unmarshal Y input of
       Inl e \<Rightarrow> notification_out Y [] (Some (malformed Y e))
     | Inr f \<Rightarrow>
         (let ns = f ''yangd-v1:namespace''; md = f ''yangd-v1:module-name''; name = f ''yangd-v1:name'' in
          case findNotification Y ns md name of
            Inl e \<Rightarrow> notification_out Y [] (Some (InvalidValueApplicationError (y_text Y e)))
          | Inr sch \<Rightarrow>
              (case UnmarshalRFC7951 (y_st Y) sch (f ''yangd-v1:input'') of
                 Inl e \<Rightarrow> notification_out Y [] (Some (InvalidValueApplicationError
                   (''Unable to validate Notification '' @ module_or_ns md ns @ '':'' @ name @ '' - '' @ y_text Y e)))
               | Inr dta \<Rightarrow> notification_out Y (ToRFC7951 (y_st Y) sch dta) None)))"

definition LookupRpcDestinationByModuleName :: "'d yangd \<Rightarrow> string \<Rightarrow> string result" where
  "LookupRpcDestinationByModuleName Y input =
    (case ym_Unmarshal Y input of
       Inl e \<Rightarrow> Inl (malformed Y e)
     | Inr f \<Rightarrow>
         (let name = f ''yangd-v1:module-name''; failed = Inl (ExternalError (''Unable to find model name for module '' @ quoted name)) in
          case map_of (Modules (y_st Y)) name of
            None \<Rightarrow> failed
          | Some m \<Rightarrow> (case y_mappings Y (mod_Namespace m) of None \<Rightarrow> failed | Some modelName \<Rightarrow> Inr modelName)))"

subsection \<open>What is checked\<close>

text \<open>The RPC that a message names: in the namespace of the module if one is given, else in the given namespace.\<close>

definition named_rpc :: "'d yangd \<Rightarrow> string \<Rightarrow> string \<Rightarrow> string \<Rightarrow> schema_rpc option" where
  "named_rpc Y ns md name =
    Option.bind (if md = [] then Some ns else map_option mod_Namespace (map_of (Modules (y_st Y)) md))
      (\<lambda>n. Option.bind (Rpcs (y_st Y) n) (\<lambda>rpcs. Option.bind (rpcs name) (\<lambda>r. if rpc_Input r = None then None else Some r)))"

lemma yd_findRpc_iff: "yd_findRpc Y ns md name = Inr rpc \<longleftrightarrow> named_rpc Y ns md name = Some rpc"
  by (auto simp: yd_findRpc_def named_rpc_def findRpcByModuleName_def findRpcByNamespace_def split: option.split)

lemma yd_findRpc_cases:
  obtains rpc inp where "yd_findRpc Y ns md name = Inr rpc" "named_rpc Y ns md name = Some rpc" "rpc_Input rpc = Some inp"
    | e where "yd_findRpc Y ns md name = Inl e" "named_rpc Y ns md name = None"
proof (cases "yd_findRpc Y ns md name")
  case (Inl e)
  then show thesis using that(2) yd_findRpc_iff [of Y ns md name] by (cases "named_rpc Y ns md name") auto
next
  case (Inr rpc)
  then have n: "named_rpc Y ns md name = Some rpc" by (simp add: yd_findRpc_iff)
  then have "rpc_Input rpc \<noteq> None" by (auto simp: named_rpc_def bind_eq_Some_conv split: if_splits)
  then show thesis using that(1) Inr n by blast
qed

text \<open>The two tables of decoders and encoders, without their error messages.\<close>

definition decodes :: "'d yangd \<Rightarrow> string \<Rightarrow> snode \<Rightarrow> string \<Rightarrow> dnode \<Rightarrow> bool" where
  "decodes Y fmt sch txt d \<longleftrightarrow>
    fmt = ''json'' \<and> UnmarshalJSON (y_st Y) sch txt = Inr d \<or> fmt = ''rfc7951'' \<and> UnmarshalRFC7951 (y_st Y) sch txt = Inr d
    \<or> fmt = ''xml'' \<and> UnmarshalXML (y_st Y) sch txt = Inr d"

definition encodes :: "'d yangd \<Rightarrow> string \<Rightarrow> snode \<Rightarrow> dnode \<Rightarrow> string \<Rightarrow> bool" where
  "encodes Y fmt sch d txt \<longleftrightarrow>
    fmt = ''json'' \<and> txt = ToJSON (y_st Y) sch d \<or> fmt = ''rfc7951'' \<and> txt = ToRFC7951 (y_st Y) sch d
    \<or> fmt = ''xml'' \<and> txt = ToXML (y_st Y) sch d"

lemma yd_unmarshal_iff: "yd_unmarshal Y sch txt fmt a b c = Inr d \<longleftrightarrow> decodes Y fmt sch txt d"
  by (auto simp: yd_unmarshal_def decodes_def Let_def split: sum.split)

lemma yd_marshal_iff: "yd_marshal Y sch d fmt = Inr txt \<longleftrightarrow> encodes Y fmt sch d txt"
  by (auto simp: yd_marshal_def encodes_def)

lemma Inr_bind: "(case r of Inl e \<Rightarrow> Inl (g e) | Inr x \<Rightarrow> h x) = Inr y \<longleftrightarrow> (\<exists>x. r = Inr x \<and> h x = Inr y)"
  by (cases r) auto

lemma convert_with_iff:
  "convert_with Y sel i = Inr out \<longleftrightarrow> (\<exists>f rpc d txt. ym_Unmarshal Y i = Inr f
      \<and> named_rpc Y (f ''yangd-v1:rpc-namespace'') (f ''yangd-v1:module-name'') (f ''yangd-v1:rpc-name'') = Some rpc
      \<and> decodes Y (f ''yangd-v1:input-format'') (sel rpc) (f ''yangd-v1:data'') d
      \<and> encodes Y (f ''yangd-v1:output-format'') (sel rpc) d txt \<and> ym_Marshal Y [(''yangd-v1:data'', FStr txt)] = Inr out)"
  by (simp add: convert_with_def Let_def data_out_def Inr_bind yd_findRpc_iff yd_unmarshal_iff yd_marshal_iff)

lemma dispatcher_findRpc:
  assumes "md \<noteq> []" "enc \<in> {''json'', ''rfc7951''}"
  shows "yd_findRpc Y ns md name = Inr rpc \<longleftrightarrow> (\<exists>n. findRpc (y_st Y) md name enc = Some (rpc, n))"
  using assms
  by (auto simp: yd_findRpc_def findRpcByModuleName_def findRpcByNamespace_def findRpc_def getModuleId_def split: option.splits if_splits)

text \<open>C39. The bus service answers for the RPC that is named. If results can be encoded, \<open>ValidateRpcInput\<close> reports success
  exactly when the message can be decoded, names an RPC with an input in the module (or namespace) it gives, and the data
  conform to that input; the flag it sends agrees with the error it returns. \<open>ConvertRpcInput\<close> answers exactly with the
  data decoded and encoded again over that same input. For a module name it finds the RPC the dispatcher would call.\<close>

theorem yangd_answers_for_named_rpc:
  assumes "\<forall>fs. \<exists>out. ym_Marshal Y fs = Inr out"
  shows "(snd (ValidateRpcInput Y i) = None \<longleftrightarrow> (\<exists>f rpc inp d. ym_Unmarshal Y i = Inr f
        \<and> named_rpc Y (f ''yangd-v1:rpc-namespace'') (f ''yangd-v1:rpc-module-name'') (f ''yangd-v1:rpc-name'') = Some rpc
        \<and> rpc_Input rpc = Some inp \<and> UnmarshalRFC7951 (y_st Y) inp (f ''yangd-v1:rpc-input'') = Inr d))
    \<and> ym_Marshal Y [(''yangd-v1:valid'', FBool (snd (ValidateRpcInput Y i) = None))] = Inr (fst (ValidateRpcInput Y i))
    \<and> (ConvertRpcInput Y i = Inr out \<longleftrightarrow> (\<exists>f rpc inp d txt. ym_Unmarshal Y i = Inr f
        \<and> named_rpc Y (f ''yangd-v1:rpc-namespace'') (f ''yangd-v1:module-name'') (f ''yangd-v1:rpc-name'') = Some rpc
        \<and> rpc_Input rpc = Some inp \<and> decodes Y (f ''yangd-v1:input-format'') inp (f ''yangd-v1:data'') d
        \<and> encodes Y (f ''yangd-v1:output-format'') inp d txt \<and> ym_Marshal Y [(''yangd-v1:data'', FStr txt)] = Inr out))
    \<and> (md \<noteq> [] \<and> enc \<in> {''json'', ''rfc7951''} \<longrightarrow>
        (named_rpc Y ns md name = Some rpc \<longleftrightarrow> (\<exists>n. findRpc (y_st Y) md name enc = Some (rpc, n))))"
proof -
  have v: "valid_out Y b err = (out, err')" if "ym_Marshal Y [(''yangd-v1:valid'', FBool b)] = Inr out" "err' = err" for b err err' out
    using that by (simp add: valid_out_def)
  have valid: "(snd (ValidateRpcInput Y i) = None \<longleftrightarrow> (\<exists>f rpc inp d. ym_Unmarshal Y i = Inr f
        \<and> named_rpc Y (f ''yangd-v1:rpc-namespace'') (f ''yangd-v1:rpc-module-name'') (f ''yangd-v1:rpc-name'') = Some rpc
        \<and> rpc_Input rpc = Some inp \<and> UnmarshalRFC7951 (y_st Y) inp (f ''yangd-v1:rpc-input'') = Inr d))
    \<and> ym_Marshal Y [(''yangd-v1:valid'', FBool (snd (ValidateRpcInput Y i) = None))] = Inr (fst (ValidateRpcInput Y i))"
  proof (cases "ym_Unmarshal Y i")
    case (Inl e)
    obtain out where "ym_Marshal Y [(''yangd-v1:valid'', FBool False)] = Inr out" using assms by blast
    then show ?thesis by (simp add: ValidateRpcInput_def Inl v)
  next
    case (Inr f)
    obtain o1 o2 where o: "ym_Marshal Y [(''yangd-v1:valid'', FBool False)] = Inr o1" "ym_Marshal Y [(''yangd-v1:valid'', FBool True)] = Inr o2"
      using assms by meson
    show ?thesis
      by (cases rule: yd_findRpc_cases [of Y "f ''yangd-v1:rpc-namespace''" "f ''yangd-v1:rpc-module-name''" "f ''yangd-v1:rpc-name''"])
        (auto simp: ValidateRpcInput_def Inr v [OF o(1)] v [OF o(2)] o Let_def split: sum.splits)
  qed
  have "rpc_Input rpc \<noteq> None" if "named_rpc Y a b c = Some rpc" for a b c rpc
    using that by (cases rule: yd_findRpc_cases [of Y a b c]) auto
  then have "ConvertRpcInput Y i = Inr out \<longleftrightarrow> (\<exists>f rpc inp d txt. ym_Unmarshal Y i = Inr f
        \<and> named_rpc Y (f ''yangd-v1:rpc-namespace'') (f ''yangd-v1:module-name'') (f ''yangd-v1:rpc-name'') = Some rpc
        \<and> rpc_Input rpc = Some inp \<and> decodes Y (f ''yangd-v1:input-format'') inp (f ''yangd-v1:data'') d
        \<and> encodes Y (f ''yangd-v1:output-format'') inp d txt \<and> ym_Marshal Y [(''yangd-v1:data'', FStr txt)] = Inr out)"
    unfolding ConvertRpcInput_def convert_with_iff by (metis option.collapse option.sel)
  then show ?thesis using valid dispatcher_findRpc [of md enc Y ns name rpc, unfolded yd_findRpc_iff] by blast
qed

definition demo_yangd :: "dtree yangd" where
  "demo_yangd = \<lparr>y_st = demo_rlibs True, y_Notifications = (\<lambda>_. None), y_mappings = (\<lambda>_. None),
     ym_Unmarshal = (\<lambda>t. Inr (\<lambda>k. if k = ''yangd-v1:rpc-name'' then ''toast'' else if k = ''yangd-v1:rpc-module-name'' then ''toaster'' else
       if k = ''yangd-v1:module-name'' then t else [])),
     ym_Marshal = (\<lambda>fs. Inr (concat (map (\<lambda>(k, v). k @ (case v of FStr t \<Rightarrow> t | FBool b \<Rightarrow> if b then '' true'' else '' false'')) fs))),
     y_text = (\<lambda>_. ''bad data'')\<rparr>"

theorem yangd_answers_for_named_rpc_witness:
  "snd (ValidateRpcInput demo_yangd []) = None \<and> fst (ValidateRpcInput demo_yangd []) = ''yangd-v1:valid true''"
proof -
  have m: "\<forall>fs. \<exists>out. ym_Marshal demo_yangd fs = Inr out" by (simp add: demo_yangd_def)
  have n: "named_rpc demo_yangd [] ''toaster'' ''toast'' = Some \<lparr>rpc_Input = Some root_node, rpc_Output = root_node\<rparr>"
    by (simp add: named_rpc_def demo_yangd_def demo_rlibs_def demo_module_def)
  have "snd (ValidateRpcInput demo_yangd []) = None"
    using yangd_answers_for_named_rpc [OF m, of "[]"] n by (simp add: demo_yangd_def demo_rlibs_def)
  then show ?thesis using yangd_answers_for_named_rpc [OF m, of "[]"] by (simp add: demo_yangd_def)
qed

text \<open>When data in JSON do not conform, the message of a conversion names the namespace (here empty) and not the module.\<close>

lemma conversion_error_names_wrong_module:
  "ConvertRpcInput (demo_yangd\<lparr>y_st := (demo_rlibs True)\<lparr>UnmarshalJSON := \<lambda>sch t. Inl (ExternalError t)\<rparr>,
      ym_Unmarshal := \<lambda>t. Inr (\<lambda>k. if k = ''yangd-v1:rpc-name'' then ''toast'' else if k = ''yangd-v1:module-name'' then ''toaster''
        else if k = ''yangd-v1:input-format'' then ''json'' else [])\<rparr>) []
   = Inl (InvalidValueApplicationError ''Unable to validate RPC :toast - bad data'')"
  by (simp add: ConvertRpcInput_def convert_with_def yd_findRpc_def findRpcByModuleName_def findRpcByNamespace_def yd_unmarshal_def
      demo_yangd_def demo_rlibs_def demo_module_def)

end
