(* ===== verification/Daemon.thy ===== *)
theory Daemon
  imports Yangd
begin

text \<open>
  \<open>src/cmd/configd/main.go\<close> and \<open>startYangd\<close>: what the daemon does when it starts, in which order, and
  which failures end it. The operating system, the YANG compiler and the bus are parameters: \<open>os_err\<close> says for
  each action whether it fails.
\<close>

definition VyattaV1ModelSet :: string where "VyattaV1ModelSet = ''vyatta-v1''"
definition ConfigdVCIComponentName :: string where "ConfigdVCIComponentName = ''net.vyatta.configd''"
definition basepath :: string where "basepath = ''/run/configd''"

record daemon_flags =
  fl_logfile :: string
  fl_pidfile :: string
  fl_socket :: string
  fl_compdir :: string
  fl_user :: string
  fl_group :: string

definition default_flags :: daemon_flags where
  "default_flags = \<lparr>fl_logfile = [], fl_pidfile = basepath @ ''/configd.pid'', fl_socket = basepath @ ''/main.sock'',
     fl_compdir = ''/lib/vci/components'', fl_user = ''configd'', fl_group = ''configd''\<rparr>"

datatype action =
    OpenLog string | DupLog | NewLogger nat | StderrLog
  | MkdirAll string | StartSignals | RunComponent string | LoadComponentConfigDir string
  | CompileDir bool | CreateComponentNSMappings string
  | Listeners | RemoveSocket string | ResolveUnixAddr string | ListenUnix string | Chmod string nat | Chown string int int
  | NewSrv | OpenPid string | WritePid | Serve
  | LogLine string | Die error

record daemon_os =
  os_err :: "action \<Rightarrow> error option"
  os_user :: "string \<Rightarrow> string option"
  os_groupid :: "string \<Rightarrow> nat option"
  os_listeners :: nat
  os_unix :: bool
  os_components :: "ServiceConfig list"
  os_text :: "error \<Rightarrow> string"

text \<open>A part of the start: the actions performed, and whether the daemon still lives.\<close>

type_synonym 'a boot = "action list \<times> 'a option"

definition act :: "daemon_os \<Rightarrow> action \<Rightarrow> (error option) boot" where
  "act os a = ([a], Some (os_err os a))"

definition live :: "'a \<Rightarrow> 'a boot" where
  "live x = ([], Some x)"

definition next_step :: "'a boot \<Rightarrow> ('a \<Rightarrow> 'b boot) \<Rightarrow> 'b boot" where
  "next_step m f = (case m of (as, None) \<Rightarrow> (as, None) | (as, Some x) \<Rightarrow> (case f x of (bs, r) \<Rightarrow> (as @ bs, r)))"

text \<open>\<open>fatal\<close>: log the error and end the process.\<close>

definition fatal :: "error option \<Rightarrow> unit boot" where
  "fatal err = (case err of None \<Rightarrow> live () | Some e \<Rightarrow> ([Die e], None))"

definition must :: "daemon_os \<Rightarrow> action \<Rightarrow> unit boot" where
  "must os a = next_step (act os a) fatal"

definition may :: "daemon_os \<Rightarrow> action \<Rightarrow> unit boot" where
  "may os a = next_step (act os a) (\<lambda>_. live ())"

fun seq_boot :: "unit boot list \<Rightarrow> unit boot" where
  "seq_boot [] = live ()"
| "seq_boot (m # ms) = next_step m (\<lambda>_. seq_boot ms)"

subsection \<open>Logging and the pid file\<close>

definition openLogfile :: "daemon_os \<Rightarrow> daemon_flags \<Rightarrow> unit boot" where
  "openLogfile os fl = next_step (act os (OpenLog (fl_logfile fl)))
    (\<lambda>e. case e of Some err \<Rightarrow> may os (LogLine (os_text os err)) | None \<Rightarrow> may os DupLog)"

text \<open>Five attempts to reach the system log, then the standard error stream.\<close>

fun try_logger :: "daemon_os \<Rightarrow> nat \<Rightarrow> nat \<Rightarrow> unit boot" where
  "try_logger os i 0 = may os StderrLog"
| "try_logger os i (Suc n) = next_step (act os (NewLogger i))
    (\<lambda>e. if e = None then live () else try_logger os (Suc i) n)"

definition initialiseLogging :: "daemon_os \<Rightarrow> daemon_flags \<Rightarrow> unit boot" where
  "initialiseLogging os fl = next_step (openLogfile os fl)
    (\<lambda>_. if fl_logfile fl = [] then may os StderrLog else try_logger os 0 5)"

definition writePid :: "daemon_os \<Rightarrow> daemon_flags \<Rightarrow> unit boot" where
  "writePid os fl = next_step (act os (OpenPid (fl_pidfile fl)))
    (\<lambda>e. case e of Some err \<Rightarrow> may os (LogLine (os_text os err)) | None \<Rightarrow> may os WritePid)"

subsection \<open>The socket\<close>

definition getIds :: "daemon_os \<Rightarrow> string \<Rightarrow> string \<Rightarrow> int \<times> int" where
  "getIds os username groupname =
    ((case os_user os username of
        None \<Rightarrow> 0
      | Some uid \<Rightarrow> (case Atoi uid of Inr n \<Rightarrow> n | Inl ErrSyntax \<Rightarrow> 0
          | Inl ErrRange \<Rightarrow> if HasPrefix uid ''-'' then - (2 ^ 63) else 2 ^ 63 - 1)),
     (case os_groupid os groupname of None \<Rightarrow> 0 | Some g \<Rightarrow> int g))"

text \<open>The error of removing an old socket is compared, but the error that is then fatal is the one of
  \<open>activation.Listeners\<close>, which is nil here.\<close>

definition getListeners :: "daemon_os \<Rightarrow> daemon_flags \<Rightarrow> unit boot" where
  "getListeners os fl = next_step (must os Listeners)
    (\<lambda>_. if os_listeners os = 0 then
       (let s = fl_socket fl; (uid, gid) = getIds os (fl_user fl) (fl_group fl) in
        seq_boot [may os (LogLine ''No systemd listeners''), may os (RemoveSocket s), must os (ResolveUnixAddr s), must os (ListenUnix s),
          must os (Chmod s 0x1FF), must os (Chown s uid gid)])
     else live ())"

subsection \<open>The server\<close>

text \<open>
  A Go panic ends the process. \<open>main\<close> asserts that the listener is a Unix socket (\<open>os_unix\<close> says it of the first
  one of the service manager; the one it opens itself is), and \<open>NewSrv\<close> ignores the error of \<open>user.Lookup\<close> and reads
  a field of the nil user.
\<close>

definition go_panic :: "string \<Rightarrow> unit boot" where
  "go_panic what = ([Die (RuntimePanic what)], None)"

definition unix_listener :: "daemon_os \<Rightarrow> unit boot" where
  "unix_listener os =
    (if os_listeners os \<noteq> 0 \<and> \<not> os_unix os then go_panic ''interface conversion'' else live ())"

definition start_server :: "daemon_os \<Rightarrow> daemon_flags \<Rightarrow> unit boot" where
  "start_server os fl = seq_boot [may os NewSrv,
     (if os_user os (fl_user fl) = None then go_panic ''invalid memory address or nil pointer dereference'' else live ())]"

subsection \<open>Start\<close>

definition startYangd :: "daemon_os \<Rightarrow> unit boot" where
  "startYangd os = seq_boot [must os (CompileDir False), must os (CompileDir True),
     (case validateComponents (os_components os) of None \<Rightarrow> live () | Some err \<Rightarrow> may os (LogLine (os_text os err))),
     must os (CreateComponentNSMappings VyattaV1ModelSet), may os (RunComponent ''net.vyatta.vci.config.yangd'')]"

definition daemon_main :: "daemon_os \<Rightarrow> daemon_flags \<Rightarrow> unit boot" where
  "daemon_main os fl = seq_boot [initialiseLogging os fl, must os (MkdirAll basepath), may os StartSignals,
     may os (RunComponent ConfigdVCIComponentName), must os (LoadComponentConfigDir (fl_compdir fl)),
     startYangd os, getListeners os fl, unix_listener os, start_server os fl, writePid os fl, must os Serve]"

subsection \<open>The operations manager\<close>

text \<open>\<open>configdOpsMgr\<close>: the component manager's access to the bus, usable once it has a client.\<close>

record ops_mgr =
  com_client :: bool

datatype model_call = SetConfigForModel | CheckConfigForModel | StoreConfigByModelInto | StoreStateByModelInto

definition call_name :: "model_call \<Rightarrow> string" where
  "call_name c = (case c of SetConfigForModel \<Rightarrow> ''SetConfigForModel'' | CheckConfigForModel \<Rightarrow> ''CheckConfigForModel''
     | StoreConfigByModelInto \<Rightarrow> ''StoreConfigByModelInto'' | StoreStateByModelInto \<Rightarrow> ''StoreStateByModelInto'')"

definition newConfigdOpsMgr :: ops_mgr where
  "newConfigdOpsMgr = \<lparr>com_client = False\<rparr>"

definition Dial :: "ops_mgr \<Rightarrow> ops_mgr \<times> error option" where
  "Dial com = (com\<lparr>com_client := True\<rparr>, None)"

definition model_op :: "(model_call \<Rightarrow> string \<Rightarrow> 'obj \<Rightarrow> error option) \<Rightarrow> ops_mgr \<Rightarrow> model_call \<Rightarrow> string \<Rightarrow> 'obj \<Rightarrow> error option" where
  "model_op bus com c modelName obj =
    (if \<not> com_client com
     then Some (ExternalError (''Must dial client for '' @ modelName @ '' before calling '' @ call_name c @ ''.''))
     else bus c modelName obj)"

subsection \<open>When the daemon serves\<close>

text \<open>The actions that must succeed.\<close>

definition required :: "daemon_os \<Rightarrow> daemon_flags \<Rightarrow> action list" where
  "required os fl = [MkdirAll basepath, LoadComponentConfigDir (fl_compdir fl), CompileDir False, CompileDir True,
     CreateComponentNSMappings VyattaV1ModelSet, Listeners] @
    (if os_listeners os = 0 then
       (let s = fl_socket fl; (uid, gid) = getIds os (fl_user fl) (fl_group fl) in
        [ResolveUnixAddr s, ListenUnix s, Chmod s 0x1FF, Chown s uid gid])
     else [])"

text \<open>Neither of the two panics: the user exists, and an inherited listener is a Unix socket.\<close>

definition no_panic :: "daemon_os \<Rightarrow> daemon_flags \<Rightarrow> bool" where
  "no_panic os fl = (os_user os (fl_user fl) \<noteq> None \<and> (os_listeners os = 0 \<or> os_unix os))"

text \<open>The daemon has survived a part of the start.\<close>

definition lives :: "'a boot \<Rightarrow> bool" where
  "lives m \<longleftrightarrow> snd m \<noteq> None"

lemma boot_simps [simp]:
  "lives (live x)" "fst (live x) = []" "lives (may os a)" "fst (may os a) = [a]"
  "lives (must os a) \<longleftrightarrow> os_err os a = None" "a \<in> set (fst (must os a))"
  "set (fst (must os a)) = insert a (Die ` set_option (os_err os a))"
  by (auto simp: lives_def live_def may_def must_def act_def next_step_def fatal_def split: option.splits)

lemma lives_next_step [simp]:
  fixes m :: "unit boot" and f :: "unit \<Rightarrow> 'b boot" and g :: "error option \<Rightarrow> 'b boot"
  shows "lives (next_step m f) \<longleftrightarrow> lives m \<and> lives (f ())"
    and "lives (next_step (act os a) g) \<longleftrightarrow> lives (g (os_err os a))"
  by (auto simp: lives_def next_step_def act_def split: prod.splits option.splits)

lemma set_next_step:
  "set (fst (next_step m f)) = set (fst m) \<union> (case snd m of None \<Rightarrow> {} | Some x \<Rightarrow> set (fst (f x)))"
  by (auto simp: next_step_def split: prod.splits option.splits)

lemma lives_seq_boot [simp]: "lives (seq_boot ms) \<longleftrightarrow> list_all lives ms"
  by (induction ms) auto

lemma set_seq_boot:
  "a \<in> set (fst (seq_boot (ms @ [m]))) \<longleftrightarrow> a \<in> set (fst (seq_boot ms)) \<or> list_all lives ms \<and> a \<in> set (fst m)"
proof (induction ms)
  case Nil
  have "fst (next_step m (\<lambda>_. live ())) = fst m" by (auto simp: next_step_def live_def split: prod.splits option.splits)
  then show ?case by (simp add: live_def)
next
  case (Cons x xs)
  then show ?case by (cases "snd x") (auto simp: set_next_step lives_def)
qed

lemma lives_try_logger [simp]: "lives (try_logger os i n)"
  by (induction n arbitrary: i) auto

lemma lives_files [simp]: "lives (openLogfile os fl)" "lives (initialiseLogging os fl)" "lives (writePid os fl)"
proof -
  show a: "lives (openLogfile os fl)" by (auto simp: openLogfile_def split: option.split)
  show "lives (initialiseLogging os fl)" using a by (auto simp: initialiseLogging_def)
  show "lives (writePid os fl)" by (auto simp: writePid_def split: option.split)
qed

definition starts :: "daemon_os \<Rightarrow> daemon_flags \<Rightarrow> unit boot list" where
  "starts os fl = [initialiseLogging os fl, must os (MkdirAll basepath), may os StartSignals,
     may os (RunComponent ConfigdVCIComponentName), must os (LoadComponentConfigDir (fl_compdir fl)),
     startYangd os, getListeners os fl, unix_listener os, start_server os fl, writePid os fl]"

lemma lives_startYangd: "lives (startYangd os) \<longleftrightarrow> (\<forall>a\<in>{CompileDir False, CompileDir True, CreateComponentNSMappings VyattaV1ModelSet}. os_err os a = None)"
  by (auto simp: startYangd_def split: option.splits)

lemma lives_getListeners: "lives (getListeners os fl) \<longleftrightarrow> os_err os Listeners = None \<and>
   (os_listeners os = 0 \<longrightarrow> (\<forall>a\<in>set (drop 6 (required os fl)). os_err os a = None))"
  by (auto simp: getListeners_def required_def Let_def split: prod.split)

lemma lives_panic [simp]: "\<not> lives (go_panic what)"
  by (simp add: lives_def go_panic_def)

lemma lives_server:
  "lives (unix_listener os) \<and> lives (start_server os fl) \<longleftrightarrow> no_panic os fl"
  by (auto simp: unix_listener_def start_server_def no_panic_def)

lemma lives_starts:
  "list_all lives (starts os fl) \<longleftrightarrow> (\<forall>a\<in>set (required os fl). os_err os a = None) \<and> no_panic os fl"
  unfolding lives_server [symmetric] by (auto simp: starts_def lives_startYangd lives_getListeners required_def)

lemma no_serve [simp]:
  "Serve \<notin> set (fst (may os a)) \<longleftrightarrow> a \<noteq> Serve" "Serve \<notin> set (fst (must os a)) \<longleftrightarrow> a \<noteq> Serve" "Serve \<notin> set (fst (live ()))"
  by auto

lemma no_serve_seq: "list_all (\<lambda>m. Serve \<notin> set (fst m)) ms \<Longrightarrow> Serve \<notin> set (fst (seq_boot ms))"
  by (induction ms) (auto simp: set_next_step split: option.split)

lemma no_serve_act: "a \<noteq> Serve \<Longrightarrow> Serve \<notin> set (fst (act os a))"
  by (auto simp: act_def)

lemma no_serve_try_logger: "Serve \<notin> set (fst (try_logger os i n))"
  by (induction n arbitrary: i) (auto simp: set_next_step no_serve_act act_def)

lemma no_serve_starts: "list_all (\<lambda>m. Serve \<notin> set (fst m)) (starts os fl)"
proof -
  have o: "Serve \<notin> set (fst (openLogfile os fl))" "Serve \<notin> set (fst (writePid os fl))"
    by (auto simp: openLogfile_def writePid_def set_next_step act_def split: option.splits)
  have l: "Serve \<notin> set (fst (initialiseLogging os fl))"
    using o(1) no_serve_try_logger by (auto simp: initialiseLogging_def set_next_step split: option.splits)
  have y: "Serve \<notin> set (fst (startYangd os))"
    unfolding startYangd_def by (rule no_serve_seq) (auto split: option.split)
  have g: "Serve \<notin> set (fst (getListeners os fl))"
    unfolding getListeners_def by (auto simp: set_next_step Let_def split: option.splits prod.splits intro!: no_serve_seq)
  have u: "Serve \<notin> set (fst (unix_listener os))" by (simp add: unix_listener_def go_panic_def)
  have n: "Serve \<notin> set (fst (start_server os fl))"
    unfolding start_server_def by (rule no_serve_seq) (simp add: go_panic_def)
  show ?thesis using o(2) l y g u n by (auto simp: starts_def)
qed

text \<open>C40. The daemon serves exactly when the required actions succeed: creating its directory, loading the component
  configuration, compiling the YANG modules with and without state, mapping the components, and obtaining its socket (from
  the service manager, or by resolving, listening, and setting mode and owner); and when it does not panic: its user must
  exist, and a listener inherited from the service manager must be a Unix socket. Nothing else of the modelled start stops it: neither
  a log that cannot be opened, nor duplicates among the components, nor an old socket that cannot be removed, nor the pid file.\<close>

theorem daemon_serves_iff_required:
  "Serve \<in> set (fst (daemon_main os fl)) \<longleftrightarrow>
     (\<forall>a\<in>set (required os fl). os_err os a = None) \<and> os_user os (fl_user fl) \<noteq> None \<and> (os_listeners os = 0 \<or> os_unix os)"
proof -
  have "daemon_main os fl = seq_boot (starts os fl @ [must os Serve])"
    by (simp add: daemon_main_def starts_def)
  then show ?thesis
    using no_serve_seq [OF no_serve_starts, of os fl] lives_starts [of os fl, unfolded no_panic_def]
    by (simp only: set_seq_boot) simp
qed

definition demo_os :: daemon_os where
  "demo_os = \<lparr>os_err = (\<lambda>a. case a of RemoveSocket _ \<Rightarrow> Some (ExternalError ''busy'') | OpenLog _ \<Rightarrow> Some (ExternalError ''no file'') | _ \<Rightarrow> None),
     os_user = (\<lambda>_. Some ''1000''), os_groupid = (\<lambda>_. None), os_listeners = 0, os_unix = False, os_components = [], os_text = (\<lambda>_. [])\<rparr>"

theorem daemon_serves_iff_required_witness: "Serve \<in> set (fst (daemon_main demo_os default_flags))"
  unfolding daemon_serves_iff_required by (auto simp: required_def demo_os_def Let_def)

text \<open>A user that does not exist: the socket is there, and the daemon panics before it serves.\<close>

lemma unknown_user_panics:
  "let r = daemon_main (demo_os\<lparr>os_user := (\<lambda>_. None)\<rparr>) default_flags in
   snd r = None \<and> last (fst r) = Die (RuntimePanic ''invalid memory address or nil pointer dereference'')
     \<and> ListenUnix (basepath @ ''/main.sock'') \<in> set (fst r) \<and> Serve \<notin> set (fst r)"
  by code_simp

end
