(* ===== verification/Tools.thy ===== *)
theory Tools
  imports Client_Lib Normalize "HOL-Library.List_Lexorder" "HOL-Library.Char_ord"
begin

text \<open>
  The small command line tools under \<open>src/cmd\<close>: the YANG checker \<open>yangc\<close> and the printers
  \<open>cfgcmds\<close> and \<open>yang2path\<close>. The YANG compiler and the parsers are parameters. The argument check of \<open>yangc\<close>
  is the documented table (\<open>validateArgs_table\<close>), \<open>cfgcmds\<close> prints exactly the branches of the file
  (\<open>buildpaths_branches\<close>).
\<close>

definition exits :: "nat \<Rightarrow> string \<Rightarrow> string \<Rightarrow> process_end" where
  "exits code out err = \<lparr>pe_stdout = out, pe_stderr = err, pe_code = code\<rparr>"

text \<open>A Go panic ends the process with code 2 and a trace.\<close>

definition panics :: "string \<Rightarrow> process_end" where
  "panics what = exits 2 [] (''panic: runtime error: '' @ what @ nl)"

subsection \<open>yangc\<close>

record Definition =
  pl_Yang :: "string list"
  pl_Features :: "string list"
  pl_DisabledFeatures :: "string list"

datatype yang_locator = YangDirs string | YangFiles "string list" | YangLocations "yang_locator list"
datatype features = FeaturesFromLocations bool string | FeaturesFromNames bool "string list" | MultiFeatureCheckers "features list"

record yangc_flags =
  yc_skip :: bool
  yc_np_warnings :: bool
  yc_capabilities :: string
  yc_xpath_functions :: string
  yc_resources :: string
  yc_platform :: string

record yang_compiler =
  plugin_sections :: "string list option list"
  platforms_in :: "string \<Rightarrow> (string \<rightharpoonup> Definition)"
  compile_dir :: "yang_locator \<Rightarrow> features \<Rightarrow> bool \<Rightarrow> (string \<Rightarrow> bool) \<Rightarrow> string list result"
  remove_np_warnings :: "string list \<Rightarrow> string list"
  yc_text :: "error \<Rightarrow> string"
  usage_text :: string

text \<open>\<open>filepath.Join\<close>.\<close>

definition path_join :: "string list \<Rightarrow> string" where
  "path_join elems = (let es = filter (\<lambda>e. e \<noteq> []) elems in if es = [] then [] else Clean (Join ''/'' es))"

definition getFunctionsFromIniFiles :: "yang_compiler \<Rightarrow> string list" where
  "getFunctionsFromIniFiles K = concat (map (\<lambda>f. case f of None \<Rightarrow> [] | Some sections \<Rightarrow> sections) (plugin_sections K))"

definition getValidCustomFunctionList :: "yang_compiler \<Rightarrow> string \<Rightarrow> string list" where
  "getValidCustomFunctionList K customXpathFunctions =
    getFunctionsFromIniFiles K @ filter (\<lambda>f. f \<noteq> []) (split_on CHR '','' customXpathFunctions)"

definition createUserFnChecker :: "yang_compiler \<Rightarrow> string \<Rightarrow> string \<Rightarrow> bool" where
  "createUserFnChecker K customFns name = list_ex (\<lambda>fn. fn = name) (getValidCustomFunctionList K customFns)"

definition getPlatform :: "yang_compiler \<Rightarrow> string \<Rightarrow> string \<Rightarrow> Definition result" where
  "getPlatform K dir platName =
    (if platName = [] then Inr \<lparr>pl_Yang = [], pl_Features = [], pl_DisabledFeatures = []\<rparr>
     else case platforms_in K (path_join [dir, ''vyatta-platform'']) platName of
       None \<Rightarrow> Inl (ExternalError (''Unable to find definition for platform '' @ [CHR 0x27] @ platName @ [CHR 0x27]))
     | Some plat \<Rightarrow> Inr plat)"

definition createYangLocator :: "string list \<Rightarrow> string \<Rightarrow> Definition \<Rightarrow> yang_locator" where
  "createYangLocator args resources plat =
    (case args of
       a # _ \<Rightarrow> YangDirs a
     | [] \<Rightarrow> YangLocations [YangDirs (path_join [resources, ''yang'']),
         YangFiles (map (\<lambda>file. path_join [resources, ''vyatta-platform/yang'', file]) (pl_Yang plat))])"

definition createFeatureChecker :: "string \<Rightarrow> string \<Rightarrow> Definition \<Rightarrow> features" where
  "createFeatureChecker caps resources plat =
    (if caps \<noteq> [] then FeaturesFromLocations True caps
     else MultiFeatureCheckers [FeaturesFromLocations True (path_join [resources, ''features'']),
       FeaturesFromNames True (pl_Features plat), FeaturesFromNames False (pl_DisabledFeatures plat)])"

definition validateArgs :: "yangc_flags \<Rightarrow> string list \<Rightarrow> bool" where
  "validateArgs fl args =
    (if (length args = 0) = (yc_resources fl = []) then False
     else if yc_capabilities fl \<noteq> [] \<and> yc_resources fl \<noteq> [] then False
     else if yc_platform fl \<noteq> [] \<and> yc_resources fl = [] then False
     else True)"

definition yangc_main :: "yang_compiler \<Rightarrow> yangc_flags \<Rightarrow> string list \<Rightarrow> process_end" where
  "yangc_main K fl args =
    (if \<not> validateArgs fl args then exits 1 [] (usage_text K)
     else case getPlatform K (yc_resources fl) (yc_platform fl) of
       Inl err \<Rightarrow> exits 1 [] (yc_text K err)
     | Inr plat \<Rightarrow>
         (case compile_dir K (createYangLocator args (yc_resources fl) plat)
             (createFeatureChecker (yc_capabilities fl) (yc_resources fl) plat) (yc_skip fl)
             (createUserFnChecker K (yc_xpath_functions fl)) of
            Inl err \<Rightarrow> exits 1 [] (yc_text K err @ nl)
          | Inr warns \<Rightarrow>
              (let warns' = (if yc_np_warnings fl then warns else remove_np_warnings K warns) in
               if warns' \<noteq> [] then
                 exits 1 (nl @ ''XPATH path validation warnings:'' @ nl @ nl @ concat (map (\<lambda>w. w @ nl @ ''----'' @ nl) warns')) []
               else exits 0 [] [])))"

subsection \<open>cfgcmds\<close>

text \<open>A node of \<open>config/parse\<close>; \<open>HasArg\<close> is whether the argument is there.\<close>

datatype pnode = PNode (pn_Id: string) (pn_Arg: "string option") (pn_Children: "pnode list")

definition buildpath :: "(string \<Rightarrow> string) \<Rightarrow> pnode \<Rightarrow> string list \<Rightarrow> string list" where
  "buildpath quote n path = path @ (case pn_Arg n of Some arg \<Rightarrow> [pn_Id n, quote arg] | None \<Rightarrow> [pn_Id n])"

fun buildpaths :: "(string \<Rightarrow> string) \<Rightarrow> pnode \<Rightarrow> string list \<Rightarrow> string list list" where
  "buildpaths quote (PNode i arg chs) path =
    (let path' = buildpath quote (PNode i arg chs) path in
     (if length chs = 0 then [path'] else []) @ concat (map (\<lambda>ch. buildpaths quote ch path') chs))"

definition cfgcmds_main :: "(string \<Rightarrow> string) \<Rightarrow> (string \<Rightarrow> string \<Rightarrow> pnode list result) \<Rightarrow> (error \<Rightarrow> string) \<Rightarrow>
    (string \<Rightarrow> string result) \<Rightarrow> string result \<Rightarrow> string list \<Rightarrow> process_end" where
  "cfgcmds_main quote parse txt_of slurp input argv =
    (if length argv > 2 then
       exits 1 [] (''usage: cfgcmds [filename]'' @ nl @ ''    cfgcmds takes a file in the vyatta config format'' @ nl @
         ''    and prints the structure as set commands,'' @ nl @ ''    by default it will read from stdin.'' @ nl)
     else
       let (filename, content) = (if length argv = 2 then (argv ! 1, slurp (argv ! 1)) else (''stdin'', input)) in
       case content of
         Inl err \<Rightarrow> exits 1 [] (txt_of err @ nl)
       | Inr t \<Rightarrow> (case parse filename t of
           Inl err \<Rightarrow> exits 1 [] (txt_of err @ nl)
         | Inr roots \<Rightarrow> exits 0 (concat (map (\<lambda>p. ''set '' @ Join '' '' p @ nl)
             (concat (map (\<lambda>ch. buildpaths quote ch []) roots)))) []))"

subsection \<open>yang2path\<close>

definition appendPathStr :: "string \<Rightarrow> string \<Rightarrow> string" where
  "appendPathStr p elem = (if p = [] then elem else p @ '' '' @ elem)"

text \<open>\<open>help\<close> is the help map of a node, \<open>lt\<close> the natural order of names.\<close>

definition handleHelp :: "(sinfo \<Rightarrow> (string \<times> string) list) \<Rightarrow> sinfo \<Rightarrow> string \<Rightarrow> string" where
  "handleHelp hm n p =
    (let m = hm n in
     if m = [] then appendPathStr p ''<value>''
     else let vs = sort (map fst m); out = Join ''|'' vs in
       appendPathStr p (if length vs > 1 then ''('' @ out @ '')'' else out))"

definition sort_names :: "(string \<Rightarrow> string \<Rightarrow> bool) \<Rightarrow> (string \<times> 'a) list \<Rightarrow> (string \<times> 'a) list" where
  "sort_names lt xs = foldr (\<lambda>x ys. takeWhile (\<lambda>y. lt (fst y) (fst x)) ys @ x # dropWhile (\<lambda>y. lt (fst y) (fst x)) ys) xs []"

fun walk_node :: "(sinfo \<Rightarrow> (string \<times> string) list) \<Rightarrow> (string \<Rightarrow> string \<Rightarrow> bool) \<Rightarrow> snode \<Rightarrow> string \<Rightarrow> string list" where
  "walk_node hm lt (SNode info chs choices) p =
    (let named = appendPathStr p (s_name info);
         children = (\<lambda>q skiplist. concat (map (\<lambda>(name, w). if name \<in> set skiplist then [] else w q)
           (sort_names lt (map (\<lambda>c. (sn_name c, walk_node hm lt c)) chs))))
     in case s_kind info of
          KList \<Rightarrow> let q = handleHelp hm info named in q # children q (s_keys info)
        | KLeaf \<Rightarrow> [if s_empty info then named else handleHelp hm info named]
        | KLeafList \<Rightarrow> [handleHelp hm info named]
        | KContainer \<Rightarrow> (if s_presence info then [named] else []) @ children named []
        | _ \<Rightarrow> children p [])"


subsection \<open>Properties\<close>

text \<open>The table in the comment of \<open>validateArgs\<close>, row by row: YANG directory, capabilities, resources, platform.\<close>

definition args_table :: "((bool \<times> bool \<times> bool \<times> bool) \<times> bool) list" where
  "args_table =
    [((False, False, False, False), False), ((False, False, False, True), False),
     ((False, False, True, False), True), ((False, False, True, True), True),
     ((False, True, False, False), False), ((False, True, False, True), False),
     ((False, True, True, False), False), ((False, True, True, True), False),
     ((True, False, False, False), True), ((True, False, False, True), False),
     ((True, False, True, False), False), ((True, False, True, True), False),
     ((True, True, False, False), True), ((True, True, False, True), False),
     ((True, True, True, False), False), ((True, True, True, True), False)]"

lemma validateArgs_table:
  "map_of args_table (args \<noteq> [], yc_capabilities fl \<noteq> [], yc_resources fl \<noteq> [], yc_platform fl \<noteq> []) =
     Some (validateArgs fl args)"
  by (cases "args = []"; cases "yc_capabilities fl = []"; cases "yc_resources fl = []"; cases "yc_platform fl = []")
    (simp_all add: args_table_def validateArgs_def)

lemma yangc_accepts:
  "pe_code (yangc_main K fl args) = 0 \<longleftrightarrow>
     validateArgs fl args \<and>
     (\<exists>plat warns. getPlatform K (yc_resources fl) (yc_platform fl) = Inr plat \<and>
        compile_dir K (createYangLocator args (yc_resources fl) plat)
          (createFeatureChecker (yc_capabilities fl) (yc_resources fl) plat) (yc_skip fl)
          (createUserFnChecker K (yc_xpath_functions fl)) = Inr warns \<and>
        (if yc_np_warnings fl then warns else remove_np_warnings K warns) = [])"
  by (auto simp: yangc_main_def exits_def Let_def split: sum.splits)

text \<open>
  A named platform is looked up only in a resources directory, so no run that reaches the compiler
  ignores the platform it was given.
\<close>

lemma platform_needs_resources:
  assumes "validateArgs fl args" "yc_platform fl \<noteq> []"
  shows "args = [] \<and> yc_resources fl \<noteq> [] \<and> yc_capabilities fl = []"
  using assms by (auto simp: validateArgs_def split: if_splits)

text \<open>Without \<open>capabilities\<close> the features under the relative directory \<open>features\<close> are read.\<close>

lemma features_read_from_working_directory:
  "createFeatureChecker [] [] plat =
     MultiFeatureCheckers [FeaturesFromLocations True (path_join [[], ''features'']),
       FeaturesFromNames True (pl_Features plat), FeaturesFromNames False (pl_DisabledFeatures plat)]"
  by (simp add: createFeatureChecker_def)

text \<open>The root to leaf branches of a parsed configuration.\<close>

inductive branch :: "pnode \<Rightarrow> pnode list \<Rightarrow> bool" where
  leaf: "pn_Children n = [] \<Longrightarrow> branch n [n]"
| below: "ch \<in> set (pn_Children n) \<Longrightarrow> branch ch b \<Longrightarrow> branch n (n # b)"

definition node_words :: "(string \<Rightarrow> string) \<Rightarrow> pnode \<Rightarrow> string list" where
  "node_words quote n = (case pn_Arg n of Some arg \<Rightarrow> [pn_Id n, quote arg] | None \<Rightarrow> [pn_Id n])"

inductive_cases branchE: "branch n b"

lemma branch_iff:
  "branch n b \<longleftrightarrow> (pn_Children n = [] \<and> b = [n]) \<or> (\<exists>ch b'. ch \<in> set (pn_Children n) \<and> branch ch b' \<and> b = n # b')"
  by (auto elim: branchE intro: branch.intros)

lemma buildpath_words: "buildpath quote n path = path @ node_words quote n"
  by (simp add: buildpath_def node_words_def)

lemma buildpaths_branches:
  "set (buildpaths quote n path) = (\<lambda>b. path @ concat (map (node_words quote) b)) ` {b. branch n b}"
proof (induction quote n path rule: buildpaths.induct)
  case (1 quote i arg chs path)
  let ?n = "PNode i arg chs" and ?p = "buildpath quote (PNode i arg chs) path"
  have IH: "set (buildpaths quote ch ?p) = (\<lambda>b. ?p @ concat (map (node_words quote) b)) ` {b. branch ch b}"
    if "ch \<in> set chs" for ch
    using 1[OF refl that] by simp
  show ?case
  proof (cases "chs = []")
    case True
    then have "{b. branch ?n b} = {[?n]}" by (auto simp: branch_iff[of "PNode i arg []"])
    then show ?thesis using True by (simp add: buildpath_words)
  next
    case False
    then have "{b. branch ?n b} = (\<Union>ch\<in>set chs. (#) ?n ` {b. branch ch b})"
      by (auto simp: branch_iff[of ?n])
    then show ?thesis
      using False IH by (simp add: buildpath_words image_UN image_image)
  qed
qed


text \<open>Every line printed below a path starts with that path.\<close>

lemma appendPathStr_extends: "\<exists>t. appendPathStr p e = p @ t"
  by (auto simp: appendPathStr_def)

lemma handleHelp_extends: "\<exists>t. handleHelp hm n p = p @ t"
  by (auto simp: handleHelp_def Let_def appendPathStr_extends)

lemma set_insert_sorted: "set (takeWhile P ys @ x # dropWhile P ys) = insert x (set ys)"
  by (metis Un_insert_right list.simps(15) set_append takeWhile_dropWhile_id)

lemma set_sort_names [simp]: "set (sort_names lt xs) = set xs"
  unfolding sort_names_def by (induction xs) (simp_all only: foldr.simps comp_apply set_insert_sorted list.simps(15) id_apply)

lemma walk_node_extends: "l \<in> set (walk_node hm lt n p) \<Longrightarrow> \<exists>t. l = p @ t"
proof (induction n arbitrary: l p)
  case (SNode info chs choices)
  define kids where "kids = (\<lambda>q skiplist. concat (map (\<lambda>(name, w). if name \<in> set skiplist then [] else w q)
    (sort_names lt (map (\<lambda>c. (sn_name c, walk_node hm lt c)) chs))))"
  define named helped where "named = appendPathStr p (s_name info)" and "helped = handleHelp hm info named"
  have q: "\<exists>t. named = p @ t" "\<exists>t. helped = p @ t" "\<exists>t. p = p @ t"
    using appendPathStr_extends[of p "s_name info"] handleHelp_extends[of hm info named]
    unfolding named_def helped_def by auto
  have below: "\<exists>t. l = p @ t" if "l \<in> set (kids q skiplist)" "\<exists>t. q = p @ t" for q skiplist
    using that SNode.IH unfolding kids_def by (fastforce split: if_splits)
  have "l \<in> set (case s_kind info of
          KList \<Rightarrow> helped # kids helped (s_keys info)
        | KLeaf \<Rightarrow> [if s_empty info then named else helped]
        | KLeafList \<Rightarrow> [helped]
        | KContainer \<Rightarrow> (if s_presence info then [named] else []) @ kids named []
        | _ \<Rightarrow> kids p [])"
    using SNode.prems unfolding walk_node.simps Let_def named_def helped_def kids_def .
  then show ?case
    using q(1,2) below[OF _ q(1)] below[OF _ q(2)] below[OF _ q(3)]
    by (cases "s_kind info") (simp_all split: if_splits, blast+)
qed

end
