(* ===== verification/Tools_Client.thy ===== *)
theory Tools_Client
  imports Tools
begin

text \<open>
  The tools that ask the daemon: \<open>callrpc\<close>, \<open>gettree\<close>, \<open>cfgread\<close>, \<open>cfgdiff\<close>, \<open>cfgdbg\<close> and
  \<open>configdcaps\<close>. A run is the list of requests it makes together with the way the process ends;
  the daemon is the answer it gives to a request, and may not be there to dial.
\<close>

record tool_os =
  to_dial :: "string \<Rightarrow> string \<Rightarrow> client result"
  to_answer :: "creq \<Rightarrow> cvalue \<times> cerr option"
  to_stdin :: "string result"
  to_file :: "string \<Rightarrow> string result"
  to_sid :: string
  to_errtext :: "error \<Rightarrow> string"
  to_cerrtext :: "cerr \<Rightarrow> string"

type_synonym tool_run = "creq list \<times> process_end"

definition main_sock :: string where "main_sock = ''/run/vyatta/configd/main.sock''"

fun str_of :: "cvalue \<Rightarrow> string" where
  "str_of (VString s) = s"
| "str_of _ = []"

fun map_of_value :: "cvalue \<Rightarrow> (string \<times> string) list" where
  "map_of_value (VMap m) = m"
| "map_of_value _ = []"

text \<open>
  Dialling, one request, and \<open>handleError\<close> with the given code after each; the reply is printed
  with a newline. The deferred \<open>Close\<close> on the nil client of a failed dial does not run, since
  \<open>os.Exit\<close> ends the process first.
\<close>

definition one_request :: "tool_os \<Rightarrow> nat \<Rightarrow> (client \<Rightarrow> creq) \<Rightarrow> tool_run" where
  "one_request T code q =
    (case to_dial T main_sock [] of
       Inl err \<Rightarrow> ([], exits code [] (to_errtext T err @ nl))
     | Inr c \<Rightarrow>
         (case to_answer T (q c) of
            (_, Some err) \<Rightarrow> ([q c], exits code [] (to_cerrtext T err @ nl))
          | (v, None) \<Rightarrow> ([q c], exits 0 (str_of v @ nl) [])))"

subsection \<open>callrpc\<close>

definition callrpc_usage :: "string \<Rightarrow> string" where
  "callrpc_usage argv0 = ''Usage of '' @ argv0 @ '':'' @ nl @ ''    '' @ argv0 @
     '' <namespace> <rpc-name> <encoding:json/rfc7951/xml> [<input json/rfc7951/xml>]'' @ nl"

definition callrpc_getEncoding :: "string \<Rightarrow> string + string" where
  "callrpc_getEncoding encoding =
    (if encoding \<in> {''xml'', ''json'', ''rfc7951''} then Inr encoding
     else Inl ''Invalid encoding. json, rfc7951 or xml allowed'')"

definition callrpc_main :: "tool_os \<Rightarrow> string list \<Rightarrow> tool_run" where
  "callrpc_main T argv =
    (if length argv \<noteq> 4 \<and> length argv \<noteq> 5 then ([], exits 1 [] (callrpc_usage (argv ! 0)))
     else case callrpc_getEncoding (argv ! 3) of
       Inl err \<Rightarrow> ([], exits 2 [] (err @ nl))
     | Inr encoding \<Rightarrow>
         (case (if length argv = 4 then to_stdin T else Inr (argv ! 4)) of
            Inl err \<Rightarrow> ([], exits 1 [] (to_errtext T err @ nl))
          | Inr inputArgs \<Rightarrow> one_request T 2 (\<lambda>c. cl_CallRpc c (argv ! 1) (argv ! 2) inputArgs encoding)))"

subsection \<open>gettree\<close>

definition gettree_usage :: "string \<Rightarrow> string" where
  "gettree_usage argv0 = ''Usage of '' @ argv0 @ '':'' @ nl @ ''    '' @ argv0 @
     '' <path> <encoding:json//rfc7951/xml/internal>'' @ nl"

definition gettree_getEncoding :: "string \<Rightarrow> string + string" where
  "gettree_getEncoding encoding =
    (if encoding \<in> {''xml'', ''json'', ''rfc7951'', ''internal''} then Inr encoding
     else Inl ''Invalid encoding: json, xml, rfc7951 or internal expected'')"

definition gettree_main :: "tool_os \<Rightarrow> string list \<Rightarrow> tool_run" where
  "gettree_main T argv =
    (if length argv \<noteq> 3 then ([], exits 1 [] (gettree_usage (argv ! 0)))
     else case gettree_getEncoding (argv ! 2) of
       Inl err \<Rightarrow> ([], exits 2 [] (err @ nl))
     | Inr encoding \<Rightarrow> one_request T 2 (\<lambda>c. cl_TreeGetFull c RUNNING (argv ! 1) encoding))"

subsection \<open>cfgread\<close>

definition cfgread_main :: "tool_os \<Rightarrow> bool \<Rightarrow> string list \<Rightarrow> tool_run" where
  "cfgread_main T raw args =
    (if length args < 1 then
       ([], exits 1 [] (''Usage of cfgread:'' @ nl @ ''    cfgread [-raw] filename'' @ nl))
     else one_request T 1 (\<lambda>c. if raw then cl_ReadConfigFileRaw c (args ! 0) else cl_ReadConfigFile c (args ! 0)))"

subsection \<open>cfgdiff and cfgdbg\<close>

text \<open>Neither looks at the error of \<open>Dial\<close>: the call on the nil client is a nil dereference.\<close>

definition nil_client :: tool_run where
  "nil_client = ([], panics ''invalid memory address or nil pointer dereference'')"

definition cfgdiff_main :: "tool_os \<Rightarrow> string \<Rightarrow> string \<Rightarrow> bool \<Rightarrow> string \<Rightarrow> string list \<Rightarrow> tool_run" where
  "cfgdiff_main T usage_of spath ctxdiff socketpath args =
    (if length args < 2 \<or> length args > 3 then ([], exits 1 [] usage_of)
     else case to_file T (args ! 0) of
       Inl err \<Rightarrow> ([], exits 1 [] (to_errtext T err @ nl))
     | Inr old \<Rightarrow> (case to_file T (args ! 1) of
         Inl err \<Rightarrow> ([], exits 1 [] (to_errtext T err @ nl))
       | Inr new \<Rightarrow> (case to_dial T socketpath (to_sid T) of
           Inl _ \<Rightarrow> nil_client
         | Inr c \<Rightarrow> (let q = cl_Compare c old new spath ctxdiff in
             case to_answer T q of
               (_, Some err) \<Rightarrow> ([q], exits 1 [] (to_cerrtext T err @ nl))
             | (v, None) \<Rightarrow> ([q], exits 0 (str_of v) [])))))"

definition cfgdbg_main :: "tool_os \<Rightarrow> string \<Rightarrow> string \<Rightarrow> tool_run" where
  "cfgdbg_main T logType logLevel =
    (case to_dial T main_sock (to_sid T) of
       Inl _ \<Rightarrow> nil_client
     | Inr c \<Rightarrow>
         (let q = cl_SetConfigDebug c logType logLevel; (v, e) = to_answer T q in
          if logType = [] \<and> logLevel = [] then
            ([q], exits 0 (str_of v @ nl) (case e of Some err \<Rightarrow> to_cerrtext T err @ nl | None \<Rightarrow> []))
          else case e of
            Some err \<Rightarrow> ([q], exits 1 [] (to_cerrtext T err @ nl))
          | None \<Rightarrow> ([q], exits 0 (str_of v @ nl) [])))"

subsection \<open>configdcaps\<close>

record Schema =
  sch_Id :: string
  sch_Ver :: string
  sch_Ns :: string
  sch_Features :: "string list"
  sch_Deviations :: "string list"

definition Schema_String :: "Schema \<Rightarrow> string" where
  "Schema_String s =
    EscapeText (sch_Ns s @ ''?module='' @ sch_Id s) @
    (if length (sch_Ver s) > 0 then EscapeText (''&revision='' @ sch_Ver s) else []) @
    (if length (sch_Features s) > 0 then EscapeText (''&features='' @ Join '','' (sch_Features s)) else []) @
    (if length (sch_Deviations s) > 0 then EscapeText (''&deviations='' @ Join '','' (sch_Deviations s)) else [])"

text \<open>The inner loop changes the first schema with the identifier and leaves it.\<close>

fun update_first :: "string \<Rightarrow> (Schema \<Rightarrow> Schema) \<Rightarrow> Schema list \<Rightarrow> Schema list" where
  "update_first i f [] = []"
| "update_first i f (s # ss) = (if sch_Id s = i then f s # ss else s # update_first i f ss)"

text \<open>The map of features as the list of its entries in the order of the iteration.\<close>

definition setFeatures :: "(string \<times> string) list \<Rightarrow> Schema list \<Rightarrow> Schema list" where
  "setFeatures features ss =
    fold (\<lambda>(i, list) ss. if length list = 0 then ss
      else update_first i (\<lambda>s. s\<lparr>sch_Features := split_on CHR '','' list\<rparr>) ss) features ss"

definition setDeviations :: "(string \<times> string) list \<Rightarrow> Schema list \<Rightarrow> Schema list" where
  "setDeviations deviations ss =
    fold (\<lambda>(i, list) ss. if length list = 0 then ss
      else update_first i (\<lambda>s. s\<lparr>sch_Deviations := split_on CHR '','' list\<rparr>) ss) deviations ss"

definition configdcaps_main :: "tool_os \<Rightarrow> (string \<Rightarrow> Schema list) \<Rightarrow> tool_run" where
  "configdcaps_main T decode_xml =
    (case to_dial T main_sock [] of
       Inl err \<Rightarrow> ([], exits 1 [] (to_errtext T err @ nl))
     | Inr c \<Rightarrow>
         (let q1 = cl_GetModuleSchemas c; q2 = cl_GetFeatures c; q3 = cl_GetDeviations c in
          case to_answer T q1 of
            (_, Some err) \<Rightarrow> ([q1], exits 1 [] (to_cerrtext T err @ nl))
          | (schemastr, None) \<Rightarrow> (case to_answer T q2 of
              (_, Some err) \<Rightarrow> ([q1, q2], exits 1 [] (to_cerrtext T err @ nl))
            | (features, None) \<Rightarrow> (case to_answer T q3 of
                (_, Some err) \<Rightarrow> ([q1, q2, q3], exits 1 [] (to_cerrtext T err @ nl))
              | (deviations, None) \<Rightarrow>
                  ([q1, q2, q3], exits 0 (concat (map (\<lambda>s. Schema_String s @ nl)
                     (setDeviations (map_of_value deviations)
                       (setFeatures (map_of_value features) (decode_xml (str_of schemastr)))))) [])))))"

subsection \<open>Properties\<close>

text \<open>A request is made only with well-formed arguments, and it is the one request the tool is for.\<close>

lemma one_request_requests: "set (fst (one_request T code q)) \<subseteq> {q c |c. to_dial T main_sock [] = Inr c}"
  by (auto simp: one_request_def split: sum.splits prod.splits option.splits)

lemma callrpc_requests:
  assumes "q \<in> set (fst (callrpc_main T argv))"
  shows "\<exists>input. rq_method q = ''CallRpc'' \<and> rq_args q = [JStr (argv ! 1), JStr (argv ! 2), JStr input, JStr (argv ! 3)] \<and>
    argv ! 3 \<in> {''xml'', ''json'', ''rfc7951''}"
  using assms
  by (auto simp: callrpc_main_def callrpc_getEncoding_def one_request_def cl_CallRpc_def creq_def
      split: if_splits sum.splits prod.splits option.splits)

lemma nil_client_panics:
  "to_dial T sock (to_sid T) = Inl err \<Longrightarrow> to_file T f = Inr old \<Longrightarrow> to_file T g = Inr new \<Longrightarrow>
     cfgdiff_main T u sp cd sock [f, g] = nil_client"
  "to_dial T main_sock (to_sid T) = Inl err \<Longrightarrow> cfgdbg_main T ty lv = nil_client"
  by (simp_all add: cfgdiff_main_def cfgdbg_main_def)

text \<open>What a map of features sets: the first schema of every identifier takes the entry of the map.\<close>

fun first_takes :: "(string \<rightharpoonup> string) \<Rightarrow> (string list \<Rightarrow> Schema \<Rightarrow> Schema) \<Rightarrow> string list \<Rightarrow> Schema list \<Rightarrow> Schema list" where
  "first_takes m f seen [] = []"
| "first_takes m f seen (s # ss) =
    (case m (sch_Id s) of
       Some list \<Rightarrow> if list = [] \<or> sch_Id s \<in> set seen then s else f (split_on CHR '','' list) s
     | None \<Rightarrow> s) # first_takes m f (sch_Id s # seen) ss"

lemma first_takes_empty [simp]: "first_takes Map.empty f seen ss = ss"
  by (induction ss arbitrary: seen) auto

lemma first_takes_seen:
  "i \<in> set seen \<Longrightarrow> first_takes (m(i \<mapsto> l)) f seen ss = first_takes m f seen ss"
  by (induction ss arbitrary: seen) (auto split: option.splits)

lemmas first_takes_seen' = first_takes_seen[unfolded fun_upd_def]

lemma first_takes_update:
  assumes keeps: "\<And>l s. sch_Id (f l s) = sch_Id s" and new: "m i = None" "i \<notin> set seen"
  shows "first_takes (m(i \<mapsto> l)) f seen ss =
    (if l = [] then first_takes m f seen ss else first_takes m f seen (update_first i (f (split_on CHR '','' l)) ss))"
  using new
proof (induction ss arbitrary: seen)
  case (Cons s ss)
  then show ?case
    by (auto simp: keeps fun_upd_def first_takes_seen' split: option.splits)
qed simp

lemma first_takes_fold:
  assumes keeps: "\<And>l s. sch_Id (f l s) = sch_Id s" and "distinct (map fst es)"
  shows "fold (\<lambda>(i, list) ss. if length list = 0 then ss else update_first i (f (split_on CHR '','' list)) ss) es ss =
    first_takes (map_of es) f [] ss"
  using assms(2)
proof (induction es arbitrary: ss)
  case (Cons e es)
  obtain i l where e: "e = (i, l)" by (cases e)
  have "map_of es i = None" using Cons.prems e by (simp add: map_of_eq_None_iff)
  then show ?case
    using Cons e by (simp add: first_takes_update[OF keeps, unfolded fun_upd_def] fun_upd_def)
qed simp

lemma setFeatures_map:
  "distinct (map fst es) \<Longrightarrow> setFeatures es ss = first_takes (map_of es) (\<lambda>l s. s\<lparr>sch_Features := l\<rparr>) [] ss"
  unfolding setFeatures_def by (rule first_takes_fold) simp_all

lemma setDeviations_map:
  "distinct (map fst es) \<Longrightarrow> setDeviations es ss = first_takes (map_of es) (\<lambda>l s. s\<lparr>sch_Deviations := l\<rparr>) [] ss"
  unfolding setDeviations_def by (rule first_takes_fold) simp_all

text \<open>Go visits a map in an unspecified order; what is set does not depend on it.\<close>

lemma setFeatures_order_free:
  assumes "distinct (map fst es)" "distinct (map fst es')" "map_of es = map_of es'"
  shows "setFeatures es ss = setFeatures es' ss" "setDeviations es ss = setDeviations es' ss"
  using assms by (simp_all add: setFeatures_map setDeviations_map)

text \<open>The text of a schema has no character that would end or open markup.\<close>

lemma EscapeText_safe: "CHR ''<'' \<notin> set (EscapeText s)" "CHR ''>'' \<notin> set (EscapeText s)" "CHR 0x22 \<notin> set (EscapeText s)"
  by (auto simp: EscapeText_def escape_char_def)

lemma EscapeText_append: "EscapeText (a @ b) = EscapeText a @ EscapeText b"
  by (simp add: EscapeText_def)

lemma Schema_String_safe:
  "CHR ''<'' \<notin> set (Schema_String s)" "CHR ''>'' \<notin> set (Schema_String s)" "CHR 0x22 \<notin> set (Schema_String s)"
  by (auto simp: Schema_String_def EscapeText_safe)

lemma Schema_String_example:
  "Schema_String \<lparr>sch_Id = ''configd-v1'', sch_Ver = ''2015-07-28'', sch_Ns = ''urn:vyatta.com:mgmt:configd:1'',
      sch_Features = [''feat1'', ''feat2''], sch_Deviations = []\<rparr> =
    ''urn:vyatta.com:mgmt:configd:1?module=configd-v1&amp;revision=2015-07-28&amp;features=feat1,feat2''"
  by code_simp

end
