(* ===== verification/Tools_Feature.thy ===== *)
theory Tools_Feature
  imports Tools
begin

text \<open>
  The tools that write files: \<open>featcaps\<close> turns YANG features on and off, \<open>platform-setup\<close> records the
  platform of the first boot, \<open>yang2rev\<close> writes the revisions of the modules.
\<close>

subsection \<open>The file system of featcaps\<close>

text \<open>
  Files and directories by their path components; a leading slash and empty components are dropped.
  A directory listed in \<open>fs_dirs\<close> exists. Permissions are not modelled, and \<open>..\<close> is a name.
\<close>

record fsys =
  fs_files :: "string list list"
  fs_dirs :: "string list list"

definition comps :: "string \<Rightarrow> string list" where
  "comps p = filter (\<lambda>e. e \<noteq> [] \<and> e \<noteq> ''.'') (split_on CHR ''/'' p)"

definition below :: "string list \<Rightarrow> string list \<Rightarrow> bool" where
  "below d p = (take (length d) p = d)"

definition fs_MkdirAll :: "string \<Rightarrow> fsys \<Rightarrow> fsys option" where
  "fs_MkdirAll p fs =
    (let ps = map (\<lambda>n. take n (comps p)) [0..<Suc (length (comps p))] in
     if list_ex (\<lambda>d. d \<in> set (fs_files fs)) ps then None
     else Some (fs\<lparr>fs_dirs := filter (\<lambda>d. d \<notin> set (fs_dirs fs)) ps @ fs_dirs fs\<rparr>))"

definition fs_Stat :: "string \<Rightarrow> fsys \<Rightarrow> bool" where
  "fs_Stat p fs = (comps p \<in> set (fs_files fs) \<or> comps p \<in> set (fs_dirs fs))"

text \<open>\<open>os.Create\<close>; its error is ignored by the caller. An existing file is truncated.\<close>

definition fs_Create :: "string \<Rightarrow> fsys \<Rightarrow> fsys" where
  "fs_Create p fs =
    (if comps p \<in> set (fs_dirs fs) \<or> comps p = [] \<or> butlast (comps p) \<notin> set (fs_dirs fs) \<or> comps p \<in> set (fs_files fs) then fs
     else fs\<lparr>fs_files := comps p # fs_files fs\<rparr>)"

text \<open>\<open>os.RemoveAll\<close> refuses a path that ends in a dot.\<close>

definition fs_RemoveAll :: "string \<Rightarrow> fsys \<Rightarrow> fsys" where
  "fs_RemoveAll p fs =
    (if last (split_on CHR ''/'' p) = ''.'' then fs else fs\<lparr>fs_files := filter (\<lambda>f. \<not> below (comps p) f) (fs_files fs),
       fs_dirs := filter (\<lambda>d. \<not> below (comps p) d) (fs_dirs fs)\<rparr>)"

text \<open>\<open>Readdirnames(1)\<close> at the end of an open directory: nothing is strictly below it.\<close>

definition fs_empty_dir :: "string \<Rightarrow> fsys \<Rightarrow> bool" where
  "fs_empty_dir p fs =
    (comps p \<in> set (fs_dirs fs) \<and> \<not> list_ex (\<lambda>f. below (comps p) f \<and> f \<noteq> comps p) (fs_files fs @ fs_dirs fs))"

subsection \<open>featcaps\<close>

definition enableFeature :: "string \<Rightarrow> string \<Rightarrow> fsys \<Rightarrow> fsys \<times> nat" where
  "enableFeature moduleDir featurePath fs =
    (case fs_MkdirAll moduleDir fs of
       None \<Rightarrow> (fs, 1)
     | Some fs' \<Rightarrow> (if \<not> fs_Stat featurePath fs' then fs_Create featurePath fs' else fs', 0))"

definition disableFeature :: "string \<Rightarrow> string \<Rightarrow> fsys \<Rightarrow> fsys \<times> nat" where
  "disableFeature moduleDir featurePath fs =
    (let fs' = fs_RemoveAll featurePath fs in
     (if fs_empty_dir moduleDir fs' then fs_RemoveAll moduleDir fs' else fs', 0))"

definition featcaps_main :: "string \<Rightarrow> bool \<Rightarrow> string list \<Rightarrow> fsys \<Rightarrow> fsys \<times> nat" where
  "featcaps_main capabilities disable args fs =
    (if length args \<noteq> 1 then (fs, 0)
     else let feature = split_on CHR '':'' (args ! 0) in
       if length feature \<noteq> 2 then (fs, 0)
       else let moduleDir = capabilities @ ''/'' @ feature ! 0; featurePath = moduleDir @ ''/'' @ feature ! 1 in
         if disable then disableFeature moduleDir featurePath fs
         else enableFeature moduleDir featurePath fs)"

subsection \<open>platform-setup\<close>

text \<open>The stored identifier: the decoder's errors are ignored and leave it empty, and \<open>null\<close> sets the pointer to nil.\<close>

datatype id_file = NoFile | OpenError string | IdFile string | IdNull

definition loadInitialBootPlatformID :: "id_file \<Rightarrow> string option \<times> string" where
  "loadInitialBootPlatformID stored =
    (case stored of
       NoFile \<Rightarrow> (Some [], [])
     | OpenError e \<Rightarrow> (Some [], ''Error loading Platform Config: '' @ e @ nl)
     | IdFile i \<Rightarrow> (Some i, [])
     | IdNull \<Rightarrow> (None, []))"

text \<open>
  The errors of making the directory (\<open>None\<close> when it is there), creating the file, and writing it; a file
  that was created and not written is empty.
\<close>

record save_errors =
  se_mkdir :: "string option"
  se_create :: "string option"
  se_write :: "string option"

definition saveInitialBootPlatformID :: "save_errors \<Rightarrow> string \<Rightarrow> id_file \<Rightarrow> id_file \<times> string option" where
  "saveInitialBootPlatformID S i stored =
    (case se_mkdir S of
       Some e \<Rightarrow> (stored, Some e)
     | None \<Rightarrow> (case se_create S of
         Some e \<Rightarrow> (stored, Some e)
       | None \<Rightarrow> (case se_write S of Some e \<Rightarrow> (IdFile [], Some e) | None \<Rightarrow> (IdFile i, None))))"

definition platform_setup_main ::
  "id_file \<Rightarrow> save_errors \<Rightarrow> string option \<Rightarrow> string \<Rightarrow> id_file \<times> process_end" where
  "platform_setup_main stored S create_err platformid =
    (case loadInitialBootPlatformID stored of
       (None, _) \<Rightarrow> (stored, panics ''invalid memory address or nil pointer dereference'')
     | (Some old, msg) \<Rightarrow>
         (let (stored', msg') =
            (if old = platformid then (stored, [])
             else if old \<noteq> [] then
               (stored, ''Platform has changed since initial boot, was: '' @ old @ '' now: '' @ platformid @ nl)
             else case saveInitialBootPlatformID S platformid stored of
               (st, Some e) \<Rightarrow> (st, ''PlatformId save error: '' @ e @ nl)
             | (st, None) \<Rightarrow> (st, []))
          in (stored', exits 0 (msg @ msg' @ ''PlatformID set to '' @ platformid @ nl @
               (case create_err of Some e \<Rightarrow> ''Error creating platform: '' @ e @ nl | None \<Rightarrow> [])) [])))"

subsection \<open>yang2rev\<close>

text \<open>The files created, and the end of the process; \<open>mk\<close> and \<open>cr\<close> are the errors of \<open>MkdirAll\<close> and \<open>Create\<close>.\<close>

fun create_all :: "(string \<Rightarrow> string option) \<Rightarrow> string list \<Rightarrow> string list \<times> string option" where
  "create_all cr [] = ([], None)"
| "create_all cr (p # ps) =
    (case cr p of
       Some e \<Rightarrow> ([], Some e)
     | None \<Rightarrow> (case create_all cr ps of (done', e) \<Rightarrow> (p # done', e)))"

definition writeRevs :: "(string \<Rightarrow> string option) \<Rightarrow> (string \<Rightarrow> string option) \<Rightarrow> string \<Rightarrow> string list \<Rightarrow> string list \<times> string option" where
  "writeRevs mk cr writeDir mods =
    (if writeDir \<noteq> [] then
       (case mk writeDir of
          Some e \<Rightarrow> ([], Some e)
        | None \<Rightarrow> create_all cr (map (\<lambda>m. (writeDir @ ''/'') @ m) mods))
     else create_all cr mods)"

definition yang2rev_main ::
  "(string \<Rightarrow> (string \<times> string) list result) \<Rightarrow> (error \<Rightarrow> string) \<Rightarrow> (string \<Rightarrow> string option) \<Rightarrow> (string \<Rightarrow> string option) \<Rightarrow>
     string \<Rightarrow> bool \<Rightarrow> string list \<Rightarrow> string list \<times> process_end" where
  "yang2rev_main compile_modules txt_of mk cr writeDir write args =
    (case args of
       [] \<Rightarrow> ([], panics ''index out of range [0] with length 0'')
     | dir # _ \<Rightarrow> (case compile_modules dir of
         Inl err \<Rightarrow> ([], exits 1 [] (txt_of err @ nl))
       | Inr ms \<Rightarrow>
           (let mods = map (\<lambda>(i, v). i @ ''@'' @ v) ms in
            if write then
              (case writeRevs mk cr writeDir mods of
                 (files, Some e) \<Rightarrow> (files, exits 1 [] (e @ nl))
               | (files, None) \<Rightarrow> (files, exits 0 [] []))
            else ([], exits 0 (''/* === vyatta-config-version: '' @ [CHR 0x22] @ Join '':'' mods @ [CHR 0x22] @ '' === */'' @ nl) []))))"


subsection \<open>Properties\<close>

definition wf_name :: "string \<Rightarrow> bool" where
  "wf_name n = (n \<noteq> [] \<and> n \<noteq> ''.'' \<and> CHR ''/'' \<notin> set n \<and> CHR '':'' \<notin> set n)"

definition enabled :: "string \<Rightarrow> string \<Rightarrow> string \<Rightarrow> fsys \<Rightarrow> bool" where
  "enabled caps m f fs = (comps caps @ [m, f] \<in> set (fs_files fs))"

text \<open>The capabilities directory is usable: files and directories are apart, and no file is in the way.\<close>

definition caps_ok :: "string \<Rightarrow> string \<Rightarrow> string \<Rightarrow> fsys \<Rightarrow> bool" where
  "caps_ok caps m f fs =
    (set (fs_files fs) \<inter> set (fs_dirs fs) = {} \<and> comps caps @ [m, f] \<notin> set (fs_dirs fs) \<and>
     list_all (\<lambda>n. take n (comps caps @ [m]) \<notin> set (fs_files fs)) [0..<length (comps caps) + 2])"

lemma split_on_sep: "split_on sep (a @ sep # b) = split_on sep a @ split_on sep b"
  by (induction a) (auto split: list.splits)

lemma comps_name: "wf_name n \<Longrightarrow> comps (p @ CHR ''/'' # n) = comps p @ [n]"
  by (simp add: comps_def split_on_sep split_on_word wf_name_def)

lemma comps_feature:
  assumes "wf_name m" "wf_name f"
  shows "comps (p @ CHR ''/'' # m @ CHR ''/'' # f) = comps p @ [m, f]"
  using comps_name[OF assms(2), of "p @ CHR ''/'' # m"] comps_name[OF assms(1), of p] by simp

lemma last_split_name: "wf_name n \<Longrightarrow> last (split_on CHR ''/'' (p @ CHR ''/'' # n)) = n"
  by (simp add: split_on_sep split_on_word wf_name_def)

lemma below_append: "below d (d @ e)"
  by (simp add: below_def)

lemma below_same_length: "length d = length p \<Longrightarrow> below d p \<longleftrightarrow> d = p"
  by (auto simp: below_def)

lemma enable_files:
  assumes "wf_name m" "wf_name f" "caps_ok caps m f fs"
  shows "set (fs_files (fst (featcaps_main caps False [m @ '':'' @ f] fs))) =
      insert (comps caps @ [m, f]) (set (fs_files fs))"
  and "snd (featcaps_main caps False [m @ '':'' @ f] fs) = 0"
proof -
  let ?md = "caps @ CHR ''/'' # m"
  let ?ps = "map (\<lambda>n. take n (comps ?md)) [0..<Suc (length (comps ?md))]"
  have feat: "split_on CHR '':'' (m @ CHR '':'' # f) = [m, f]"
    using assms by (simp add: split_on_sep split_on_word wf_name_def)
  have c: "comps ?md = comps caps @ [m]" by (rule comps_name) fact
  have free: "\<not> list_ex (\<lambda>d. d \<in> set (fs_files fs)) ?ps"
    using assms(3) unfolding caps_ok_def c by (auto simp: list_ex_iff list_all_iff)
  have last_dir: "comps caps @ [m] \<in> set ?ps"
    unfolding c set_map by (rule image_eqI[where x = "length (comps caps) + 1"]) simp_all
  have notps: "comps caps @ [m, f] \<notin> set ?ps"
    unfolding c by (auto dest: arg_cong[where f = length])
  define fs' where "fs' = fs\<lparr>fs_dirs := filter (\<lambda>d. d \<notin> set (fs_dirs fs)) ?ps @ fs_dirs fs\<rparr>"
  have mk: "fs_MkdirAll ?md fs = Some fs'"
    using free by (simp add: fs_MkdirAll_def Let_def fs'_def del: upt_Suc)
  have "comps caps @ [m] \<in> set (fs_dirs fs')" "comps caps @ [m, f] \<notin> set (fs_dirs fs')" "fs_files fs' = fs_files fs"
    using last_dir notps assms(3) by (auto simp: fs'_def caps_ok_def simp del: upt_Suc)
  then show "set (fs_files (fst (featcaps_main caps False [m @ '':'' @ f] fs))) =
      insert (comps caps @ [m, f]) (set (fs_files fs))" and "snd (featcaps_main caps False [m @ '':'' @ f] fs) = 0"
    using mk by (auto simp: featcaps_main_def feat enableFeature_def fs_Stat_def fs_Create_def
        comps_feature[OF assms(1,2)] butlast_append)
qed

lemma disable_files:
  assumes "wf_name m" "wf_name f" "set (fs_files fs) \<inter> set (fs_dirs fs) = {}"
  shows "set (fs_files (fst (featcaps_main caps True [m @ '':'' @ f] fs))) =
      {g \<in> set (fs_files fs). \<not> below (comps caps @ [m, f]) g}"
proof -
  have feat: "split_on CHR '':'' (m @ CHR '':'' # f) = [m, f]"
    using assms by (simp add: split_on_sep split_on_word wf_name_def)
  have nd: "m \<noteq> ''.''" "f \<noteq> ''.''" using assms by (auto simp: wf_name_def)
  have l: "last (split_on CHR ''/'' (caps @ CHR ''/'' # m)) = m" "last (split_on CHR ''/'' (caps @ CHR ''/'' # m @ CHR ''/'' # f)) = f"
    using last_split_name[OF assms(1), of caps] last_split_name[OF assms(2), of "caps @ CHR ''/'' # m"] by auto
  show ?thesis
    using assms(3)
    by (auto simp: featcaps_main_def feat disableFeature_def Let_def fs_RemoveAll_def fs_empty_dir_def l nd
        comps_feature[OF assms(1,2)] comps_name[OF assms(1)] list_ex_iff)
qed

text \<open>
  C1. With well-formed names, \<open>featcaps m:f\<close> enables exactly the feature \<open>f\<close> of the module \<open>m\<close>, and
  \<open>featcaps -disable m:f\<close> disables exactly it: every other feature of every module stays as it was,
  also when the emptied directory of the module is removed.
\<close>

theorem featcaps_switches_one_feature:
  assumes "wf_name m" "wf_name f" "caps_ok caps m f fs"
  shows "enabled caps m f (fst (featcaps_main caps False [m @ '':'' @ f] fs)) \<and>
    \<not> enabled caps m f (fst (featcaps_main caps True [m @ '':'' @ f] fs)) \<and>
    (\<forall>m' f'. (m', f') \<noteq> (m, f) \<longrightarrow>
       enabled caps m' f' (fst (featcaps_main caps False [m @ '':'' @ f] fs)) = enabled caps m' f' fs \<and>
       enabled caps m' f' (fst (featcaps_main caps True [m @ '':'' @ f] fs)) = enabled caps m' f' fs)"
proof -
  have "set (fs_files fs) \<inter> set (fs_dirs fs) = {}" using assms(3) by (simp add: caps_ok_def)
  from disable_files[OF assms(1,2) this, of caps] enable_files(1)[OF assms] show ?thesis
    by (auto simp: enabled_def below_same_length)
qed

theorem featcaps_switches_one_feature_witness:
  "let fs = \<lparr>fs_files = [[''config'', ''mod'', ''g'']], fs_dirs = [[], [''config''], [''config'', ''mod'']]\<rparr> in
   wf_name ''mod'' \<and> wf_name ''f'' \<and> caps_ok ''/config'' ''mod'' ''f'' fs \<and>
   enabled ''/config'' ''mod'' ''f'' (fst (featcaps_main ''/config'' False [''mod'' @ '':'' @ ''f''] fs)) \<and>
   enabled ''/config'' ''mod'' ''g'' (fst (featcaps_main ''/config'' False [''mod'' @ '':'' @ ''f''] fs))"
proof -
  let ?fs = "\<lparr>fs_files = [[''config'', ''mod'', ''g'']], fs_dirs = [[], [''config''], [''config'', ''mod'']]\<rparr>"
  have h: "wf_name ''mod''" "wf_name ''f''" "caps_ok ''/config'' ''mod'' ''f'' ?fs" "enabled ''/config'' ''mod'' ''g'' ?fs"
    by (simp_all add: wf_name_def caps_ok_def comps_def enabled_def numeral_2_eq_2)
  from featcaps_switches_one_feature[OF h(1-3)] h show ?thesis by (auto simp: Let_def)
qed

text \<open>A feature argument with an empty feature name disables every feature of the module.\<close>

lemma empty_feature_name_drops_module:
  assumes "wf_name m"
  shows "\<not> enabled caps m g (fst (featcaps_main caps True [m @ '':''] fs))"
proof -
  have feat: "split_on CHR '':'' (m @ '':'') = [m, []]"
    using assms by (simp add: split_on_append_sep wf_name_def)
  have c: "comps (caps @ CHR ''/'' # m @ ''/'') = comps caps @ [m]"
    using comps_name[OF assms, of caps] split_on_sep[of "CHR ''/''" "caps @ CHR ''/'' # m" "[]"] by (simp add: comps_def)
  have l: "last (split_on CHR ''/'' (caps @ CHR ''/'' # m @ ''/'')) = []"
    using split_on_sep[of "CHR ''/''" "caps @ CHR ''/'' # m" "[]"] by simp
  show ?thesis
    using below_append[of "comps caps @ [m]" "[g]"]
    by (auto simp: featcaps_main_def feat disableFeature_def Let_def enabled_def fs_RemoveAll_def l c)
qed

text \<open>The identifier of the first boot is kept for good.\<close>

lemma first_platform_kept:
  "i \<noteq> [] \<Longrightarrow> fst (platform_setup_main (IdFile i) S create_err pid) = IdFile i"
  by (simp add: platform_setup_main_def loadInitialBootPlatformID_def Let_def)

lemma first_platform_stored:
  "pid \<noteq> [] \<Longrightarrow> fst (platform_setup_main NoFile \<lparr>se_mkdir = None, se_create = None, se_write = None\<rparr> create_err pid) = IdFile pid"
  by (simp add: platform_setup_main_def loadInitialBootPlatformID_def saveInitialBootPlatformID_def Let_def)

text \<open>Creating stops at the first failure: the files before it are there and the one after are not.\<close>

lemma create_all_result:
  "create_all cr ps = (takeWhile (\<lambda>p. cr p = None) ps, (case dropWhile (\<lambda>p. cr p = None) ps of [] \<Rightarrow> None | p # _ \<Rightarrow> cr p))"
  by (induction ps) (auto split: option.splits list.splits)

end
