(* ===== verification/Spec2Isabelle.thy ===== *)
theory Spec2Isabelle
  imports Session_Props Commit_Props Commit_Refine Edit_Props Session_Mgr Disp_Guard Cli_Server Normalize_Props Daemon Tools_Client Tools_Feature
begin

text \<open>
  \<^bold>\<open>configd, the configuration daemon.\<close> A client connects to the daemon over a socket, opens a
  configuration session, edits a candidate tree in it, validates it and commits it to the running
  tree. This development models the daemon from the session goroutine up to the socket, the client
  library, the configuration shell, the start of the daemon and the command line tools, and proves
  what they promise each other. Paths below are relative to \<open>src\<close>.

  \<^bold>\<open>How the parts work together.\<close> Every session is a goroutine that serves a channel of requests
  (\<open>session/session_internal.go\<close>); the session manager (\<open>session/sessionmgr.go\<close>) is the table of
  sessions; one commit manager (\<open>session/commitmgr.go\<close>) owns the running tree and the session
  EFFECTIVE, into which the components see a commit arrive. A connection (\<open>server/conn.go\<close>) reads JSON
  requests and calls the method of that name of its dispatcher (\<open>server/dispatcher.go\<close>), which
  authorises and accounts the command, looks the session up, and sends the request to it. The
  client library (\<open>client/client.go\<close>) is the other end of the socket, and the shell
  (\<open>cmd/cfgcli\<close>) is its main user.

  \<^bold>\<open>The theories.\<close>

  \<^item> \<open>Configd_Prelude\<close>: ids, paths, errors as values, the state-monad operations, the collections of
    rules, and the locale \<open>frame_rel\<close>: a reflexive and transitive relation between the state before and
    after is kept by every program whose steps keep it. Most safety properties are interpretations
    of it. \<open>Go_Lib\<close>, \<open>Go_Fmt\<close>, \<open>Go_Utf8\<close>, \<open>Go_Net\<close>: the functions of \<open>strconv\<close>, \<open>strings\<close>, \<open>net/url\<close>,
    \<open>path/filepath\<close>, \<open>fmt\<close>, \<open>bufio\<close>, \<open>unicode/utf8\<close> (as \<open>encoding/json\<close> uses it) and \<open>net\<close> that the code calls.
  \<^item> \<open>Configd_Context\<close> (\<open>configd.go\<close>, \<open>session/errors.go\<close>), \<open>Config_Log\<close> (\<open>common/configd_log.go\<close>),
    \<open>Rpc_Types\<close> (\<open>rpc/rpc.go\<close>), \<open>Edit_Types\<close> (the data of \<open>session/edit_config.go\<close>).
  \<^item> \<open>Session_World\<close>: the record \<open>world\<close> that a session goroutine works on, the packages it calls
    (record \<open>libs\<close>), and waiting. \<open>Session_Lock\<close>, \<open>Session_Ops\<close>, \<open>Session_Commit\<close>, \<open>Session_Load\<close>,
    \<open>Session_Edit\<close>, \<open>Oper_State\<close>, \<open>Session_Serve\<close>: the operations of \<open>session_internal.go\<close>, \<open>load.go\<close>,
    \<open>edit_config.go\<close>, \<open>session_state.go\<close>, and \<open>processreq\<close> with the API of \<open>session.go\<close>.
    \<open>Session_Guard\<close> and \<open>Session_Props\<close> show what the session lock protects and that changes need
    authority; \<open>Edit_Props\<close> what edit-config may address and what its options mean.
  \<^item> \<open>Commit_Mgr\<close> (\<open>session/commit.go\<close>, \<open>session/commitmgr.go\<close>): the commit context and the commit
    itself. \<open>Commit_Props\<close>: the outcome of a commit, the running tree after it, the lock hand-over.
    \<open>Commit_Loop\<close>: the goroutine with its workers as a step relation, its invariant and that it
    drains. \<open>Commit_Refine\<close>: the locale \<open>refinement_map\<close> and the simulation of the loop by a serial
    machine.
  \<^item> \<open>Session_Mgr\<close>: the session table, its invariant and its access rule.
  \<^item> \<open>Disp_State\<close>, \<open>Aaa\<close>, \<open>Path_Expand\<close>, \<open>Config_Mgmt\<close>, \<open>Confirmed_Commit\<close>, \<open>Disp_Edit\<close>, \<open>Disp_Query\<close>,
    \<open>Disp_Rpc\<close>, \<open>Load_Keys\<close>, \<open>Cli_Format\<close>: the handlers of \<open>server\<close> (\<open>dispatcher.go\<close>, \<open>aaa.go\<close>,
    \<open>config_mgmt.go\<close>, \<open>user_process.go\<close>, \<open>confirmed_commit.go\<close>, \<open>load_keys.go\<close>) and the error texts of
    \<open>common/cli_format.go\<close>. \<open>Disp_Guard\<close>: the session lock and the refusal of commands, seen through the
    handlers.
  \<^item> \<open>Server_Conn\<close> (\<open>server/server.go\<close>, \<open>server/conn.go\<close>): the method table, argument conversion, \<open>Call\<close>,
    responses, the life of a connection. \<open>Server_Guard\<close> and \<open>Server_Reads\<close>: what a request must pass,
    that connections respect locks and give theirs back, and that queries only look.
  \<^item> \<open>Client_Lib\<close> (\<open>client/client.go\<close>): every request and its decoding, and the agreement of client
    and server.
  \<^item> \<open>Cli_Base\<close>, \<open>Cli_Valid\<close>, \<open>Cli_Run\<close>, \<open>Cli_Complete\<close>, \<open>Cli_Main\<close> (\<open>cmd/cfgcli\<close>), \<open>Cli_Props\<close>, and
    \<open>Cli_Server\<close>, which puts shell, client and server together: the locales \<open>cli_asks\<close> and \<open>cli_edits\<close>
    say which relations a run of the shell keeps, and are interpreted on the client and the server.
  \<^item> \<open>Comp_Check\<close>, \<open>Yangd\<close>, \<open>Daemon\<close> (\<open>cmd/configd\<close>): the checks on the components, the YANG bus
    service, the start of the daemon.
  \<^item> \<open>Normalize\<close>, \<open>Normalize_Props\<close> (\<open>cmd/normalize\<close>); \<open>Tools\<close> (\<open>yangc\<close>, \<open>cfgcmds\<close>, \<open>yang2path\<close>),
    \<open>Tools_Client\<close> (\<open>callrpc\<close>, \<open>gettree\<close>, \<open>cfgread\<close>, \<open>cfgdiff\<close>, \<open>cfgdbg\<close>, \<open>configdcaps\<close>),
    \<open>Tools_Feature\<close> (\<open>featcaps\<close>, \<open>platform-setup\<close>, \<open>yang2rev\<close>).
  \<^item> \<open>Sample_Libs\<close>: a small concrete instance of the packages, on which the witnesses are computed.

  \<^bold>\<open>State and operations.\<close> A Go struct is a record, an \<open>iota\<close> type a datatype, a method a definition of the
  same name (with a prefix where a name is used twice). An operation of a session is a program of the
  state monad over the world and the interference still to come; a handler is one over the table of sessions,
  the commit manager and the settings. Errors are values of \<open>error\<close>, and a Go panic that the code can
  reach is an error too (\<open>RuntimePanic\<close>). Log lines, accounting records, scripts and files are
  events of a trace. Go visits a map in any order: the order is an argument, or the theorem holds for
  every order.

  \<^bold>\<open>Waiting and interference.\<close> While a session waits for a long operation it serves other requests. Each
  such place is a \<open>wait_async\<close>, which applies the next function of a list of interferences to the
  world; a theorem about a long operation either says which interferences it allows (those that other
  clients can cause, \<open>effs_ok\<close>) or holds for all of them. The lock is what makes the
  restriction true: \<open>Session_Guard\<close> shows that requests of other clients are such interferences. At the level
  of the dispatcher a request runs to its end with the interference of its own session; requests of different
  sessions meet in the table and in the commit manager, whose loop is modelled step by step. The session
  EFFECTIVE in the table and the one in the commit manager are one object in Go; \<open>sync_effective\<close> keeps
  the two copies equal.

  \<^bold>\<open>Parameters.\<close> Packages outside the repository are arguments: \<open>libs\<close> (data trees, schema and union nodes,
  diff, commit and load packages), \<open>sys\<close>, \<open>qlibs\<close>, \<open>rlibs\<close> and \<open>deps\<close> (authorisation, files, programs run for
  the caller, \<open>mgmterror\<close>, the model set and the bus), \<open>cli\<close> (quoting and paths for the shell), \<open>yangd\<close>
  and \<open>daemon_os\<close> (start-up), \<open>yang_compiler\<close> and \<open>tool_os\<close> (tools). Nothing is assumed of them but what a
  theorem names as a hypothesis; the witnesses instantiate them with concrete functions.

  \<^bold>\<open>Fuel and bounds.\<close> The walk that adds operational state follows the schema and takes fuel;
  \<open>addStateToTree_total\<close> shows that the size of the schema node is enough when the schema of a child is
  smaller than that of its parent (\<open>schema_descends\<close>), and that size is the fuel the callers give. All other recursion is structural or has a termination proof; the secret prompt, which could ask for
  ever, is shown to end on every finite input. Integers that can overflow are kept at their width
  (\<open>strconv\<close> parsing, timeouts, address bytes); other Go integers are \<open>int\<close>.

  \<^bold>\<open>Assumptions of the model.\<close> Text is ASCII where the code counts characters. JSON carries integers up to
  \<open>2 ^ 53\<close> exactly; between client and server each byte of a text that is not UTF-8 is replaced, as \<open>encoding/json\<close>
  does, except in lists of management errors and in keys of help maps. A number in an edit-config document that is
  none of the option constants is outside the model. A nil and an empty map or slice differ only where the code can tell them apart, as for the
  maps of a response. Slices that the shell appends to have no spare capacity shared with another
  slice. Package \<open>net\<close> is that of releases before Go 1.17, where decimal fields may have leading zeros.
  The lock theorems leave out \<open>load\<close>, \<open>copy-config\<close> and the commands built on them: these
  replace the candidate without asking for the lock, which \<open>load_deletes_despite_lock\<close> shows.

  \<^bold>\<open>Where the code is not what it means to be.\<close> Lemmas that show a defect are named for it, among them
  \<open>load_deletes_despite_lock\<close>, \<open>relative_names_escape\<close>, \<open>escaped_password_leaks\<close>,
  \<open>revert_not_scheduled_is_silent\<close>, \<open>null_argument_panics\<close>, \<open>confirming_commit_is_published\<close>,
  \<open>client_show_always_fails\<close>, \<open>empty_timeout_commits_for_good\<close>, \<open>legacy_not_idempotent\<close>,
  \<open>conversion_error_names_wrong_module\<close>, \<open>nil_client_panics\<close>, \<open>empty_feature_name_drops_module\<close>,
  \<open>document_overrides_test_option\<close>, \<open>unknown_user_panics\<close>.

  \<^bold>\<open>Not modelled.\<close> The accept loop, the JSON codec and the loggers of the server, the opening of syslog, the
  terminal modes of the prompt, profiling on signals: input and output of the process. \<open>ArgErr\<close> of
  \<open>rpc/rpc.go\<close> prints arbitrary Go values. \<open>session/sessiontest\<close> is support for tests. \<open>cmd/yanggraph\<close>
  walks parse trees of the YANG library and prints them; \<open>cmd/cfgparse\<close>, \<open>cmd/args2cpath\<close> and
  \<open>cmd/cfgcli-args-encoder\<close> are one library call each. Times and timing logs are left out of the
  commit and of the state walk, as are the scripts that the commit package runs to validate and the cache of the diff
  tree, which only speeds up status requests served during a commit.
\<close>

end
